(* ===== verification/Prelude.thy ===== *)
theory Prelude
  imports Main "HOL-Library.List_Lexorder" "HOL-Library.Char_ord" "HOL-Library.Sublist"
begin

text \<open>
  Shared vocabulary of the development: Go run-time panics as values, runes and their UTF-8
  encoding, the functions of the packages \<open>strings\<close>, \<open>unicode\<close> and \<open>strconv\<close> that the
  program calls, and the generic lemmas the components rest on.

  A Go \<open>string\<close> is a HOL \<open>string\<close>, a list of bytes. A Go \<open>rune\<close> is the natural number of its
  code point. String comparison is the bytewise lexicographic order, as in Go.
\<close>

named_theorems go_simps \<open>unfolding rules for the modelled standard-library functions\<close>

section \<open>Panics\<close>

datatype panic =
    NilPointer
  | IndexOutOfRange
  | DivideByZero
  | TypeAssertion
  | Explicit string

type_synonym 'a go = "panic + 'a"

definition gbind :: "'a go \<Rightarrow> ('a \<Rightarrow> 'b go) \<Rightarrow> 'b go" where
  "gbind m f = (case m of Inl p \<Rightarrow> Inl p | Inr x \<Rightarrow> f x)"

lemma gbind_simps [simp]:
  "gbind (Inl p) f = Inl p"
  "gbind (Inr x) f = f x"
  by (simp_all add: gbind_def)

lemma gbind_eq_Inr: "gbind m f = Inr y \<longleftrightarrow> (\<exists>x. m = Inr x \<and> f x = Inr y)"
  by (cases m) auto

lemma gbind_eq_Inl: "gbind m f = Inl p \<longleftrightarrow> m = Inl p \<or> (\<exists>x. m = Inr x \<and> f x = Inl p)"
  by (cases m) auto

lemma gbind_cong [fundef_cong]:
  "m = m' \<Longrightarrow> (\<And>x. m' = Inr x \<Longrightarrow> f x = g x) \<Longrightarrow> gbind m f = gbind m' g"
  by (cases m') auto

text \<open>Slice indexing: reading past the end panics.\<close>

definition go_index :: "'a list \<Rightarrow> nat \<Rightarrow> 'a go" where
  "go_index xs i = (if i < length xs then Inr (xs ! i) else Inl IndexOutOfRange)"

lemma go_index_simps [simp]:
  "go_index [] i = Inl IndexOutOfRange"
  "go_index (x # xs) 0 = Inr x"
  "go_index (x # xs) (Suc i) = go_index xs i"
  by (simp_all add: go_index_def)

lemma go_index_ok: "i < length xs \<Longrightarrow> go_index xs i = Inr (xs ! i)"
  by (simp add: go_index_def)

lemma go_index_panic: "length xs \<le> i \<Longrightarrow> go_index xs i = Inl IndexOutOfRange"
  by (simp add: go_index_def)

text \<open>Sequencing of calls that may panic and may not return.\<close>

definition go_then :: "'a go option \<Rightarrow> ('a \<Rightarrow> 'b go option) \<Rightarrow> 'b go option" where
  "go_then m f = Option.bind m (\<lambda>r. case r of Inl p \<Rightarrow> Some (Inl p) | Inr x \<Rightarrow> f x)"

lemma go_then_simps [simp]:
  "go_then None f = None"
  "go_then (Some (Inl p)) f = Some (Inl p)"
  "go_then (Some (Inr x)) f = f x"
  by (simp_all add: go_then_def)

lemma go_then_mono [partial_function_mono]:
  assumes "mono_option m" "\<And>x. mono_option (\<lambda>g. f g x)"
  shows "mono_option (\<lambda>g. go_then (m g) (f g))"
  unfolding go_then_def
proof (rule bind_mono [OF assms(1)])
  show "mono_option (\<lambda>g. case y of Inl p \<Rightarrow> Some (Inl p) | Inr x \<Rightarrow> f g x)" for y
    using assms(2) by (cases y) (auto simp: option.const_mono)
qed

section \<open>Runes\<close>

type_synonym rune = nat

abbreviation rune_of :: "char \<Rightarrow> rune" where
  "rune_of c \<equiv> of_char c"

text \<open>
  \<open>unicode.IsSpace\<close>: the Latin-1 cases of its switch, then the members of the White_Space
  table above Latin-1.
\<close>

definition isSpace :: "rune \<Rightarrow> bool" where
  "isSpace r \<longleftrightarrow>
     (9 \<le> r \<and> r \<le> 13) \<or> r = 32 \<or> r = 0x85 \<or> r = 0xA0 \<or>
     r = 0x1680 \<or> (0x2000 \<le> r \<and> r \<le> 0x200a) \<or> r = 0x2028 \<or> r = 0x2029 \<or>
     r = 0x202f \<or> r = 0x205f \<or> r = 0x3000"

lemma isSpace_0 [simp]: "\<not> isSpace 0"
  by (simp add: isSpace_def)

text \<open>The conversion \<open>string(r)\<close> of a rune: its UTF-8 encoding, U+FFFD for a surrogate or an
  out-of-range value.\<close>

definition string_of_rune :: "rune \<Rightarrow> string" where
  "string_of_rune r =
     (if r < 0x80 then [char_of r]
      else if r < 0x800 then [char_of (0xC0 + r div 0x40), char_of (0x80 + r mod 0x40)]
      else if 0x10FFFF < r \<or> (0xD800 \<le> r \<and> r \<le> 0xDFFF)
        then [char_of (0xEF :: nat), char_of (0xBF :: nat), char_of (0xBD :: nat)]
      else if r < 0x10000
        then [char_of (0xE0 + r div 0x1000), char_of (0x80 + r div 0x40 mod 0x40),
              char_of (0x80 + r mod 0x40)]
      else [char_of (0xF0 + r div 0x40000), char_of (0x80 + r div 0x1000 mod 0x40),
            char_of (0x80 + r div 0x40 mod 0x40), char_of (0x80 + r mod 0x40)])"

definition ascii :: "char \<Rightarrow> bool" where
  "ascii c \<longleftrightarrow> (of_char c :: nat) < 0x80"

lemma string_of_rune_ascii [simp]: "ascii c \<Longrightarrow> string_of_rune (rune_of c) = [c]"
  by (simp add: string_of_rune_def ascii_def)

lemma rune_of_eq: "(rune_of d :: rune) = n \<Longrightarrow> rune_of c = n \<longleftrightarrow> c = d"
  by auto

lemmas rune_of_numerals [simp] =
  rune_of_eq [of "CHR 0x0A" 10, simplified] rune_of_eq [of "CHR '' ''" 32, simplified]
  rune_of_eq [of "CHR 0x22" 34, simplified] rune_of_eq [of "CHR ''#''" 35, simplified]
  rune_of_eq [of "CHR ''$''" 36, simplified] rune_of_eq [of "CHR 0x27" 39, simplified]
  rune_of_eq [of "CHR '';''" 59, simplified] rune_of_eq [of "CHR 0x5C" 92, simplified]
  rune_of_eq [of "CHR ''{''" 123, simplified] rune_of_eq [of "CHR ''}''" 125, simplified]

lemma string_of_rune_nonempty [simp]: "string_of_rune r \<noteq> []"
  by (simp add: string_of_rune_def)

text \<open>
  The runes of a string, as \<open>range\<close> over the string and \<open>bufio.Reader.ReadRune\<close> deliver them:
  UTF-8 decoding, with U+FFFD of width one for every byte that starts no valid sequence.
\<close>

definition cont :: "nat \<Rightarrow> bool" where
  "cont b \<longleftrightarrow> 0x80 \<le> b \<and> b \<le> 0xBF"

text \<open>\<open>utf8.DecodeRune\<close>: the first rune of a byte sequence and its width. A missing byte is no
  continuation byte.\<close>

definition decodeRune :: "nat list \<Rightarrow> rune \<times> nat" where
  "decodeRune bs =
     (let byte = (\<lambda>i. if i < length bs then bs ! i else 0);
          b0 = byte 0; b1 = byte 1; b2 = byte 2; b3 = byte 3
      in if b0 < 0x80 then (b0, 1)
         else if 0xC2 \<le> b0 \<and> b0 \<le> 0xDF \<and> cont b1 then (b0 mod 0x20 * 0x40 + b1 mod 0x40, 2)
         else if 0xE0 \<le> b0 \<and> b0 \<le> 0xEF \<and> cont b1 \<and> cont b2 \<and>
                 (b0 = 0xE0 \<longrightarrow> 0xA0 \<le> b1) \<and> (b0 = 0xED \<longrightarrow> b1 \<le> 0x9F)
           then (b0 mod 0x10 * 0x1000 + b1 mod 0x40 * 0x40 + b2 mod 0x40, 3)
         else if 0xF0 \<le> b0 \<and> b0 \<le> 0xF4 \<and> cont b1 \<and> cont b2 \<and> cont b3 \<and>
                 (b0 = 0xF0 \<longrightarrow> 0x90 \<le> b1) \<and> (b0 = 0xF4 \<longrightarrow> b1 \<le> 0x8F)
           then (b0 mod 0x08 * 0x40000 + b1 mod 0x40 * 0x1000 + b2 mod 0x40 * 0x40 + b3 mod 0x40, 4)
         else (0xFFFD, 1))"

lemma decodeRune_ascii [simp]: "b < 0x80 \<Longrightarrow> decodeRune (b # bs) = (b, 1)"
  by (simp add: decodeRune_def)

fun decode_bytes :: "nat list \<Rightarrow> rune list" where
  "decode_bytes [] = []"
| "decode_bytes (b # bs) =
     (let (r, width) = decodeRune (b # bs) in r # decode_bytes (drop (width - 1) bs))"

definition runes_of_string :: "string \<Rightarrow> rune list" where
  "runes_of_string s = decode_bytes (map of_char s)"

lemma decode_bytes_ascii: "list_all ascii s \<Longrightarrow> decode_bytes (map of_char s) = map of_char s"
  by (induction s) (auto simp: ascii_def)

lemma runes_of_string_ascii [simp]: "list_all ascii s \<Longrightarrow> runes_of_string s = map rune_of s"
  by (simp add: runes_of_string_def decode_bytes_ascii)

section \<open>The package strings\<close>

definition hasPrefix :: "string \<Rightarrow> string \<Rightarrow> bool" where
  "hasPrefix s p \<longleftrightarrow> take (length p) s = p"

definition hasSuffix :: "string \<Rightarrow> string \<Rightarrow> bool" where
  "hasSuffix s p \<longleftrightarrow> length p \<le> length s \<and> drop (length s - length p) s = p"

definition trimPrefix :: "string \<Rightarrow> string \<Rightarrow> string" where
  "trimPrefix s p = (if hasPrefix s p then drop (length p) s else s)"

definition trimSuffix :: "string \<Rightarrow> string \<Rightarrow> string" where
  "trimSuffix s p = (if hasSuffix s p then take (length s - length p) s else s)"

text \<open>\<open>strings.TrimLeft\<close> and \<open>TrimRight\<close> with an ASCII cutset.\<close>

definition trimLeft :: "string \<Rightarrow> string \<Rightarrow> string" where
  "trimLeft s cutset = dropWhile (\<lambda>c. c \<in> set cutset) s"

definition trimRight :: "string \<Rightarrow> string \<Rightarrow> string" where
  "trimRight s cutset = rev (dropWhile (\<lambda>c. c \<in> set cutset) (rev s))"

fun join :: "string list \<Rightarrow> string \<Rightarrow> string" where
  "join [] sep = []"
| "join [s] sep = s"
| "join (s # t # ss) sep = s @ sep @ join (t # ss) sep"

text \<open>\<open>strings.Split\<close> with a non-empty separator.\<close>

fun split_aux :: "string \<Rightarrow> string \<Rightarrow> string \<Rightarrow> string list" where
  "split_aux sep cur [] = [rev cur]"
| "split_aux sep cur (c # cs) =
     (if hasPrefix (c # cs) sep
      then rev cur # split_aux sep [] (drop (length sep - 1) cs)
      else split_aux sep (c # cur) cs)"

definition split :: "string \<Rightarrow> string \<Rightarrow> string list" where
  "split s sep = split_aux sep [] s"

text \<open>\<open>strings.ToLower\<close> on ASCII letters.\<close>

definition toLowerChar :: "char \<Rightarrow> char" where
  "toLowerChar c =
     (let n = (of_char c :: nat) in if 65 \<le> n \<and> n \<le> 90 then char_of (n + 32) else c)"

definition toLower :: "string \<Rightarrow> string" where
  "toLower s = map toLowerChar s"

lemma hasPrefix_Nil [simp]: "hasPrefix s []"
  by (simp add: hasPrefix_def)

lemma hasPrefix_iff: "hasPrefix s p \<longleftrightarrow> (\<exists>t. s = p @ t)"
  unfolding hasPrefix_def by (metis append_eq_conv_conj append_take_drop_id)

lemma hasPrefix_prefix: "hasPrefix s p \<longleftrightarrow> prefix p s"
  by (simp add: hasPrefix_iff prefix_def)

lemma hasSuffix_iff: "hasSuffix s p \<longleftrightarrow> (\<exists>t. s = t @ p)"
proof
  assume "hasSuffix s p"
  then show "\<exists>t. s = t @ p"
    unfolding hasSuffix_def by (metis append_take_drop_id)
qed (auto simp: hasSuffix_def)

lemma trimPrefix_append [simp]: "trimPrefix (p @ s) p = s"
  by (simp add: trimPrefix_def hasPrefix_def)

lemma trimSuffix_append [simp]: "trimSuffix (s @ p) p = s"
  by (simp add: trimSuffix_def hasSuffix_def)

lemma split_aux_nonempty [simp]: "split_aux sep cur s \<noteq> []"
  by (induction sep cur s rule: split_aux.induct) auto

lemma split_nonempty [simp]: "split s sep \<noteq> []"
  by (simp add: split_def)

lemma join_Cons: "ss \<noteq> [] \<Longrightarrow> join (s # ss) sep = s @ sep @ join ss sep"
  by (cases ss) auto

lemma join_split_aux: "sep \<noteq> [] \<Longrightarrow> join (split_aux sep cur s) sep = rev cur @ s"
proof (induction sep cur s rule: split_aux.induct)
  case (1 sep cur)
  then show ?case by simp
next
  case (2 sep cur c cs)
  show ?case
  proof (cases "hasPrefix (c # cs) sep")
    case True
    then obtain t where t: "c # cs = sep @ t" by (auto simp: hasPrefix_iff)
    with 2(3) have "drop (length sep - 1) cs = t"
      by (cases sep) auto
    with True 2 have "join (split_aux sep cur (c # cs)) sep = rev cur @ sep @ t"
      by (simp add: join_Cons)
    with t show ?thesis by simp
  next
    case False
    with 2 show ?thesis by simp
  qed
qed

text \<open>Splitting and joining again with the same separator gives the string back.\<close>

lemma join_split: "sep \<noteq> [] \<Longrightarrow> join (split s sep) sep = s"
  by (simp add: split_def join_split_aux)

lemma split_aux_no_sep: "c \<notin> set s \<Longrightarrow> split_aux [c] cur s = [rev cur @ s]"
  by (induction s arbitrary: cur) (auto simp: hasPrefix_def)

lemma split_single: "c \<notin> set s \<Longrightarrow> split s [c] = [s]"
  by (simp add: split_def split_aux_no_sep)

lemma split_aux_sep: "c \<notin> set s \<Longrightarrow> split_aux [c] cur (s @ c # t) = (rev cur @ s) # split_aux [c] [] t"
  by (induction s arbitrary: cur) (auto simp: hasPrefix_def)

lemma split_append: "c \<notin> set s \<Longrightarrow> split (s @ c # t) [c] = s # split t [c]"
  by (simp add: split_def split_aux_sep)

text \<open>Joining parts free of the separator and splitting again gives the parts back.\<close>

lemma split_join: "ss \<noteq> [] \<Longrightarrow> list_all (\<lambda>s. c \<notin> set s) ss \<Longrightarrow> split (join ss [c]) [c] = ss"
  by (induction ss rule: induct_list012) (auto simp: split_single split_append)

lemma join_inj:
  assumes "join ss [c] = join ts [c]" "ss \<noteq> []" "ts \<noteq> []"
    "list_all (\<lambda>s. c \<notin> set s) ss" "list_all (\<lambda>s. c \<notin> set s) ts"
  shows "ss = ts"
  using assms by (metis split_join)

text \<open>A condition on every prefix, by length.\<close>

lemma list_all_prefixes: "list_all P (prefixes xs) \<longleftrightarrow> (\<forall>k \<le> length xs. P (take k xs))"
proof
  assume "list_all P (prefixes xs)"
  then show "\<forall>k \<le> length xs. P (take k xs)" by (simp add: list_all_iff take_is_prefix)
next
  assume P: "\<forall>k \<le> length xs. P (take k xs)"
  show "list_all P (prefixes xs)"
    unfolding list_all_iff
  proof
    fix ys assume "ys \<in> set (prefixes xs)"
    then obtain zs where "xs = ys @ zs" by (auto simp: prefix_def)
    with P [rule_format, of "length ys"] show "P ys" by simp
  qed
qed

lemmas [go_simps] = hasPrefix_def hasSuffix_def trimPrefix_def trimSuffix_def trimLeft_def
  trimRight_def split_def toLower_def toLowerChar_def

end
