(* ===== verification/Go_Conv.thy ===== *)
theory Go_Conv
  imports Prelude "HOL-Library.Signed_Division"
begin

text \<open>
  Number conversions of the Go standard library: \<open>strconv.Itoa\<close> and \<open>strconv.Atoi\<close>, and
  \<open>time.ParseDuration\<close>. A Go \<open>int\<close> is a HOL \<open>int\<close> with the range checks of the library written out;
  the wrap-around of 64-bit addition is \<open>int64\<close>. The one floating-point step of \<open>ParseDuration\<close>, the
  product of a fraction with its unit, is a parameter.
\<close>

section \<open>Decimal numbers\<close>

definition digit :: "char \<Rightarrow> bool" where
  "digit c \<longleftrightarrow> CHR ''0'' \<le> c \<and> c \<le> CHR ''9''"

definition digit_value :: "char \<Rightarrow> int" where
  "digit_value c = int (rune_of c) - 48"

definition digit_of :: "nat \<Rightarrow> char" where
  "digit_of d = char_of (48 + d)"

definition int64 :: "int \<Rightarrow> int" where
  "int64 x = (x + 2 ^ 63) mod 2 ^ 64 - 2 ^ 63"

fun digits_value :: "int \<Rightarrow> string \<Rightarrow> int" where
  "digits_value n [] = n"
| "digits_value n (c # cs) = digits_value (10 * n + digit_value c) cs"

fun utoa :: "nat \<Rightarrow> string" where
  "utoa n = (if n < 10 then [digit_of n] else utoa (n div 10) @ [digit_of (n mod 10)])"

declare utoa.simps [simp del]

definition Itoa :: "int \<Rightarrow> string" where
  "Itoa i = (if i < 0 then ''-'' @ utoa (nat (- i)) else utoa (nat i))"

datatype num_error = ErrSyntax | ErrRange

definition Atoi :: "string \<Rightarrow> num_error + int" where
  "Atoi s =
     (let neg = hasPrefix s ''-'';
          ds = (if hasPrefix s ''-'' \<or> hasPrefix s ''+'' then drop 1 s else s)
      in if ds = [] \<or> \<not> list_all digit ds then Inl ErrSyntax
         else let v = digits_value 0 ds; v = (if neg then - v else v)
              in if - (2 ^ 63) \<le> v \<and> v < 2 ^ 63 then Inr v else Inl ErrRange)"

lemma digit_of [simp]:
  assumes "d < 10"
  shows "digit (digit_of d)" "digit_value (digit_of d) = int d" "digit_of d \<noteq> CHR ''-''"
    "digit_of d \<noteq> CHR ''+''"
proof -
  have n: "(of_char (digit_of d) :: nat) = 48 + d" using assms by (simp add: digit_of_def)
  show "digit (digit_of d)" using assms by (simp add: digit_def less_eq_char_def n)
  show "digit_value (digit_of d) = int d" by (simp only: digit_value_def n)
  show "digit_of d \<noteq> CHR ''-''" "digit_of d \<noteq> CHR ''+''" using n by auto
qed

lemma utoa_nonempty [simp]: "utoa n \<noteq> []"
  by (subst utoa.simps) simp

lemma utoa_digits: "list_all digit (utoa n)"
proof (induction n rule: utoa.induct)
  case (1 n)
  then show ?case by (subst utoa.simps) simp
qed

lemma digits_value_append: "digits_value n (s @ [c]) = 10 * digits_value n s + digit_value c"
  by (induction n s rule: digits_value.induct) simp_all

lemma utoa_value: "digits_value 0 (utoa n) = int n"
proof (induction n rule: utoa.induct)
  case (1 n)
  then show ?case by (subst utoa.simps) (simp add: digits_value_append zdiv_int zmod_int)
qed

lemma utoa_no_sign: "\<not> hasPrefix (utoa n) ''-''" "\<not> hasPrefix (utoa n) ''+''"
  using utoa_digits [of n] by (cases "utoa n"; auto simp: hasPrefix_def digit_def less_eq_char_def)+

text \<open>Printing a 64-bit number and reading it back.\<close>

lemma Atoi_Itoa:
  assumes "- (2 ^ 63) \<le> i" "i < 2 ^ 63"
  shows "Atoi (Itoa i) = Inr i"
proof (cases "i < 0")
  case True
  have "hasPrefix (''-'' @ s) ''-''" for s by (simp add: hasPrefix_def)
  with True assms show ?thesis
    by (simp add: Atoi_def Itoa_def utoa_digits utoa_value hasPrefix_def)
next
  case False
  with assms show ?thesis
    by (simp add: Atoi_def Itoa_def utoa_digits utoa_value utoa_no_sign)
qed

lemma Atoi_digits:
  "ds \<noteq> [] \<Longrightarrow> list_all digit ds \<Longrightarrow> digits_value 0 ds < 2 ^ 63 \<Longrightarrow> 0 \<le> digits_value 0 ds \<Longrightarrow>
     Atoi ds = Inr (digits_value 0 ds)"
  by (cases ds) (auto simp: Atoi_def hasPrefix_def digit_def less_eq_char_def)

text \<open>Go's integer division truncates; on non-negative numbers it is \<open>div\<close>.\<close>

lemma sdiv_nonneg: "0 \<le> a \<Longrightarrow> 0 \<le> b \<Longrightarrow> a sdiv b = a div b" for a b :: int
  by (cases "a = 0"; cases "b = 0") (simp_all add: signed_divide_int_def)

section \<open>Durations\<close>

definition max_int64 :: int where
  "max_int64 = 2 ^ 63 - 1"

text \<open>\<open>leadingInt\<close>: the number at the front of a string and the rest, or an overflow.\<close>

fun leadingInt :: "int \<Rightarrow> string \<Rightarrow> (int \<times> string) option" where
  "leadingInt x [] = Some (x, [])"
| "leadingInt x (c # s) =
     (if \<not> digit c then Some (x, c # s)
      else if x > max_int64 div 10 then None
      else let x' = int64 (x * 10 + digit_value c) in if x' < 0 then None else leadingInt x' s)"

text \<open>\<open>leadingFraction\<close>: the digits after the point as a number and the exponent of its scale; once
  the number would overflow, digits are skipped.\<close>

fun leadingFraction :: "int \<Rightarrow> nat \<Rightarrow> bool \<Rightarrow> string \<Rightarrow> int \<times> nat \<times> string" where
  "leadingFraction x scale overflow [] = (x, scale, [])"
| "leadingFraction x scale overflow (c # s) =
     (if \<not> digit c then (x, scale, c # s)
      else if overflow then leadingFraction x scale True s
      else if x > max_int64 div 10 then leadingFraction x scale True s
      else let y = int64 (x * 10 + digit_value c)
           in if y < 0 then leadingFraction x scale True s
              else leadingFraction y (scale + 1) False s)"

definition unitMap :: "string \<Rightarrow> int option" where
  "unitMap u =
     map_of [(''ns'', 1), (''us'', 1000), ([CHR 0xC2, CHR 0xB5, CHR ''s''], 1000),
             ([CHR 0xCE, CHR 0xBC, CHR ''s''], 1000), (''ms'', 1000000), (''s'', 1000000000),
             (''m'', 60000000000), (''h'', 3600000000000)] u"

datatype duration_error = InvalidDuration | MissingUnit | UnknownUnit

definition unit_stop :: "char \<Rightarrow> bool" where
  "unit_stop c \<longleftrightarrow> c = CHR ''.'' \<or> digit c"

text \<open>One component of a duration, a number with a unit: its value in nanoseconds and the rest.\<close>

definition duration_part :: "(int \<Rightarrow> int \<Rightarrow> nat \<Rightarrow> int) \<Rightarrow> string \<Rightarrow> duration_error + (int \<times> string)" where
  "duration_part frac s =
     (if s = [] \<or> \<not> unit_stop (hd s) then Inl InvalidDuration
      else case leadingInt 0 s of
        None \<Rightarrow> Inl InvalidDuration
      | Some (v, s1) \<Rightarrow>
          let pre = length s1 \<noteq> length s;
              (f, scale, s2) = (if s1 \<noteq> [] \<and> hd s1 = CHR ''.'' then leadingFraction 0 0 False (tl s1)
                                else (0, 0, s1));
              post = (s1 \<noteq> [] \<and> hd s1 = CHR ''.'' \<and> length s2 \<noteq> length (tl s1));
              u = takeWhile (\<lambda>c. \<not> unit_stop c) s2;
              s3 = dropWhile (\<lambda>c. \<not> unit_stop c) s2
          in if \<not> pre \<and> \<not> post then Inl InvalidDuration
             else if u = [] then Inl MissingUnit
             else (case unitMap u of
               None \<Rightarrow> Inl UnknownUnit
             | Some unit \<Rightarrow>
                 if v > max_int64 div unit then Inl InvalidDuration
                 else let v = v * unit; v = (if f > 0 then int64 (v + frac f unit scale) else v)
                      in if v < 0 then Inl InvalidDuration else Inr (v, s3)))"

lemma leadingInt_length: "leadingInt x s = Some (v, r) \<Longrightarrow> length r \<le> length s"
  by (induction x s rule: leadingInt.induct) (auto simp: Let_def split: if_splits)

lemma leadingFraction_length: "leadingFraction x n b s = (v, m, r) \<Longrightarrow> length r \<le> length s"
  by (induction x n b s rule: leadingFraction.induct) (auto simp: Let_def split: if_splits)

lemma duration_part_shorter:
  assumes "duration_part frac s = Inr (v, r)"
  shows "length r < length s"
proof -
  from assms obtain n s1 where l: "s \<noteq> []" "leadingInt 0 s = Some (n, s1)"
    by (auto simp: duration_part_def split: if_splits option.splits)
  define p where "p = (if s1 \<noteq> [] \<and> hd s1 = CHR ''.'' then leadingFraction 0 0 False (tl s1) else (0, 0, s1))"
  obtain f m s2 where p: "p = (f, m, s2)" by (cases p) auto
  let ?u = "takeWhile (\<lambda>c. \<not> unit_stop c) s2" and ?r = "dropWhile (\<lambda>c. \<not> unit_stop c) s2"
  have "length s2 \<le> length s1" using p leadingFraction_length [of 0 0 False "tl s1" f m s2]
    by (auto simp: p_def split: if_splits)
  moreover have "length s1 \<le> length s" using leadingInt_length [OF l(2)] .
  moreover have "?u \<noteq> []" "r = ?r"
    using assms l p unfolding duration_part_def p_def [symmetric]
    by (auto simp: Let_def simp flip: p_def split: if_splits option.splits)
  moreover have "length ?u + length ?r = length s2"
    by (metis length_append takeWhile_dropWhile_id)
  ultimately show ?thesis by (cases ?u) auto
qed

function duration_loop :: "(int \<Rightarrow> int \<Rightarrow> nat \<Rightarrow> int) \<Rightarrow> int \<Rightarrow> string \<Rightarrow> duration_error + int" where
  "duration_loop frac d s =
     (if s = [] then Inr d
      else case duration_part frac s of
        Inl e \<Rightarrow> Inl e
      | Inr p \<Rightarrow>
          let d' = int64 (d + fst p)
          in if d' < 0 then Inl InvalidDuration else duration_loop frac d' (snd p))"
  by pat_completeness auto
termination
  by (relation "measure (\<lambda>(frac, d, s). length s)") (auto dest: duration_part_shorter)

declare duration_loop.simps [simp del]

definition ParseDuration :: "(int \<Rightarrow> int \<Rightarrow> nat \<Rightarrow> int) \<Rightarrow> string \<Rightarrow> duration_error + int" where
  "ParseDuration frac s =
     (let neg = hasPrefix s ''-'';
          r = (if hasPrefix s ''-'' \<or> hasPrefix s ''+'' then drop 1 s else s)
      in if r = ''0'' then Inr 0
         else if r = [] then Inl InvalidDuration
         else case duration_loop frac 0 r of
           Inl e \<Rightarrow> Inl e
         | Inr d \<Rightarrow> Inr (if neg then - d else d))"

text \<open>One unit of time.\<close>

lemma unitMap_bounds: "unitMap u = Some k \<Longrightarrow> 0 < k \<and> k < 2 ^ 63 \<and> u \<noteq> [] \<and> list_all (\<lambda>c. \<not> unit_stop c) u"
  by (auto simp: unitMap_def unit_stop_def digit_def less_eq_char_def split: if_splits)

lemma ParseDuration_unit:
  assumes "unitMap u = Some k"
  shows "ParseDuration frac (CHR ''1'' # u) = Inr k"
proof -
  note b = unitMap_bounds [OF assms]
  then obtain c cs where u: "u = c # cs" by (cases u) auto
  with b have c: "\<not> unit_stop c" "\<not> digit c" "c \<noteq> CHR ''.''" by (auto simp: unit_stop_def)
  have one: "digit CHR ''1''" "digit_value CHR ''1'' = 1" by (simp_all add: digit_def digit_value_def less_eq_char_def)
  have li: "leadingInt 0 (CHR ''1'' # u) = Some (1, u)"
    using one c u by (simp add: int64_def max_int64_def)
  have tw: "takeWhile (\<lambda>c. \<not> unit_stop c) u = u" "dropWhile (\<lambda>c. \<not> unit_stop c) u = []"
    using b by (auto simp: list_all_iff)
  have "1 \<le> max_int64 div k"
    using b by (simp add: max_int64_def int_one_le_iff_zero_less pos_imp_zdiv_pos_iff)
  moreover have "u \<noteq> []" "hd u \<noteq> CHR ''.''" "unit_stop CHR ''1''" using u c one by (simp_all add: unit_stop_def)
  ultimately have "duration_part frac (CHR ''1'' # u) = Inr (k, [])"
    using assms b by (simp add: duration_part_def Let_def tw li del: leadingInt.simps)
  then show ?thesis
    using b by (simp add: ParseDuration_def hasPrefix_def duration_loop.simps Let_def int64_def)
qed

end
