(* ===== verification/Values.thy ===== *)
theory Values
  imports Go_Conv
begin

text \<open>
  The setting cells of \<open>values.go\<close>: a value with a flag that says whether it was configured, one
  Go type per kind of value. All of them share the contract of the locale \<open>value_cell\<close>, from which
  the laws of inheriting a setting through several configuration levels follow. The last section
  is the templated string of \<open>stringTemplateValue\<close>.
\<close>

section \<open>Cells\<close>

record 'v cell =
  isset :: bool
  val :: 'v

type_synonym stringValue = "string cell"
type_synonym intValue = "int cell"
type_synonym boolValue = "bool cell"
type_synonym stringSliceValue = "string list cell"
type_synonym durationValue = "int cell"

text \<open>The zero value of a cell over the zero value of its type.\<close>

definition unset_cell :: "'v \<Rightarrow> 'v cell" where
  "unset_cell v = \<lparr>isset = False, val = v\<rparr>"

definition stringValue_store :: "stringValue \<Rightarrow> string \<Rightarrow> stringValue" where
  "stringValue_store s v = s\<lparr>val := v, isset := True\<rparr>"

definition stringValue_merge :: "stringValue \<Rightarrow> stringValue \<Rightarrow> stringValue" where
  "stringValue_merge s other = (if isset other then s\<lparr>val := val other\<rparr> else s)"

definition intValue_store :: "intValue \<Rightarrow> int \<Rightarrow> intValue" where
  "intValue_store s v = s\<lparr>val := v, isset := True\<rparr>"

definition intValue_merge :: "intValue \<Rightarrow> intValue \<Rightarrow> intValue" where
  "intValue_merge s other = (if isset other then s\<lparr>val := val other\<rparr> else s)"

definition boolValue_store :: "boolValue \<Rightarrow> bool \<Rightarrow> boolValue" where
  "boolValue_store s v = s\<lparr>val := v, isset := True\<rparr>"

definition boolValue_merge :: "boolValue \<Rightarrow> boolValue \<Rightarrow> boolValue" where
  "boolValue_merge s other = (if isset other then s\<lparr>val := val other\<rparr> else s)"

text \<open>The slice cell appends what is stored to what it holds.\<close>

definition stringSliceValue_store :: "stringSliceValue \<Rightarrow> string list \<Rightarrow> stringSliceValue" where
  "stringSliceValue_store s v = s\<lparr>val := val s @ v, isset := True\<rparr>"

definition stringSliceValue_merge :: "stringSliceValue \<Rightarrow> stringSliceValue \<Rightarrow> stringSliceValue" where
  "stringSliceValue_merge s other = (if isset other then s\<lparr>val := val other\<rparr> else s)"

definition durationValue_store :: "durationValue \<Rightarrow> int \<Rightarrow> durationValue" where
  "durationValue_store s v = s\<lparr>val := v, isset := True\<rparr>"

definition durationValue_merge :: "durationValue \<Rightarrow> durationValue \<Rightarrow> durationValue" where
  "durationValue_merge s other = (if isset other then s\<lparr>val := val other\<rparr> else s)"

text \<open>
  The interface cell. Its \<open>store\<close> takes a cell, not a value, so what it holds afterwards is the
  whole cell; values of other types are the parameter type.
\<close>

datatype 'x iface = NilIface | CellIface bool "'x iface" | OtherIface 'x

type_synonym 'x interfaceValue = "'x iface cell"

definition interfaceValue_store :: "'x interfaceValue \<Rightarrow> 'x interfaceValue \<Rightarrow> 'x interfaceValue" where
  "interfaceValue_store s v = s\<lparr>val := CellIface (isset v) (val v), isset := True\<rparr>"

definition interfaceValue_merge :: "'x interfaceValue \<Rightarrow> 'x interfaceValue \<Rightarrow> 'x interfaceValue" where
  "interfaceValue_merge s other = (if isset other then s\<lparr>val := val other\<rparr> else s)"

section \<open>The contract\<close>

text \<open>\<open>merge\<close> takes the value of a configured cell but keeps the flag of its receiver.\<close>

locale value_cell =
  fixes store :: "'v cell \<Rightarrow> 'a \<Rightarrow> 'v cell" and merge :: "'v cell \<Rightarrow> 'v cell \<Rightarrow> 'v cell"
  assumes store_sets: "isset (store s v)"
    and merge_flag: "isset (merge s t) = isset s"
    and merge_value: "val (merge s t) = (if isset t then val t else val s)"
begin

lemma merge_unset: "\<not> isset t \<Longrightarrow> merge s t = s"
  by (rule cell.equality) (simp_all add: merge_flag merge_value)

lemma merge_stored: "val (merge s (store t v)) = val (store t v)"
  by (simp add: merge_value store_sets)

lemma merge_idem: "merge s s = s"
  by (rule cell.equality) (simp_all add: merge_flag merge_value)

lemma layers_flag: "isset (foldl merge s ts) = isset s"
  by (induction ts arbitrary: s) (simp_all add: merge_flag)

text \<open>Merging a list of levels one after the other: the last configured level wins.\<close>

lemma layers:
  "val (foldl merge s ts) =
     (if filter isset ts = [] then val s else val (last (filter isset ts)))"
  by (induction ts arbitrary: s) (simp_all add: merge_value)

text \<open>A configured value merged into an unset cell is lost at the next level.\<close>

lemma merge_forgets: "\<not> isset u \<Longrightarrow> merge s (merge u t) = s"
  by (simp add: merge_unset merge_flag)

lemma merge_assoc_iff:
  "merge s (merge u t) = merge (merge s u) t \<longleftrightarrow> isset u \<or> \<not> isset t \<or> val s = val t"
  by (auto simp: cell.equality merge_flag merge_value merge_unset merge_forgets)
     (metis merge_value merge_unset merge_flag)+

end

interpretation string_cell: value_cell stringValue_store stringValue_merge
  by unfold_locales (simp_all add: stringValue_store_def stringValue_merge_def)

interpretation int_cell: value_cell intValue_store intValue_merge
  by unfold_locales (simp_all add: intValue_store_def intValue_merge_def)

interpretation bool_cell: value_cell boolValue_store boolValue_merge
  by unfold_locales (simp_all add: boolValue_store_def boolValue_merge_def)

interpretation slice_cell: value_cell stringSliceValue_store stringSliceValue_merge
  by unfold_locales (simp_all add: stringSliceValue_store_def stringSliceValue_merge_def)

interpretation duration_cell: value_cell durationValue_store durationValue_merge
  by unfold_locales (simp_all add: durationValue_store_def durationValue_merge_def)

interpretation interface_cell: value_cell interfaceValue_store interfaceValue_merge
  by unfold_locales (simp_all add: interfaceValue_store_def interfaceValue_merge_def)

text \<open>
  Settings inherited through configuration levels: merging a list of levels into a cell one
  after the other gives the value of the last configured level, or the cell's own value when none
  is configured, and never changes the cell's flag.
\<close>

theorem merge_layers:
  "foldl stringValue_merge s ts =
     s\<lparr>val := (if filter isset ts = [] then val s else val (last (filter isset ts)))\<rparr>"
  by (rule cell.equality) (simp_all add: string_cell.layers string_cell.layers_flag)

section \<open>Templated strings\<close>

text \<open>The character classes of the regular expression \<open>\$([a-z_\d]\w*)\<close>.\<close>

definition var_start :: "char \<Rightarrow> bool" where
  "var_start c \<longleftrightarrow> CHR ''a'' \<le> c \<and> c \<le> CHR ''z'' \<or> c = CHR ''_'' \<or> digit c"

definition var_char :: "char \<Rightarrow> bool" where
  "var_char c \<longleftrightarrow> var_start c \<or> CHR ''A'' \<le> c \<and> c \<le> CHR ''Z''"

definition IsVariableFunc :: "string \<Rightarrow> bool" where
  "IsVariableFunc v \<longleftrightarrow> v \<in> {''date_gmt'', ''date_local'', ''time_iso8601'', ''time_local''}"

text \<open>What the replacement function returns for a match, given the name without its dollar sign.\<close>

definition var_action :: "string \<Rightarrow> string" where
  "var_action name =
     (if IsVariableFunc name then ''{{''
      else ''{{.'' @ (if digit (hd name) then ''n_'' else [])) @ name @ ''}}''"

text \<open>\<open>variableRegexp.ReplaceAllFunc\<close>: leftmost matches that do not overlap, names as long as possible.\<close>

function expand_vars :: "string \<Rightarrow> string" where
  "expand_vars [] = []"
| "expand_vars (c # cs) =
     (if c = CHR ''$'' \<and> cs \<noteq> [] \<and> var_start (hd cs)
      then var_action (takeWhile var_char cs) @ expand_vars (dropWhile var_char cs)
      else c # expand_vars cs)"
  by pat_completeness auto
termination
  by (relation "measure length") (auto simp: le_imp_less_Suc length_dropWhile_le)

text \<open>
  The cell. The package \<open>text/template\<close> is the pair \<open>Parse\<close> and \<open>Execute\<close>, each of which may
  return an error; \<open>template.Must\<close> and \<open>Value\<close> panic on it.
\<close>

record 'tpl stringTemplateValue =
  tv_value :: string
  tv_set :: bool
  tv_tpl :: "'tpl option"

definition stringTemplateValue_store ::
  "(string \<Rightarrow> string + 'tpl) \<Rightarrow> 'tpl stringTemplateValue \<Rightarrow> string \<Rightarrow> 'tpl stringTemplateValue go" where
  "stringTemplateValue_store Parse s v =
     (if CHR ''$'' \<notin> set v then Inr (s\<lparr>tv_set := True, tv_value := v\<rparr>)
      else case Parse (expand_vars v) of
             Inl err \<Rightarrow> Inl (Explicit err)
           | Inr t \<Rightarrow> Inr (s\<lparr>tv_tpl := Some t, tv_set := True\<rparr>))"

definition stringTemplateValue_Value ::
  "('tpl \<Rightarrow> 'ctx \<Rightarrow> string + string) \<Rightarrow> 'tpl stringTemplateValue \<Rightarrow> 'ctx \<Rightarrow> string go" where
  "stringTemplateValue_Value Execute s ctx =
     (case tv_tpl s of
        None \<Rightarrow> Inr (tv_value s)
      | Some t \<Rightarrow> (case Execute t ctx of Inl err \<Rightarrow> Inl (Explicit err) | Inr r \<Rightarrow> Inr r))"

text \<open>Text without variables is its own template text.\<close>

lemma expand_vars_plain: "CHR ''$'' \<notin> set v \<Longrightarrow> expand_vars v = v"
  by (induction v) auto

lemma expand_vars_append_plain: "CHR ''$'' \<notin> set u \<Longrightarrow> expand_vars (u @ v) = u @ expand_vars v"
  by (induction u) auto

lemma expand_vars_name:
  assumes "name \<noteq> []" "var_start (hd name)" "list_all var_char name"
    and "rest = [] \<or> \<not> var_char (hd rest)"
  shows "expand_vars (CHR ''$'' # name @ rest) = var_action name @ expand_vars rest"
proof -
  have "takeWhile var_char rest = []" "dropWhile var_char rest = rest"
    using assms(4) by (cases rest; simp)+
  with assms(1-3) show ?thesis
    by (simp add: list_all_iff)
qed

text \<open>
  A templated value that is set again to a plain string keeps evaluating the old template:
  \<open>store\<close> does not clear the template, and \<open>Value\<close> prefers it.
\<close>

theorem template_restore_stale:
  assumes "CHR ''$'' \<in> set v" "CHR ''$'' \<notin> set w"
    and "stringTemplateValue_store Parse s v = Inr s1" "stringTemplateValue_store Parse s1 w = Inr s2"
  shows "stringTemplateValue_Value Execute s2 ctx = stringTemplateValue_Value Execute s1 ctx \<and>
    tv_value s2 = w"
  using assms by (auto simp: stringTemplateValue_store_def stringTemplateValue_Value_def split: sum.splits)

theorem template_restore_stale_witness:
  "stringTemplateValue_Value (\<lambda>t ctx. Inr t) \<lparr>tv_value = ''b'', tv_set = True, tv_tpl = Some ''a{{.x}}''\<rparr> () =
   stringTemplateValue_Value (\<lambda>t ctx. Inr t) \<lparr>tv_value = [], tv_set = True, tv_tpl = Some ''a{{.x}}''\<rparr> () \<and>
   tv_value (\<lparr>tv_value = ''b'', tv_set = True, tv_tpl = Some ''a{{.x}}''\<rparr> :: string stringTemplateValue) = ''b''"
proof (rule template_restore_stale [of "''a$x''" "''b''" Inr "\<lparr>tv_value = [], tv_set = False, tv_tpl = None\<rparr>"])
  show "stringTemplateValue_store Inr \<lparr>tv_value = [], tv_set = False, tv_tpl = None\<rparr> ''a$x'' =
      Inr \<lparr>tv_value = [], tv_set = True, tv_tpl = Some ''a{{.x}}''\<rparr>"
    by code_simp
qed (simp_all add: stringTemplateValue_store_def)

end
