(* ===== verification/Go_Net.thy ===== *)
theory Go_Net
  imports Go_Conv
begin

text \<open>
  The functions of package \<open>net\<close> on address strings: \<open>net.SplitHostPort\<close>. The parsers of IP
  addresses and of URLs are parameters of the components that call them, the record \<open>net_env\<close>.
\<close>

datatype addr_error =
    MissingPort | TooManyColons | MissingBracket | UnexpectedOpen | UnexpectedClose

text \<open>The position of the last colon splits the string into a front and a port.\<close>

definition last_colon :: "string \<Rightarrow> (string \<times> string) option" where
  "last_colon s =
     (if CHR '':'' \<in> set s
      then Some (rev (tl (dropWhile (\<lambda>c. c \<noteq> CHR '':'') (rev s))), rev (takeWhile (\<lambda>c. c \<noteq> CHR '':'') (rev s)))
      else None)"

definition SplitHostPort :: "string \<Rightarrow> addr_error + (string \<times> string)" where
  "SplitHostPort hostport =
     (case last_colon hostport of
        None \<Rightarrow> Inl MissingPort
      | Some (front, port) \<Rightarrow>
          if hd hostport = CHR ''['' then
            (if CHR '']'' \<notin> set hostport then Inl MissingBracket
             else
               let inner = takeWhile (\<lambda>c. c \<noteq> CHR '']'') hostport;
                   after = drop (length inner + 1) hostport
               in if after = [] then Inl MissingPort
                  else if length inner + 1 = length front then
                    (if CHR ''['' \<in> set (tl hostport) then Inl UnexpectedOpen
                     else if CHR '']'' \<in> set after then Inl UnexpectedClose
                     else Inr (tl inner, port))
                  else if hd after = CHR '':'' then Inl TooManyColons
                  else Inl MissingPort)
          else if CHR '':'' \<in> set front then Inl TooManyColons
          else if CHR ''['' \<in> set hostport then Inl UnexpectedOpen
          else if CHR '']'' \<in> set hostport then Inl UnexpectedClose
          else Inr (front, port))"

lemma last_colon_append: "CHR '':'' \<notin> set p \<Longrightarrow> last_colon (h @ CHR '':'' # p) = Some (h, p)"
  by (simp add: last_colon_def takeWhile_append dropWhile_append)

lemma last_colon_eq: "last_colon s = Some (h, p) \<Longrightarrow> s = h @ CHR '':'' # p \<and> CHR '':'' \<notin> set p"
proof -
  assume a: "last_colon s = Some (h, p)"
  then have c: "CHR '':'' \<in> set (rev s)" by (simp add: last_colon_def split: if_splits)
  let ?t = "takeWhile (\<lambda>c. c \<noteq> CHR '':'') (rev s)" and ?d = "dropWhile (\<lambda>c. c \<noteq> CHR '':'') (rev s)"
  from c have "?d \<noteq> []" "hd ?d = CHR '':''" using hd_dropWhile [of "\<lambda>c. c \<noteq> CHR '':''" "rev s"]
    by (auto simp: dropWhile_eq_Nil_conv)
  then have "?d = CHR '':'' # tl ?d" by (metis list.collapse)
  moreover have "rev s = ?t @ ?d" by simp
  ultimately have "s = rev (tl ?d) @ CHR '':'' # rev ?t" by (metis append.assoc append_Cons append_Nil rev.simps(2) rev_append rev_rev_ident)
  moreover have "CHR '':'' \<notin> set ?t" by (auto dest: set_takeWhileD)
  moreover from a c have "h = rev (tl ?d)" "p = rev ?t" by (simp_all add: last_colon_def)
  ultimately show ?thesis by simp
qed

text \<open>A host and a port without special characters are split where they were joined.\<close>

definition plain_host :: "string \<Rightarrow> bool" where
  "plain_host h \<longleftrightarrow> list_all (\<lambda>c. c \<notin> {CHR '':'', CHR ''['', CHR '']''}) h"

lemma SplitHostPort_join:
  assumes "plain_host h" "plain_host p"
  shows "SplitHostPort (h @ '':'' @ p) = Inr (h, p)"
proof -
  have "CHR '':'' \<notin> set p" "CHR '':'' \<notin> set h" "CHR ''['' \<notin> set (h @ p)" "CHR '']'' \<notin> set (h @ p)"
    using assms by (auto simp: plain_host_def list_all_iff)
  moreover from this have "hd (h @ CHR '':'' # p) \<noteq> CHR ''[''" by (cases h) auto
  ultimately show ?thesis by (simp add: SplitHostPort_def last_colon_append)
qed

text \<open>The parsers of addresses and URLs: \<open>net.ParseIP\<close> with the printed form of the address, and
  \<open>url.Parse\<close> with scheme and host.\<close>

record net_env =
  ParseIP :: "string \<Rightarrow> string option"
  URLParse :: "string \<Rightarrow> (string \<times> string) option"

text \<open>The parts of a URL that the program uses, and the functions of \<open>net/url\<close> as parameters.\<close>

record url =
  u_scheme :: string
  u_host :: string
  u_path :: string
  u_fragment :: string
  u_query :: string

record url_env =
  url_Parse :: "string \<Rightarrow> string + url"
  QueryUnescape :: "string \<Rightarrow> string + string"
  ParseQuery :: "string \<Rightarrow> string \<Rightarrow> string list"
  Encode :: "(string \<Rightarrow> string list) \<Rightarrow> string"
  url_String :: "url \<Rightarrow> string"

end
