(* ===== verification/Config_Lex.thy ===== *)
theory Config_Lex
  imports Prelude "HOL-Library.Monad_Syntax"
begin

text \<open>
  The lexer of the configuration language, \<open>config_lex.go\<close>: the line-counting rune iterator, the
  lexer loop with its inner loops for comments, escapes, \<open>${...}\<close> and quoted strings, the Lua
  block lexer, the brace check and the entry point \<open>lex\<close>.

  The loops that look for a closing rune do not test for the end of the input: there \<open>Next\<close>
  returns the rune 0 for ever. They are \<open>partial_function (option)\<close>s, so that \<open>None\<close> is a lexer
  that does not return.
\<close>

section \<open>Errors, iterator, tokens\<close>

record ngx_error =
  Reason :: string
  Linenum :: nat
  Filename :: string

definition newError :: "string \<Rightarrow> nat \<Rightarrow> string \<Rightarrow> ngx_error" where
  "newError reason line filename = \<lparr>Reason = reason, Linenum = line, Filename = filename\<rparr>"

datatype lex_error = EOF | Ngx ngx_error

record line_counter =
  it_runes :: "rune list"
  it_line :: nat

text \<open>The results are the rune, its line, whether the iterator returned \<open>io.EOF\<close>, and the
  iterator after the call.\<close>

definition Next :: "line_counter \<Rightarrow> rune \<times> nat \<times> bool \<times> line_counter" where
  "Next ls =
     (case it_runes ls of
        [] \<Rightarrow> (0, 0, True, ls)
      | ch # rest \<Rightarrow>
          (let n = (if ch = rune_of CHR 0x0A then it_line ls + 1 else it_line ls)
           in (ch, n, False, \<lparr>it_runes = rest, it_line = n\<rparr>)))"

record token =
  tok_text :: string
  tok_line :: nat
  tok_quote :: bool

type_synonym custom_lexer =
  "line_counter \<Rightarrow> string \<Rightarrow> (token list \<times> lex_error option \<times> line_counter) option"

record lexer =
  lx_token :: string
  lx_tokens :: "token list"
  lx_line :: nat
  nextTokenIsDirective :: bool
  lx_iter :: line_counter
  externalLexer :: "string \<rightharpoonup> custom_lexer"

definition newLexer :: "rune list \<Rightarrow> (string \<rightharpoonup> custom_lexer) \<Rightarrow> lexer" where
  "newLexer iter custom =
     \<lparr>lx_token = [], lx_tokens = [], lx_line = 0, nextTokenIsDirective = False,
      lx_iter = \<lparr>it_runes = iter, it_line = 1\<rparr>, externalLexer = custom\<rparr>"

definition lexer_custom :: "lexer \<Rightarrow> string \<Rightarrow> custom_lexer option" where
  "lexer_custom lx token = (if nextTokenIsDirective lx then externalLexer lx token else None)"

abbreviation add_tokens :: "token list \<Rightarrow> lexer \<Rightarrow> lexer" where
  "add_tokens ts lx \<equiv> lx\<lparr>lx_tokens := lx_tokens lx @ ts\<rparr>"

section \<open>The inner loops\<close>

lemma Next_eof [simp]: "it_runes ls = [] \<Longrightarrow> Next ls = (0, 0, True, ls)"
  by (simp add: Next_def)

lemma Next_length:
  "Next ls = (ch, n, e, ls') \<Longrightarrow> it_runes ls \<noteq> [] \<Longrightarrow> length (it_runes ls') < length (it_runes ls)"
  by (auto simp: Next_def Let_def split: list.splits)

lemma Next_length_le: "Next ls = (ch, n, e, ls') \<Longrightarrow> length (it_runes ls') \<le> length (it_runes ls)"
  by (auto simp: Next_def Let_def split: list.splits)

text \<open>\<open>for unicode.IsSpace(ch)\<close>: the loop that skips white space.\<close>

function skip_space :: "rune \<Rightarrow> nat \<Rightarrow> line_counter \<Rightarrow> rune \<times> nat \<times> line_counter" where
  "skip_space ch line it =
     (if isSpace ch
      then (let (ch', line', err, it') = Next it in skip_space ch' line' it')
      else (ch, line, it))"
  by pat_completeness auto
termination
  by (relation "measure (\<lambda>(ch, line, it). length (it_runes it) + (if isSpace ch then 1 else 0))")
     (auto simp: Next_def Let_def split: list.splits if_splits)

declare skip_space.simps [simp del]

text \<open>\<open>for ch != '\n'\<close>: the body of a comment.\<close>

partial_function (option) comment_loop ::
  "rune \<Rightarrow> string \<Rightarrow> line_counter \<Rightarrow> (string \<times> line_counter) option" where
  "comment_loop ch token it =
     (if ch = rune_of CHR 0x0A then Some (token, it)
      else (case Next it of (ch', line', err, it') \<Rightarrow>
              comment_loop ch' (token @ string_of_rune ch) it'))"

text \<open>The variable loop, up to a closing brace or white space. It returns the rune and the line it
  stopped at.\<close>

partial_function (option) var_loop ::
  "rune \<Rightarrow> nat \<Rightarrow> string \<Rightarrow> line_counter \<Rightarrow> (string \<times> rune \<times> nat \<times> line_counter) option" where
  "var_loop ch line token it =
     (if last token \<noteq> CHR ''}'' \<and> \<not> isSpace ch
      then (case Next it of (ch', line', err, it') \<Rightarrow>
              var_loop ch' line' (token @ string_of_rune ch) it')
      else Some (token, ch, line, it))"

text \<open>\<open>for ch != quote\<close>: the body of a quoted string, with the escaped quote.\<close>

partial_function (option) quote_loop ::
  "rune \<Rightarrow> rune \<Rightarrow> string \<Rightarrow> line_counter \<Rightarrow> (string \<times> line_counter) option" where
  "quote_loop quote ch token it =
     (if ch = quote then Some (token, it)
      else if ch = rune_of CHR 0x5C then
        (case Next it of (ch1, line1, err1, it1) \<Rightarrow>
         case Next it1 of (ch2, line2, err2, it2) \<Rightarrow>
           quote_loop quote ch2
             (token @ (if ch1 = quote then string_of_rune quote
                       else CHR 0x5C # string_of_rune ch1)) it2)
      else (case Next it of (ch1, line1, err1, it1) \<Rightarrow>
              quote_loop quote ch1 (token @ string_of_rune ch) it1))"

section \<open>One round of the lexer loop\<close>

text \<open>
  The white-space block. \<open>Inl\<close> is the return with the error of a custom lexer, \<open>Inr\<close> falls
  through to the rest of the round with the rune and the line after the white space.
\<close>

definition emit_word :: "lexer \<Rightarrow> ((lex_error \<times> lexer) + lexer) option" where
  "emit_word lx =
     (if lx_token lx \<noteq> [] then
        let lx1 = add_tokens [\<lparr>tok_text = lx_token lx, tok_line = lx_line lx, tok_quote = False\<rparr>] lx
        in case lexer_custom lx1 (lx_token lx1) of
             Some clx \<Rightarrow> do {
               (lexTokens, err, it) \<leftarrow> clx (lx_iter lx1) (lx_token lx1);
               case err of
                 Some e \<Rightarrow> Some (Inl (e, lx1\<lparr>lx_iter := it\<rparr>))
               | None \<Rightarrow> Some (Inr (add_tokens lexTokens (lx1\<lparr>lx_iter := it, lx_token := []\<rparr>)))
             }
           | None \<Rightarrow> Some (Inr (lx1\<lparr>nextTokenIsDirective := False, lx_token := []\<rparr>))
      else Some (Inr lx))"

definition lex_space ::
  "lexer \<Rightarrow> rune \<Rightarrow> nat \<Rightarrow> ((lex_error \<times> lexer) + (lexer \<times> rune \<times> nat)) option" where
  "lex_space lx ch line =
     (if isSpace ch then do {
        r \<leftarrow> emit_word lx;
        case r of
          Inl e \<Rightarrow> Some (Inl e)
        | Inr lx1 \<Rightarrow>
            (let (ch', line', it') = skip_space ch line (lx_iter lx1)
             in Some (Inr (lx1\<lparr>lx_iter := it'\<rparr>, ch', line')))
      }
      else Some (Inr (lx, ch, line)))"

definition lex_comment :: "lexer \<Rightarrow> rune \<Rightarrow> nat \<Rightarrow> lexer option" where
  "lex_comment lx ch line = do {
     (token, it) \<leftarrow> comment_loop ch (lx_token lx) (lx_iter lx);
     Some (add_tokens [\<lparr>tok_text = token, tok_line = line, tok_quote = False\<rparr>]
             (lx\<lparr>lx_iter := it, lx_token := []\<rparr>))
   }"

definition lex_escape :: "lexer \<Rightarrow> rune \<Rightarrow> lexer" where
  "lex_escape lx ch =
     (let (ch', line', err, it') = Next (lx_iter lx)
      in lx\<lparr>lx_token := lx_token lx @ string_of_rune ch @ string_of_rune ch', lx_iter := it'\<rparr>)"

definition lex_var :: "lexer \<Rightarrow> rune \<Rightarrow> nat \<Rightarrow> (lexer \<times> rune \<times> nat) option" where
  "lex_var lx ch line =
     (if lx_token lx \<noteq> [] \<and> last (lx_token lx) = CHR ''$'' \<and> ch = rune_of CHR ''{'' then do {
        (token, ch', line', it') \<leftarrow> var_loop ch line (lx_token lx) (lx_iter lx);
        Some (lx\<lparr>nextTokenIsDirective := False, lx_token := token, lx_iter := it'\<rparr>, ch', line')
      }
      else Some (lx, ch, line))"

definition lex_quoted :: "lexer \<Rightarrow> rune \<Rightarrow> ((lex_error \<times> lexer) + lexer) option" where
  "lex_quoted lx ch =
     (if lx_token lx \<noteq> [] then Some (Inr (lx\<lparr>lx_token := lx_token lx @ string_of_rune ch\<rparr>))
      else (case Next (lx_iter lx) of (ch', line', err', it') \<Rightarrow> do {
        (token, it) \<leftarrow> quote_loop ch ch' (lx_token lx) it';
        let lx1 = add_tokens [\<lparr>tok_text = token, tok_line = lx_line lx, tok_quote = True\<rparr>]
                    (lx\<lparr>lx_iter := it\<rparr>)
        in case lexer_custom lx1 token of
             Some clx \<Rightarrow> do {
               (lexTokens, err, it2) \<leftarrow> clx it token;
               case err of
                 Some e \<Rightarrow> Some (Inl (e, lx1\<lparr>lx_iter := it2, lx_token := token\<rparr>))
               | None \<Rightarrow> Some (Inr (add_tokens lexTokens
                            (lx1\<lparr>lx_iter := it2, lx_token := [], nextTokenIsDirective := True\<rparr>)))
             }
           | None \<Rightarrow> Some (Inr (lx1\<lparr>lx_token := [], nextTokenIsDirective := False\<rparr>))
      }))"

definition lex_punct :: "lexer \<Rightarrow> rune \<Rightarrow> nat \<Rightarrow> lexer" where
  "lex_punct lx ch line =
     (let lx1 = (if lx_token lx \<noteq> []
                 then add_tokens [\<lparr>tok_text = lx_token lx, tok_line = lx_line lx, tok_quote = False\<rparr>]
                        (lx\<lparr>lx_token := []\<rparr>)
                 else lx)
      in add_tokens [\<lparr>tok_text = string_of_rune ch, tok_line = line, tok_quote = False\<rparr>]
           (lx1\<lparr>nextTokenIsDirective := True\<rparr>))"

definition is_quote :: "rune \<Rightarrow> bool" where
  "is_quote ch \<longleftrightarrow> ch = rune_of CHR 0x22 \<or> ch = rune_of CHR 0x27"

definition is_punct :: "rune \<Rightarrow> bool" where
  "is_punct ch \<longleftrightarrow> ch = rune_of CHR ''{'' \<or> ch = rune_of CHR ''}'' \<or> ch = rune_of CHR '';''"

text \<open>
  The round after the white-space block, in the order of the source: comment, escape, start line,
  variable, quoted string, punctuation, any other rune.
\<close>

definition lex_rest ::
  "lexer \<Rightarrow> rune \<Rightarrow> nat \<Rightarrow> ((lex_error option \<times> lexer) + lexer) option" where
  "lex_rest lx ch line =
     (if lx_token lx = [] \<and> ch = rune_of CHR ''#'' then map_option Inr (lex_comment lx ch line)
      else if ch = rune_of CHR 0x5C then Some (Inr (lex_escape lx ch))
      else do {
        (lx2, ch, line) \<leftarrow>
          lex_var (if lx_token lx = [] then lx\<lparr>lx_line := line\<rparr> else lx) ch line;
        if is_quote ch then
          map_option (map_sum (\<lambda>(e, l). (Some e, l)) id) (lex_quoted lx2 ch)
        else if is_punct ch then Some (Inr (lex_punct lx2 ch line))
        else Some (Inr (lx2\<lparr>lx_token := lx_token lx2 @ string_of_rune ch\<rparr>))
      })"

definition lex_round :: "lexer \<Rightarrow> ((lex_error option \<times> lexer) + lexer) option" where
  "lex_round lx =
     (case Next (lx_iter lx) of (ch, line, eof, it) \<Rightarrow>
        if eof then Some (Inl (None, lx))
        else do {
          r \<leftarrow> lex_space (lx\<lparr>lx_iter := it\<rparr>) ch line;
          case r of
            Inl (e, lx1) \<Rightarrow> Some (Inl (Some e, lx1))
          | Inr (lx1, ch1, line1) \<Rightarrow> lex_rest lx1 ch1 line1
        })"

text \<open>The method \<open>lex\<close> of the lexer: rounds until the end of the input or an error.\<close>

partial_function (option) lexer_lex :: "lexer \<Rightarrow> (lex_error option \<times> lexer) option" where
  "lexer_lex lx = do {
     r \<leftarrow> lex_round lx;
     case r of Inl res \<Rightarrow> Some res | Inr lx' \<Rightarrow> lexer_lex lx'
   }"

section \<open>The brace check\<close>

fun balance_loop :: "token list \<Rightarrow> int \<Rightarrow> nat \<Rightarrow> string \<Rightarrow> ngx_error option" where
  "balance_loop [] depth line filename =
     (if depth > 0
      then Some \<lparr>Reason = ''unexpected end of file, expecting }'', Linenum = line,
                 Filename = filename\<rparr>
      else None)"
| "balance_loop (t # ts) depth line filename =
     (let depth' = (if tok_text t = ''}'' \<and> \<not> tok_quote t then depth - 1
                    else if tok_text t = ''{'' \<and> \<not> tok_quote t then depth + 1
                    else depth)
      in if depth' < 0
         then Some \<lparr>Reason = ''unexpected }'', Linenum = tok_line t, Filename = filename\<rparr>
         else balance_loop ts depth' (tok_line t) filename)"

definition balanceBraces :: "token list \<Rightarrow> string \<Rightarrow> ngx_error option" where
  "balanceBraces tokens filename = balance_loop tokens 0 0 filename"

section \<open>The Lua block lexer\<close>

definition lua_directives :: "string list" where
  "lua_directives =
    [''access_by_lua_block'',
     ''balancer_by_lua_block'',
     ''body_filter_by_lua_block'',
     ''content_by_lua_block'',
     ''header_filter_by_lua_block'',
     ''init_by_lua_block'',
     ''init_worker_by_lua_block'',
     ''log_by_lua_block'',
     ''rewrite_by_lua_block'',
     ''set_by_lua_block'',
     ''ssl_certificate_by_lua_block'',
     ''ssl_session_fetch_by_lua_block'',
     ''ssl_session_store_by_lua_block'']"

text \<open>\<open>consumeSpace\<close>: the first rune that is no white space, its line and whether it is the end.\<close>

function consumeSpace :: "line_counter \<Rightarrow> rune \<times> nat \<times> bool \<times> line_counter" where
  "consumeSpace it =
     (let (ch, line, err, it') = Next it
      in if isSpace ch then consumeSpace it' else (ch, line, err, it'))"
  by pat_completeness auto
termination
  by (relation "measure (\<lambda>it. length (it_runes it))")
     (auto simp: Next_def Let_def split: list.splits)

declare consumeSpace.simps [simp del]

lemma skip_space_length: "skip_space ch line it = (c, l, it') \<Longrightarrow> length (it_runes it') \<le> length (it_runes it)"
proof (induction ch line it rule: skip_space.induct)
  case (1 ch line it)
  show ?case
  proof (cases "isSpace ch")
    case True
    obtain ch' l' e i' where n: "Next it = (ch', l', e, i')" by (cases "Next it")
    with 1 True show ?thesis
      using Next_length_le [OF n] by (fastforce simp: skip_space.simps [of ch])
  next
    case False
    with 1 show ?thesis by (simp add: skip_space.simps [of ch])
  qed
qed

text \<open>The argument loop for \<open>set_by_lua_block\<close>: it runs to the end of the input.\<close>

function lua_arg_loop :: "line_counter \<Rightarrow> string \<Rightarrow> token list \<Rightarrow> token list \<times> line_counter" where
  "lua_arg_loop it arg tok =
     (case Next it of (ch, line, err, it1) \<Rightarrow>
        if err then (tok, it1)
        else if isSpace ch then
          if arg \<noteq> [] then
            lua_arg_loop it1 (arg @ string_of_rune ch)
              (tok @ [\<lparr>tok_text = arg, tok_line = line, tok_quote = False\<rparr>])
          else (case skip_space ch line it1 of (ch', line', it2) \<Rightarrow>
                  lua_arg_loop it2 (arg @ string_of_rune ch') tok)
        else lua_arg_loop it1 (arg @ string_of_rune ch) tok)"
  by pat_completeness auto
termination
  by (relation "measure (\<lambda>(it, arg, tok). length (it_runes it))")
     (auto simp: Next_def Let_def split: list.splits dest!: skip_space_length [OF sym])

declare lua_arg_loop.simps [simp del]

partial_function (option) lua_quote_loop ::
  "rune \<Rightarrow> rune \<Rightarrow> nat \<Rightarrow> string \<Rightarrow> line_counter \<Rightarrow> (string \<times> nat \<times> line_counter) option" where
  "lua_quote_loop quote ch line tk it =
     (if ch = quote then Some (tk, line, it)
      else (case Next it of (ch', line', err, it') \<Rightarrow>
              lua_quote_loop quote ch' line' (tk @ string_of_rune ch) it'))"

text \<open>The switch on the rune: braces change the depth, a quote opens a Lua string.\<close>

definition lua_switch ::
  "rune \<Rightarrow> nat \<Rightarrow> line_counter \<Rightarrow> int \<Rightarrow> string \<Rightarrow> (int \<times> string \<times> nat \<times> line_counter) option" where
  "lua_switch ch line it1 depth tk =
     (if ch = rune_of CHR ''{'' then Some (depth + 1, tk, line, it1)
      else if ch = rune_of CHR ''}'' then Some (depth - 1, tk, line, it1)
      else if is_quote ch then
        (case Next it1 of (ch', line', err', it1') \<Rightarrow> do {
           (tk', line'', it') \<leftarrow> lua_quote_loop ch ch' line' (tk @ string_of_rune ch) it1';
           Some (depth, tk', line'', it')
         })
      else Some (depth, tk, line, it1))"

text \<open>The loop over the block body; \<open>depth\<close> counts the open braces.\<close>

partial_function (option) lua_block_loop ::
  "line_counter \<Rightarrow> int \<Rightarrow> string \<Rightarrow> token list \<Rightarrow> (lex_error option \<times> token list \<times> line_counter) option" where
  "lua_block_loop it depth tk tok =
     (case Next it of (ch, line, err, it1) \<Rightarrow>
        if err then Some (None, tok, it1)
        else do {
          (depth, tk, line, it2) \<leftarrow> lua_switch ch line it1 depth tk;
          if depth < 0 then
            Some (Some (Ngx \<lparr>Reason = ''unexpected }'', Linenum = line, Filename = []\<rparr>), tok, it2)
          else if depth = 0 then
            Some (None, tok @ [\<lparr>tok_text = tk, tok_line = line, tok_quote = False\<rparr>,
                               \<lparr>tok_text = '';'', tok_line = line, tok_quote = False\<rparr>], it2)
          else lua_block_loop it2 depth (tk @ string_of_rune ch) tok
        })"

text \<open>
  The method \<open>lex\<close> of \<open>luaLexer\<close>. Its last statement is \<open>return nil, nil\<close>, so the tokens
  collected in \<open>tok\<close> are not returned.
\<close>

definition luaLexer_lex :: custom_lexer where
  "luaLexer_lex it directive =
     (let (tok, it0) = (if directive = ''set_by_lua_block'' then lua_arg_loop it [] [] else ([], it));
          (ch, line, err, it1) = consumeSpace it0
      in if err then Some ([], Some EOF, it1)
         else if ch \<noteq> rune_of CHR ''{'' then
           Some ([], Some (Ngx \<lparr>Reason = ''expected { to start Lua block'', Linenum = line,
                                Filename = []\<rparr>), it1)
         else do {
           (e, tok', it2) \<leftarrow> lua_block_loop it1 1 [] tok;
           Some ([], e, it2)
         })"

definition defaultCustomLexers :: "string \<rightharpoonup> custom_lexer" where
  "defaultCustomLexers = (\<lambda>d. if d \<in> set lua_directives then Some luaLexer_lex else None)"

section \<open>The entry point\<close>

text \<open>\<open>newIter\<close> reads runes from the bytes of the reader.\<close>

definition newIter :: "string \<Rightarrow> rune list" where
  "newIter rd = runes_of_string rd"

definition lex :: "string \<Rightarrow> string \<Rightarrow> (lex_error + token list) option" where
  "lex rd filename = do {
     (err, lx) \<leftarrow> lexer_lex (newLexer (newIter rd) defaultCustomLexers);
     case err of
       Some e \<Rightarrow> Some (Inl e)
     | None \<Rightarrow>
         (case balanceBraces (lx_tokens lx) filename of
            Some e \<Rightarrow> Some (Inl (Ngx e))
          | None \<Rightarrow> Some (Inr (lx_tokens lx)))
   }"

section \<open>Evaluation rules\<close>

abbreviation bump :: "rune \<Rightarrow> nat \<Rightarrow> nat" where
  "bump ch n \<equiv> (if ch = 10 then Suc n else n)"

definition lines :: "rune list \<Rightarrow> nat \<Rightarrow> nat" where
  "lines rs n = n + count_list rs 10"

lemma lines_simps [simp]:
  "lines [] n = n"
  "lines (r # rs) n = lines rs (bump r n)"
  "lines (rs @ ss) n = lines ss (lines rs n)"
  by (simp_all add: lines_def)

lemma Next_Cons [simp]:
  "Next \<lparr>it_runes = ch # rs, it_line = n\<rparr> =
     (ch, bump ch n, False, \<lparr>it_runes = rs, it_line = bump ch n\<rparr>)"
  by (simp add: Next_def)

definition utf8 :: "rune list \<Rightarrow> string" where
  "utf8 rs = concat (map string_of_rune rs)"

lemma utf8_simps [simp]:
  "utf8 [] = []"
  "utf8 (r # rs) = string_of_rune r @ utf8 rs"
  "utf8 (rs @ ss) = utf8 rs @ utf8 ss"
  by (simp_all add: utf8_def)

lemma string_of_rune_numerals [simp]:
  "string_of_rune 10 = [CHR 0x0A]" "string_of_rune 34 = [CHR 0x22]" "string_of_rune 35 = ''#''"
  "string_of_rune 36 = ''$''" "string_of_rune 39 = [CHR 0x27]" "string_of_rune 59 = '';''"
  "string_of_rune 92 = [CHR 0x5C]" "string_of_rune 123 = ''{''" "string_of_rune 125 = ''}''"
  by (simp_all add: string_of_rune_ascii [of "CHR 0x0A", simplified]
      string_of_rune_ascii [of "CHR 0x22", simplified] string_of_rune_ascii [of "CHR ''#''", simplified]
      string_of_rune_ascii [of "CHR ''$''", simplified] string_of_rune_ascii [of "CHR 0x27", simplified]
      string_of_rune_ascii [of "CHR '';''", simplified] string_of_rune_ascii [of "CHR 0x5C", simplified]
      string_of_rune_ascii [of "CHR ''{''", simplified] string_of_rune_ascii [of "CHR ''}''", simplified]
      ascii_def)

lemma utf8_ascii [simp]: "list_all ascii s \<Longrightarrow> utf8 (map rune_of s) = s"
  by (induction s) auto

lemma skip_space_nonspace [simp]: "\<not> isSpace ch \<Longrightarrow> skip_space ch n it = (ch, n, it)"
  by (simp add: skip_space.simps)

lemma skip_space_space:
  "isSpace ch \<Longrightarrow> skip_space ch n \<lparr>it_runes = r # rs, it_line = m\<rparr> =
     skip_space r (bump r m) \<lparr>it_runes = rs, it_line = bump r m\<rparr>"
  by (simp add: skip_space.simps [of ch])

lemma skip_space_eof:
  "isSpace ch \<Longrightarrow> it_runes it = [] \<Longrightarrow> skip_space ch n it = (0, 0, it)"
  by (simp add: skip_space.simps [of ch])

subsection \<open>The inner loops return at their closing rune\<close>

lemma comment_loop_closed:
  assumes "10 \<notin> set cs" "ch \<noteq> 10"
  shows "comment_loop ch tok \<lparr>it_runes = cs @ 10 # rest, it_line = n\<rparr> =
           Some (tok @ utf8 (ch # cs), \<lparr>it_runes = rest, it_line = Suc n\<rparr>)"
  using assms
proof (induction cs arbitrary: ch tok)
  case Nil
  then show ?case by (simp add: comment_loop.simps [of ch] comment_loop.simps [of 10])
next
  case (Cons c cs)
  then show ?case by (simp add: comment_loop.simps [of ch])
qed

lemma comment_loop_open:
  assumes "ch \<noteq> 10" "10 \<notin> set (it_runes it)"
  shows "comment_loop ch tok it = None"
proof (rule ccontr)
  assume "comment_loop ch tok it \<noteq> None"
  then obtain r where ret: "comment_loop ch tok it = Some r" by blast
  have "\<not> (ch \<noteq> 10 \<and> 10 \<notin> set (it_runes it))"
  proof (rule comment_loop.raw_induct
      [where P = "\<lambda>ch tok it r. \<not> (ch \<noteq> 10 \<and> 10 \<notin> set (it_runes it))", OF _ ret])
    fix f ch token it r
    assume IH: "\<And>ch token it r. f ch token it = Some r \<Longrightarrow> \<not> (ch \<noteq> 10 \<and> 10 \<notin> set (it_runes it))"
      and eq: "(if ch = rune_of CHR 0x0A then Some (token, it)
         else case Next it of (ch', line', err, it') \<Rightarrow> f ch' (token @ string_of_rune ch) it') = Some r"
    obtain c l e i where nx: "Next it = (c, l, e, i)" by (cases "Next it")
    show "\<not> (ch \<noteq> 10 \<and> 10 \<notin> set (it_runes it))"
      using IH eq nx by (cases "it_runes it") (fastforce simp: Next_def Let_def split: if_splits)+
  qed
  with assms show False by simp
qed

datatype atom = Plain rune | Esc rune

fun atom_src :: "atom \<Rightarrow> rune list" where
  "atom_src (Plain r) = [r]"
| "atom_src (Esc r) = [92, r]"

fun atom_text :: "rune option \<Rightarrow> atom \<Rightarrow> rune list" where
  "atom_text q (Plain r) = [r]"
| "atom_text q (Esc r) = (if q = Some r then [r] else [92, r])"

definition atoms_src :: "atom list \<Rightarrow> rune list" where
  "atoms_src as = concat (map atom_src as)"

definition atoms_text :: "rune option \<Rightarrow> atom list \<Rightarrow> rune list" where
  "atoms_text q as = concat (map (atom_text q) as)"

lemma atoms_simps [simp]:
  "atoms_src [] = []" "atoms_src (a # as) = atom_src a @ atoms_src as"
  "atoms_text q [] = []" "atoms_text q (a # as) = atom_text q a @ atoms_text q as"
  by (simp_all add: atoms_src_def atoms_text_def)

text \<open>Well-formed content of a quoted string: no bare quote and no bare backslash.\<close>

fun quoted_ok :: "rune \<Rightarrow> atom \<Rightarrow> bool" where
  "quoted_ok q (Plain r) \<longleftrightarrow> r \<noteq> q \<and> r \<noteq> 92"
| "quoted_ok q (Esc r) \<longleftrightarrow> True"

lemma quote_loop_closed:
  assumes "list_all (quoted_ok q) as" "q \<noteq> 10" "q \<noteq> 92"
  shows "(case Next \<lparr>it_runes = atoms_src as @ q # rest, it_line = n\<rparr> of
            (c1, l1, e1, it1) \<Rightarrow> quote_loop q c1 tok it1) =
           Some (tok @ utf8 (atoms_text (Some q) as),
                 \<lparr>it_runes = rest, it_line = lines (atoms_src as) n\<rparr>)"
  using assms
proof (induction as arbitrary: n tok)
  case Nil
  then show ?case by (simp add: quote_loop.simps)
next
  case (Cons a as)
  show ?case
  proof (cases a)
    case (Plain r)
    with Cons show ?thesis by (simp add: quote_loop.simps [of q r])
  next
    case (Esc r)
    with Cons show ?thesis by (simp add: quote_loop.simps [of q 92])
  qed
qed

section \<open>The tokens of a run\<close>

text \<open>What a caller of the lexer sees: the error and the token list.\<close>

definition lex_tokens :: "lexer \<Rightarrow> (lex_error option \<times> token list) option" where
  "lex_tokens lx = map_option (\<lambda>(e, l). (e, lx_tokens l)) (lexer_lex lx)"

lemma lex_tokens_step: "lex_round lx = Some (Inr lx') \<Longrightarrow> lex_tokens lx = lex_tokens lx'"
  by (simp add: lex_tokens_def lexer_lex.simps [of lx])

lemma lex_tokens_stop: "lex_round lx = Some (Inl (e, lx')) \<Longrightarrow> lex_tokens lx = Some (e, lx_tokens lx')"
  by (simp add: lex_tokens_def lexer_lex.simps [of lx])

lemma lex_tokens_stuck: "lex_round lx = None \<Longrightarrow> lex_tokens lx = None"
  by (simp add: lex_tokens_def lexer_lex.simps [of lx])

lemma lex_tokens_eof: "it_runes (lx_iter lx) = [] \<Longrightarrow> lex_tokens lx = Some (None, lx_tokens lx)"
  by (rule lex_tokens_stop) (simp add: lex_round_def)

text \<open>A lexer state with the source still to read written out.\<close>

definition at :: "lexer \<Rightarrow> rune list \<Rightarrow> nat \<Rightarrow> lexer" where
  "at lx rs n = lx\<lparr>lx_iter := \<lparr>it_runes = rs, it_line = n\<rparr>\<rparr>"

lemma at_simps [simp]:
  "lx_token (at lx rs n) = lx_token lx" "lx_tokens (at lx rs n) = lx_tokens lx"
  "lx_line (at lx rs n) = lx_line lx"
  "nextTokenIsDirective (at lx rs n) = nextTokenIsDirective lx"
  "externalLexer (at lx rs n) = externalLexer lx"
  "lx_iter (at lx rs n) = \<lparr>it_runes = rs, it_line = n\<rparr>"
  "(at lx rs n)\<lparr>lx_iter := \<lparr>it_runes = rs', it_line = n'\<rparr>\<rparr> = at lx rs' n'"
  "(at lx rs n)\<lparr>lx_token := t\<rparr> = at (lx\<lparr>lx_token := t\<rparr>) rs n"
  "(at lx rs n)\<lparr>lx_tokens := ts\<rparr> = at (lx\<lparr>lx_tokens := ts\<rparr>) rs n"
  "(at lx rs n)\<lparr>lx_line := k\<rparr> = at (lx\<lparr>lx_line := k\<rparr>) rs n"
  "(at lx rs n)\<lparr>nextTokenIsDirective := b\<rparr> = at (lx\<lparr>nextTokenIsDirective := b\<rparr>) rs n"
  by (simp_all add: at_def)

lemma at_upd_iter: "(at lx rs n)\<lparr>lx_iter := it\<rparr> = lx\<lparr>lx_iter := it\<rparr>"
  by (simp add: at_def)

lemma at_eqI: "lx_iter lx = \<lparr>it_runes = rs, it_line = n\<rparr> \<Longrightarrow> at lx rs n = lx"
  by (simp add: at_def)

lemma newLexer_at: "newLexer rs custom = at (newLexer [] custom) rs 1"
  by (simp add: at_def newLexer_def)

lemma lex_round_nonspace:
  "\<not> isSpace r \<Longrightarrow> lex_round (at lx (r # rs) n) = lex_rest (at lx rs (bump r n)) r (bump r n)"
  by (simp add: lex_round_def lex_space_def)

text \<open>White space before a token is skipped; the round goes on with the rune after it.\<close>

lemma lex_tokens_space:
  assumes "isSpace sp" "lx_token lx = []"
  shows "lex_tokens (at lx (sp # rs) n) = lex_tokens (at lx rs (bump sp n))"
proof (cases rs)
  case Nil
  have "lex_round (at lx [sp] n) =
      Some (Inr (at (lx\<lparr>lx_line := 0, lx_token := string_of_rune 0\<rparr>) [] (bump sp n)))"
    using assms
    by (simp add: lex_round_def lex_space_def emit_word_def skip_space_eof lex_rest_def lex_var_def
        is_quote_def is_punct_def)
  then have "lex_tokens (at lx [sp] n) =
      lex_tokens (at (lx\<lparr>lx_line := 0, lx_token := string_of_rune 0\<rparr>) [] (bump sp n))"
    by (rule lex_tokens_step)
  then show ?thesis using Nil by (simp add: lex_tokens_eof)
next
  case (Cons r rs')
  have "lex_round (at lx (sp # r # rs') n) = lex_round (at lx (r # rs') (bump sp n))"
    using assms
    by (cases "isSpace r")
       (simp_all add: lex_round_def lex_space_def emit_word_def skip_space_space at_upd_iter
         split: prod.splits)
  then show ?thesis using Cons by (simp add: lex_tokens_def lexer_lex.simps)
qed

text \<open>White space after a word emits the word.\<close>

lemma lex_tokens_word_end:
  assumes "isSpace sp" "lx_token lx \<noteq> []"
    "nextTokenIsDirective lx \<Longrightarrow> externalLexer lx (lx_token lx) = None"
  shows "lex_tokens (at lx (sp # rs) n) =
    lex_tokens (at (lx\<lparr>lx_tokens := lx_tokens lx @
        [\<lparr>tok_text = lx_token lx, tok_line = lx_line lx, tok_quote = False\<rparr>],
      nextTokenIsDirective := False, lx_token := []\<rparr>) rs (bump sp n))"
    (is "_ = lex_tokens (at ?lx rs _)")
proof -
  have "lex_round (at lx (sp # rs) n) = lex_round (at ?lx (sp # rs) n)"
    using assms
    by (cases "nextTokenIsDirective lx")
       (auto simp: lex_round_def lex_space_def emit_word_def lexer_custom_def Let_def at_upd_iter)
  then have "lex_tokens (at lx (sp # rs) n) = lex_tokens (at ?lx (sp # rs) n)"
    by (simp add: lex_tokens_def lexer_lex.simps)
  also have "\<dots> = lex_tokens (at ?lx rs (bump sp n))"
    using assms(1) by (rule lex_tokens_space) simp
  finally show ?thesis .
qed

section \<open>A specification by lexemes\<close>

text \<open>
  The source text as a sequence of lexemes: single white-space runes, words, quoted strings,
  punctuation and comments. \<open>lexemes_tokens\<close> is the token list a reader of the language expects,
  with the line each token starts on.
\<close>

datatype lexeme =
    LSpace rune
  | LWord rune "atom list"
  | LQuoted rune "atom list"
  | LPunct rune
  | LComment "rune list"

fun lexeme_src :: "lexeme \<Rightarrow> rune list" where
  "lexeme_src (LSpace r) = [r]"
| "lexeme_src (LWord r as) = r # atoms_src as"
| "lexeme_src (LQuoted q as) = q # atoms_src as @ [q]"
| "lexeme_src (LPunct r) = [r]"
| "lexeme_src (LComment cs) = 35 # cs @ [10]"

fun lexeme_tokens :: "nat \<Rightarrow> lexeme \<Rightarrow> token list" where
  "lexeme_tokens n (LSpace r) = []"
| "lexeme_tokens n (LWord r as) =
     [\<lparr>tok_text = utf8 (r # atoms_text None as), tok_line = n, tok_quote = False\<rparr>]"
| "lexeme_tokens n (LQuoted q as) =
     [\<lparr>tok_text = utf8 (atoms_text (Some q) as), tok_line = n, tok_quote = True\<rparr>]"
| "lexeme_tokens n (LPunct r) = [\<lparr>tok_text = string_of_rune r, tok_line = n, tok_quote = False\<rparr>]"
| "lexeme_tokens n (LComment cs) =
     [\<lparr>tok_text = CHR ''#'' # utf8 cs, tok_line = n, tok_quote = False\<rparr>]"

definition lexemes_src :: "lexeme list \<Rightarrow> rune list" where
  "lexemes_src l = concat (map lexeme_src l)"

fun lexemes_tokens :: "nat \<Rightarrow> lexeme list \<Rightarrow> token list" where
  "lexemes_tokens n [] = []"
| "lexemes_tokens n (x # l) = lexeme_tokens n x @ lexemes_tokens (lines (lexeme_src x) n) l"

lemma lexemes_src_simps [simp]:
  "lexemes_src [] = []" "lexemes_src (x # l) = lexeme_src x @ lexemes_src l"
  "lexemes_src (k @ l) = lexemes_src k @ lexemes_src l"
  by (simp_all add: lexemes_src_def)

definition plain_first :: "rune \<Rightarrow> bool" where
  "plain_first r \<longleftrightarrow> \<not> isSpace r \<and> r \<noteq> 35 \<and> r \<noteq> 92 \<and> \<not> is_quote r \<and> \<not> is_punct r"

fun word_ok :: "atom \<Rightarrow> bool" where
  "word_ok (Plain r) \<longleftrightarrow> \<not> isSpace r \<and> r \<noteq> 92 \<and> \<not> is_punct r"
| "word_ok (Esc r) \<longleftrightarrow> True"

fun ends_word :: "string \<Rightarrow> lexeme list \<Rightarrow> bool" where
  "ends_word w (LSpace r # l) = True"
| "ends_word w (LPunct r # l) = (r = 123 \<longrightarrow> last w \<noteq> CHR ''$'')"
| "ends_word w l = False"

text \<open>
  Well-formed lexeme sequences: a word is followed by white space or punctuation (an opening brace
  not right after a dollar sign), quoted strings and comments are closed, and no word or quoted string has a custom lexer.
\<close>

fun lexeme_ok :: "(string \<rightharpoonup> custom_lexer) \<Rightarrow> lexeme \<Rightarrow> bool" where
  "lexeme_ok ext (LSpace r) \<longleftrightarrow> isSpace r"
| "lexeme_ok ext (LWord r as) \<longleftrightarrow>
     plain_first r \<and> list_all word_ok as \<and> ext (utf8 (r # atoms_text None as)) = None"
| "lexeme_ok ext (LQuoted q as) \<longleftrightarrow>
     is_quote q \<and> list_all (quoted_ok q) as \<and> ext (utf8 (atoms_text (Some q) as)) = None"
| "lexeme_ok ext (LPunct r) \<longleftrightarrow> is_punct r"
| "lexeme_ok ext (LComment cs) \<longleftrightarrow> 10 \<notin> set cs"

fun lexemes_ok :: "(string \<rightharpoonup> custom_lexer) \<Rightarrow> lexeme list \<Rightarrow> bool" where
  "lexemes_ok ext [] = True"
| "lexemes_ok ext (LWord r as # l) \<longleftrightarrow> 
     lexeme_ok ext (LWord r as) \<and> ends_word (utf8 (r # atoms_text None as)) l \<and> lexemes_ok ext l"
| "lexemes_ok ext (x # l) \<longleftrightarrow> lexeme_ok ext x \<and> lexemes_ok ext l"

lemma isSpace_10 [simp]: "isSpace 10"
  by (simp add: isSpace_def)

lemma is_punct_facts:
  assumes "is_punct r"
  shows "\<not> isSpace r" "r \<noteq> 35" "r \<noteq> 92" "\<not> is_quote r" "r \<noteq> 10"
  using assms by (auto simp: is_punct_def is_quote_def isSpace_def)

lemma is_quote_facts:
  assumes "is_quote r"
  shows "\<not> isSpace r" "r \<noteq> 35" "r \<noteq> 92" "r \<noteq> 10" "r \<noteq> 123"
  using assms by (auto simp: is_quote_def isSpace_def)

subsection \<open>One lemma per lexeme\<close>

lemma lex_tokens_word_first:
  assumes "lx_token lx = []" "plain_first r"
  shows "lex_tokens (at lx (r # rs) n) =
           lex_tokens (at (lx\<lparr>lx_line := n, lx_token := string_of_rune r\<rparr>) rs n)"
proof (rule lex_tokens_step)
  have "r \<noteq> 10" using assms(2) by (auto simp: plain_first_def)
  with assms show "lex_round (at lx (r # rs) n) =
      Some (Inr (at (lx\<lparr>lx_line := n, lx_token := string_of_rune r\<rparr>) rs n))"
    by (simp add: lex_round_nonspace plain_first_def lex_rest_def lex_var_def)
qed

lemma lex_tokens_word_atom:
  assumes "lx_token lx \<noteq> []" "word_ok a"
  shows "lex_tokens (at lx (atom_src a @ rs) n) =
           lex_tokens (at (lx\<lparr>lx_token := lx_token lx @ utf8 (atom_text None a)\<rparr>) rs
                         (lines (atom_src a) n))"
proof (cases a)
  case (Plain r)
  with assms have r: "\<not> isSpace r" "r \<noteq> 92" "\<not> is_punct r" "r \<noteq> 10" "r \<noteq> 123"
    by (auto simp: is_punct_def)
  have "lex_round (at lx (r # rs) n) =
      Some (Inr (at (lx\<lparr>lx_token := lx_token lx @ string_of_rune r\<rparr>) rs n))"
    using assms r by (simp add: lex_round_nonspace lex_rest_def lex_var_def lex_quoted_def)
  from lex_tokens_step [OF this] show ?thesis using Plain r by simp
next
  case (Esc r)
  have "lex_round (at lx (92 # r # rs) n) =
      Some (Inr (at (lx\<lparr>lx_token := lx_token lx @ string_of_rune 92 @ string_of_rune r\<rparr>) rs (bump r n)))"
    using assms by (simp add: lex_round_nonspace lex_rest_def lex_escape_def isSpace_def)
  from lex_tokens_step [OF this] show ?thesis using Esc by simp
qed

lemma lex_tokens_word_atoms:
  assumes "lx_token lx \<noteq> []" "list_all word_ok as"
  shows "lex_tokens (at lx (atoms_src as @ rs) n) =
           lex_tokens (at (lx\<lparr>lx_token := lx_token lx @ utf8 (atoms_text None as)\<rparr>) rs
                         (lines (atoms_src as) n))"
  using assms
proof (induction as arbitrary: lx n)
  case Nil
  then show ?case by simp
next
  case (Cons a as)
  have "lex_tokens (at lx (atoms_src (a # as) @ rs) n) =
      lex_tokens (at (lx\<lparr>lx_token := lx_token lx @ utf8 (atom_text None a)\<rparr>) (atoms_src as @ rs)
        (lines (atom_src a) n))"
    using lex_tokens_word_atom [of lx a "atoms_src as @ rs" n] Cons.prems by simp
  also have "\<dots> = lex_tokens (at (lx\<lparr>lx_token := lx_token lx @ utf8 (atoms_text None (a # as))\<rparr>) rs
        (lines (atoms_src (a # as)) n))"
    using Cons.IH [of "lx\<lparr>lx_token := lx_token lx @ utf8 (atom_text None a)\<rparr>"] Cons.prems by simp
  finally show ?case .
qed

lemma lex_tokens_punct:
  assumes "is_punct r" "lx_token lx = []"
  shows "lex_tokens (at lx (r # rs) n) =
    lex_tokens (at (lx\<lparr>lx_tokens := lx_tokens lx @
        [\<lparr>tok_text = string_of_rune r, tok_line = n, tok_quote = False\<rparr>],
      lx_line := n, nextTokenIsDirective := True\<rparr>) rs n)"
  using assms is_punct_facts [OF assms(1)]
  by (intro lex_tokens_step) (simp add: lex_round_nonspace lex_rest_def lex_var_def lex_punct_def)

lemma lex_tokens_word_punct:
  assumes "is_punct r" "lx_token lx \<noteq> []" "r = 123 \<longrightarrow> last (lx_token lx) \<noteq> CHR ''$''"
  shows "lex_tokens (at lx (r # rs) n) =
    lex_tokens (at (lx\<lparr>lx_tokens := lx_tokens lx @
        [\<lparr>tok_text = lx_token lx, tok_line = lx_line lx, tok_quote = False\<rparr>,
         \<lparr>tok_text = string_of_rune r, tok_line = n, tok_quote = False\<rparr>],
      nextTokenIsDirective := True, lx_token := []\<rparr>) rs n)"
  using assms is_punct_facts [OF assms(1)]
  by (intro lex_tokens_step) (auto simp: lex_round_nonspace lex_rest_def lex_var_def lex_punct_def)

lemma lex_tokens_quoted:
  assumes "is_quote q" "lx_token lx = []" "list_all (quoted_ok q) as"
    "externalLexer lx (utf8 (atoms_text (Some q) as)) = None"
  shows "lex_tokens (at lx (q # atoms_src as @ q # rs) n) =
    lex_tokens (at (lx\<lparr>lx_tokens := lx_tokens lx @
        [\<lparr>tok_text = utf8 (atoms_text (Some q) as), tok_line = n, tok_quote = True\<rparr>],
      lx_line := n, nextTokenIsDirective := False\<rparr>) rs (lines (atoms_src as) n))"
proof (rule lex_tokens_step)
  note q = is_quote_facts [OF assms(1)]
  obtain c1 l1 e1 it1 where nx: "Next \<lparr>it_runes = atoms_src as @ q # rs, it_line = n\<rparr> = (c1, l1, e1, it1)"
    by (cases "Next \<lparr>it_runes = atoms_src as @ q # rs, it_line = n\<rparr>")
  with quote_loop_closed [OF assms(3) q(4) q(3), where rest = rs and n = n and tok = "[]"]
  have ql: "quote_loop q c1 [] it1 = Some (utf8 (atoms_text (Some q) as),
      \<lparr>it_runes = rs, it_line = lines (atoms_src as) n\<rparr>)" by simp
  show "lex_round (at lx (q # atoms_src as @ q # rs) n) = Some (Inr (at (lx\<lparr>lx_tokens := lx_tokens lx @
        [\<lparr>tok_text = utf8 (atoms_text (Some q) as), tok_line = n, tok_quote = True\<rparr>],
      lx_line := n, nextTokenIsDirective := False\<rparr>) rs (lines (atoms_src as) n)))"
    using assms q nx ql
    by (simp add: lex_round_nonspace lex_rest_def lex_var_def lex_quoted_def lexer_custom_def Let_def)
qed

lemma lex_tokens_comment:
  assumes "lx_token lx = []" "10 \<notin> set cs"
  shows "lex_tokens (at lx (35 # cs @ 10 # rs) n) =
    lex_tokens (at (lx\<lparr>lx_tokens := lx_tokens lx @
        [\<lparr>tok_text = CHR ''#'' # utf8 cs, tok_line = n, tok_quote = False\<rparr>]\<rparr>) rs (Suc n))"
  using assms
  by (intro lex_tokens_step)
     (simp add: lex_round_nonspace lex_rest_def lex_comment_def comment_loop_closed isSpace_def)


subsection \<open>The lexer implements the lexeme specification\<close>

lemma lex_tokens_prefix:
  assumes "lexemes_ok (externalLexer lx) l" "lx_token lx = []"
  shows "\<exists>lx'. lex_tokens (at lx (lexemes_src l @ rest) n) =
           lex_tokens (at lx' rest (lines (lexemes_src l) n)) \<and>
         lx_token lx' = [] \<and> externalLexer lx' = externalLexer lx \<and>
         lx_tokens lx' = lx_tokens lx @ lexemes_tokens n l"
  using assms
proof (induction "length l" arbitrary: l lx n rule: less_induct)
  case less
  show ?case
  proof (cases l)
    case Nil
    with less.prems show ?thesis by auto
  next
    case l: (Cons x l')
    have go: "\<exists>lx'. lex_tokens (at lx (lexemes_src l @ rest) n) =
           lex_tokens (at lx' rest (lines (lexemes_src l) n)) \<and>
         lx_token lx' = [] \<and> externalLexer lx' = externalLexer lx \<and>
         lx_tokens lx' = lx_tokens lx @ lexemes_tokens n l"
      if "lex_tokens (at lx (lexemes_src l @ rest) n) = lex_tokens (at lx1 (lexemes_src k @ rest) m)"
        "lx_token lx1 = []" "externalLexer lx1 = externalLexer lx"
        "lx_tokens lx1 @ lexemes_tokens m k = lx_tokens lx @ lexemes_tokens n l"
        "lines (lexemes_src k) m = lines (lexemes_src l) n"
        "length k < length l" "lexemes_ok (externalLexer lx) k" for lx1 k m
      using less.hyps [OF that(6), of lx1 m] that by auto
    show ?thesis
    proof (cases x)
      case (LSpace r)
      with less.prems l show ?thesis
        by (intro go [of lx l' "bump r n"]) (simp_all add: lex_tokens_space)
    next
      case (LPunct r)
      with less.prems l is_punct_facts(5) [of r] show ?thesis
        by (intro go [of "lx\<lparr>lx_tokens := lx_tokens lx @
              [\<lparr>tok_text = string_of_rune r, tok_line = n, tok_quote = False\<rparr>],
              lx_line := n, nextTokenIsDirective := True\<rparr>" l' n]) (simp_all add: lex_tokens_punct)
    next
      case (LQuoted q as)
      with less.prems l is_quote_facts(4) [of q] show ?thesis
        by (intro go [of "lx\<lparr>lx_tokens := lx_tokens lx @
              [\<lparr>tok_text = utf8 (atoms_text (Some q) as), tok_line = n, tok_quote = True\<rparr>],
              lx_line := n, nextTokenIsDirective := False\<rparr>" l' "lines (atoms_src as) n"])
           (simp_all add: lex_tokens_quoted)
    next
      case (LComment cs)
      with less.prems l show ?thesis
        by (intro go [of "lx\<lparr>lx_tokens := lx_tokens lx @
              [\<lparr>tok_text = CHR ''#'' # utf8 cs, tok_line = n, tok_quote = False\<rparr>]\<rparr>" l' "Suc n"])
           (simp_all add: lex_tokens_comment lines_def)
    next
      case (LWord r as)
      let ?w = "utf8 (r # atoms_text None as)" and ?m = "lines (atoms_src as) n"
      let ?lx1 = "lx\<lparr>lx_line := n, lx_token := ?w\<rparr>"
      let ?tok = "\<lparr>tok_text = ?w, tok_line = n, tok_quote = False\<rparr>"
      from LWord l less.prems have ok: "plain_first r" "list_all word_ok as"
        "externalLexer lx ?w = None" "ends_word ?w l'" "lexemes_ok (externalLexer lx) l'" by auto
      then have r10: "r \<noteq> 10" by (auto simp: plain_first_def)
      have read: "lex_tokens (at lx (lexemes_src l @ rest) n) =
          lex_tokens (at ?lx1 (lexemes_src l' @ rest) ?m)"
        using lex_tokens_word_first [OF less.prems(2) ok(1)] LWord l ok(2)
        by (simp add: lex_tokens_word_atoms)
      from ok(4) consider sp l'' where "l' = LSpace sp # l''"
        | p l'' where "l' = LPunct p # l''" "p = 123 \<longrightarrow> last ?w \<noteq> CHR ''$''"
        by (cases "(?w, l')" rule: ends_word.cases) auto
      then show ?thesis
      proof cases
        case (1 sp l'')
        with read ok r10 l LWord less.prems show ?thesis
          by (intro go [of "?lx1\<lparr>lx_tokens := lx_tokens lx @ [?tok], nextTokenIsDirective := False,
                lx_token := []\<rparr>" l'' "bump sp ?m"]) (simp_all add: lex_tokens_word_end)
      next
        case (2 p l'')
        with read ok r10 l LWord less.prems is_punct_facts(5) [of p] show ?thesis
          by (intro go [of "?lx1\<lparr>lx_tokens := lx_tokens lx @ [?tok,
                \<lparr>tok_text = string_of_rune p, tok_line = ?m, tok_quote = False\<rparr>],
                nextTokenIsDirective := True, lx_token := []\<rparr>" l'' ?m])
             (simp_all add: lex_tokens_word_punct)
      qed
    qed
  qed
qed

text \<open>
  The whole entry point: a source that is a well-formed lexeme sequence with balanced braces is
  lexed into exactly its tokens.
\<close>

lemma lex_lexemes:
  assumes "newIter rd = lexemes_src l" "lexemes_ok defaultCustomLexers l"
    "balanceBraces (lexemes_tokens 1 l) filename = None"
  shows "lex rd filename = Some (Inr (lexemes_tokens 1 l))"
proof -
  let ?lx = "newLexer [] defaultCustomLexers"
  obtain lx' where "lex_tokens (at ?lx (lexemes_src l @ []) 1) =
        lex_tokens (at lx' [] (lines (lexemes_src l) 1))"
      "lx_tokens lx' = lx_tokens ?lx @ lexemes_tokens 1 l"
    using lex_tokens_prefix [of ?lx l "[]" 1] assms(2) by (auto simp: newLexer_def)
  then have "lex_tokens (at ?lx (lexemes_src l) 1) = Some (None, lexemes_tokens 1 l)"
    by (simp add: lex_tokens_eof newLexer_def)
  then have "lex_tokens (newLexer (newIter rd) defaultCustomLexers) = Some (None, lexemes_tokens 1 l)"
    unfolding assms(1) by (subst newLexer_at)
  then show ?thesis
    using assms(3) by (auto simp: lex_tokens_def lex_def)
qed


section \<open>Inputs on which the lexer does not return\<close>

lemma quote_loop_open:
  assumes "ch \<noteq> q" "q \<notin> set (it_runes it)" "q \<noteq> 0"
  shows "quote_loop q ch tok it = None"
proof (rule ccontr)
  assume "quote_loop q ch tok it \<noteq> None"
  then obtain r where ret: "quote_loop q ch tok it = Some r" by blast
  have "q \<noteq> 0 \<longrightarrow> ch = q \<or> q \<in> set (it_runes it)"
  proof (rule quote_loop.raw_induct
      [where P = "\<lambda>q ch tok it r. q \<noteq> 0 \<longrightarrow> ch = q \<or> q \<in> set (it_runes it)", OF _ ret])
    fix f q ch token it r
    assume IH: "\<And>q ch token it r. f q ch token it = Some r \<Longrightarrow> q \<noteq> 0 \<longrightarrow> ch = q \<or> q \<in> set (it_runes it)"
      and eq: "(if ch = q then Some (token, it)
      else if ch = rune_of CHR 0x5C then
        (case Next it of (ch1, line1, err1, it1) \<Rightarrow>
         case Next it1 of (ch2, line2, err2, it2) \<Rightarrow>
           f q ch2 (token @ (if ch1 = q then string_of_rune q else CHR 0x5C # string_of_rune ch1)) it2)
      else (case Next it of (ch1, line1, err1, it1) \<Rightarrow>
              f q ch1 (token @ string_of_rune ch) it1)) = Some r"
    have nx: "c = 0 \<or> c \<in> set (it_runes i)" "set (it_runes i') \<subseteq> set (it_runes i)"
      if "Next i = (c, l, e, i')" for i c l e i'
      using that by (auto simp: Next_def Let_def split: list.splits)
    obtain c1 l1 e1 i1 where n1: "Next it = (c1, l1, e1, i1)" by (cases "Next it")
    obtain c2 l2 e2 i2 where n2: "Next i1 = (c2, l2, e2, i2)" by (cases "Next i1")
    from eq n1 n2 have "ch = q \<or> (\<exists>t. f q c2 t i2 = Some r) \<or> (\<exists>t. f q c1 t i1 = Some r)"
      by (auto split: if_splits)
    then show "q \<noteq> 0 \<longrightarrow> ch = q \<or> q \<in> set (it_runes it)"
      using nx [OF n1] nx [OF n2] by (auto dest: IH)
  qed
  with assms show False by simp
qed

lemma lex_tokens_open_comment:
  assumes "lx_token lx = []" "10 \<notin> set cs"
  shows "lex_tokens (at lx (35 # cs) n) = None"
  using assms
  by (intro lex_tokens_stuck)
     (simp add: lex_round_nonspace lex_rest_def lex_comment_def comment_loop_open isSpace_def)

lemma lex_tokens_open_quote:
  assumes "lx_token lx = []" "is_quote q" "q \<notin> set cs"
  shows "lex_tokens (at lx (q # cs) n) = None"
proof (rule lex_tokens_stuck)
  note q = is_quote_facts [OF assms(2)]
  have "q \<noteq> 0" using assms(2) by (auto simp: is_quote_def)
  moreover obtain c l e i where nx: "Next \<lparr>it_runes = cs, it_line = n\<rparr> = (c, l, e, i)"
    by (cases "Next \<lparr>it_runes = cs, it_line = n\<rparr>")
  moreover have "c = 0 \<or> c \<in> set cs" "set (it_runes i) \<subseteq> set cs"
    using nx by (auto simp: Next_def Let_def split: list.splits)
  ultimately have "quote_loop q c [] i = None"
    using assms by (intro quote_loop_open) auto
  then show "lex_round (at lx (q # cs) n) = None"
    using assms q nx by (simp add: lex_round_nonspace lex_rest_def lex_var_def lex_quoted_def)
qed

lemma lex_stuck:
  assumes "newIter rd = lexemes_src l @ rest" "lexemes_ok defaultCustomLexers l"
    "\<And>lx n. lx_token lx = [] \<Longrightarrow> lex_tokens (at lx rest n) = None"
  shows "lex rd filename = None"
proof -
  let ?lx = "newLexer [] defaultCustomLexers"
  have "lex_tokens (at ?lx (lexemes_src l @ rest) 1) = None"
    using lex_tokens_prefix [of ?lx l rest 1] assms(2,3) by (auto simp: newLexer_def)
  then have "lex_tokens (newLexer (newIter rd) defaultCustomLexers) = None"
    unfolding assms(1) by (subst newLexer_at)
  then show ?thesis by (simp add: lex_tokens_def lex_def)
qed

section \<open>Every round makes progress\<close>

text \<open>
  The contract of a custom lexer: it reads forward only. Under it every round of the lexer loop
  consumes input, so the loop itself always ends; only an inner loop can fail to return.
\<close>

abbreviation remaining :: "lexer \<Rightarrow> nat" where
  "remaining lx \<equiv> length (it_runes (lx_iter lx))"

inductive rounds :: "lexer \<Rightarrow> lexer \<Rightarrow> bool" where
  rounds_done: "rounds lx lx"
| rounds_more: "lex_round lx = Some (Inr lx1) \<Longrightarrow> rounds lx1 lx2 \<Longrightarrow> rounds lx lx2"

lemma comment_loop_length:
  assumes "comment_loop ch tok it = Some r"
  shows "length (it_runes (snd r)) \<le> length (it_runes it)"
proof (rule comment_loop.raw_induct
    [where P = "\<lambda>ch tok it r. length (it_runes (snd r)) \<le> length (it_runes it)", OF _ assms])
  fix f ch token it r
  assume IH: "\<And>ch token it r. f ch token it = Some r \<Longrightarrow> length (it_runes (snd r)) \<le> length (it_runes it)"
    and eq: "(if ch = rune_of CHR 0x0A then Some (token, it)
       else case Next it of (ch', line', err, it') \<Rightarrow> f ch' (token @ string_of_rune ch) it') = Some r"
  obtain c l e i where nx: "Next it = (c, l, e, i)" by (cases "Next it")
  with eq have "r = (token, it) \<or> (\<exists>t. f c t i = Some r)" by (auto split: if_splits)
  with Next_length_le [OF nx] show "length (it_runes (snd r)) \<le> length (it_runes it)"
    by (auto dest: IH)
qed

lemma quote_loop_length:
  assumes "quote_loop q ch tok it = Some r"
  shows "length (it_runes (snd r)) \<le> length (it_runes it)"
proof (rule quote_loop.raw_induct
    [where P = "\<lambda>q ch tok it r. length (it_runes (snd r)) \<le> length (it_runes it)", OF _ assms])
  fix f q ch token it r
  assume IH: "\<And>q ch token it r. f q ch token it = Some r \<Longrightarrow> length (it_runes (snd r)) \<le> length (it_runes it)"
    and eq: "(if ch = q then Some (token, it)
      else if ch = rune_of CHR 0x5C then
        (case Next it of (ch1, line1, err1, it1) \<Rightarrow>
         case Next it1 of (ch2, line2, err2, it2) \<Rightarrow>
           f q ch2 (token @ (if ch1 = q then string_of_rune q else CHR 0x5C # string_of_rune ch1)) it2)
      else (case Next it of (ch1, line1, err1, it1) \<Rightarrow>
              f q ch1 (token @ string_of_rune ch) it1)) = Some r"
  obtain c1 l1 e1 i1 where n1: "Next it = (c1, l1, e1, i1)" by (cases "Next it")
  obtain c2 l2 e2 i2 where n2: "Next i1 = (c2, l2, e2, i2)" by (cases "Next i1")
  from eq n1 n2 have "r = (token, it) \<or> (\<exists>t. f q c2 t i2 = Some r) \<or> (\<exists>t. f q c1 t i1 = Some r)"
    by (auto split: if_splits)
  then show "length (it_runes (snd r)) \<le> length (it_runes it)"
    using Next_length_le [OF n1] Next_length_le [OF n2] by (auto dest!: IH)
qed

lemma var_loop_length:
  assumes "var_loop ch line tok it = Some r"
  shows "length (it_runes (snd (snd (snd r)))) \<le> length (it_runes it)"
proof (rule var_loop.raw_induct
    [where P = "\<lambda>ch line tok it r. length (it_runes (snd (snd (snd r)))) \<le> length (it_runes it)",
      OF _ assms])
  fix f ch line token it r
  assume IH: "\<And>ch line token it r. f ch line token it = Some r \<Longrightarrow>
        length (it_runes (snd (snd (snd r)))) \<le> length (it_runes it)"
    and eq: "(if last token \<noteq> CHR ''}'' \<and> \<not> isSpace ch
      then (case Next it of (ch', line', err, it') \<Rightarrow> f ch' line' (token @ string_of_rune ch) it')
      else Some (token, ch, line, it)) = Some r"
  obtain c l e i where nx: "Next it = (c, l, e, i)" by (cases "Next it")
  with eq have "r = (token, ch, line, it) \<or> (\<exists>t. f c l t i = Some r)" by (auto split: if_splits)
  with Next_length_le [OF nx] show "length (it_runes (snd (snd (snd r)))) \<le> length (it_runes it)"
    by (auto dest!: IH)
qed

locale custom_lexers =
  fixes ext :: "string \<rightharpoonup> custom_lexer"
  assumes reads_forward:
    "ext d = Some clx \<Longrightarrow> clx it w = Some (ts, e, it') \<Longrightarrow> length (it_runes it') \<le> length (it_runes it)"
begin

lemma emit_word_forward:
  assumes "emit_word lx = Some (Inr lx')" "externalLexer lx = ext"
  shows "remaining lx' \<le> remaining lx \<and> externalLexer lx' = ext"
  using assms reads_forward
  by (auto simp: emit_word_def lexer_custom_def Let_def split: if_splits option.splits bind_splits)

lemma lex_space_forward:
  assumes "lex_space lx ch line = Some (Inr (lx', ch', line'))" "externalLexer lx = ext"
  shows "remaining lx' \<le> remaining lx \<and> externalLexer lx' = ext"
  using assms
  by (auto simp: lex_space_def Let_def split: if_splits sum.splits bind_splits prod.splits
      dest!: skip_space_length dest: emit_word_forward)

lemma lex_quoted_forward:
  assumes "lex_quoted lx ch = Some (Inr lx')" "externalLexer lx = ext"
  shows "remaining lx' \<le> remaining lx \<and> externalLexer lx' = ext"
proof (cases "lx_token lx = []")
  case True
  obtain c l e i where nx: "Next (lx_iter lx) = (c, l, e, i)" by (cases "Next (lx_iter lx)")
  with assms True obtain t i' where q: "quote_loop ch c [] i = Some (t, i')"
    by (auto simp: lex_quoted_def split: bind_splits)
  have "length (it_runes i') \<le> remaining lx"
    using quote_loop_length [OF q] Next_length_le [OF nx] by simp
  with assms True nx q show ?thesis
    by (auto simp: lex_quoted_def lexer_custom_def Let_def
        split: if_splits option.splits bind_splits
        dest!: reads_forward [unfolded assms(2) [symmetric]])
next
  case False
  with assms show ?thesis by (auto simp: lex_quoted_def)
qed

lemma lex_rest_forward:
  assumes "lex_rest lx ch line = Some (Inr lx')" "externalLexer lx = ext"
  shows "remaining lx' \<le> remaining lx \<and> externalLexer lx' = ext"
proof -
  let ?lx0 = "if lx_token lx = [] then lx\<lparr>lx_line := line\<rparr> else lx"
  consider (comment) "lx_token lx = []" "ch = 35"
    | (escape) "\<not> (lx_token lx = [] \<and> ch = 35)" "ch = 92"
    | (other) "\<not> (lx_token lx = [] \<and> ch = 35)" "ch \<noteq> 92" by blast
  then show ?thesis
  proof cases
    case comment
    with assms(1) have "lex_comment lx ch line = Some lx'" by (simp add: lex_rest_def)
    then show ?thesis
      using assms(2) by (auto simp: lex_comment_def split: bind_splits dest!: comment_loop_length)
  next
    case escape
    with assms(1) have "lx' = lex_escape lx ch" by (simp add: lex_rest_def)
    moreover obtain c l e i where nx: "Next (lx_iter lx) = (c, l, e, i)" by (cases "Next (lx_iter lx)")
    ultimately show ?thesis using Next_length_le [OF nx] assms(2) by (simp add: lex_escape_def)
  next
    case other
    with assms(1) obtain lx2 c l where var: "lex_var ?lx0 ch line = Some (lx2, c, l)"
      and fin: "(if is_quote c then map_option (map_sum (\<lambda>(e, l). (Some e, l)) id) (lex_quoted lx2 c)
        else if is_punct c then Some (Inr (lex_punct lx2 c l))
        else Some (Inr (lx2\<lparr>lx_token := lx_token lx2 @ string_of_rune c\<rparr>))) = Some (Inr lx')"
      by (simp add: lex_rest_def bind_eq_Some_conv) blast
    have lx2: "remaining lx2 \<le> remaining lx \<and> externalLexer lx2 = ext"
      using var assms(2)
      by (auto simp: lex_var_def split: if_splits bind_splits dest!: var_loop_length)
    show ?thesis
    proof (cases "is_quote c")
      case True
      with fin obtain y where "lex_quoted lx2 c = Some y" "map_sum (\<lambda>(e, l). (Some e, l)) id y = Inr lx'"
        by auto
      then have "lex_quoted lx2 c = Some (Inr lx')" by (cases y) auto
      with lex_quoted_forward [of lx2 c lx'] lx2 show ?thesis by auto
    next
      case False
      with fin lx2 show ?thesis by (auto simp: lex_punct_def Let_def split: if_splits)
    qed
  qed
qed

lemma lex_round_forward:
  assumes "lex_round lx = Some (Inr lx')" "externalLexer lx = ext"
  shows "remaining lx' < remaining lx \<and> externalLexer lx' = ext"
proof -
  obtain c l e i where nx: "Next (lx_iter lx) = (c, l, e, i)" by (cases "Next (lx_iter lx)")
  with assms have e: "\<not> e" by (auto simp: lex_round_def)
  with nx have len: "length (it_runes i) < remaining lx"
    by (auto simp: Next_def Let_def split: list.splits)
  from assms(1) nx e obtain lx1 c1 l1 where
    sp: "lex_space (lx\<lparr>lx_iter := i\<rparr>) c l = Some (Inr (lx1, c1, l1))"
    and rest: "lex_rest lx1 c1 l1 = Some (Inr lx')"
    by (auto simp: lex_round_def split: bind_splits sum.splits)
  from lex_space_forward [OF sp] assms(2) have "remaining lx1 \<le> length (it_runes i) \<and> externalLexer lx1 = ext"
    by simp
  with lex_rest_forward [OF rest] len show ?thesis by auto
qed

text \<open>If the lexer does not return, some round it reaches is stuck in an inner loop.\<close>

lemma lexer_returns:
  assumes "lexer_lex lx = None" "externalLexer lx = ext"
  shows "\<exists>lx'. rounds lx lx' \<and> lex_round lx' = None"
  using assms
proof (induction "remaining lx" arbitrary: lx rule: less_induct)
  case less
  show ?case
  proof (cases "lex_round lx")
    case None
    then show ?thesis by (blast intro: rounds_done)
  next
    case (Some r)
    with less.prems obtain lx1 where r: "r = Inr lx1" "lexer_lex lx1 = None"
      by (auto simp: lexer_lex.simps [of lx] split: sum.splits)
    with lex_round_forward [of lx lx1] Some less.prems have "remaining lx1 < remaining lx" "externalLexer lx1 = ext"
      by auto
    with less.hyps r(2) obtain lx' where "rounds lx1 lx'" "lex_round lx' = None" by blast
    with Some r show ?thesis by (blast intro: rounds_more)
  qed
qed

end


lemma consumeSpace_length:
  "consumeSpace it = (ch, line, e, it') \<Longrightarrow> length (it_runes it') \<le> length (it_runes it)"
proof (induction it rule: consumeSpace.induct)
  case (1 it)
  obtain c l e' i where nx: "Next it = (c, l, e', i)" by (cases "Next it")
  with 1 Next_length_le [OF nx] show ?case
    by (fastforce simp: consumeSpace.simps [of it] split: if_splits)
qed

text \<open>The argument loop of \<open>set_by_lua_block\<close> ends at the end of the input only.\<close>

lemma lua_arg_loop_eof: "it_runes (snd (lua_arg_loop it arg tok)) = []"
proof (induction it arg tok rule: lua_arg_loop.induct)
  case (1 it arg tok)
  obtain c l e i where nx: "Next it = (c, l, e, i)" by (cases "Next it")
  show ?case
  proof (cases e)
    case True
    with nx show ?thesis
      by (auto simp: lua_arg_loop.simps [of it] Next_def Let_def split: list.splits)
  next
    case False
    obtain c' l' i' where sk: "skip_space c l i = (c', l', i')" by (cases "skip_space c l i")
    with 1 nx False show ?thesis
      by (auto simp: lua_arg_loop.simps [of it])
  qed
qed

lemma lua_quote_loop_length:
  assumes "lua_quote_loop q ch line tk it = Some r"
  shows "length (it_runes (snd (snd r))) \<le> length (it_runes it)"
proof (rule lua_quote_loop.raw_induct
    [where P = "\<lambda>q ch line tk it r. length (it_runes (snd (snd r))) \<le> length (it_runes it)", OF _ assms])
  fix f q ch line tk it r
  assume IH: "\<And>q ch line tk it r. f q ch line tk it = Some r \<Longrightarrow>
        length (it_runes (snd (snd r))) \<le> length (it_runes it)"
    and eq: "(if ch = q then Some (tk, line, it)
      else (case Next it of (ch', line', err, it') \<Rightarrow> f q ch' line' (tk @ string_of_rune ch) it')) = Some r"
  obtain c l e i where nx: "Next it = (c, l, e, i)" by (cases "Next it")
  with eq have "r = (tk, line, it) \<or> (\<exists>t. f q c l t i = Some r)" by (auto split: if_splits)
  with Next_length_le [OF nx] show "length (it_runes (snd (snd r))) \<le> length (it_runes it)"
    by (auto dest!: IH)
qed

lemma lua_switch_length:
  assumes "lua_switch ch line it depth tk = Some (d, t, l, it')"
  shows "length (it_runes it') \<le> length (it_runes it)"
proof -
  obtain c n e i where nx: "Next it = (c, n, e, i)" by (cases "Next it")
  then show ?thesis
    using assms Next_length_le [OF nx]
    by (auto simp: lua_switch_def split: if_splits bind_splits dest!: lua_quote_loop_length)
qed

lemma lua_block_loop_length:
  assumes "lua_block_loop it depth tk tok = Some r"
  shows "length (it_runes (snd (snd r))) \<le> length (it_runes it)"
proof (rule lua_block_loop.raw_induct
    [where P = "\<lambda>it depth tk tok r. length (it_runes (snd (snd r))) \<le> length (it_runes it)", OF _ assms])
  fix f it depth tk tok r
  assume IH: "\<And>it depth tk tok r. f it depth tk tok = Some r \<Longrightarrow>
        length (it_runes (snd (snd r))) \<le> length (it_runes it)"
    and eq: "(case Next it of (ch, line, err, it1) \<Rightarrow>
        if err then Some (None, tok, it1)
        else do {
          (depth, tk, line, it2) \<leftarrow> lua_switch ch line it1 depth tk;
          if depth < 0 then
            Some (Some (Ngx \<lparr>Reason = ''unexpected }'', Linenum = line, Filename = []\<rparr>), tok, it2)
          else if depth = 0 then
            Some (None, tok @ [\<lparr>tok_text = tk, tok_line = line, tok_quote = False\<rparr>,
                               \<lparr>tok_text = '';'', tok_line = line, tok_quote = False\<rparr>], it2)
          else f it2 depth (tk @ string_of_rune ch) tok
        }) = Some r"
  obtain c l e i where nx: "Next it = (c, l, e, i)" by (cases "Next it")
  show "length (it_runes (snd (snd r))) \<le> length (it_runes it)"
  proof (cases e)
    case True
    with eq nx Next_length_le [OF nx] show ?thesis by auto
  next
    case False
    with eq nx obtain d t n i2 where sw: "lua_switch c l i depth tk = Some (d, t, n, i2)"
      and "snd (snd r) = i2 \<or> (\<exists>t'. f i2 d t' tok = Some r)"
      by (fastforce split: bind_splits if_splits)
    then have "length (it_runes (snd (snd r))) \<le> length (it_runes i2)" by (auto dest: IH)
    with lua_switch_length [OF sw] Next_length_le [OF nx] show ?thesis by linarith
  qed
qed

lemma luaLexer_forward:
  assumes "luaLexer_lex it d = Some (ts, e, it')"
  shows "length (it_runes it') \<le> length (it_runes it)"
proof -
  let ?p = "if d = ''set_by_lua_block'' then lua_arg_loop it [] [] else ([], it)"
  obtain tok it0 where p: "?p = (tok, it0)" by (cases ?p)
  then have 0: "length (it_runes it0) \<le> length (it_runes it)"
    using lua_arg_loop_eof [of it "[]" "[]"] by (auto split: if_splits)
  obtain ch line err it1 where c: "consumeSpace it0 = (ch, line, err, it1)" by (cases "consumeSpace it0")
  from assms p c have "it' = it1 \<or> (\<exists>r. lua_block_loop it1 1 [] tok = Some r \<and> it' = snd (snd r))"
    unfolding luaLexer_lex_def by (auto simp: Let_def split: if_splits bind_splits)
  then have "length (it_runes it') \<le> length (it_runes it1)"
    by (auto dest!: lua_block_loop_length)
  with 0 consumeSpace_length [OF c] show ?thesis by simp
qed

interpretation lua: custom_lexers defaultCustomLexers
  by unfold_locales (auto simp: defaultCustomLexers_def luaLexer_forward split: if_splits)

section \<open>Properties of the lexer\<close>

definition brace_delta :: "token \<Rightarrow> int" where
  "brace_delta t =
     (if tok_quote t then 0 else if tok_text t = ''}'' then - 1
      else if tok_text t = ''{'' then 1 else 0)"

definition brace_depth :: "token list \<Rightarrow> int" where
  "brace_depth ts = sum_list (map brace_delta ts)"

lemma brace_depth_simps [simp]:
  "brace_depth [] = 0" "brace_depth (t # ts) = brace_delta t + brace_depth ts"
  "brace_depth (ts @ us) = brace_depth ts + brace_depth us"
  by (simp_all add: brace_depth_def)

lemma balance_loop_Cons:
  "balance_loop (t # ts) depth line f =
     (if depth + brace_delta t < 0
      then Some \<lparr>Reason = ''unexpected }'', Linenum = tok_line t, Filename = f\<rparr>
      else balance_loop ts (depth + brace_delta t) (tok_line t) f)"
  by (auto simp: brace_delta_def Let_def)

lemma all_take_Cons:
  "(\<forall>k \<le> length (x # xs). P (take k (x # xs))) \<longleftrightarrow> P [] \<and> (\<forall>k \<le> length xs. P (x # take k xs))"
proof -
  have "(\<forall>k \<le> Suc n. Q k) \<longleftrightarrow> Q 0 \<and> (\<forall>k \<le> n. Q (Suc k))" for Q and n :: nat
    by (metis Suc_le_mono not0_implies_Suc zero_le)
  from this [of "length xs" "\<lambda>k. P (take k (x # xs))"] show ?thesis by simp
qed

lemma balance_loop_None:
  "0 \<le> depth \<Longrightarrow> balance_loop ts depth line f = None \<longleftrightarrow>
     (\<forall>k \<le> length ts. 0 \<le> depth + brace_depth (take k ts)) \<and> depth + brace_depth ts = 0"
proof (induction ts arbitrary: depth line)
  case Nil
  then show ?case by auto
next
  case (Cons t ts)
  show ?case
  proof (cases "depth + brace_delta t < 0")
    case True
    then have "\<not> (\<forall>k \<le> length (t # ts). 0 \<le> depth + brace_depth (take k (t # ts)))"
      by (auto intro!: exI [of _ 1])
    with True show ?thesis by (simp only: balance_loop_Cons if_True) blast
  next
    case False
    with Cons all_take_Cons [of t ts "\<lambda>xs. 0 \<le> depth + brace_depth xs"] show ?thesis
      by (simp add: balance_loop_Cons add.assoc del: balance_loop.simps)
  qed
qed

lemma balance_loop_Some:
  "balance_loop ts depth line f = Some e \<Longrightarrow> 0 \<le> depth \<Longrightarrow>
     Filename e = f \<and>
     ((\<exists>pre t post. ts = pre @ t # post \<and> depth + brace_depth (pre @ [t]) < 0 \<and>
         Reason e = ''unexpected }'' \<and> Linenum e = tok_line t) \<or>
      (0 < depth + brace_depth ts \<and> Reason e = ''unexpected end of file, expecting }''))"
proof (induction ts arbitrary: depth line)
  case Nil
  then show ?case by (auto split: if_splits)
next
  case (Cons t ts)
  show ?case
  proof (cases "depth + brace_delta t < 0")
    case True
    then have "t # ts = [] @ t # ts \<and> depth + brace_depth ([] @ [t]) < 0" by simp
    with True Cons.prems show ?thesis
      by (simp only: balance_loop_Cons if_True option.inject) (metis ngx_error.select_convs)
  next
    case False
    with Cons.prems Cons.IH [of "depth + brace_delta t" "tok_line t"]
    have "Filename e = f \<and>
      ((\<exists>pre u post. ts = pre @ u # post \<and> depth + brace_depth ((t # pre) @ [u]) < 0 \<and>
          Reason e = ''unexpected }'' \<and> Linenum e = tok_line u) \<or>
       (0 < depth + brace_depth (t # ts) \<and> Reason e = ''unexpected end of file, expecting }''))"
      by (simp only: balance_loop_Cons if_False) (simp add: add.assoc)
    then show ?thesis by (metis append_Cons)
  qed
qed


text \<open>
  Lexing (C3). A source text made of well-formed lexemes (white space, words, closed quoted
  strings, punctuation, closed comments) whose braces balance is lexed into exactly the tokens of
  its lexemes, each with its text, its starting line and its quoting.
\<close>

theorem lex_tokens_exact:
  assumes "newIter rd = lexemes_src l" "lexemes_ok defaultCustomLexers l"
    and "balanceBraces (lexemes_tokens 1 l) filename = None"
  shows "lex rd filename = Some (Inr (lexemes_tokens 1 l))"
  using assms by (rule lex_lexemes)

theorem lex_tokens_exact_witness:
  "lex ''a b;'' ''f'' =
     Some (Inr [\<lparr>tok_text = ''a'', tok_line = 1, tok_quote = False\<rparr>,
                \<lparr>tok_text = ''b'', tok_line = 1, tok_quote = False\<rparr>,
                \<lparr>tok_text = '';'', tok_line = 1, tok_quote = False\<rparr>])"
proof -
  let ?l = "[LWord 97 [], LSpace 32, LWord 98 [], LPunct 59]"
  have "newIter ''a b;'' = lexemes_src ?l"
    by (simp add: newIter_def ascii_def)
  moreover have "lexemes_ok defaultCustomLexers ?l"
    by (simp add: plain_first_def isSpace_def is_quote_def is_punct_def defaultCustomLexers_def
        lua_directives_def string_of_rune_def)
  moreover have "balanceBraces (lexemes_tokens 1 ?l) ''f'' = None"
    by (simp add: balanceBraces_def string_of_rune_ascii [of "CHR ''a''", simplified]
        string_of_rune_ascii [of "CHR ''b''", simplified] ascii_def)
  ultimately have "lex ''a b;'' ''f'' = Some (Inr (lexemes_tokens 1 ?l))"
    by (rule lex_tokens_exact)
  then show ?thesis
    by (simp add: string_of_rune_ascii [of "CHR ''a''", simplified]
        string_of_rune_ascii [of "CHR ''b''", simplified] ascii_def)
qed

text \<open>
  Progress of the lexer (C29). When \<open>lex\<close> does not return, the lexer has reached a round that is
  stuck in one of the loops that look for a closing rune; the outer loop never runs for ever.
\<close>

theorem lex_returns_unless_stuck:
  assumes "lex rd filename = None"
  shows "\<exists>lx. rounds (newLexer (newIter rd) defaultCustomLexers) lx \<and> lex_round lx = None"
proof -
  have "lexer_lex (newLexer (newIter rd) defaultCustomLexers) = None"
    using assms
    by (cases "lexer_lex (newLexer (newIter rd) defaultCustomLexers)")
       (auto simp: lex_def split: option.splits)
  then show ?thesis by (rule lua.lexer_returns) (simp add: newLexer_def)
qed

text \<open>
  Unterminated comment (C21). A comment on the last line with no line feed after it makes the lexer
  run for ever, whatever well-formed text comes before it.
\<close>

theorem lex_open_comment_hangs:
  assumes "newIter rd = lexemes_src l @ 35 # cs" "lexemes_ok defaultCustomLexers l" "10 \<notin> set cs"
  shows "lex rd filename = None"
  using assms(1,2) by (rule lex_stuck) (rule lex_tokens_open_comment [OF _ assms(3)])

theorem lex_open_comment_hangs_witness: "lex ''#x'' ''f'' = None"
  by (rule lex_open_comment_hangs [of _ "[]" "[120]"]) (simp_all add: newIter_def ascii_def)

theorem lex_returns_unless_stuck_witness:
  "\<exists>lx. rounds (newLexer (newIter ''#x'') defaultCustomLexers) lx \<and> lex_round lx = None"
proof (rule lex_returns_unless_stuck)
  show "lex ''#x'' [] = None"
    by (rule lex_stuck [of _ "[]" "[35, 120]"])
       (simp_all add: newIter_def ascii_def lex_tokens_open_comment)
qed

text \<open>
  Unterminated string. A quoted string with no closing quote before the end of the input makes
  the lexer run for ever.
\<close>

theorem lex_open_quote_hangs:
  assumes "newIter rd = lexemes_src l @ q # cs" "lexemes_ok defaultCustomLexers l"
    and "is_quote q" "q \<notin> set cs"
  shows "lex rd filename = None"
  using assms(1,2) by (rule lex_stuck) (rule lex_tokens_open_quote [OF _ assms(3,4)])

theorem lex_open_quote_hangs_witness: "lex [CHR 0x27, CHR ''x''] ''f'' = None"
  by (rule lex_open_quote_hangs [of _ "[]" 39 "[120]"])
     (simp_all add: newIter_def ascii_def is_quote_def)

text \<open>
  The brace check (C22). \<open>balanceBraces\<close> accepts a token list exactly when its unquoted braces are
  balanced: no prefix closes more than it opened and the whole list closes everything.
\<close>

theorem balanceBraces_accepts_iff:
  "balanceBraces ts filename = None \<longleftrightarrow>
     list_all (\<lambda>pre. 0 \<le> brace_depth pre) (prefixes ts) \<and> brace_depth ts = 0"
  using balance_loop_None [of 0 ts 0 filename]
  by (simp add: balanceBraces_def list_all_prefixes)

text \<open>
  The brace check's report. A rejected token list is reported either at the token whose
  closing brace has no partner, with its line, or as a missing closing brace at the end.
\<close>

theorem balanceBraces_report:
  assumes "balanceBraces ts filename = Some e"
  shows "Filename e = filename \<and>
     ((\<exists>pre t post. ts = pre @ t # post \<and> brace_depth (pre @ [t]) < 0 \<and>
         Reason e = ''unexpected }'' \<and> Linenum e = tok_line t) \<or>
      (0 < brace_depth ts \<and> Reason e = ''unexpected end of file, expecting }''))"
  using balance_loop_Some [of ts 0 0 filename e] assms by (simp add: balanceBraces_def)

theorem balanceBraces_report_witness:
  "let ts = [\<lparr>tok_text = ''}'', tok_line = 7, tok_quote = False\<rparr>];
       e = \<lparr>Reason = ''unexpected }'', Linenum = 7, Filename = ''f''\<rparr>
   in Filename e = ''f'' \<and>
     ((\<exists>pre t post. ts = pre @ t # post \<and> brace_depth (pre @ [t]) < 0 \<and>
         Reason e = ''unexpected }'' \<and> Linenum e = tok_line t) \<or>
      (0 < brace_depth ts \<and> Reason e = ''unexpected end of file, expecting }''))"
  unfolding Let_def by (rule balanceBraces_report) (simp add: balanceBraces_def)

text \<open>
  Lua blocks. The Lua lexer returns no tokens: the block body of every \<open>*_by_lua_block\<close>
  directive is read and dropped, and for \<open>set_by_lua_block\<close> it always ends in the error
  \<open>io.EOF\<close>.
\<close>

theorem luaLexer_drops_block:
  "map_option fst (luaLexer_lex it d) \<in> {None, Some []} \<and>
   (\<exists>it'. luaLexer_lex it ''set_by_lua_block'' = Some ([], Some EOF, it'))"
proof
  show "map_option fst (luaLexer_lex it d) \<in> {None, Some []}"
    by (simp add: luaLexer_lex_def Let_def split: prod.splits bind_splits)
next
  obtain tok it0 where p: "lua_arg_loop it [] [] = (tok, it0)" by (cases "lua_arg_loop it [] []")
  with lua_arg_loop_eof [of it "[]" "[]"] have "consumeSpace it0 = (0, 0, True, it0)"
    by (simp add: consumeSpace.simps)
  with p show "\<exists>it'. luaLexer_lex it ''set_by_lua_block'' = Some ([], Some EOF, it')"
    by (simp add: luaLexer_lex_def)
qed

end
