(* ===== verification/Config_Directives.thy ===== *)
theory Config_Directives
  imports Prelude "HOL-Library.Word"
begin

text \<open>
  The data of \<open>config_analyze.go\<close>: the bit masks for argument styles and configuration contexts,
  the table \<open>directives\<close> of every known directive with its masks, and the table \<open>contexts\<close> of the
  known block nestings. A Go \<open>int\<close> mask is a 64-bit word.
\<close>

unbundle bit_operations_syntax

type_synonym mask = "64 word"

section \<open>Masks\<close>

definition NGXConfNoArgs :: mask where "NGXConfNoArgs = 0x00000001"  \<comment> \<open>0 args\<close>

definition NGXConfTake1 :: mask where "NGXConfTake1 = 0x00000002"  \<comment> \<open>1 args\<close>

definition NGXConfTake2 :: mask where "NGXConfTake2 = 0x00000004"  \<comment> \<open>2 args\<close>

definition NGXConfTake3 :: mask where "NGXConfTake3 = 0x00000008"  \<comment> \<open>3 args\<close>

definition NGXConfTake4 :: mask where "NGXConfTake4 = 0x00000010"  \<comment> \<open>4 args\<close>

definition NGXConfTake5 :: mask where "NGXConfTake5 = 0x00000020"  \<comment> \<open>5 args\<close>

definition NGXConfTake6 :: mask where "NGXConfTake6 = 0x00000040"  \<comment> \<open>6 args\<close>

definition NGXConfTake7 :: mask where "NGXConfTake7 = 0x00000080"  \<comment> \<open>7 args\<close>

definition NGXConfBlock :: mask where "NGXConfBlock = 0x00000100"  \<comment> \<open>followed by block\<close>

definition NGXConfFlag :: mask where "NGXConfFlag = 0x00000200"  \<comment> \<open>'on' or 'off'\<close>

definition NGXConfAny :: mask where "NGXConfAny = 0x00000400"  \<comment> \<open>>=0 args\<close>

definition NGXConf1More :: mask where "NGXConf1More = 0x00000800"  \<comment> \<open>>=1 args\<close>

definition NGXConf2More :: mask where "NGXConf2More = 0x00001000"  \<comment> \<open>>=2 args\<close>

definition NGXConfTake12 :: mask where "NGXConfTake12 = NGXConfTake1 OR NGXConfTake2"

definition NGXConfTake13 :: mask where "NGXConfTake13 = NGXConfTake1 OR NGXConfTake3"

definition NGXConfTake23 :: mask where "NGXConfTake23 = NGXConfTake2 OR NGXConfTake3"

definition NGXConfTake123 :: mask where "NGXConfTake123 = NGXConfTake12 OR NGXConfTake3"

definition NGXConfTake1234 :: mask where "NGXConfTake1234 = NGXConfTake123 OR NGXConfTake4"

definition NGXDirectConf :: mask where "NGXDirectConf = 0x00010000"  \<comment> \<open>main file (not used)\<close>

definition NGXMainConf :: mask where "NGXMainConf = 0x00040000"  \<comment> \<open>main context\<close>

definition NGXEventConf :: mask where "NGXEventConf = 0x00080000"  \<comment> \<open>events\<close>

definition NGXMailMainConf :: mask where "NGXMailMainConf = 0x00100000"  \<comment> \<open>mail\<close>

definition NGXMailSrvConf :: mask where "NGXMailSrvConf = 0x00200000"  \<comment> \<open>mail > server\<close>

definition NGXStreamMainConf :: mask where "NGXStreamMainConf = 0x00400000"  \<comment> \<open>stream\<close>

definition NGXStreamSrvConf :: mask where "NGXStreamSrvConf = 0x00800000"  \<comment> \<open>stream > server\<close>

definition NGXStreamUpsConf :: mask where "NGXStreamUpsConf = 0x01000000"  \<comment> \<open>stream > upstream\<close>

definition NGXHttpMainConf :: mask where "NGXHttpMainConf = 0x02000000"  \<comment> \<open>http\<close>

definition NGXHttpSrvConf :: mask where "NGXHttpSrvConf = 0x04000000"  \<comment> \<open>http > server\<close>

definition NGXHttpLocConf :: mask where "NGXHttpLocConf = 0x08000000"  \<comment> \<open>http > location\<close>

definition NGXHttpUpsConf :: mask where "NGXHttpUpsConf = 0x10000000"  \<comment> \<open>http > upstream\<close>

definition NGXHttpSifConf :: mask where "NGXHttpSifConf = 0x20000000"  \<comment> \<open>http > server > if\<close>

definition NGXHttpLifConf :: mask where "NGXHttpLifConf = 0x40000000"  \<comment> \<open>http > location > if\<close>

definition NGXHttpLmtConf :: mask where "NGXHttpLmtConf = 0x80000000"  \<comment> \<open>http > location > limit_except\<close>

definition NGXHttpOauth2Conf :: mask where "NGXHttpOauth2Conf = 0x100000000"  \<comment> \<open>http > oauth2\<close>

definition NGXAnyConf :: mask where
  "NGXAnyConf = NGXMainConf OR NGXEventConf OR NGXMailMainConf OR NGXMailSrvConf OR
     NGXStreamMainConf OR NGXStreamSrvConf OR NGXStreamUpsConf OR
     NGXHttpMainConf OR NGXHttpSrvConf OR NGXHttpLocConf OR NGXHttpUpsConf OR NGXHttpOauth2Conf"

lemmas mask_defs =
  NGXConfNoArgs_def NGXConfTake1_def NGXConfTake2_def NGXConfTake3_def
  NGXConfTake4_def NGXConfTake5_def NGXConfTake6_def NGXConfTake7_def
  NGXConfBlock_def NGXConfFlag_def NGXConfAny_def NGXConf1More_def
  NGXConf2More_def NGXConfTake12_def NGXConfTake13_def NGXConfTake23_def
  NGXConfTake123_def NGXConfTake1234_def NGXDirectConf_def NGXMainConf_def
  NGXEventConf_def NGXMailMainConf_def NGXMailSrvConf_def NGXStreamMainConf_def
  NGXStreamSrvConf_def NGXStreamUpsConf_def NGXHttpMainConf_def NGXHttpSrvConf_def
  NGXHttpLocConf_def NGXHttpUpsConf_def NGXHttpSifConf_def NGXHttpLifConf_def
  NGXHttpLmtConf_def NGXHttpOauth2Conf_def NGXAnyConf_def

section \<open>The directive table\<close>

definition directives_1 :: "(string \<times> mask list) list" where
  "directives_1 =
    [(''absolute_redirect'', [NGXHttpMainConf OR NGXHttpSrvConf OR NGXHttpLocConf OR NGXConfFlag]),
     (''accept_mutex'', [NGXEventConf OR NGXConfFlag]),
     (''accept_mutex_delay'', [NGXEventConf OR NGXConfTake1]),
     (''access_log'',
       [NGXHttpMainConf OR NGXHttpSrvConf OR NGXHttpLocConf OR NGXHttpLifConf OR NGXHttpLmtConf OR NGXConf1More,
        NGXStreamMainConf OR NGXStreamSrvConf OR NGXConf1More]),
     (''add_after_body'', [NGXHttpMainConf OR NGXHttpSrvConf OR NGXHttpLocConf OR NGXConfTake1]),
     (''add_before_body'', [NGXHttpMainConf OR NGXHttpSrvConf OR NGXHttpLocConf OR NGXConfTake1]),
     (''add_header'',
       [NGXHttpMainConf OR NGXHttpSrvConf OR NGXHttpLocConf OR NGXHttpLifConf OR NGXConfTake23]),
     (''add_trailer'',
       [NGXHttpMainConf OR NGXHttpSrvConf OR NGXHttpLocConf OR NGXHttpLifConf OR NGXConfTake23]),
     (''addition_types'', [NGXHttpMainConf OR NGXHttpSrvConf OR NGXHttpLocConf OR NGXConf1More]),
     (''aio'', [NGXHttpMainConf OR NGXHttpSrvConf OR NGXHttpLocConf OR NGXConfTake1]),
     (''aio_write'', [NGXHttpMainConf OR NGXHttpSrvConf OR NGXHttpLocConf OR NGXConfFlag]),
     (''alias'', [NGXHttpLocConf OR NGXConfTake1]),
     (''allow'',
       [NGXHttpMainConf OR NGXHttpSrvConf OR NGXHttpLocConf OR NGXHttpLmtConf OR NGXConfTake1,
        NGXStreamMainConf OR NGXStreamSrvConf OR NGXConfTake1]),
     (''ancient_browser'', [NGXHttpMainConf OR NGXHttpSrvConf OR NGXHttpLocConf OR NGXConf1More]),
     (''ancient_browser_value'',
       [NGXHttpMainConf OR NGXHttpSrvConf OR NGXHttpLocConf OR NGXConfTake1]),
     (''auth_basic'',
       [NGXHttpMainConf OR NGXHttpSrvConf OR NGXHttpLocConf OR NGXHttpLmtConf OR NGXConfTake1]),
     (''auth_basic_user_file'',
       [NGXHttpMainConf OR NGXHttpSrvConf OR NGXHttpLocConf OR NGXHttpLmtConf OR NGXConfTake1]),
     (''auth_http'', [NGXMailMainConf OR NGXMailSrvConf OR NGXConfTake1]),
     (''auth_http_header'', [NGXMailMainConf OR NGXMailSrvConf OR NGXConfTake2]),
     (''auth_http_pass_client_cert'', [NGXMailMainConf OR NGXMailSrvConf OR NGXConfFlag]),
     (''auth_http_timeout'', [NGXMailMainConf OR NGXMailSrvConf OR NGXConfTake1]),
     (''auth_request'', [NGXHttpMainConf OR NGXHttpSrvConf OR NGXHttpLocConf OR NGXConfTake1]),
     (''auth_request_set'', [NGXHttpMainConf OR NGXHttpSrvConf OR NGXHttpLocConf OR NGXConfTake2]),
     (''autoindex'', [NGXHttpMainConf OR NGXHttpSrvConf OR NGXHttpLocConf OR NGXConfFlag]),
     (''autoindex_exact_size'', [NGXHttpMainConf OR NGXHttpSrvConf OR NGXHttpLocConf OR NGXConfFlag]),
     (''autoindex_format'', [NGXHttpMainConf OR NGXHttpSrvConf OR NGXHttpLocConf OR NGXConfTake1]),
     (''autoindex_localtime'', [NGXHttpMainConf OR NGXHttpSrvConf OR NGXHttpLocConf OR NGXConfFlag]),
     (''break'',
       [NGXHttpSrvConf OR NGXHttpSifConf OR NGXHttpLocConf OR NGXHttpLifConf OR NGXConfNoArgs]),
     (''charset'',
       [NGXHttpMainConf OR NGXHttpSrvConf OR NGXHttpLocConf OR NGXHttpLifConf OR NGXConfTake1]),
     (''charset_map'', [NGXHttpMainConf OR NGXConfBlock OR NGXConfTake2]),
     (''charset_types'', [NGXHttpMainConf OR NGXHttpSrvConf OR NGXHttpLocConf OR NGXConf1More]),
     (''chunked_transfer_encoding'',
       [NGXHttpMainConf OR NGXHttpSrvConf OR NGXHttpLocConf OR NGXConfFlag]),
     (''client_body_buffer_size'',
       [NGXHttpMainConf OR NGXHttpSrvConf OR NGXHttpLocConf OR NGXConfTake1]),
     (''client_body_in_file_only'',
       [NGXHttpMainConf OR NGXHttpSrvConf OR NGXHttpLocConf OR NGXConfTake1]),
     (''client_body_in_single_buffer'',
       [NGXHttpMainConf OR NGXHttpSrvConf OR NGXHttpLocConf OR NGXConfFlag]),
     (''client_body_temp_path'',
       [NGXHttpMainConf OR NGXHttpSrvConf OR NGXHttpLocConf OR NGXConfTake1234]),
     (''client_body_timeout'', [NGXHttpMainConf OR NGXHttpSrvConf OR NGXHttpLocConf OR NGXConfTake1]),
     (''client_header_buffer_size'', [NGXHttpMainConf OR NGXHttpSrvConf OR NGXConfTake1]),
     (''client_header_timeout'', [NGXHttpMainConf OR NGXHttpSrvConf OR NGXConfTake1]),
     (''client_max_body_size'',
       [NGXHttpMainConf OR NGXHttpSrvConf OR NGXHttpLocConf OR NGXConfTake1]),
     (''connection_pool_size'', [NGXHttpMainConf OR NGXHttpSrvConf OR NGXConfTake1]),
     (''create_full_put_path'', [NGXHttpMainConf OR NGXHttpSrvConf OR NGXHttpLocConf OR NGXConfFlag]),
     (''daemon'', [NGXMainConf OR NGXDirectConf OR NGXConfFlag]),
     (''dav_access'', [NGXHttpMainConf OR NGXHttpSrvConf OR NGXHttpLocConf OR NGXConfTake123]),
     (''dav_methods'', [NGXHttpMainConf OR NGXHttpSrvConf OR NGXHttpLocConf OR NGXConf1More]),
     (''debug_connection'', [NGXEventConf OR NGXConfTake1]),
     (''debug_points'', [NGXMainConf OR NGXDirectConf OR NGXConfTake1]),
     (''default_type'', [NGXHttpMainConf OR NGXHttpSrvConf OR NGXHttpLocConf OR NGXConfTake1]),
     (''deny'',
       [NGXHttpMainConf OR NGXHttpSrvConf OR NGXHttpLocConf OR NGXHttpLmtConf OR NGXConfTake1,
        NGXStreamMainConf OR NGXStreamSrvConf OR NGXConfTake1]),
     (''directio'', [NGXHttpMainConf OR NGXHttpSrvConf OR NGXHttpLocConf OR NGXConfTake1]),
     (''directio_alignment'', [NGXHttpMainConf OR NGXHttpSrvConf OR NGXHttpLocConf OR NGXConfTake1]),
     (''disable_symlinks'', [NGXHttpMainConf OR NGXHttpSrvConf OR NGXHttpLocConf OR NGXConfTake12]),
     (''empty_gif'', [NGXHttpLocConf OR NGXConfNoArgs]),
     (''env'', [NGXMainConf OR NGXDirectConf OR NGXConfTake1]),
     (''error_log'',
       [NGXMainConf OR NGXConf1More,
        NGXHttpMainConf OR NGXHttpSrvConf OR NGXHttpLocConf OR NGXConf1More,
        NGXMailMainConf OR NGXMailSrvConf OR NGXConf1More,
        NGXStreamMainConf OR NGXStreamSrvConf OR NGXConf1More]),
     (''error_page'',
       [NGXHttpMainConf OR NGXHttpSrvConf OR NGXHttpLocConf OR NGXHttpLifConf OR NGXConf2More]),
     (''etag'', [NGXHttpMainConf OR NGXHttpSrvConf OR NGXHttpLocConf OR NGXConfFlag]),
     (''events'', [NGXMainConf OR NGXConfBlock OR NGXConfNoArgs]),
     (''expires'',
       [NGXHttpMainConf OR NGXHttpSrvConf OR NGXHttpLocConf OR NGXHttpLifConf OR NGXConfTake12]),
     (''fastcgi_bind'', [NGXHttpMainConf OR NGXHttpSrvConf OR NGXHttpLocConf OR NGXConfTake12]),
     (''fastcgi_buffer_size'', [NGXHttpMainConf OR NGXHttpSrvConf OR NGXHttpLocConf OR NGXConfTake1]),
     (''fastcgi_buffering'', [NGXHttpMainConf OR NGXHttpSrvConf OR NGXHttpLocConf OR NGXConfFlag]),
     (''fastcgi_buffers'', [NGXHttpMainConf OR NGXHttpSrvConf OR NGXHttpLocConf OR NGXConfTake2]),
     (''fastcgi_busy_buffers_size'',
       [NGXHttpMainConf OR NGXHttpSrvConf OR NGXHttpLocConf OR NGXConfTake1]),
     (''fastcgi_cache'', [NGXHttpMainConf OR NGXHttpSrvConf OR NGXHttpLocConf OR NGXConfTake1]),
     (''fastcgi_cache_background_update'',
       [NGXHttpMainConf OR NGXHttpSrvConf OR NGXHttpLocConf OR NGXConfFlag]),
     (''fastcgi_cache_bypass'',
       [NGXHttpMainConf OR NGXHttpSrvConf OR NGXHttpLocConf OR NGXConf1More]),
     (''fastcgi_cache_key'', [NGXHttpMainConf OR NGXHttpSrvConf OR NGXHttpLocConf OR NGXConfTake1]),
     (''fastcgi_cache_lock'', [NGXHttpMainConf OR NGXHttpSrvConf OR NGXHttpLocConf OR NGXConfFlag]),
     (''fastcgi_cache_lock_age'',
       [NGXHttpMainConf OR NGXHttpSrvConf OR NGXHttpLocConf OR NGXConfTake1])]"

definition directives_2 :: "(string \<times> mask list) list" where
  "directives_2 =
    [(''fastcgi_cache_lock_timeout'',
       [NGXHttpMainConf OR NGXHttpSrvConf OR NGXHttpLocConf OR NGXConfTake1]),
     (''fastcgi_cache_max_range_offset'',
       [NGXHttpMainConf OR NGXHttpSrvConf OR NGXHttpLocConf OR NGXConfTake1]),
     (''fastcgi_cache_methods'',
       [NGXHttpMainConf OR NGXHttpSrvConf OR NGXHttpLocConf OR NGXConf1More]),
     (''fastcgi_cache_min_uses'',
       [NGXHttpMainConf OR NGXHttpSrvConf OR NGXHttpLocConf OR NGXConfTake1]),
     (''fastcgi_cache_path'', [NGXHttpMainConf OR NGXConf2More]),
     (''fastcgi_cache_revalidate'',
       [NGXHttpMainConf OR NGXHttpSrvConf OR NGXHttpLocConf OR NGXConfFlag]),
     (''fastcgi_cache_use_stale'',
       [NGXHttpMainConf OR NGXHttpSrvConf OR NGXHttpLocConf OR NGXConf1More]),
     (''fastcgi_cache_valid'', [NGXHttpMainConf OR NGXHttpSrvConf OR NGXHttpLocConf OR NGXConf1More]),
     (''fastcgi_catch_stderr'',
       [NGXHttpMainConf OR NGXHttpSrvConf OR NGXHttpLocConf OR NGXConfTake1]),
     (''fastcgi_connect_timeout'',
       [NGXHttpMainConf OR NGXHttpSrvConf OR NGXHttpLocConf OR NGXConfTake1]),
     (''fastcgi_force_ranges'', [NGXHttpMainConf OR NGXHttpSrvConf OR NGXHttpLocConf OR NGXConfFlag]),
     (''fastcgi_hide_header'', [NGXHttpMainConf OR NGXHttpSrvConf OR NGXHttpLocConf OR NGXConfTake1]),
     (''fastcgi_ignore_client_abort'',
       [NGXHttpMainConf OR NGXHttpSrvConf OR NGXHttpLocConf OR NGXConfFlag]),
     (''fastcgi_ignore_headers'',
       [NGXHttpMainConf OR NGXHttpSrvConf OR NGXHttpLocConf OR NGXConf1More]),
     (''fastcgi_index'', [NGXHttpMainConf OR NGXHttpSrvConf OR NGXHttpLocConf OR NGXConfTake1]),
     (''fastcgi_intercept_errors'',
       [NGXHttpMainConf OR NGXHttpSrvConf OR NGXHttpLocConf OR NGXConfFlag]),
     (''fastcgi_keep_conn'', [NGXHttpMainConf OR NGXHttpSrvConf OR NGXHttpLocConf OR NGXConfFlag]),
     (''fastcgi_limit_rate'', [NGXHttpMainConf OR NGXHttpSrvConf OR NGXHttpLocConf OR NGXConfTake1]),
     (''fastcgi_max_temp_file_size'',
       [NGXHttpMainConf OR NGXHttpSrvConf OR NGXHttpLocConf OR NGXConfTake1]),
     (''fastcgi_next_upstream'',
       [NGXHttpMainConf OR NGXHttpSrvConf OR NGXHttpLocConf OR NGXConf1More]),
     (''fastcgi_next_upstream_timeout'',
       [NGXHttpMainConf OR NGXHttpSrvConf OR NGXHttpLocConf OR NGXConfTake1]),
     (''fastcgi_next_upstream_tries'',
       [NGXHttpMainConf OR NGXHttpSrvConf OR NGXHttpLocConf OR NGXConfTake1]),
     (''fastcgi_no_cache'', [NGXHttpMainConf OR NGXHttpSrvConf OR NGXHttpLocConf OR NGXConf1More]),
     (''fastcgi_param'', [NGXHttpMainConf OR NGXHttpSrvConf OR NGXHttpLocConf OR NGXConfTake23]),
     (''fastcgi_pass'', [NGXHttpLocConf OR NGXHttpLifConf OR NGXConfTake1]),
     (''fastcgi_pass_header'', [NGXHttpMainConf OR NGXHttpSrvConf OR NGXHttpLocConf OR NGXConfTake1]),
     (''fastcgi_pass_request_body'',
       [NGXHttpMainConf OR NGXHttpSrvConf OR NGXHttpLocConf OR NGXConfFlag]),
     (''fastcgi_pass_request_headers'',
       [NGXHttpMainConf OR NGXHttpSrvConf OR NGXHttpLocConf OR NGXConfFlag]),
     (''fastcgi_read_timeout'',
       [NGXHttpMainConf OR NGXHttpSrvConf OR NGXHttpLocConf OR NGXConfTake1]),
     (''fastcgi_request_buffering'',
       [NGXHttpMainConf OR NGXHttpSrvConf OR NGXHttpLocConf OR NGXConfFlag]),
     (''fastcgi_send_lowat'', [NGXHttpMainConf OR NGXHttpSrvConf OR NGXHttpLocConf OR NGXConfTake1]),
     (''fastcgi_send_timeout'',
       [NGXHttpMainConf OR NGXHttpSrvConf OR NGXHttpLocConf OR NGXConfTake1]),
     (''fastcgi_socket_keepalive'',
       [NGXHttpMainConf OR NGXHttpSrvConf OR NGXHttpLocConf OR NGXConfFlag]),
     (''fastcgi_split_path_info'',
       [NGXHttpMainConf OR NGXHttpSrvConf OR NGXHttpLocConf OR NGXConfTake1]),
     (''fastcgi_store'', [NGXHttpMainConf OR NGXHttpSrvConf OR NGXHttpLocConf OR NGXConfTake1]),
     (''fastcgi_store_access'',
       [NGXHttpMainConf OR NGXHttpSrvConf OR NGXHttpLocConf OR NGXConfTake123]),
     (''fastcgi_temp_file_write_size'',
       [NGXHttpMainConf OR NGXHttpSrvConf OR NGXHttpLocConf OR NGXConfTake1]),
     (''fastcgi_temp_path'',
       [NGXHttpMainConf OR NGXHttpSrvConf OR NGXHttpLocConf OR NGXConfTake1234]),
     (''flv'', [NGXHttpLocConf OR NGXConfNoArgs]),
     (''geo'',
       [NGXHttpMainConf OR NGXConfBlock OR NGXConfTake12,
        NGXStreamMainConf OR NGXConfBlock OR NGXConfTake12]),
     (''geoip_city'', [NGXHttpMainConf OR NGXConfTake12, NGXStreamMainConf OR NGXConfTake12]),
     (''geoip_country'', [NGXHttpMainConf OR NGXConfTake12, NGXStreamMainConf OR NGXConfTake12]),
     (''geoip_org'', [NGXHttpMainConf OR NGXConfTake12, NGXStreamMainConf OR NGXConfTake12]),
     (''geoip_proxy'', [NGXHttpMainConf OR NGXConfTake1]),
     (''geoip_proxy_recursive'', [NGXHttpMainConf OR NGXConfFlag]),
     (''google_perftools_profiles'', [NGXMainConf OR NGXDirectConf OR NGXConfTake1]),
     (''grpc_bind'', [NGXHttpMainConf OR NGXHttpSrvConf OR NGXHttpLocConf OR NGXConfTake12]),
     (''grpc_buffer_size'', [NGXHttpMainConf OR NGXHttpSrvConf OR NGXHttpLocConf OR NGXConfTake1]),
     (''grpc_connect_timeout'',
       [NGXHttpMainConf OR NGXHttpSrvConf OR NGXHttpLocConf OR NGXConfTake1]),
     (''grpc_hide_header'', [NGXHttpMainConf OR NGXHttpSrvConf OR NGXHttpLocConf OR NGXConfTake1]),
     (''grpc_ignore_headers'', [NGXHttpMainConf OR NGXHttpSrvConf OR NGXHttpLocConf OR NGXConf1More]),
     (''grpc_intercept_errors'',
       [NGXHttpMainConf OR NGXHttpSrvConf OR NGXHttpLocConf OR NGXConfFlag]),
     (''grpc_next_upstream'', [NGXHttpMainConf OR NGXHttpSrvConf OR NGXHttpLocConf OR NGXConf1More]),
     (''grpc_next_upstream_timeout'',
       [NGXHttpMainConf OR NGXHttpSrvConf OR NGXHttpLocConf OR NGXConfTake1]),
     (''grpc_next_upstream_tries'',
       [NGXHttpMainConf OR NGXHttpSrvConf OR NGXHttpLocConf OR NGXConfTake1]),
     (''grpc_pass'', [NGXHttpLocConf OR NGXHttpLifConf OR NGXConfTake1]),
     (''grpc_pass_header'', [NGXHttpMainConf OR NGXHttpSrvConf OR NGXHttpLocConf OR NGXConfTake1]),
     (''grpc_read_timeout'', [NGXHttpMainConf OR NGXHttpSrvConf OR NGXHttpLocConf OR NGXConfTake1]),
     (''grpc_send_timeout'', [NGXHttpMainConf OR NGXHttpSrvConf OR NGXHttpLocConf OR NGXConfTake1]),
     (''grpc_set_header'', [NGXHttpMainConf OR NGXHttpSrvConf OR NGXHttpLocConf OR NGXConfTake2]),
     (''grpc_socket_keepalive'',
       [NGXHttpMainConf OR NGXHttpSrvConf OR NGXHttpLocConf OR NGXConfFlag]),
     (''grpc_ssl_certificate'',
       [NGXHttpMainConf OR NGXHttpSrvConf OR NGXHttpLocConf OR NGXConfTake1]),
     (''grpc_ssl_certificate_key'',
       [NGXHttpMainConf OR NGXHttpSrvConf OR NGXHttpLocConf OR NGXConfTake1]),
     (''grpc_ssl_ciphers'', [NGXHttpMainConf OR NGXHttpSrvConf OR NGXHttpLocConf OR NGXConfTake1]),
     (''grpc_ssl_crl'', [NGXHttpMainConf OR NGXHttpSrvConf OR NGXHttpLocConf OR NGXConfTake1]),
     (''grpc_ssl_name'', [NGXHttpMainConf OR NGXHttpSrvConf OR NGXHttpLocConf OR NGXConfTake1]),
     (''grpc_ssl_password_file'',
       [NGXHttpMainConf OR NGXHttpSrvConf OR NGXHttpLocConf OR NGXConfTake1]),
     (''grpc_ssl_protocols'', [NGXHttpMainConf OR NGXHttpSrvConf OR NGXHttpLocConf OR NGXConf1More]),
     (''grpc_ssl_server_name'', [NGXHttpMainConf OR NGXHttpSrvConf OR NGXHttpLocConf OR NGXConfFlag]),
     (''grpc_ssl_session_reuse'',
       [NGXHttpMainConf OR NGXHttpSrvConf OR NGXHttpLocConf OR NGXConfFlag]),
     (''grpc_ssl_trusted_certificate'',
       [NGXHttpMainConf OR NGXHttpSrvConf OR NGXHttpLocConf OR NGXConfTake1])]"

definition directives_3 :: "(string \<times> mask list) list" where
  "directives_3 =
    [(''grpc_ssl_verify'', [NGXHttpMainConf OR NGXHttpSrvConf OR NGXHttpLocConf OR NGXConfFlag]),
     (''grpc_ssl_verify_depth'',
       [NGXHttpMainConf OR NGXHttpSrvConf OR NGXHttpLocConf OR NGXConfTake1]),
     (''gunzip'', [NGXHttpMainConf OR NGXHttpSrvConf OR NGXHttpLocConf OR NGXConfFlag]),
     (''gunzip_buffers'', [NGXHttpMainConf OR NGXHttpSrvConf OR NGXHttpLocConf OR NGXConfTake2]),
     (''gzip'',
       [NGXHttpMainConf OR NGXHttpSrvConf OR NGXHttpLocConf OR NGXHttpLifConf OR NGXConfFlag]),
     (''gzip_buffers'', [NGXHttpMainConf OR NGXHttpSrvConf OR NGXHttpLocConf OR NGXConfTake2]),
     (''gzip_comp_level'', [NGXHttpMainConf OR NGXHttpSrvConf OR NGXHttpLocConf OR NGXConfTake1]),
     (''gzip_disable'', [NGXHttpMainConf OR NGXHttpSrvConf OR NGXHttpLocConf OR NGXConf1More]),
     (''gzip_http_version'', [NGXHttpMainConf OR NGXHttpSrvConf OR NGXHttpLocConf OR NGXConfTake1]),
     (''gzip_min_length'', [NGXHttpMainConf OR NGXHttpSrvConf OR NGXHttpLocConf OR NGXConfTake1]),
     (''gzip_proxied'', [NGXHttpMainConf OR NGXHttpSrvConf OR NGXHttpLocConf OR NGXConf1More]),
     (''gzip_static'', [NGXHttpMainConf OR NGXHttpSrvConf OR NGXHttpLocConf OR NGXConfTake1]),
     (''gzip_types'', [NGXHttpMainConf OR NGXHttpSrvConf OR NGXHttpLocConf OR NGXConf1More]),
     (''gzip_vary'', [NGXHttpMainConf OR NGXHttpSrvConf OR NGXHttpLocConf OR NGXConfFlag]),
     (''hash'', [NGXHttpUpsConf OR NGXConfTake12, NGXStreamUpsConf OR NGXConfTake12]),
     (''http'', [NGXMainConf OR NGXConfBlock OR NGXConfNoArgs]),
     (''http2_body_preread_size'', [NGXHttpMainConf OR NGXHttpSrvConf OR NGXConfTake1]),
     (''http2_chunk_size'', [NGXHttpMainConf OR NGXHttpSrvConf OR NGXHttpLocConf OR NGXConfTake1]),
     (''http2_idle_timeout'', [NGXHttpMainConf OR NGXHttpSrvConf OR NGXConfTake1]),
     (''http2_max_concurrent_pushes'', [NGXHttpMainConf OR NGXHttpSrvConf OR NGXConfTake1]),
     (''http2_max_concurrent_streams'', [NGXHttpMainConf OR NGXHttpSrvConf OR NGXConfTake1]),
     (''http2_max_field_size'', [NGXHttpMainConf OR NGXHttpSrvConf OR NGXConfTake1]),
     (''http2_max_header_size'', [NGXHttpMainConf OR NGXHttpSrvConf OR NGXConfTake1]),
     (''http2_max_requests'', [NGXHttpMainConf OR NGXHttpSrvConf OR NGXConfTake1]),
     (''http2_push'', [NGXHttpMainConf OR NGXHttpSrvConf OR NGXHttpLocConf OR NGXConfTake1]),
     (''http2_push_preload'', [NGXHttpMainConf OR NGXHttpSrvConf OR NGXHttpLocConf OR NGXConfFlag]),
     (''http2_recv_buffer_size'', [NGXHttpMainConf OR NGXConfTake1]),
     (''http2_recv_timeout'', [NGXHttpMainConf OR NGXHttpSrvConf OR NGXConfTake1]),
     (''if'', [NGXHttpSrvConf OR NGXHttpLocConf OR NGXConfBlock OR NGXConf1More]),
     (''if_modified_since'', [NGXHttpMainConf OR NGXHttpSrvConf OR NGXHttpLocConf OR NGXConfTake1]),
     (''ignore_invalid_headers'', [NGXHttpMainConf OR NGXHttpSrvConf OR NGXConfFlag]),
     (''image_filter'', [NGXHttpLocConf OR NGXConfTake123]),
     (''image_filter_buffer'', [NGXHttpMainConf OR NGXHttpSrvConf OR NGXHttpLocConf OR NGXConfTake1]),
     (''image_filter_interlace'',
       [NGXHttpMainConf OR NGXHttpSrvConf OR NGXHttpLocConf OR NGXConfFlag]),
     (''image_filter_jpeg_quality'',
       [NGXHttpMainConf OR NGXHttpSrvConf OR NGXHttpLocConf OR NGXConfTake1]),
     (''image_filter_sharpen'',
       [NGXHttpMainConf OR NGXHttpSrvConf OR NGXHttpLocConf OR NGXConfTake1]),
     (''image_filter_transparency'',
       [NGXHttpMainConf OR NGXHttpSrvConf OR NGXHttpLocConf OR NGXConfFlag]),
     (''image_filter_webp_quality'',
       [NGXHttpMainConf OR NGXHttpSrvConf OR NGXHttpLocConf OR NGXConfTake1]),
     (''imap_auth'', [NGXMailMainConf OR NGXMailSrvConf OR NGXConf1More]),
     (''imap_capabilities'', [NGXMailMainConf OR NGXMailSrvConf OR NGXConf1More]),
     (''imap_client_buffer'', [NGXMailMainConf OR NGXMailSrvConf OR NGXConfTake1]),
     (''include'', [NGXAnyConf OR NGXConfTake1]),
     (''index'', [NGXHttpMainConf OR NGXHttpSrvConf OR NGXHttpLocConf OR NGXConf1More]),
     (''internal'', [NGXHttpLocConf OR NGXConfNoArgs]),
     (''ip_hash'', [NGXHttpUpsConf OR NGXConfNoArgs]),
     (''keepalive'', [NGXHttpUpsConf OR NGXConfTake1]),
     (''keepalive_disable'', [NGXHttpMainConf OR NGXHttpSrvConf OR NGXHttpLocConf OR NGXConfTake12]),
     (''keepalive_requests'',
       [NGXHttpMainConf OR NGXHttpSrvConf OR NGXHttpLocConf OR NGXConfTake1,
        NGXHttpUpsConf OR NGXConfTake1]),
     (''keepalive_timeout'',
       [NGXHttpMainConf OR NGXHttpSrvConf OR NGXHttpLocConf OR NGXConfTake12,
        NGXHttpUpsConf OR NGXConfTake1]),
     (''large_client_header_buffers'', [NGXHttpMainConf OR NGXHttpSrvConf OR NGXConfTake2]),
     (''least_conn'', [NGXHttpUpsConf OR NGXConfNoArgs, NGXStreamUpsConf OR NGXConfNoArgs]),
     (''limit_conn'',
       [NGXHttpMainConf OR NGXHttpSrvConf OR NGXHttpLocConf OR NGXConfTake2,
        NGXStreamMainConf OR NGXStreamSrvConf OR NGXConfTake2]),
     (''limit_conn_log_level'',
       [NGXHttpMainConf OR NGXHttpSrvConf OR NGXHttpLocConf OR NGXConfTake1,
        NGXStreamMainConf OR NGXStreamSrvConf OR NGXConfTake1]),
     (''limit_conn_status'', [NGXHttpMainConf OR NGXHttpSrvConf OR NGXHttpLocConf OR NGXConfTake1]),
     (''limit_conn_zone'', [NGXHttpMainConf OR NGXConfTake2, NGXStreamMainConf OR NGXConfTake2]),
     (''limit_except'', [NGXHttpLocConf OR NGXConfBlock OR NGXConf1More]),
     (''limit_rate'',
       [NGXHttpMainConf OR NGXHttpSrvConf OR NGXHttpLocConf OR NGXHttpLifConf OR NGXConfTake1]),
     (''limit_rate_after'',
       [NGXHttpMainConf OR NGXHttpSrvConf OR NGXHttpLocConf OR NGXHttpLifConf OR NGXConfTake1]),
     (''limit_req'', [NGXHttpMainConf OR NGXHttpSrvConf OR NGXHttpLocConf OR NGXConfTake123]),
     (''limit_req_log_level'', [NGXHttpMainConf OR NGXHttpSrvConf OR NGXHttpLocConf OR NGXConfTake1]),
     (''limit_req_status'', [NGXHttpMainConf OR NGXHttpSrvConf OR NGXHttpLocConf OR NGXConfTake1]),
     (''limit_req_zone'', [NGXHttpMainConf OR NGXConfTake3]),
     (''lingering_close'', [NGXHttpMainConf OR NGXHttpSrvConf OR NGXHttpLocConf OR NGXConfTake1]),
     (''lingering_time'', [NGXHttpMainConf OR NGXHttpSrvConf OR NGXHttpLocConf OR NGXConfTake1]),
     (''lingering_timeout'', [NGXHttpMainConf OR NGXHttpSrvConf OR NGXHttpLocConf OR NGXConfTake1]),
     (''listen'',
       [NGXHttpSrvConf OR NGXConf1More,
        NGXMailSrvConf OR NGXConf1More,
        NGXStreamSrvConf OR NGXConf1More]),
     (''load_module'', [NGXMainConf OR NGXDirectConf OR NGXConfTake1]),
     (''location'', [NGXHttpSrvConf OR NGXHttpLocConf OR NGXConfBlock OR NGXConfTake12])]"

definition directives_4 :: "(string \<times> mask list) list" where
  "directives_4 =
    [(''lock_file'', [NGXMainConf OR NGXDirectConf OR NGXConfTake1]),
     (''log_format'', [NGXHttpMainConf OR NGXConf2More, NGXStreamMainConf OR NGXConf2More]),
     (''log_not_found'', [NGXHttpMainConf OR NGXHttpSrvConf OR NGXHttpLocConf OR NGXConfFlag]),
     (''log_subrequest'', [NGXHttpMainConf OR NGXHttpSrvConf OR NGXHttpLocConf OR NGXConfFlag]),
     (''mail'', [NGXMainConf OR NGXConfBlock OR NGXConfNoArgs]),
     (''map'',
       [NGXHttpMainConf OR NGXConfBlock OR NGXConfTake2,
        NGXStreamMainConf OR NGXConfBlock OR NGXConfTake2]),
     (''map_hash_bucket_size'', [NGXHttpMainConf OR NGXConfTake1, NGXStreamMainConf OR NGXConfTake1]),
     (''map_hash_max_size'', [NGXHttpMainConf OR NGXConfTake1, NGXStreamMainConf OR NGXConfTake1]),
     (''master_process'', [NGXMainConf OR NGXDirectConf OR NGXConfFlag]),
     (''max_ranges'', [NGXHttpMainConf OR NGXHttpSrvConf OR NGXHttpLocConf OR NGXConfTake1]),
     (''memcached_bind'', [NGXHttpMainConf OR NGXHttpSrvConf OR NGXHttpLocConf OR NGXConfTake12]),
     (''memcached_buffer_size'',
       [NGXHttpMainConf OR NGXHttpSrvConf OR NGXHttpLocConf OR NGXConfTake1]),
     (''memcached_connect_timeout'',
       [NGXHttpMainConf OR NGXHttpSrvConf OR NGXHttpLocConf OR NGXConfTake1]),
     (''memcached_gzip_flag'', [NGXHttpMainConf OR NGXHttpSrvConf OR NGXHttpLocConf OR NGXConfTake1]),
     (''memcached_next_upstream'',
       [NGXHttpMainConf OR NGXHttpSrvConf OR NGXHttpLocConf OR NGXConf1More]),
     (''memcached_next_upstream_timeout'',
       [NGXHttpMainConf OR NGXHttpSrvConf OR NGXHttpLocConf OR NGXConfTake1]),
     (''memcached_next_upstream_tries'',
       [NGXHttpMainConf OR NGXHttpSrvConf OR NGXHttpLocConf OR NGXConfTake1]),
     (''memcached_pass'', [NGXHttpLocConf OR NGXHttpLifConf OR NGXConfTake1]),
     (''memcached_read_timeout'',
       [NGXHttpMainConf OR NGXHttpSrvConf OR NGXHttpLocConf OR NGXConfTake1]),
     (''memcached_send_timeout'',
       [NGXHttpMainConf OR NGXHttpSrvConf OR NGXHttpLocConf OR NGXConfTake1]),
     (''memcached_socket_keepalive'',
       [NGXHttpMainConf OR NGXHttpSrvConf OR NGXHttpLocConf OR NGXConfFlag]),
     (''merge_slashes'', [NGXHttpMainConf OR NGXHttpSrvConf OR NGXConfFlag]),
     (''min_delete_depth'', [NGXHttpMainConf OR NGXHttpSrvConf OR NGXHttpLocConf OR NGXConfTake1]),
     (''mirror'', [NGXHttpMainConf OR NGXHttpSrvConf OR NGXHttpLocConf OR NGXConfTake1]),
     (''mirror_request_body'', [NGXHttpMainConf OR NGXHttpSrvConf OR NGXHttpLocConf OR NGXConfFlag]),
     (''modern_browser'', [NGXHttpMainConf OR NGXHttpSrvConf OR NGXHttpLocConf OR NGXConfTake12]),
     (''modern_browser_value'',
       [NGXHttpMainConf OR NGXHttpSrvConf OR NGXHttpLocConf OR NGXConfTake1]),
     (''mp4'', [NGXHttpLocConf OR NGXConfNoArgs]),
     (''mp4_buffer_size'', [NGXHttpMainConf OR NGXHttpSrvConf OR NGXHttpLocConf OR NGXConfTake1]),
     (''mp4_max_buffer_size'', [NGXHttpMainConf OR NGXHttpSrvConf OR NGXHttpLocConf OR NGXConfTake1]),
     (''msie_padding'', [NGXHttpMainConf OR NGXHttpSrvConf OR NGXHttpLocConf OR NGXConfFlag]),
     (''msie_refresh'', [NGXHttpMainConf OR NGXHttpSrvConf OR NGXHttpLocConf OR NGXConfFlag]),
     (''multi_accept'', [NGXEventConf OR NGXConfFlag]),
     (''open_file_cache'', [NGXHttpMainConf OR NGXHttpSrvConf OR NGXHttpLocConf OR NGXConfTake12]),
     (''open_file_cache_errors'',
       [NGXHttpMainConf OR NGXHttpSrvConf OR NGXHttpLocConf OR NGXConfFlag]),
     (''open_file_cache_min_uses'',
       [NGXHttpMainConf OR NGXHttpSrvConf OR NGXHttpLocConf OR NGXConfTake1]),
     (''open_file_cache_valid'',
       [NGXHttpMainConf OR NGXHttpSrvConf OR NGXHttpLocConf OR NGXConfTake1]),
     (''open_log_file_cache'',
       [NGXHttpMainConf OR NGXHttpSrvConf OR NGXHttpLocConf OR NGXConfTake1234,
        NGXStreamMainConf OR NGXStreamSrvConf OR NGXConfTake1234]),
     (''oauth2_redirect_separator'', []),
     (''oauth2_authorization_expire'', []),
     (''oauth2_access_expire'', []),
     (''oauth2_allow_get_access'', []),
     (''oauth2_allowed_access_type'', []),
     (''oauth2_token_type'', []),
     (''oauth2_provider_name'', []),
     (''oauth2_auth_endpoint'', []),
     (''oauth2_token_endpoint'', []),
     (''oauth2_info_endpoint'', []),
     (''oauth2_session_path'', []),
     (''oauth2_session_max_age'', []),
     (''oauth2_session_domain'', []),
     (''oauth2_session_secure'', []),
     (''oauth2_session_hhhponly'', []),
     (''oauth2_session_name'', []),
     (''oauth2_csrf_secret'', []),
     (''output_buffers'', [NGXHttpMainConf OR NGXHttpSrvConf OR NGXHttpLocConf OR NGXConfTake2]),
     (''override_charset'',
       [NGXHttpMainConf OR NGXHttpSrvConf OR NGXHttpLocConf OR NGXHttpLifConf OR NGXConfFlag]),
     (''pcre_jit'', [NGXMainConf OR NGXDirectConf OR NGXConfFlag]),
     (''perl'', [NGXHttpLocConf OR NGXHttpLmtConf OR NGXConfTake1]),
     (''perl_modules'', [NGXHttpMainConf OR NGXConfTake1]),
     (''perl_require'', [NGXHttpMainConf OR NGXConfTake1]),
     (''perl_set'', [NGXHttpMainConf OR NGXConfTake2]),
     (''pid'', [NGXMainConf OR NGXDirectConf OR NGXConfTake1]),
     (''pop3_auth'', [NGXMailMainConf OR NGXMailSrvConf OR NGXConf1More]),
     (''pop3_capabilities'', [NGXMailMainConf OR NGXMailSrvConf OR NGXConf1More]),
     (''port_in_redirect'', [NGXHttpMainConf OR NGXHttpSrvConf OR NGXHttpLocConf OR NGXConfFlag]),
     (''postpone_output'', [NGXHttpMainConf OR NGXHttpSrvConf OR NGXHttpLocConf OR NGXConfTake1]),
     (''preread_buffer_size'', [NGXStreamMainConf OR NGXStreamSrvConf OR NGXConfTake1]),
     (''preread_timeout'', [NGXStreamMainConf OR NGXStreamSrvConf OR NGXConfTake1]),
     (''protocol'', [NGXMailSrvConf OR NGXConfTake1]),
     (''proxy_bind'',
       [NGXHttpMainConf OR NGXHttpSrvConf OR NGXHttpLocConf OR NGXConfTake12,
        NGXStreamMainConf OR NGXStreamSrvConf OR NGXConfTake12]),
     (''proxy_buffer'', [NGXMailMainConf OR NGXMailSrvConf OR NGXConfTake1]),
     (''proxy_buffer_size'',
       [NGXHttpMainConf OR NGXHttpSrvConf OR NGXHttpLocConf OR NGXConfTake1,
        NGXStreamMainConf OR NGXStreamSrvConf OR NGXConfTake1]),
     (''proxy_buffering'', [NGXHttpMainConf OR NGXHttpSrvConf OR NGXHttpLocConf OR NGXConfFlag]),
     (''proxy_buffers'', [NGXHttpMainConf OR NGXHttpSrvConf OR NGXHttpLocConf OR NGXConfTake2]),
     (''proxy_busy_buffers_size'',
       [NGXHttpMainConf OR NGXHttpSrvConf OR NGXHttpLocConf OR NGXConfTake1]),
     (''proxy_cache'', [NGXHttpMainConf OR NGXHttpSrvConf OR NGXHttpLocConf OR NGXConfTake1]),
     (''proxy_cache_background_update'',
       [NGXHttpMainConf OR NGXHttpSrvConf OR NGXHttpLocConf OR NGXConfFlag])]"

definition directives_5 :: "(string \<times> mask list) list" where
  "directives_5 =
    [(''proxy_cache_bypass'', [NGXHttpMainConf OR NGXHttpSrvConf OR NGXHttpLocConf OR NGXConf1More]),
     (''proxy_cache_convert_head'',
       [NGXHttpMainConf OR NGXHttpSrvConf OR NGXHttpLocConf OR NGXConfFlag]),
     (''proxy_cache_key'', [NGXHttpMainConf OR NGXHttpSrvConf OR NGXHttpLocConf OR NGXConfTake1]),
     (''proxy_cache_lock'', [NGXHttpMainConf OR NGXHttpSrvConf OR NGXHttpLocConf OR NGXConfFlag]),
     (''proxy_cache_lock_age'',
       [NGXHttpMainConf OR NGXHttpSrvConf OR NGXHttpLocConf OR NGXConfTake1]),
     (''proxy_cache_lock_timeout'',
       [NGXHttpMainConf OR NGXHttpSrvConf OR NGXHttpLocConf OR NGXConfTake1]),
     (''proxy_cache_max_range_offset'',
       [NGXHttpMainConf OR NGXHttpSrvConf OR NGXHttpLocConf OR NGXConfTake1]),
     (''proxy_cache_methods'', [NGXHttpMainConf OR NGXHttpSrvConf OR NGXHttpLocConf OR NGXConf1More]),
     (''proxy_cache_min_uses'',
       [NGXHttpMainConf OR NGXHttpSrvConf OR NGXHttpLocConf OR NGXConfTake1]),
     (''proxy_cache_path'', [NGXHttpMainConf OR NGXConf2More]),
     (''proxy_cache_revalidate'',
       [NGXHttpMainConf OR NGXHttpSrvConf OR NGXHttpLocConf OR NGXConfFlag]),
     (''proxy_cache_use_stale'',
       [NGXHttpMainConf OR NGXHttpSrvConf OR NGXHttpLocConf OR NGXConf1More]),
     (''proxy_cache_valid'', [NGXHttpMainConf OR NGXHttpSrvConf OR NGXHttpLocConf OR NGXConf1More]),
     (''proxy_connect_timeout'',
       [NGXHttpMainConf OR NGXHttpSrvConf OR NGXHttpLocConf OR NGXConfTake1,
        NGXStreamMainConf OR NGXStreamSrvConf OR NGXConfTake1]),
     (''proxy_cookie_domain'',
       [NGXHttpMainConf OR NGXHttpSrvConf OR NGXHttpLocConf OR NGXConfTake12]),
     (''proxy_cookie_path'', [NGXHttpMainConf OR NGXHttpSrvConf OR NGXHttpLocConf OR NGXConfTake12]),
     (''proxy_download_rate'', [NGXStreamMainConf OR NGXStreamSrvConf OR NGXConfTake1]),
     (''proxy_force_ranges'', [NGXHttpMainConf OR NGXHttpSrvConf OR NGXHttpLocConf OR NGXConfFlag]),
     (''proxy_headers_hash_bucket_size'',
       [NGXHttpMainConf OR NGXHttpSrvConf OR NGXHttpLocConf OR NGXConfTake1]),
     (''proxy_headers_hash_max_size'',
       [NGXHttpMainConf OR NGXHttpSrvConf OR NGXHttpLocConf OR NGXConfTake1]),
     (''proxy_hide_header'', [NGXHttpMainConf OR NGXHttpSrvConf OR NGXHttpLocConf OR NGXConfTake1]),
     (''proxy_http_version'', [NGXHttpMainConf OR NGXHttpSrvConf OR NGXHttpLocConf OR NGXConfTake1]),
     (''proxy_ignore_client_abort'',
       [NGXHttpMainConf OR NGXHttpSrvConf OR NGXHttpLocConf OR NGXConfFlag]),
     (''proxy_ignore_headers'',
       [NGXHttpMainConf OR NGXHttpSrvConf OR NGXHttpLocConf OR NGXConf1More]),
     (''proxy_intercept_errors'',
       [NGXHttpMainConf OR NGXHttpSrvConf OR NGXHttpLocConf OR NGXConfFlag]),
     (''proxy_limit_rate'', [NGXHttpMainConf OR NGXHttpSrvConf OR NGXHttpLocConf OR NGXConfTake1]),
     (''proxy_max_temp_file_size'',
       [NGXHttpMainConf OR NGXHttpSrvConf OR NGXHttpLocConf OR NGXConfTake1]),
     (''proxy_method'', [NGXHttpMainConf OR NGXHttpSrvConf OR NGXHttpLocConf OR NGXConfTake1]),
     (''proxy_next_upstream'',
       [NGXHttpMainConf OR NGXHttpSrvConf OR NGXHttpLocConf OR NGXConf1More,
        NGXStreamMainConf OR NGXStreamSrvConf OR NGXConfFlag]),
     (''proxy_next_upstream_timeout'',
       [NGXHttpMainConf OR NGXHttpSrvConf OR NGXHttpLocConf OR NGXConfTake1,
        NGXStreamMainConf OR NGXStreamSrvConf OR NGXConfTake1]),
     (''proxy_next_upstream_tries'',
       [NGXHttpMainConf OR NGXHttpSrvConf OR NGXHttpLocConf OR NGXConfTake1,
        NGXStreamMainConf OR NGXStreamSrvConf OR NGXConfTake1]),
     (''proxy_no_cache'', [NGXHttpMainConf OR NGXHttpSrvConf OR NGXHttpLocConf OR NGXConf1More]),
     (''proxy_pass'',
       [NGXHttpLocConf OR NGXHttpLifConf OR NGXHttpLmtConf OR NGXConfTake1,
        NGXStreamSrvConf OR NGXConfTake1]),
     (''proxy_pass_error_message'', [NGXMailMainConf OR NGXMailSrvConf OR NGXConfFlag]),
     (''proxy_pass_header'', [NGXHttpMainConf OR NGXHttpSrvConf OR NGXHttpLocConf OR NGXConfTake1]),
     (''proxy_pass_request_body'',
       [NGXHttpMainConf OR NGXHttpSrvConf OR NGXHttpLocConf OR NGXConfFlag]),
     (''proxy_pass_request_headers'',
       [NGXHttpMainConf OR NGXHttpSrvConf OR NGXHttpLocConf OR NGXConfFlag]),
     (''proxy_protocol'', [NGXStreamMainConf OR NGXStreamSrvConf OR NGXConfFlag]),
     (''proxy_protocol_timeout'', [NGXStreamMainConf OR NGXStreamSrvConf OR NGXConfTake1]),
     (''proxy_read_timeout'', [NGXHttpMainConf OR NGXHttpSrvConf OR NGXHttpLocConf OR NGXConfTake1]),
     (''proxy_redirect'', [NGXHttpMainConf OR NGXHttpSrvConf OR NGXHttpLocConf OR NGXConfTake12]),
     (''proxy_request_buffering'',
       [NGXHttpMainConf OR NGXHttpSrvConf OR NGXHttpLocConf OR NGXConfFlag]),
     (''proxy_requests'', [NGXStreamMainConf OR NGXStreamSrvConf OR NGXConfTake1]),
     (''proxy_responses'', [NGXStreamMainConf OR NGXStreamSrvConf OR NGXConfTake1]),
     (''proxy_send_lowat'', [NGXHttpMainConf OR NGXHttpSrvConf OR NGXHttpLocConf OR NGXConfTake1]),
     (''proxy_send_timeout'', [NGXHttpMainConf OR NGXHttpSrvConf OR NGXHttpLocConf OR NGXConfTake1]),
     (''proxy_set_body'', [NGXHttpMainConf OR NGXHttpSrvConf OR NGXHttpLocConf OR NGXConfTake1]),
     (''proxy_set_header'', [NGXHttpMainConf OR NGXHttpSrvConf OR NGXHttpLocConf OR NGXConfTake2]),
     (''proxy_socket_keepalive'',
       [NGXHttpMainConf OR NGXHttpSrvConf OR NGXHttpLocConf OR NGXConfFlag,
        NGXStreamMainConf OR NGXStreamSrvConf OR NGXConfFlag]),
     (''proxy_ssl'', [NGXStreamMainConf OR NGXStreamSrvConf OR NGXConfFlag]),
     (''proxy_ssl_certificate'',
       [NGXHttpMainConf OR NGXHttpSrvConf OR NGXHttpLocConf OR NGXConfTake1,
        NGXStreamMainConf OR NGXStreamSrvConf OR NGXConfTake1]),
     (''proxy_ssl_certificate_key'',
       [NGXHttpMainConf OR NGXHttpSrvConf OR NGXHttpLocConf OR NGXConfTake1,
        NGXStreamMainConf OR NGXStreamSrvConf OR NGXConfTake1]),
     (''proxy_ssl_ciphers'',
       [NGXHttpMainConf OR NGXHttpSrvConf OR NGXHttpLocConf OR NGXConfTake1,
        NGXStreamMainConf OR NGXStreamSrvConf OR NGXConfTake1]),
     (''proxy_ssl_crl'',
       [NGXHttpMainConf OR NGXHttpSrvConf OR NGXHttpLocConf OR NGXConfTake1,
        NGXStreamMainConf OR NGXStreamSrvConf OR NGXConfTake1]),
     (''proxy_ssl_name'',
       [NGXHttpMainConf OR NGXHttpSrvConf OR NGXHttpLocConf OR NGXConfTake1,
        NGXStreamMainConf OR NGXStreamSrvConf OR NGXConfTake1]),
     (''proxy_ssl_password_file'',
       [NGXHttpMainConf OR NGXHttpSrvConf OR NGXHttpLocConf OR NGXConfTake1,
        NGXStreamMainConf OR NGXStreamSrvConf OR NGXConfTake1]),
     (''proxy_ssl_protocols'',
       [NGXHttpMainConf OR NGXHttpSrvConf OR NGXHttpLocConf OR NGXConf1More,
        NGXStreamMainConf OR NGXStreamSrvConf OR NGXConf1More]),
     (''proxy_ssl_server_name'',
       [NGXHttpMainConf OR NGXHttpSrvConf OR NGXHttpLocConf OR NGXConfFlag,
        NGXStreamMainConf OR NGXStreamSrvConf OR NGXConfFlag]),
     (''proxy_ssl_session_reuse'',
       [NGXHttpMainConf OR NGXHttpSrvConf OR NGXHttpLocConf OR NGXConfFlag,
        NGXStreamMainConf OR NGXStreamSrvConf OR NGXConfFlag]),
     (''proxy_ssl_trusted_certificate'',
       [NGXHttpMainConf OR NGXHttpSrvConf OR NGXHttpLocConf OR NGXConfTake1,
        NGXStreamMainConf OR NGXStreamSrvConf OR NGXConfTake1]),
     (''proxy_ssl_verify'',
       [NGXHttpMainConf OR NGXHttpSrvConf OR NGXHttpLocConf OR NGXConfFlag,
        NGXStreamMainConf OR NGXStreamSrvConf OR NGXConfFlag]),
     (''proxy_ssl_verify_depth'',
       [NGXHttpMainConf OR NGXHttpSrvConf OR NGXHttpLocConf OR NGXConfTake1,
        NGXStreamMainConf OR NGXStreamSrvConf OR NGXConfTake1]),
     (''proxy_store'', [NGXHttpMainConf OR NGXHttpSrvConf OR NGXHttpLocConf OR NGXConfTake1]),
     (''proxy_store_access'',
       [NGXHttpMainConf OR NGXHttpSrvConf OR NGXHttpLocConf OR NGXConfTake123])]"

definition directives_6 :: "(string \<times> mask list) list" where
  "directives_6 =
    [(''proxy_temp_file_write_size'',
       [NGXHttpMainConf OR NGXHttpSrvConf OR NGXHttpLocConf OR NGXConfTake1]),
     (''proxy_temp_path'', [NGXHttpMainConf OR NGXHttpSrvConf OR NGXHttpLocConf OR NGXConfTake1234]),
     (''proxy_timeout'',
       [NGXMailMainConf OR NGXMailSrvConf OR NGXConfTake1,
        NGXStreamMainConf OR NGXStreamSrvConf OR NGXConfTake1]),
     (''proxy_upload_rate'', [NGXStreamMainConf OR NGXStreamSrvConf OR NGXConfTake1]),
     (''random'',
       [NGXHttpUpsConf OR NGXConfNoArgs OR NGXConfTake12,
        NGXStreamUpsConf OR NGXConfNoArgs OR NGXConfTake12]),
     (''random_index'', [NGXHttpLocConf OR NGXConfFlag]),
     (''read_ahead'', [NGXHttpMainConf OR NGXHttpSrvConf OR NGXHttpLocConf OR NGXConfTake1]),
     (''real_ip_header'', [NGXHttpMainConf OR NGXHttpSrvConf OR NGXHttpLocConf OR NGXConfTake1]),
     (''real_ip_recursive'', [NGXHttpMainConf OR NGXHttpSrvConf OR NGXHttpLocConf OR NGXConfFlag]),
     (''recursive_error_pages'',
       [NGXHttpMainConf OR NGXHttpSrvConf OR NGXHttpLocConf OR NGXConfFlag]),
     (''referer_hash_bucket_size'', [NGXHttpSrvConf OR NGXHttpLocConf OR NGXConfTake1]),
     (''referer_hash_max_size'', [NGXHttpSrvConf OR NGXHttpLocConf OR NGXConfTake1]),
     (''request_pool_size'', [NGXHttpMainConf OR NGXHttpSrvConf OR NGXConfTake1]),
     (''reset_timedout_connection'',
       [NGXHttpMainConf OR NGXHttpSrvConf OR NGXHttpLocConf OR NGXConfFlag]),
     (''resolver'',
       [NGXHttpMainConf OR NGXHttpSrvConf OR NGXHttpLocConf OR NGXConf1More,
        NGXMailMainConf OR NGXMailSrvConf OR NGXConf1More,
        NGXStreamMainConf OR NGXStreamSrvConf OR NGXConf1More]),
     (''resolver_timeout'',
       [NGXHttpMainConf OR NGXHttpSrvConf OR NGXHttpLocConf OR NGXConfTake1,
        NGXMailMainConf OR NGXMailSrvConf OR NGXConfTake1,
        NGXStreamMainConf OR NGXStreamSrvConf OR NGXConfTake1]),
     (''return'',
       [NGXHttpSrvConf OR NGXHttpSifConf OR NGXHttpLocConf OR NGXHttpLifConf OR NGXConfTake12,
        NGXStreamSrvConf OR NGXConfTake1]),
     (''rewrite'',
       [NGXHttpSrvConf OR NGXHttpSifConf OR NGXHttpLocConf OR NGXHttpLifConf OR NGXConfTake23]),
     (''rewrite_log'',
       [NGXHttpMainConf OR NGXHttpSrvConf OR NGXHttpSifConf OR NGXHttpLocConf OR NGXHttpLifConf OR NGXConfFlag]),
     (''root'',
       [NGXHttpMainConf OR NGXHttpSrvConf OR NGXHttpLocConf OR NGXHttpLifConf OR NGXConfTake1]),
     (''satisfy'', [NGXHttpMainConf OR NGXHttpSrvConf OR NGXHttpLocConf OR NGXConfTake1]),
     (''scgi_bind'', [NGXHttpMainConf OR NGXHttpSrvConf OR NGXHttpLocConf OR NGXConfTake12]),
     (''scgi_buffer_size'', [NGXHttpMainConf OR NGXHttpSrvConf OR NGXHttpLocConf OR NGXConfTake1]),
     (''scgi_buffering'', [NGXHttpMainConf OR NGXHttpSrvConf OR NGXHttpLocConf OR NGXConfFlag]),
     (''scgi_buffers'', [NGXHttpMainConf OR NGXHttpSrvConf OR NGXHttpLocConf OR NGXConfTake2]),
     (''scgi_busy_buffers_size'',
       [NGXHttpMainConf OR NGXHttpSrvConf OR NGXHttpLocConf OR NGXConfTake1]),
     (''scgi_cache'', [NGXHttpMainConf OR NGXHttpSrvConf OR NGXHttpLocConf OR NGXConfTake1]),
     (''scgi_cache_background_update'',
       [NGXHttpMainConf OR NGXHttpSrvConf OR NGXHttpLocConf OR NGXConfFlag]),
     (''scgi_cache_bypass'', [NGXHttpMainConf OR NGXHttpSrvConf OR NGXHttpLocConf OR NGXConf1More]),
     (''scgi_cache_key'', [NGXHttpMainConf OR NGXHttpSrvConf OR NGXHttpLocConf OR NGXConfTake1]),
     (''scgi_cache_lock'', [NGXHttpMainConf OR NGXHttpSrvConf OR NGXHttpLocConf OR NGXConfFlag]),
     (''scgi_cache_lock_age'', [NGXHttpMainConf OR NGXHttpSrvConf OR NGXHttpLocConf OR NGXConfTake1]),
     (''scgi_cache_lock_timeout'',
       [NGXHttpMainConf OR NGXHttpSrvConf OR NGXHttpLocConf OR NGXConfTake1]),
     (''scgi_cache_max_range_offset'',
       [NGXHttpMainConf OR NGXHttpSrvConf OR NGXHttpLocConf OR NGXConfTake1]),
     (''scgi_cache_methods'', [NGXHttpMainConf OR NGXHttpSrvConf OR NGXHttpLocConf OR NGXConf1More]),
     (''scgi_cache_min_uses'', [NGXHttpMainConf OR NGXHttpSrvConf OR NGXHttpLocConf OR NGXConfTake1]),
     (''scgi_cache_path'', [NGXHttpMainConf OR NGXConf2More]),
     (''scgi_cache_revalidate'',
       [NGXHttpMainConf OR NGXHttpSrvConf OR NGXHttpLocConf OR NGXConfFlag]),
     (''scgi_cache_use_stale'',
       [NGXHttpMainConf OR NGXHttpSrvConf OR NGXHttpLocConf OR NGXConf1More]),
     (''scgi_cache_valid'', [NGXHttpMainConf OR NGXHttpSrvConf OR NGXHttpLocConf OR NGXConf1More]),
     (''scgi_connect_timeout'',
       [NGXHttpMainConf OR NGXHttpSrvConf OR NGXHttpLocConf OR NGXConfTake1]),
     (''scgi_force_ranges'', [NGXHttpMainConf OR NGXHttpSrvConf OR NGXHttpLocConf OR NGXConfFlag]),
     (''scgi_hide_header'', [NGXHttpMainConf OR NGXHttpSrvConf OR NGXHttpLocConf OR NGXConfTake1]),
     (''scgi_ignore_client_abort'',
       [NGXHttpMainConf OR NGXHttpSrvConf OR NGXHttpLocConf OR NGXConfFlag]),
     (''scgi_ignore_headers'', [NGXHttpMainConf OR NGXHttpSrvConf OR NGXHttpLocConf OR NGXConf1More]),
     (''scgi_intercept_errors'',
       [NGXHttpMainConf OR NGXHttpSrvConf OR NGXHttpLocConf OR NGXConfFlag]),
     (''scgi_limit_rate'', [NGXHttpMainConf OR NGXHttpSrvConf OR NGXHttpLocConf OR NGXConfTake1]),
     (''scgi_max_temp_file_size'',
       [NGXHttpMainConf OR NGXHttpSrvConf OR NGXHttpLocConf OR NGXConfTake1]),
     (''scgi_next_upstream'', [NGXHttpMainConf OR NGXHttpSrvConf OR NGXHttpLocConf OR NGXConf1More]),
     (''scgi_next_upstream_timeout'',
       [NGXHttpMainConf OR NGXHttpSrvConf OR NGXHttpLocConf OR NGXConfTake1]),
     (''scgi_next_upstream_tries'',
       [NGXHttpMainConf OR NGXHttpSrvConf OR NGXHttpLocConf OR NGXConfTake1]),
     (''scgi_no_cache'', [NGXHttpMainConf OR NGXHttpSrvConf OR NGXHttpLocConf OR NGXConf1More]),
     (''scgi_param'', [NGXHttpMainConf OR NGXHttpSrvConf OR NGXHttpLocConf OR NGXConfTake23]),
     (''scgi_pass'', [NGXHttpLocConf OR NGXHttpLifConf OR NGXConfTake1]),
     (''scgi_pass_header'', [NGXHttpMainConf OR NGXHttpSrvConf OR NGXHttpLocConf OR NGXConfTake1]),
     (''scgi_pass_request_body'',
       [NGXHttpMainConf OR NGXHttpSrvConf OR NGXHttpLocConf OR NGXConfFlag]),
     (''scgi_pass_request_headers'',
       [NGXHttpMainConf OR NGXHttpSrvConf OR NGXHttpLocConf OR NGXConfFlag]),
     (''scgi_read_timeout'', [NGXHttpMainConf OR NGXHttpSrvConf OR NGXHttpLocConf OR NGXConfTake1]),
     (''scgi_request_buffering'',
       [NGXHttpMainConf OR NGXHttpSrvConf OR NGXHttpLocConf OR NGXConfFlag]),
     (''scgi_send_timeout'', [NGXHttpMainConf OR NGXHttpSrvConf OR NGXHttpLocConf OR NGXConfTake1]),
     (''scgi_socket_keepalive'',
       [NGXHttpMainConf OR NGXHttpSrvConf OR NGXHttpLocConf OR NGXConfFlag]),
     (''scgi_store'', [NGXHttpMainConf OR NGXHttpSrvConf OR NGXHttpLocConf OR NGXConfTake1]),
     (''scgi_store_access'', [NGXHttpMainConf OR NGXHttpSrvConf OR NGXHttpLocConf OR NGXConfTake123]),
     (''scgi_temp_file_write_size'',
       [NGXHttpMainConf OR NGXHttpSrvConf OR NGXHttpLocConf OR NGXConfTake1]),
     (''scgi_temp_path'', [NGXHttpMainConf OR NGXHttpSrvConf OR NGXHttpLocConf OR NGXConfTake1234]),
     (''secure_link'', [NGXHttpMainConf OR NGXHttpSrvConf OR NGXHttpLocConf OR NGXConfTake1]),
     (''secure_link_md5'', [NGXHttpMainConf OR NGXHttpSrvConf OR NGXHttpLocConf OR NGXConfTake1]),
     (''secure_link_secret'', [NGXHttpMainConf OR NGXHttpSrvConf OR NGXHttpLocConf OR NGXConfTake1]),
     (''send_lowat'', [NGXHttpMainConf OR NGXHttpSrvConf OR NGXHttpLocConf OR NGXConfTake1])]"

definition directives_7 :: "(string \<times> mask list) list" where
  "directives_7 =
    [(''send_timeout'', [NGXHttpMainConf OR NGXHttpSrvConf OR NGXHttpLocConf OR NGXConfTake1]),
     (''sendfile'',
       [NGXHttpMainConf OR NGXHttpSrvConf OR NGXHttpLocConf OR NGXHttpLifConf OR NGXConfFlag]),
     (''sendfile_max_chunk'', [NGXHttpMainConf OR NGXHttpSrvConf OR NGXHttpLocConf OR NGXConfTake1]),
     (''server'',
       [NGXHttpMainConf OR NGXConfBlock OR NGXConfNoArgs,
        NGXHttpUpsConf OR NGXConf1More,
        NGXMailMainConf OR NGXConfBlock OR NGXConfNoArgs,
        NGXStreamMainConf OR NGXConfBlock OR NGXConfNoArgs,
        NGXStreamUpsConf OR NGXConf1More]),
     (''server_name'',
       [NGXHttpSrvConf OR NGXConf1More, NGXMailMainConf OR NGXMailSrvConf OR NGXConfTake1]),
     (''server_name_in_redirect'',
       [NGXHttpMainConf OR NGXHttpSrvConf OR NGXHttpLocConf OR NGXConfFlag]),
     (''server_names_hash_bucket_size'', [NGXHttpMainConf OR NGXConfTake1]),
     (''server_names_hash_max_size'', [NGXHttpMainConf OR NGXConfTake1]),
     (''server_tokens'', [NGXHttpMainConf OR NGXHttpSrvConf OR NGXHttpLocConf OR NGXConfTake1]),
     (''set'',
       [NGXHttpSrvConf OR NGXHttpSifConf OR NGXHttpLocConf OR NGXHttpLifConf OR NGXConfTake2]),
     (''set_real_ip_from'',
       [NGXHttpMainConf OR NGXHttpSrvConf OR NGXHttpLocConf OR NGXConfTake1,
        NGXStreamMainConf OR NGXStreamSrvConf OR NGXConfTake1]),
     (''slice'', [NGXHttpMainConf OR NGXHttpSrvConf OR NGXHttpLocConf OR NGXConfTake1]),
     (''smtp_auth'', [NGXMailMainConf OR NGXMailSrvConf OR NGXConf1More]),
     (''smtp_capabilities'', [NGXMailMainConf OR NGXMailSrvConf OR NGXConf1More]),
     (''smtp_client_buffer'', [NGXMailMainConf OR NGXMailSrvConf OR NGXConfTake1]),
     (''smtp_greeting_delay'', [NGXMailMainConf OR NGXMailSrvConf OR NGXConfTake1]),
     (''source_charset'',
       [NGXHttpMainConf OR NGXHttpSrvConf OR NGXHttpLocConf OR NGXHttpLifConf OR NGXConfTake1]),
     (''spdy_chunk_size'', [NGXHttpMainConf OR NGXHttpSrvConf OR NGXHttpLocConf OR NGXConfTake1]),
     (''spdy_headers_comp'', [NGXHttpMainConf OR NGXHttpSrvConf OR NGXConfTake1]),
     (''split_clients'',
       [NGXHttpMainConf OR NGXConfBlock OR NGXConfTake2,
        NGXStreamMainConf OR NGXConfBlock OR NGXConfTake2]),
     (''ssi'',
       [NGXHttpMainConf OR NGXHttpSrvConf OR NGXHttpLocConf OR NGXHttpLifConf OR NGXConfFlag]),
     (''ssi_last_modified'', [NGXHttpMainConf OR NGXHttpSrvConf OR NGXHttpLocConf OR NGXConfFlag]),
     (''ssi_min_file_chunk'', [NGXHttpMainConf OR NGXHttpSrvConf OR NGXHttpLocConf OR NGXConfTake1]),
     (''ssi_silent_errors'', [NGXHttpMainConf OR NGXHttpSrvConf OR NGXHttpLocConf OR NGXConfFlag]),
     (''ssi_types'', [NGXHttpMainConf OR NGXHttpSrvConf OR NGXHttpLocConf OR NGXConf1More]),
     (''ssi_value_length'', [NGXHttpMainConf OR NGXHttpSrvConf OR NGXHttpLocConf OR NGXConfTake1]),
     (''ssl'',
       [NGXHttpMainConf OR NGXHttpSrvConf OR NGXConfFlag,
        NGXMailMainConf OR NGXMailSrvConf OR NGXConfFlag]),
     (''ssl_buffer_size'', [NGXHttpMainConf OR NGXHttpSrvConf OR NGXConfTake1]),
     (''ssl_certificate'',
       [NGXHttpMainConf OR NGXHttpSrvConf OR NGXConfTake1,
        NGXMailMainConf OR NGXMailSrvConf OR NGXConfTake1,
        NGXStreamMainConf OR NGXStreamSrvConf OR NGXConfTake1]),
     (''ssl_certificate_key'',
       [NGXHttpMainConf OR NGXHttpSrvConf OR NGXConfTake1,
        NGXMailMainConf OR NGXMailSrvConf OR NGXConfTake1,
        NGXStreamMainConf OR NGXStreamSrvConf OR NGXConfTake1]),
     (''ssl_ciphers'',
       [NGXHttpMainConf OR NGXHttpSrvConf OR NGXConfTake1,
        NGXMailMainConf OR NGXMailSrvConf OR NGXConfTake1,
        NGXStreamMainConf OR NGXStreamSrvConf OR NGXConfTake1]),
     (''ssl_client_certificate'',
       [NGXHttpMainConf OR NGXHttpSrvConf OR NGXConfTake1,
        NGXMailMainConf OR NGXMailSrvConf OR NGXConfTake1,
        NGXStreamMainConf OR NGXStreamSrvConf OR NGXConfTake1]),
     (''ssl_crl'',
       [NGXHttpMainConf OR NGXHttpSrvConf OR NGXConfTake1,
        NGXMailMainConf OR NGXMailSrvConf OR NGXConfTake1,
        NGXStreamMainConf OR NGXStreamSrvConf OR NGXConfTake1]),
     (''ssl_dhparam'',
       [NGXHttpMainConf OR NGXHttpSrvConf OR NGXConfTake1,
        NGXMailMainConf OR NGXMailSrvConf OR NGXConfTake1,
        NGXStreamMainConf OR NGXStreamSrvConf OR NGXConfTake1]),
     (''ssl_early_data'', [NGXHttpMainConf OR NGXHttpSrvConf OR NGXConfFlag]),
     (''ssl_ecdh_curve'',
       [NGXHttpMainConf OR NGXHttpSrvConf OR NGXConfTake1,
        NGXMailMainConf OR NGXMailSrvConf OR NGXConfTake1,
        NGXStreamMainConf OR NGXStreamSrvConf OR NGXConfTake1]),
     (''ssl_engine'', [NGXMainConf OR NGXDirectConf OR NGXConfTake1]),
     (''ssl_handshake_timeout'', [NGXStreamMainConf OR NGXStreamSrvConf OR NGXConfTake1]),
     (''ssl_password_file'',
       [NGXHttpMainConf OR NGXHttpSrvConf OR NGXConfTake1,
        NGXMailMainConf OR NGXMailSrvConf OR NGXConfTake1,
        NGXStreamMainConf OR NGXStreamSrvConf OR NGXConfTake1]),
     (''ssl_prefer_server_ciphers'',
       [NGXHttpMainConf OR NGXHttpSrvConf OR NGXConfFlag,
        NGXMailMainConf OR NGXMailSrvConf OR NGXConfFlag,
        NGXStreamMainConf OR NGXStreamSrvConf OR NGXConfFlag]),
     (''ssl_preread'', [NGXStreamMainConf OR NGXStreamSrvConf OR NGXConfFlag]),
     (''ssl_protocols'',
       [NGXHttpMainConf OR NGXHttpSrvConf OR NGXConf1More,
        NGXMailMainConf OR NGXMailSrvConf OR NGXConf1More,
        NGXStreamMainConf OR NGXStreamSrvConf OR NGXConf1More]),
     (''ssl_session_cache'',
       [NGXHttpMainConf OR NGXHttpSrvConf OR NGXConfTake12,
        NGXMailMainConf OR NGXMailSrvConf OR NGXConfTake12,
        NGXStreamMainConf OR NGXStreamSrvConf OR NGXConfTake12]),
     (''ssl_session_ticket_key'',
       [NGXHttpMainConf OR NGXHttpSrvConf OR NGXConfTake1,
        NGXMailMainConf OR NGXMailSrvConf OR NGXConfTake1,
        NGXStreamMainConf OR NGXStreamSrvConf OR NGXConfTake1]),
     (''ssl_session_tickets'',
       [NGXHttpMainConf OR NGXHttpSrvConf OR NGXConfFlag,
        NGXMailMainConf OR NGXMailSrvConf OR NGXConfFlag,
        NGXStreamMainConf OR NGXStreamSrvConf OR NGXConfFlag]),
     (''ssl_session_timeout'',
       [NGXHttpMainConf OR NGXHttpSrvConf OR NGXConfTake1,
        NGXMailMainConf OR NGXMailSrvConf OR NGXConfTake1,
        NGXStreamMainConf OR NGXStreamSrvConf OR NGXConfTake1]),
     (''ssl_stapling'', [NGXHttpMainConf OR NGXHttpSrvConf OR NGXConfFlag]),
     (''ssl_stapling_file'', [NGXHttpMainConf OR NGXHttpSrvConf OR NGXConfTake1]),
     (''ssl_stapling_responder'', [NGXHttpMainConf OR NGXHttpSrvConf OR NGXConfTake1]),
     (''ssl_stapling_verify'', [NGXHttpMainConf OR NGXHttpSrvConf OR NGXConfFlag]),
     (''ssl_trusted_certificate'',
       [NGXHttpMainConf OR NGXHttpSrvConf OR NGXConfTake1,
        NGXMailMainConf OR NGXMailSrvConf OR NGXConfTake1,
        NGXStreamMainConf OR NGXStreamSrvConf OR NGXConfTake1]),
     (''ssl_verify_client'',
       [NGXHttpMainConf OR NGXHttpSrvConf OR NGXConfTake1,
        NGXMailMainConf OR NGXMailSrvConf OR NGXConfTake1,
        NGXStreamMainConf OR NGXStreamSrvConf OR NGXConfTake1])]"

definition directives_8 :: "(string \<times> mask list) list" where
  "directives_8 =
    [(''ssl_verify_depth'',
       [NGXHttpMainConf OR NGXHttpSrvConf OR NGXConfTake1,
        NGXMailMainConf OR NGXMailSrvConf OR NGXConfTake1,
        NGXStreamMainConf OR NGXStreamSrvConf OR NGXConfTake1]),
     (''starttls'', [NGXMailMainConf OR NGXMailSrvConf OR NGXConfTake1]),
     (''stream'', [NGXMainConf OR NGXConfBlock OR NGXConfNoArgs]),
     (''stub_status'', [NGXHttpSrvConf OR NGXHttpLocConf OR NGXConfNoArgs OR NGXConfTake1]),
     (''sub_filter'', [NGXHttpMainConf OR NGXHttpSrvConf OR NGXHttpLocConf OR NGXConfTake2]),
     (''sub_filter_last_modified'',
       [NGXHttpMainConf OR NGXHttpSrvConf OR NGXHttpLocConf OR NGXConfFlag]),
     (''sub_filter_once'', [NGXHttpMainConf OR NGXHttpSrvConf OR NGXHttpLocConf OR NGXConfFlag]),
     (''sub_filter_types'', [NGXHttpMainConf OR NGXHttpSrvConf OR NGXHttpLocConf OR NGXConf1More]),
     (''subrequest_output_buffer_size'',
       [NGXHttpMainConf OR NGXHttpSrvConf OR NGXHttpLocConf OR NGXConfTake1]),
     (''tcp_nodelay'',
       [NGXHttpMainConf OR NGXHttpSrvConf OR NGXHttpLocConf OR NGXConfFlag,
        NGXStreamMainConf OR NGXStreamSrvConf OR NGXConfFlag]),
     (''tcp_nopush'', [NGXHttpMainConf OR NGXHttpSrvConf OR NGXHttpLocConf OR NGXConfFlag]),
     (''thread_pool'', [NGXMainConf OR NGXDirectConf OR NGXConfTake23]),
     (''timeout'', [NGXMailMainConf OR NGXMailSrvConf OR NGXConfTake1]),
     (''timer_resolution'', [NGXMainConf OR NGXDirectConf OR NGXConfTake1]),
     (''try_files'', [NGXHttpSrvConf OR NGXHttpLocConf OR NGXConf2More]),
     (''types'',
       [NGXHttpMainConf OR NGXHttpSrvConf OR NGXHttpLocConf OR NGXConfBlock OR NGXConfNoArgs]),
     (''types_hash_bucket_size'',
       [NGXHttpMainConf OR NGXHttpSrvConf OR NGXHttpLocConf OR NGXConfTake1]),
     (''types_hash_max_size'', [NGXHttpMainConf OR NGXHttpSrvConf OR NGXHttpLocConf OR NGXConfTake1]),
     (''underscores_in_headers'', [NGXHttpMainConf OR NGXHttpSrvConf OR NGXConfFlag]),
     (''uninitialized_variable_warn'',
       [NGXHttpMainConf OR NGXHttpSrvConf OR NGXHttpSifConf OR NGXHttpLocConf OR NGXHttpLifConf OR NGXConfFlag]),
     (''upstream'',
       [NGXHttpMainConf OR NGXConfBlock OR NGXConfTake1,
        NGXStreamMainConf OR NGXConfBlock OR NGXConfTake1]),
     (''use'', [NGXEventConf OR NGXConfTake1]),
     (''user'', [NGXMainConf OR NGXDirectConf OR NGXConfTake12]),
     (''userid'', [NGXHttpMainConf OR NGXHttpSrvConf OR NGXHttpLocConf OR NGXConfTake1]),
     (''userid_domain'', [NGXHttpMainConf OR NGXHttpSrvConf OR NGXHttpLocConf OR NGXConfTake1]),
     (''userid_expires'', [NGXHttpMainConf OR NGXHttpSrvConf OR NGXHttpLocConf OR NGXConfTake1]),
     (''userid_mark'', [NGXHttpMainConf OR NGXHttpSrvConf OR NGXHttpLocConf OR NGXConfTake1]),
     (''userid_name'', [NGXHttpMainConf OR NGXHttpSrvConf OR NGXHttpLocConf OR NGXConfTake1]),
     (''userid_p3p'', [NGXHttpMainConf OR NGXHttpSrvConf OR NGXHttpLocConf OR NGXConfTake1]),
     (''userid_path'', [NGXHttpMainConf OR NGXHttpSrvConf OR NGXHttpLocConf OR NGXConfTake1]),
     (''userid_service'', [NGXHttpMainConf OR NGXHttpSrvConf OR NGXHttpLocConf OR NGXConfTake1]),
     (''uwsgi_bind'', [NGXHttpMainConf OR NGXHttpSrvConf OR NGXHttpLocConf OR NGXConfTake12]),
     (''uwsgi_buffer_size'', [NGXHttpMainConf OR NGXHttpSrvConf OR NGXHttpLocConf OR NGXConfTake1]),
     (''uwsgi_buffering'', [NGXHttpMainConf OR NGXHttpSrvConf OR NGXHttpLocConf OR NGXConfFlag]),
     (''uwsgi_buffers'', [NGXHttpMainConf OR NGXHttpSrvConf OR NGXHttpLocConf OR NGXConfTake2]),
     (''uwsgi_busy_buffers_size'',
       [NGXHttpMainConf OR NGXHttpSrvConf OR NGXHttpLocConf OR NGXConfTake1]),
     (''uwsgi_cache'', [NGXHttpMainConf OR NGXHttpSrvConf OR NGXHttpLocConf OR NGXConfTake1]),
     (''uwsgi_cache_background_update'',
       [NGXHttpMainConf OR NGXHttpSrvConf OR NGXHttpLocConf OR NGXConfTake1]),
     (''uwsgi_cache_bypass'', [NGXHttpMainConf OR NGXHttpSrvConf OR NGXHttpLocConf OR NGXConf1More]),
     (''uwsgi_cache_key'', [NGXHttpMainConf OR NGXHttpSrvConf OR NGXHttpLocConf OR NGXConfTake1]),
     (''uwsgi_cache_lock'', [NGXHttpMainConf OR NGXHttpSrvConf OR NGXHttpLocConf OR NGXConfFlag]),
     (''uwsgi_cache_lock_age'',
       [NGXHttpMainConf OR NGXHttpSrvConf OR NGXHttpLocConf OR NGXConfTake1]),
     (''uwsgi_cache_lock_timeout'',
       [NGXHttpMainConf OR NGXHttpSrvConf OR NGXHttpLocConf OR NGXConfTake1]),
     (''uwsgi_cache_max_range_offset'',
       [NGXHttpMainConf OR NGXHttpSrvConf OR NGXHttpLocConf OR NGXConfTake1]),
     (''uwsgi_cache_methods'', [NGXHttpMainConf OR NGXHttpSrvConf OR NGXHttpLocConf OR NGXConf1More]),
     (''uwsgi_cache_min_uses'',
       [NGXHttpMainConf OR NGXHttpSrvConf OR NGXHttpLocConf OR NGXConfTake1]),
     (''uwsgi_cache_path'', [NGXHttpMainConf OR NGXConf2More]),
     (''uwsgi_cache_revalidate'',
       [NGXHttpMainConf OR NGXHttpSrvConf OR NGXHttpLocConf OR NGXConfFlag]),
     (''uwsgi_cache_use_stale'',
       [NGXHttpMainConf OR NGXHttpSrvConf OR NGXHttpLocConf OR NGXConf1More]),
     (''uwsgi_cache_valid'', [NGXHttpMainConf OR NGXHttpSrvConf OR NGXHttpLocConf OR NGXConf1More]),
     (''uwsgi_connect_timeout'',
       [NGXHttpMainConf OR NGXHttpSrvConf OR NGXHttpLocConf OR NGXConfTake1]),
     (''uwsgi_force_ranges'', [NGXHttpMainConf OR NGXHttpSrvConf OR NGXHttpLocConf OR NGXConfFlag]),
     (''uwsgi_hide_header'', [NGXHttpMainConf OR NGXHttpSrvConf OR NGXHttpLocConf OR NGXConfTake1]),
     (''uwsgi_ignore_client_abort'',
       [NGXHttpMainConf OR NGXHttpSrvConf OR NGXHttpLocConf OR NGXConfFlag]),
     (''uwsgi_ignore_headers'',
       [NGXHttpMainConf OR NGXHttpSrvConf OR NGXHttpLocConf OR NGXConf1More]),
     (''uwsgi_intercept_errors'',
       [NGXHttpMainConf OR NGXHttpSrvConf OR NGXHttpLocConf OR NGXConfFlag]),
     (''uwsgi_limit_rate'', [NGXHttpMainConf OR NGXHttpSrvConf OR NGXHttpLocConf OR NGXConfTake1]),
     (''uwsgi_max_temp_file_size'',
       [NGXHttpMainConf OR NGXHttpSrvConf OR NGXHttpLocConf OR NGXConfTake1]),
     (''uwsgi_modifier1'', [NGXHttpMainConf OR NGXHttpSrvConf OR NGXHttpLocConf OR NGXConfTake1]),
     (''uwsgi_modifier2'', [NGXHttpMainConf OR NGXHttpSrvConf OR NGXHttpLocConf OR NGXConfTake1]),
     (''uwsgi_next_upstream'', [NGXHttpMainConf OR NGXHttpSrvConf OR NGXHttpLocConf OR NGXConf1More]),
     (''uwsgi_next_upstream_timeout'',
       [NGXHttpMainConf OR NGXHttpSrvConf OR NGXHttpLocConf OR NGXConfTake1]),
     (''uwsgi_next_upstream_tries'',
       [NGXHttpMainConf OR NGXHttpSrvConf OR NGXHttpLocConf OR NGXConfTake1]),
     (''uwsgi_no_cache'', [NGXHttpMainConf OR NGXHttpSrvConf OR NGXHttpLocConf OR NGXConf1More]),
     (''uwsgi_param'', [NGXHttpMainConf OR NGXHttpSrvConf OR NGXHttpLocConf OR NGXConfTake23]),
     (''uwsgi_pass'', [NGXHttpLocConf OR NGXHttpLifConf OR NGXConfTake1]),
     (''uwsgi_pass_header'', [NGXHttpMainConf OR NGXHttpSrvConf OR NGXHttpLocConf OR NGXConfTake1]),
     (''uwsgi_pass_request_body'',
       [NGXHttpMainConf OR NGXHttpSrvConf OR NGXHttpLocConf OR NGXConfFlag]),
     (''uwsgi_pass_request_headers'',
       [NGXHttpMainConf OR NGXHttpSrvConf OR NGXHttpLocConf OR NGXConfFlag]),
     (''uwsgi_read_timeout'', [NGXHttpMainConf OR NGXHttpSrvConf OR NGXHttpLocConf OR NGXConfTake1]),
     (''uwsgi_request_buffering'',
       [NGXHttpMainConf OR NGXHttpSrvConf OR NGXHttpLocConf OR NGXConfFlag])]"

definition directives_9 :: "(string \<times> mask list) list" where
  "directives_9 =
    [(''uwsgi_send_timeout'', [NGXHttpMainConf OR NGXHttpSrvConf OR NGXHttpLocConf OR NGXConfTake1]),
     (''uwsgi_socket_keepalive'',
       [NGXHttpMainConf OR NGXHttpSrvConf OR NGXHttpLocConf OR NGXConfFlag]),
     (''uwsgi_ssl_certificate'',
       [NGXHttpMainConf OR NGXHttpSrvConf OR NGXHttpLocConf OR NGXConfTake1]),
     (''uwsgi_ssl_certificate_key'',
       [NGXHttpMainConf OR NGXHttpSrvConf OR NGXHttpLocConf OR NGXConfTake1]),
     (''uwsgi_ssl_ciphers'', [NGXHttpMainConf OR NGXHttpSrvConf OR NGXHttpLocConf OR NGXConfTake1]),
     (''uwsgi_ssl_crl'', [NGXHttpMainConf OR NGXHttpSrvConf OR NGXHttpLocConf OR NGXConfTake1]),
     (''uwsgi_ssl_name'', [NGXHttpMainConf OR NGXHttpSrvConf OR NGXHttpLocConf OR NGXConfTake1]),
     (''uwsgi_ssl_password_file'',
       [NGXHttpMainConf OR NGXHttpSrvConf OR NGXHttpLocConf OR NGXConfTake1]),
     (''uwsgi_ssl_protocols'', [NGXHttpMainConf OR NGXHttpSrvConf OR NGXHttpLocConf OR NGXConf1More]),
     (''uwsgi_ssl_server_name'',
       [NGXHttpMainConf OR NGXHttpSrvConf OR NGXHttpLocConf OR NGXConfFlag]),
     (''uwsgi_ssl_session_reuse'',
       [NGXHttpMainConf OR NGXHttpSrvConf OR NGXHttpLocConf OR NGXConfFlag]),
     (''uwsgi_ssl_trusted_certificate'',
       [NGXHttpMainConf OR NGXHttpSrvConf OR NGXHttpLocConf OR NGXConfTake1]),
     (''uwsgi_ssl_verify'', [NGXHttpMainConf OR NGXHttpSrvConf OR NGXHttpLocConf OR NGXConfFlag]),
     (''uwsgi_ssl_verify_depth'',
       [NGXHttpMainConf OR NGXHttpSrvConf OR NGXHttpLocConf OR NGXConfTake1]),
     (''uwsgi_store'', [NGXHttpMainConf OR NGXHttpSrvConf OR NGXHttpLocConf OR NGXConfTake1]),
     (''uwsgi_store_access'',
       [NGXHttpMainConf OR NGXHttpSrvConf OR NGXHttpLocConf OR NGXConfTake123]),
     (''uwsgi_temp_file_write_size'',
       [NGXHttpMainConf OR NGXHttpSrvConf OR NGXHttpLocConf OR NGXConfTake1]),
     (''uwsgi_temp_path'', [NGXHttpMainConf OR NGXHttpSrvConf OR NGXHttpLocConf OR NGXConfTake1234]),
     (''valid_referers'', [NGXHttpSrvConf OR NGXHttpLocConf OR NGXConf1More]),
     (''variables_hash_bucket_size'',
       [NGXHttpMainConf OR NGXConfTake1, NGXStreamMainConf OR NGXConfTake1]),
     (''variables_hash_max_size'',
       [NGXHttpMainConf OR NGXConfTake1, NGXStreamMainConf OR NGXConfTake1]),
     (''worker_aio_requests'', [NGXEventConf OR NGXConfTake1]),
     (''worker_connections'', [NGXEventConf OR NGXConfTake1]),
     (''worker_cpu_affinity'', [NGXMainConf OR NGXDirectConf OR NGXConf1More]),
     (''worker_priority'', [NGXMainConf OR NGXDirectConf OR NGXConfTake1]),
     (''worker_processes'', [NGXMainConf OR NGXDirectConf OR NGXConfTake1]),
     (''worker_rlimit_core'', [NGXMainConf OR NGXDirectConf OR NGXConfTake1]),
     (''worker_rlimit_nofile'', [NGXMainConf OR NGXDirectConf OR NGXConfTake1]),
     (''worker_shutdown_timeout'', [NGXMainConf OR NGXDirectConf OR NGXConfTake1]),
     (''working_directory'', [NGXMainConf OR NGXDirectConf OR NGXConfTake1]),
     (''xclient'', [NGXMailMainConf OR NGXMailSrvConf OR NGXConfFlag]),
     (''xml_entities'', [NGXHttpMainConf OR NGXHttpSrvConf OR NGXHttpLocConf OR NGXConfTake1]),
     (''xslt_last_modified'', [NGXHttpMainConf OR NGXHttpSrvConf OR NGXHttpLocConf OR NGXConfFlag]),
     (''xslt_param'', [NGXHttpMainConf OR NGXHttpSrvConf OR NGXHttpLocConf OR NGXConfTake2]),
     (''xslt_string_param'', [NGXHttpMainConf OR NGXHttpSrvConf OR NGXHttpLocConf OR NGXConfTake2]),
     (''xslt_stylesheet'', [NGXHttpLocConf OR NGXConf1More]),
     (''xslt_types'', [NGXHttpMainConf OR NGXHttpSrvConf OR NGXHttpLocConf OR NGXConf1More]),
     (''zone'', [NGXHttpUpsConf OR NGXConfTake12, NGXStreamUpsConf OR NGXConfTake12]),
     (''api'', [NGXHttpLocConf OR NGXConfNoArgs OR NGXConfTake1]),
     (''auth_jwt'', [NGXHttpMainConf OR NGXHttpSrvConf OR NGXHttpLocConf OR NGXConfTake12]),
     (''auth_jwt_claim_set'', [NGXHttpMainConf OR NGXConf2More]),
     (''auth_jwt_header_set'', [NGXHttpMainConf OR NGXConf2More]),
     (''auth_jwt_key_file'', [NGXHttpMainConf OR NGXHttpSrvConf OR NGXHttpLocConf OR NGXConfTake1]),
     (''auth_jwt_key_request'',
       [NGXHttpMainConf OR NGXHttpSrvConf OR NGXHttpLocConf OR NGXConfTake1]),
     (''auth_jwt_leeway'', [NGXHttpMainConf OR NGXHttpSrvConf OR NGXHttpLocConf OR NGXConfTake1]),
     (''f4f'', [NGXHttpLocConf OR NGXConfNoArgs]),
     (''f4f_buffer_size'', [NGXHttpMainConf OR NGXHttpSrvConf OR NGXHttpLocConf OR NGXConfTake1]),
     (''fastcgi_cache_purge'', [NGXHttpMainConf OR NGXHttpSrvConf OR NGXHttpLocConf OR NGXConf1More]),
     (''health_check'', [NGXHttpLocConf OR NGXConfAny, NGXStreamSrvConf OR NGXConfAny]),
     (''health_check_timeout'', [NGXStreamMainConf OR NGXStreamSrvConf OR NGXConfTake1]),
     (''hls'', [NGXHttpLocConf OR NGXConfNoArgs]),
     (''hls_buffers'', [NGXHttpMainConf OR NGXHttpSrvConf OR NGXHttpLocConf OR NGXConfTake2]),
     (''hls_forward_args'', [NGXHttpMainConf OR NGXHttpSrvConf OR NGXHttpLocConf OR NGXConfFlag]),
     (''hls_fragment'', [NGXHttpMainConf OR NGXHttpSrvConf OR NGXHttpLocConf OR NGXConfTake1]),
     (''hls_mp4_buffer_size'', [NGXHttpMainConf OR NGXHttpSrvConf OR NGXHttpLocConf OR NGXConfTake1]),
     (''hls_mp4_max_buffer_size'',
       [NGXHttpMainConf OR NGXHttpSrvConf OR NGXHttpLocConf OR NGXConfTake1]),
     (''js_access'', [NGXStreamMainConf OR NGXStreamSrvConf OR NGXConfTake1]),
     (''js_content'', [NGXHttpLocConf OR NGXHttpLmtConf OR NGXConfTake1]),
     (''js_filter'', [NGXStreamMainConf OR NGXStreamSrvConf OR NGXConfTake1]),
     (''js_include'', [NGXHttpMainConf OR NGXConfTake1, NGXStreamMainConf OR NGXConfTake1]),
     (''js_path'', [NGXHttpMainConf OR NGXConfTake1]),
     (''js_preread'', [NGXStreamMainConf OR NGXStreamSrvConf OR NGXConfTake1]),
     (''js_set'', [NGXHttpMainConf OR NGXConfTake2, NGXStreamMainConf OR NGXConfTake2]),
     (''keyval'', [NGXHttpMainConf OR NGXConfTake3, NGXStreamMainConf OR NGXConfTake3]),
     (''keyval_zone'', [NGXHttpMainConf OR NGXConf1More, NGXStreamMainConf OR NGXConf1More]),
     (''least_time'', [NGXHttpUpsConf OR NGXConfTake12, NGXStreamUpsConf OR NGXConfTake12]),
     (''limit_zone'', [NGXHttpMainConf OR NGXConfTake3])]"

definition directives_10 :: "(string \<times> mask list) list" where
  "directives_10 =
    [(''match'',
       [NGXHttpMainConf OR NGXConfBlock OR NGXConfTake1,
        NGXStreamMainConf OR NGXConfBlock OR NGXConfTake1]),
     (''memcached_force_ranges'',
       [NGXHttpMainConf OR NGXHttpSrvConf OR NGXHttpLocConf OR NGXConfFlag]),
     (''mp4_limit_rate'', [NGXHttpMainConf OR NGXHttpSrvConf OR NGXHttpLocConf OR NGXConfTake1]),
     (''mp4_limit_rate_after'',
       [NGXHttpMainConf OR NGXHttpSrvConf OR NGXHttpLocConf OR NGXConfTake1]),
     (''ntlm'', [NGXHttpUpsConf OR NGXConfNoArgs]),
     (''proxy_cache_purge'', [NGXHttpMainConf OR NGXHttpSrvConf OR NGXHttpLocConf OR NGXConf1More]),
     (''queue'', [NGXHttpUpsConf OR NGXConfTake12]),
     (''scgi_cache_purge'', [NGXHttpMainConf OR NGXHttpSrvConf OR NGXHttpLocConf OR NGXConf1More]),
     (''session_log'', [NGXHttpMainConf OR NGXHttpSrvConf OR NGXHttpLocConf OR NGXConfTake1]),
     (''session_log_format'', [NGXHttpMainConf OR NGXConf2More]),
     (''session_log_zone'',
       [NGXHttpMainConf OR NGXConfTake23 OR NGXConfTake4 OR NGXConfTake5 OR NGXConfTake6]),
     (''state'', [NGXHttpUpsConf OR NGXConfTake1, NGXStreamUpsConf OR NGXConfTake1]),
     (''status'', [NGXHttpLocConf OR NGXConfNoArgs]),
     (''status_format'', [NGXHttpMainConf OR NGXHttpSrvConf OR NGXHttpLocConf OR NGXConfTake12]),
     (''status_zone'',
       [NGXHttpSrvConf OR NGXConfTake1,
        NGXStreamSrvConf OR NGXConfTake1,
        NGXHttpLocConf OR NGXConfTake1,
        NGXHttpLifConf OR NGXConfTake1]),
     (''sticky'', [NGXHttpUpsConf OR NGXConf1More]),
     (''sticky_cookie_insert'', [NGXHttpUpsConf OR NGXConfTake1234]),
     (''upstream_conf'', [NGXHttpLocConf OR NGXConfNoArgs]),
     (''uwsgi_cache_purge'', [NGXHttpMainConf OR NGXHttpSrvConf OR NGXHttpLocConf OR NGXConf1More]),
     (''zone_sync'', [NGXStreamSrvConf OR NGXConfNoArgs]),
     (''zone_sync_buffers'', [NGXStreamMainConf OR NGXStreamSrvConf OR NGXConfTake2]),
     (''zone_sync_connect_retry_interval'', [NGXStreamMainConf OR NGXStreamSrvConf OR NGXConfTake1]),
     (''zone_sync_connect_timeout'', [NGXStreamMainConf OR NGXStreamSrvConf OR NGXConfTake1]),
     (''zone_sync_interval'', [NGXStreamMainConf OR NGXStreamSrvConf OR NGXConfTake1]),
     (''zone_sync_recv_buffer_size'', [NGXStreamMainConf OR NGXStreamSrvConf OR NGXConfTake1]),
     (''zone_sync_server'', [NGXStreamSrvConf OR NGXConfTake12]),
     (''zone_sync_ssl'', [NGXStreamMainConf OR NGXStreamSrvConf OR NGXConfFlag]),
     (''zone_sync_ssl_certificate'', [NGXStreamMainConf OR NGXStreamSrvConf OR NGXConfTake1]),
     (''zone_sync_ssl_certificate_key'', [NGXStreamMainConf OR NGXStreamSrvConf OR NGXConfTake1]),
     (''zone_sync_ssl_ciphers'', [NGXStreamMainConf OR NGXStreamSrvConf OR NGXConfTake1]),
     (''zone_sync_ssl_crl'', [NGXStreamMainConf OR NGXStreamSrvConf OR NGXConfTake1]),
     (''zone_sync_ssl_name'', [NGXStreamMainConf OR NGXStreamSrvConf OR NGXConfTake1]),
     (''zone_sync_ssl_password_file'', [NGXStreamMainConf OR NGXStreamSrvConf OR NGXConfTake1]),
     (''zone_sync_ssl_protocols'', [NGXStreamMainConf OR NGXStreamSrvConf OR NGXConf1More]),
     (''zone_sync_ssl_server_name'', [NGXStreamMainConf OR NGXStreamSrvConf OR NGXConfFlag]),
     (''zone_sync_ssl_trusted_certificate'', [NGXStreamMainConf OR NGXStreamSrvConf OR NGXConfTake1]),
     (''zone_sync_ssl_verify'', [NGXStreamMainConf OR NGXStreamSrvConf OR NGXConfFlag]),
     (''zone_sync_ssl_verify_depth'', [NGXStreamMainConf OR NGXStreamSrvConf OR NGXConfTake1]),
     (''zone_sync_timeout'', [NGXStreamMainConf OR NGXStreamSrvConf OR NGXConfTake1])]"

definition directive_table :: "(string \<times> mask list) list" where
  "directive_table =
     directives_1 @ directives_2 @ directives_3 @ directives_4 @ directives_5 @
     directives_6 @ directives_7 @ directives_8 @ directives_9 @ directives_10"

definition directives :: "string \<rightharpoonup> mask list" where
  "directives = map_of directive_table"

section \<open>The context table\<close>

definition toCtx :: "string list \<Rightarrow> string" where
  "toCtx s = (if length s > 0 then join s '','' else [])"

definition context_table :: "(string \<times> mask) list" where
  "context_table =
    [(toCtx [], NGXMainConf),
     (toCtx [''events''], NGXEventConf),
     (toCtx [''mail''], NGXMailMainConf),
     (toCtx [''mail'', ''server''], NGXMailSrvConf),
     (toCtx [''stream''], NGXStreamMainConf),
     (toCtx [''stream'', ''server''], NGXStreamSrvConf),
     (toCtx [''stream'', ''upstream''], NGXStreamUpsConf),
     (toCtx [''http''], NGXHttpMainConf),
     (toCtx [''http'', ''server''], NGXHttpSrvConf),
     (toCtx [''http'', ''location''], NGXHttpLocConf),
     (toCtx [''http'', ''upstream''], NGXHttpUpsConf),
     (toCtx [''http'', ''server'', ''if''], NGXHttpSifConf),
     (toCtx [''http'', ''location'', ''if''], NGXHttpLifConf),
     (toCtx [''http'', ''location'', ''limit_except''], NGXHttpLmtConf),
     (toCtx [''http'', ''oauth2''], NGXHttpOauth2Conf)]"

definition contexts :: "string \<rightharpoonup> mask" where
  "contexts = map_of context_table"

end
