(* ===== verification/Go_Fmt.thy ===== *)
theory Go_Fmt
  imports Prelude
begin

text \<open>
  The two text-formatting functions the configuration code calls: \<open>strconv.Quote\<close> and
  \<open>fmt.Sprintf\<close> with one string operand.

  \<open>strconv.IsPrint\<close> is table driven; its table is the parameter \<open>printable\<close> for the runes
  outside ASCII. Of the format directives the model has the bare verbs with the flags space, minus
  and zero, which have no effect without a width; width, precision, argument index and the flags
  plus and sharp occur in no format of the program.
\<close>

section \<open>Quoting\<close>

definition hexdigit :: "nat \<Rightarrow> char" where
  "hexdigit n = ''0123456789abcdef'' ! (n mod 16)"

text \<open>The last \<open>k\<close> hexadecimal digits of a number.\<close>

fun hex :: "nat \<Rightarrow> nat \<Rightarrow> string" where
  "hex 0 n = []"
| "hex (Suc k) n = hex k (n div 16) @ [hexdigit n]"

definition isPrint :: "(rune \<Rightarrow> bool) \<Rightarrow> rune \<Rightarrow> bool" where
  "isPrint printable r = (if r < 0x80 then 0x20 \<le> r \<and> r < 0x7F else printable r)"

text \<open>\<open>appendEscapedRune\<close> with the quote character.\<close>

definition escapedRune :: "(rune \<Rightarrow> bool) \<Rightarrow> rune \<Rightarrow> string" where
  "escapedRune printable r =
     (if r = rune_of CHR 0x22 \<or> r = rune_of CHR 0x5C then CHR 0x5C # string_of_rune r
      else if isPrint printable r then string_of_rune r
      else if r = 7 then CHR 0x5C # ''a''
      else if r = 8 then CHR 0x5C # ''b''
      else if r = 12 then CHR 0x5C # ''f''
      else if r = 10 then CHR 0x5C # ''n''
      else if r = 13 then CHR 0x5C # ''r''
      else if r = 9 then CHR 0x5C # ''t''
      else if r = 11 then CHR 0x5C # ''v''
      else if r < 32 then CHR 0x5C # CHR ''x'' # hex 2 r
      else if r < 0x10000 then CHR 0x5C # CHR ''u'' # hex 4 r
      else CHR 0x5C # CHR ''U'' # hex 8 r)"

fun quote_bytes :: "(rune \<Rightarrow> bool) \<Rightarrow> nat list \<Rightarrow> string" where
  "quote_bytes printable [] = []"
| "quote_bytes printable (b # bs) =
     (let (r, width) = decodeRune (b # bs)
      in (if width = 1 \<and> r = 0xFFFD then CHR 0x5C # CHR ''x'' # hex 2 b
          else escapedRune printable r)
         @ quote_bytes printable (drop (width - 1) bs))"

definition Quote :: "(rune \<Rightarrow> bool) \<Rightarrow> string \<Rightarrow> string" where
  "Quote printable s = CHR 0x22 # quote_bytes printable (map of_char s) @ [CHR 0x22]"

text \<open>The bytes that \<open>Quote\<close> leaves alone.\<close>

definition plain_char :: "char \<Rightarrow> bool" where
  "plain_char c \<longleftrightarrow>
     0x20 \<le> (of_char c :: nat) \<and> (of_char c :: nat) < 0x7F \<and> c \<noteq> CHR 0x22 \<and> c \<noteq> CHR 0x5C"

lemma plain_char_ascii: "plain_char c \<Longrightarrow> ascii c"
  by (simp add: plain_char_def ascii_def)

lemma escapedRune_plain: "plain_char c \<Longrightarrow> escapedRune printable (rune_of c) = [c]"
  by (auto simp: escapedRune_def isPrint_def plain_char_def plain_char_ascii
      string_of_rune_ascii ascii_def)

lemma quote_bytes_plain:
  "list_all plain_char s \<Longrightarrow> quote_bytes printable (map of_char s) = s"
proof (induction s)
  case (Cons c s)
  then have "(of_char c :: nat) < 0x80" by (simp add: plain_char_def)
  with Cons escapedRune_plain [of c] show ?case by simp
qed simp

lemma Quote_plain: "list_all plain_char s \<Longrightarrow> Quote printable s = CHR 0x22 # s @ [CHR 0x22]"
  by (simp add: Quote_def quote_bytes_plain)

section \<open>Formatting\<close>

definition printArg :: "(rune \<Rightarrow> bool) \<Rightarrow> char \<Rightarrow> string \<Rightarrow> string" where
  "printArg printable verb s =
     (if verb = CHR ''q'' then Quote printable s
      else if verb = CHR ''s'' \<or> verb = CHR ''v'' then s
      else ''%!'' @ verb # ''(string='' @ s @ '')'')"

function sprintf_loop :: "(rune \<Rightarrow> bool) \<Rightarrow> string \<Rightarrow> string option \<Rightarrow> string" where
  "sprintf_loop printable [] (Some s) = ''%!(EXTRA string='' @ s @ '')''"
| "sprintf_loop printable [] None = []"
| "sprintf_loop printable (c # cs) arg =
     (if c \<noteq> CHR ''%'' then c # sprintf_loop printable cs arg
      else case dropWhile (\<lambda>f. f \<in> set '' -0'') cs of
          [] \<Rightarrow> ''%!(NOVERB)'' @ sprintf_loop printable [] arg
        | verb # rest \<Rightarrow>
            if verb = CHR ''%'' then verb # sprintf_loop printable rest arg
            else (case arg of
                    None \<Rightarrow> ''%!'' @ verb # ''(MISSING)'' @ sprintf_loop printable rest None
                  | Some s \<Rightarrow> printArg printable verb s @ sprintf_loop printable rest None))"
  by pat_completeness auto
termination
proof (relation "measure (\<lambda>(printable, format, arg). length format)", goal_cases)
  case 1
  show ?case by simp
next
  case (2 printable c cs arg)
  show ?case by simp
next
  case (3 printable c cs arg)
  show ?case by simp
next
  case (4 printable c cs arg verb rest)
  then show ?case using length_dropWhile_le [of "\<lambda>f. f \<in> set '' -0''" cs] by simp
next
  case (5 printable c cs arg verb rest)
  then show ?case using length_dropWhile_le [of "\<lambda>f. f \<in> set '' -0''" cs] by simp
next
  case (6 printable c cs arg verb rest s)
  then show ?case using length_dropWhile_le [of "\<lambda>f. f \<in> set '' -0''" cs] by simp
qed

definition Sprintf :: "(rune \<Rightarrow> bool) \<Rightarrow> string \<Rightarrow> string \<Rightarrow> string" where
  "Sprintf printable format s = sprintf_loop printable format (Some s)"

lemma sprintf_loop_plain:
  "CHR ''%'' \<notin> set pre \<Longrightarrow>
     sprintf_loop printable (pre @ rest) arg = pre @ sprintf_loop printable rest arg"
  by (induction pre) auto

text \<open>A format without a directive leaves its operand over.\<close>

lemma Sprintf_no_verb:
  "CHR ''%'' \<notin> set s \<Longrightarrow> Sprintf printable s d = s @ ''%!(EXTRA string='' @ d @ '')''"
  using sprintf_loop_plain [of s printable "[]" "Some d"] by (simp add: Sprintf_def)

lemma Sprintf_verb:
  assumes "CHR ''%'' \<notin> set pre" "CHR ''%'' \<notin> set post" "verb \<notin> set ''% -0''"
  shows "Sprintf printable (pre @ CHR ''%'' # verb # post) d = pre @ printArg printable verb d @ post"
  using assms sprintf_loop_plain [of post printable "[]" None]
  by (simp add: Sprintf_def sprintf_loop_plain)

end
