(* ===== verification/Config_Analyze.thy ===== *)
theory Config_Analyze
  imports Config_Lex Config_Directives Go_Fmt
begin

text \<open>
  The directive check of \<open>config_analyze.go\<close>, and the statement type of \<open>config_parse.go\<close> that it
  reads. \<open>reverse\<close> swaps the elements of the mask slice of the global table \<open>directives\<close> in
  place, so the table is a state that \<open>analyze\<close> takes and returns.
\<close>

section \<open>Statements and errors\<close>

text \<open>
  A \<open>Stmt\<close>. \<open>Blocks\<close> is \<open>None\<close> for the nil slice of a statement without a block; an empty block
  is \<open>Some []\<close>. \<open>Args\<close> and \<open>Includes\<close> are nil exactly when they are empty.
\<close>

datatype Stmt = Stmt
  (Directive: string)
  (SFilename: string)
  (Line: nat)
  (Args: "string list")
  (Comment: string)
  (Includes: "nat list")
  (Blocks: "Stmt list option")

text \<open>The statements of a block are smaller than the statement, for the recursive functions over
  statement trees.\<close>

lemma size_block [termination_simp]: "Blocks st = Some bs \<Longrightarrow> b \<in> set bs \<Longrightarrow> size b < size st"
  using size_list_estimation' [of b bs "size b" size] by (cases st) auto

datatype directive_error =
    NgxParserDirectiveUnknownError ngx_error
  | NgxParserDirectiveContextError ngx_error
  | NgxParserDirectiveArgumentsError ngx_error

type_synonym directive_map = "string \<rightharpoonup> mask list"

section \<open>The check\<close>

definition inDirective :: "directive_map \<Rightarrow> string \<Rightarrow> bool" where
  "inDirective dirs name \<longleftrightarrow> dirs name \<noteq> None"

definition inContext :: "string list \<Rightarrow> bool" where
  "inContext ctx \<longleftrightarrow> contexts (toCtx ctx) \<noteq> None"

text \<open>The loop of \<open>reverse\<close>, with its two indices.\<close>

function reverse_loop :: "'a list \<Rightarrow> nat \<Rightarrow> nat \<Rightarrow> 'a list" where
  "reverse_loop a i j =
     (if i < j then reverse_loop (a[i := a ! j, j := a ! i]) (i + 1) (j - 1) else a)"
  by pat_completeness auto
termination
  by (relation "measure (\<lambda>(a, i, j). j - i)") auto

declare reverse_loop.simps [simp del]

definition reverse :: "'a list \<Rightarrow> 'a list" where
  "reverse a = reverse_loop a 0 (length a - 1)"

definition validFlag :: "string \<Rightarrow> bool" where
  "validFlag s \<longleftrightarrow> toLower s \<in> {''on'', ''off''}"

text \<open>The context loop. Its result variable starts as \<open>true\<close>.\<close>

fun ctx_loop :: "mask list \<Rightarrow> mask \<Rightarrow> bool \<Rightarrow> bool" where
  "ctx_loop [] ctxMask pass = pass"
| "ctx_loop (m # ms) ctxMask pass = (if m AND ctxMask \<noteq> 0 then True else ctx_loop ms ctxMask pass)"

text \<open>The condition under which a mask admits \<open>n\<close> arguments.\<close>

definition arity_fits :: "mask \<Rightarrow> string list \<Rightarrow> bool" where
  "arity_fits m args \<longleftrightarrow>
     (let n = length args in
        (drop_bit n m AND 1 \<noteq> 0 \<and> n \<le> 7) \<or>
        (m AND NGXConfFlag \<noteq> 0 \<and> n = 1 \<and> validFlag (args ! 0)) \<or>
        (m AND NGXConfAny \<noteq> 0 \<and> n \<ge> 0) \<or>
        (m AND NGXConf1More \<noteq> 0 \<and> n \<ge> 1) \<or>
        (m AND NGXConf2More \<noteq> 0 \<and> n \<ge> 2))"

text \<open>One round of the argument loop: \<open>None\<close> is the early \<open>return nil\<close> at a mask that fits,
  otherwise the reason that is appended.\<close>

definition mask_reason :: "mask \<Rightarrow> string \<Rightarrow> string list \<Rightarrow> string option" where
  "mask_reason m term args =
     (if m AND NGXConfBlock \<noteq> 0 \<and> term \<noteq> ''{'' then Some ''directive %q has no opening {''
      else if \<not> (m AND NGXConfBlock \<noteq> 0) \<and> term \<noteq> '';''
        then Some ''directive %q is not terminated by ;''
      else if arity_fits m args then None
      else if m AND NGXConfFlag \<noteq> 0 \<and> length args = 1 \<and> \<not> validFlag (args ! 0)
        then Some (''invalid value '' @ args ! 0 @ '' in %s directive ,it must be on or off'')
      else Some ''invalid number of arguments in %q directive'')"

fun args_loop :: "mask list \<Rightarrow> string \<Rightarrow> string list \<Rightarrow> string list \<Rightarrow> string list option" where
  "args_loop [] term args reason = Some reason"
| "args_loop (m # ms) term args reason =
     (case mask_reason m term args of
        None \<Rightarrow> None
      | Some r \<Rightarrow> args_loop ms term args (reason @ [r]))"

text \<open>The loop that formats the reasons, each from the current first one.\<close>

fun format_loop :: "(rune \<Rightarrow> bool) \<Rightarrow> string \<Rightarrow> nat \<Rightarrow> nat \<Rightarrow> string list \<Rightarrow> string list" where
  "format_loop printable d i 0 reason = reason"
| "format_loop printable d i (Suc k) reason =
     format_loop printable d (Suc i) k (reason[i := Sprintf printable (reason ! 0) d])"

definition format_reasons :: "(rune \<Rightarrow> bool) \<Rightarrow> string \<Rightarrow> string list \<Rightarrow> string list" where
  "format_reasons printable d reason = format_loop printable d 0 (length reason) reason"

definition analyze ::
  "(rune \<Rightarrow> bool) \<Rightarrow> directive_map \<Rightarrow> string \<Rightarrow> Stmt \<Rightarrow> string \<Rightarrow> string list \<Rightarrow> bool \<Rightarrow> bool \<Rightarrow> bool \<Rightarrow>
   directive_error option \<times> directive_map" where
  "analyze printable dirs filename stmt term ctx strict checkCtx checkArgs =
     (let err = (\<lambda>reason. Some (NgxParserDirectiveUnknownError
                   (newError reason (Line stmt) filename)))
      in case dirs (Directive stmt) of
           None \<Rightarrow>
             (if strict then (err (Sprintf printable ''unknown directive %q'' (Directive stmt)), dirs)
              else (None, dirs))
         | Some masks \<Rightarrow>
             (case contexts (toCtx ctx) of
                None \<Rightarrow> (None, dirs)
              | Some ctxMask \<Rightarrow>
                  if checkCtx \<and> \<not> ctx_loop masks ctxMask True then
                    (err (Sprintf printable ''%q directive is not allowed here'' (Directive stmt)), dirs)
                  else if \<not> checkArgs then (None, dirs)
                  else
                    (let masks' = reverse masks;
                         dirs' = dirs(Directive stmt \<mapsto> masks')
                     in (case args_loop masks' term (Args stmt) [] of
                           None \<Rightarrow> (None, dirs')
                         | Some reason \<Rightarrow>
                             if length reason > 0 then
                               (err (join (format_reasons printable (Directive stmt) reason) '',''),
                                dirs')
                             else (None, dirs')))))"

section \<open>Reversal\<close>

lemma reverse_loop_length [simp]: "length (reverse_loop a i j) = length a"
proof (induction a i j rule: reverse_loop.induct)
  case (1 a i j)
  then show ?case by (simp add: reverse_loop.simps [of a i j])
qed

text \<open>The segment from \<open>i\<close> to \<open>j\<close> is reversed, the rest stays.\<close>

lemma reverse_loop_nth:
  assumes "i + j < length a" "k < length a" "j < length a"
  shows "reverse_loop a i j ! k = (if i \<le> k \<and> k \<le> j then a ! (i + j - k) else a ! k)"
  using assms
proof (induction a i j arbitrary: k rule: reverse_loop.induct)
  case (1 a i j)
  show ?case
  proof (cases "i < j")
    case True
    let ?b = "a[i := a ! j, j := a ! i]"
    have "reverse_loop ?b (i + 1) (j - 1) ! k =
        (if i + 1 \<le> k \<and> k \<le> j - 1 then ?b ! (i + 1 + (j - 1) - k) else ?b ! k)"
      using 1(2-4) True by (intro 1(1)) auto
    with True 1(2-4) show ?thesis
      by (auto simp: reverse_loop.simps [of a i j] nth_list_update)
  next
    case False
    with 1 show ?thesis by (auto simp: reverse_loop.simps [of a i j] intro!: arg_cong [of _ _ "(!) a"])
  qed
qed

lemma reverse_rev: "reverse a = rev a"
proof (cases "a = []")
  case False
  show ?thesis
  proof (rule nth_equalityI)
    fix k assume "k < length (reverse a)"
    then show "reverse a ! k = rev a ! k"
      using False reverse_loop_nth [of 0 "length a - 1" a k]
      by (auto simp: reverse_def rev_nth intro!: arg_cong [of _ _ "(!) a"])
  qed (simp add: reverse_def)
qed (simp add: reverse_def reverse_loop.simps)

section \<open>The verdict\<close>

lemma ctx_loop_True [simp]: "ctx_loop ms ctxMask True"
  by (induction ms) auto

lemma args_loop_eq:
  "args_loop ms term args r =
     (if list_ex (\<lambda>m. mask_reason m term args = None) ms then None
      else Some (r @ map (\<lambda>m. the (mask_reason m term args)) ms))"
  by (induction ms arbitrary: r) (auto split: option.splits)

text \<open>What a mask promises, in terms of its bits: bit \<open>n\<close> for \<open>n \<le> 7\<close> arguments, 8 for a block, 9
  for a flag, 10 for any number, 11 and 12 for at least one and two arguments.\<close>

definition mask_admits :: "mask \<Rightarrow> string \<Rightarrow> string list \<Rightarrow> bool" where
  "mask_admits m term args \<longleftrightarrow>
     term = (if bit m 8 then ''{'' else '';'') \<and>
     (bit m 10 \<or> (length args \<le> 7 \<and> bit m (length args)) \<or>
      (bit m 9 \<and> list_ex validFlag args \<and> length args = 1) \<or>
      (bit m 11 \<and> 1 \<le> length args) \<or> (bit m 12 \<and> 2 \<le> length args))"

lemma and_power_bit: "m AND push_bit n 1 \<noteq> 0 \<longleftrightarrow> bit m n" for m :: mask
  by (simp add: bit_iff_and_push_bit_not_eq_0)

lemma mask_bits:
  "m AND NGXConfBlock \<noteq> 0 \<longleftrightarrow> bit m 8" "m AND NGXConfFlag \<noteq> 0 \<longleftrightarrow> bit m 9"
  "m AND NGXConfAny \<noteq> 0 \<longleftrightarrow> bit m 10" "m AND NGXConf1More \<noteq> 0 \<longleftrightarrow> bit m 11"
  "m AND NGXConf2More \<noteq> 0 \<longleftrightarrow> bit m 12"
  using and_power_bit [of m 8] and_power_bit [of m 9] and_power_bit [of m 10]
    and_power_bit [of m 11] and_power_bit [of m 12]
  by (simp_all add: mask_defs push_bit_eq_mult)

lemma shifted_bit: "drop_bit n m AND 1 \<noteq> 0 \<longleftrightarrow> bit m n" for m :: mask
  by (simp add: bit_iff_odd_drop_bit and_one_eq odd_iff_mod_2_eq_one)

lemma mask_reason_None: "mask_reason m term args = None \<longleftrightarrow> mask_admits m term args"
  by (cases args)
     (auto simp: mask_reason_def mask_admits_def arity_fits_def Let_def mask_bits shifted_bit)

lemma mask_reason_admits:
  "list_ex (\<lambda>m. mask_reason m term args = None) ms \<longleftrightarrow> list_ex (\<lambda>m. mask_admits m term args) ms"
  by (simp add: mask_reason_None)

text \<open>The outcome of \<open>analyze\<close> by cases, the form the other proofs use.\<close>

lemma analyze_known:
  assumes "dirs (Directive stmt) = Some ms" "inContext ctx" "checkArgs"
  shows "analyze printable dirs filename stmt term ctx strict checkCtx checkArgs =
     (if ms = [] \<or> list_ex (\<lambda>m. mask_admits m term (Args stmt)) ms then None
      else Some (NgxParserDirectiveUnknownError (newError
             (join (format_reasons printable (Directive stmt)
               (map (\<lambda>m. the (mask_reason m term (Args stmt))) (rev ms))) '','')
             (Line stmt) filename)),
      dirs(Directive stmt \<mapsto> rev ms))"
  using assms
  by (auto simp: analyze_def Let_def inContext_def reverse_rev args_loop_eq mask_reason_None list_ex_iff)

lemma analyze_skipped:
  assumes "\<not> inContext ctx \<or> \<not> checkArgs"
  shows "analyze printable dirs filename stmt term ctx strict checkCtx checkArgs =
     (if dirs (Directive stmt) = None \<and> strict
      then Some (NgxParserDirectiveUnknownError (newError
             (Sprintf printable ''unknown directive %q'' (Directive stmt)) (Line stmt) filename))
      else None, dirs)"
  using assms by (auto simp: analyze_def inContext_def split: option.splits)

lemma analyze_unknown:
  assumes "dirs (Directive stmt) = None"
  shows "analyze printable dirs filename stmt term ctx strict checkCtx checkArgs =
     (if strict
      then Some (NgxParserDirectiveUnknownError (newError
             (Sprintf printable ''unknown directive %q'' (Directive stmt)) (Line stmt) filename))
      else None, dirs)"
  using assms by (simp add: analyze_def)

text \<open>The verdict as a predicate of the table: an unknown directive passes unless the check is strict,
  a known one passes when its nesting is unknown, when arguments are not checked, when it has no
  masks, or when a mask admits it.\<close>

definition accepted :: "directive_map \<Rightarrow> Stmt \<Rightarrow> string \<Rightarrow> string list \<Rightarrow> bool \<Rightarrow> bool \<Rightarrow> bool" where
  "accepted dirs stmt term ctx strict checkArgs \<longleftrightarrow>
     (case dirs (Directive stmt) of
        None \<Rightarrow> \<not> strict
      | Some ms \<Rightarrow>
          \<not> inContext ctx \<or> \<not> checkArgs \<or> ms = [] \<or>
          list_ex (\<lambda>m. mask_admits m term (Args stmt)) ms)"

lemma analyze_None:
  "fst (analyze printable dirs filename stmt term ctx strict checkCtx checkArgs) = None \<longleftrightarrow>
     accepted dirs stmt term ctx strict checkArgs"
  by (cases "dirs (Directive stmt)"; cases "inContext ctx \<and> checkArgs")
     (auto simp: accepted_def analyze_known analyze_skipped analyze_unknown)

lemma analyze_table:
  "snd (analyze printable dirs filename stmt term ctx strict checkCtx checkArgs) =
     (if inContext ctx \<and> checkArgs
      then dirs(Directive stmt := map_option rev (dirs (Directive stmt))) else dirs)"
  by (cases "dirs (Directive stmt)"; cases "inContext ctx \<and> checkArgs")
     (auto simp: analyze_known analyze_skipped analyze_unknown)

text \<open>Tables that agree up to the order of the masks.\<close>

definition same_masks :: "directive_map \<Rightarrow> directive_map \<Rightarrow> bool" where
  "same_masks dirs dirs' \<longleftrightarrow> (\<forall>d. rel_option (\<lambda>ms ms'. set ms = set ms') (dirs d) (dirs' d))"

lemma same_masks_refl [simp]: "same_masks dirs dirs"
  by (simp add: same_masks_def option.rel_refl)

lemma same_masks_trans [trans]:
  "same_masks d1 d2 \<Longrightarrow> same_masks d2 d3 \<Longrightarrow> same_masks d1 d3"
  unfolding same_masks_def by (metis (mono_tags, lifting) option.rel_transp transp_def)

lemma same_masks_accepted:
  assumes "same_masks dirs dirs'"
  shows "accepted dirs stmt term ctx strict checkArgs = accepted dirs' stmt term ctx strict checkArgs"
  using assms [unfolded same_masks_def, rule_format, of "Directive stmt"]
  by (cases rule: option.rel_cases) (auto simp: accepted_def list_ex_iff)

lemma analyze_same_masks:
  "same_masks dirs (snd (analyze printable dirs filename stmt term ctx strict checkCtx checkArgs))"
  unfolding analyze_table same_masks_def
  by (auto simp: option.rel_refl option.rel_map intro: option.rel_refl_strong)

section \<open>The error text\<close>

lemma format_loop_later:
  assumes "0 < i" "i + k = length reason"
  shows "format_loop printable d i k reason =
           take i reason @ replicate k (Sprintf printable (reason ! 0) d)"
  using assms
proof (induction k arbitrary: i reason)
  case (Suc k)
  let ?r = "reason[i := Sprintf printable (reason ! 0) d]"
  have "format_loop printable d (Suc i) k ?r =
      take (Suc i) ?r @ replicate k (Sprintf printable (?r ! 0) d)"
    using Suc.prems by (intro Suc.IH) auto
  with Suc.prems show ?case by (simp add: take_Suc_conv_app_nth)
qed simp

text \<open>Every reason becomes the first one; from the second on it is formatted twice.\<close>

lemma format_reasons_eq:
  "format_reasons printable d (r # rs) =
     (let f = Sprintf printable r d in f # replicate (length rs) (Sprintf printable f d))"
  using format_loop_later [of 1 "length rs" "Sprintf printable r d # rs" printable d]
  by (simp add: format_reasons_def Let_def)

section \<open>Histories\<close>

record analyze_call =
  c_filename :: string
  c_stmt :: Stmt
  c_term :: string
  c_ctx :: "string list"
  c_strict :: bool
  c_checkCtx :: bool
  c_checkArgs :: bool

definition run_call ::
  "(rune \<Rightarrow> bool) \<Rightarrow> directive_map \<Rightarrow> analyze_call \<Rightarrow> directive_error option \<times> directive_map" where
  "run_call printable dirs c =
     analyze printable dirs (c_filename c) (c_stmt c) (c_term c) (c_ctx c)
       (c_strict c) (c_checkCtx c) (c_checkArgs c)"

text \<open>The table after a sequence of checks, from its initial value.\<close>

definition after_calls :: "(rune \<Rightarrow> bool) \<Rightarrow> analyze_call list \<Rightarrow> directive_map" where
  "after_calls printable cs = foldl (\<lambda>dirs c. snd (run_call printable dirs c)) directives cs"

lemma after_calls_snoc:
  "after_calls printable (cs @ [c]) = snd (run_call printable (after_calls printable cs) c)"
  by (simp add: after_calls_def)

lemma after_calls_same_masks: "same_masks directives (after_calls printable cs)"
proof (induction cs rule: rev_induct)
  case (snoc c cs)
  then show ?case
    unfolding after_calls_snoc run_call_def using analyze_same_masks by (rule same_masks_trans)
qed (simp add: after_calls_def)

section \<open>The table\<close>

text \<open>A well-formed mask has a bit for an argument style and a bit for a context of \<open>contexts\<close>.\<close>

definition wf_mask :: "mask \<Rightarrow> bool" where
  "wf_mask m \<longleftrightarrow> m AND 0x1EFF \<noteq> 0 \<and> m AND 0x1FFFC0000 \<noteq> 0"

lemma and_nonzero_bit: "m AND k \<noteq> 0 \<longleftrightarrow> list_ex (\<lambda>n. bit m n \<and> bit k n) [0..<64]" for m k :: mask
  by (auto simp: bit_eq_iff bit_and_iff list_ex_iff dest: bit_imp_le_length)

lemma argument_bits:
  "list_all (\<lambda>n. bit (0x1EFF :: mask) n \<longrightarrow> n \<le> 7 \<or> n \<in> {9, 10, 11, 12}) [0..<64]"
  by code_simp

lemma context_bits:
  "list_all (\<lambda>n. bit (0x1FFFC0000 :: mask) n \<longrightarrow> list_ex (\<lambda>(ctx, c). bit c n) context_table) [0..<64]"
  by code_simp

definition usable_mask :: "mask \<Rightarrow> bool" where
  "usable_mask m \<longleftrightarrow>
     (\<exists>args. mask_admits m (if bit m 8 then ''{'' else '';'') args) \<and>
     (\<exists>ctx c. contexts ctx = Some c \<and> m AND c \<noteq> 0)"

lemma wf_mask_args:
  assumes "wf_mask m"
  shows "\<exists>args. mask_admits m (if bit m 8 then ''{'' else '';'') args"
proof -
  from assms obtain n where n: "bit m n" "n \<le> 7 \<or> n \<in> {9, 10, 11, 12}"
    using argument_bits by (auto simp: wf_mask_def and_nonzero_bit list_ex_iff list_all_iff)
  then have "mask_admits m (if bit m 8 then ''{'' else '';'')
      (if n \<le> 7 then replicate n [] else if n = 9 then [''on''] else [[], []])"
    by (auto simp: mask_admits_def validFlag_def toLower_def toLowerChar_def)
  then show ?thesis ..
qed

lemma wf_mask_context:
  assumes "wf_mask m"
  shows "\<exists>ctx c. contexts ctx = Some c \<and> m AND c \<noteq> 0"
proof -
  from assms obtain n ctx c where "bit m n" "(ctx, c) \<in> set context_table" "bit c n"
    using context_bits by (fastforce simp: wf_mask_def and_nonzero_bit list_ex_iff list_all_iff)
  moreover have "distinct (map fst context_table)" by code_simp
  ultimately have "contexts ctx = Some c" "bit (m AND c) n"
    by (simp_all add: contexts_def bit_and_iff)
  then show ?thesis by force
qed

lemma wf_mask_usable: "wf_mask m \<Longrightarrow> usable_mask m"
  unfolding usable_mask_def by (intro conjI wf_mask_args wf_mask_context)

definition wf_entries :: "(string \<times> mask list) list \<Rightarrow> bool" where
  "wf_entries es \<longleftrightarrow> list_all (\<lambda>(d, ms). list_all wf_mask ms) es"

lemma wf_entries_append: "wf_entries (es @ fs) \<longleftrightarrow> wf_entries es \<and> wf_entries fs"
  by (simp add: wf_entries_def)

lemmas wf_simps = wf_entries_def wf_mask_def mask_defs

lemma wf_directives_1: "wf_entries directives_1"
  by (simp add: directives_1_def wf_simps)

lemma wf_directives_2: "wf_entries directives_2"
  by (simp add: directives_2_def wf_simps)

lemma wf_directives_3: "wf_entries directives_3"
  by (simp add: directives_3_def wf_simps)

lemma wf_directives_4: "wf_entries directives_4"
  by (simp add: directives_4_def wf_simps)

lemma wf_directives_5: "wf_entries directives_5"
  by (simp add: directives_5_def wf_simps)

lemma wf_directives_6: "wf_entries directives_6"
  by (simp add: directives_6_def wf_simps)

lemma wf_directives_7: "wf_entries directives_7"
  by (simp add: directives_7_def wf_simps)

lemma wf_directives_8: "wf_entries directives_8"
  by (simp add: directives_8_def wf_simps)

lemma wf_directives_9: "wf_entries directives_9"
  by (simp add: directives_9_def wf_simps)

lemma wf_directives_10: "wf_entries directives_10"
  by (simp add: directives_10_def wf_simps)


lemma wf_table: "wf_entries directive_table"
  by (simp add: directive_table_def wf_entries_append wf_directives_1 wf_directives_2
      wf_directives_3 wf_directives_4 wf_directives_5 wf_directives_6 wf_directives_7
      wf_directives_8 wf_directives_9 wf_directives_10)

text \<open>Entries used by the examples.\<close>

lemma directives_first: "map_of directives_1 d = Some ms \<Longrightarrow> directives d = Some ms"
  by (simp add: directives_def directive_table_def map_add_Some_iff)

lemma directives_accept_mutex: "directives ''accept_mutex'' = Some [NGXEventConf OR NGXConfFlag]"
  by (rule directives_first) (simp add: directives_1_def)

lemma directives_access_log:
  "directives ''access_log'' =
     Some [NGXHttpMainConf OR NGXHttpSrvConf OR NGXHttpLocConf OR NGXHttpLifConf OR NGXHttpLmtConf OR
             NGXConf1More,
           NGXStreamMainConf OR NGXStreamSrvConf OR NGXConf1More]"
  by (rule directives_first) (simp add: directives_1_def)

section \<open>Properties\<close>

text \<open>
  Directive check (C27). A statement passes \<open>analyze\<close> exactly when its directive is unknown and the
  check is not strict, or its nesting is unknown, or arguments are not checked, or one of the
  directive's masks admits its terminator and its arguments. The flag \<open>checkCtx\<close> plays no part.
\<close>

theorem analyze_accepts_iff:
  "fst (analyze printable dirs filename stmt term ctx strict checkCtx checkArgs) = None \<longleftrightarrow>
     accepted dirs stmt term ctx strict checkArgs"
  by (rule analyze_None)

text \<open>
  Order of checks (C19). Every check reverses the mask list of its directive in the global table,
  but no sequence of earlier checks changes the verdict of a later one.
\<close>

theorem analyze_history_independent:
  "fst (run_call printable (after_calls printable cs) c) = None \<longleftrightarrow>
     fst (run_call printable directives c) = None"
  using same_masks_accepted [OF after_calls_same_masks [of printable cs]]
  by (simp add: run_call_def analyze_None)

text \<open>
  Context check. Switching the context check on changes nothing, neither the error nor the
  table: its result variable starts as true, so a directive is never reported as misplaced.
\<close>

theorem analyze_context_check_vacuous:
  "analyze printable dirs filename stmt term ctx strict True checkArgs =
   analyze printable dirs filename stmt term ctx strict False checkArgs"
  by (simp add: analyze_def split: option.splits)

text \<open>
  Error text (C23). When every mask of a known directive rejects a statement, the error names the
  statement's line and file and repeats the reason of the last mask of the table once per mask;
  the copies after the first carry the left-over operand of a second formatting.
\<close>

theorem analyze_error_text:
  assumes "dirs (Directive stmt) = Some (ms @ [m])" "inContext ctx" "checkArgs"
    and "\<not> list_ex (\<lambda>m. mask_admits m term (Args stmt)) (ms @ [m])"
    and "f = Sprintf printable (the (mask_reason m term (Args stmt))) (Directive stmt)"
    and "CHR ''%'' \<notin> set f"
  shows "fst (analyze printable dirs filename stmt term ctx strict checkCtx checkArgs) =
     Some (NgxParserDirectiveUnknownError (newError
       (join (f # replicate (length ms) (f @ ''%!(EXTRA string='' @ Directive stmt @ '')'')) '','')
       (Line stmt) filename))"
  using assms by (simp add: analyze_known format_reasons_eq Sprintf_no_verb Let_def)

theorem analyze_error_text_witness:
  "fst (analyze (\<lambda>_. True) directives ''f''
          (Stmt ''access_log'' [] 3 [] [] [] None) '';'' [''http''] False True True) =
     Some (NgxParserDirectiveUnknownError (newError
       (''invalid number of arguments in '' @ CHR 0x22 # ''access_log'' @ CHR 0x22 # '' directive,'' @
        ''invalid number of arguments in '' @ CHR 0x22 # ''access_log'' @ CHR 0x22 #
        '' directive%!(EXTRA string=access_log)'') 3 ''f''))"
proof -
  let ?stmt = "Stmt ''access_log'' [] 3 [] [] [] None"
  let ?m1 = "NGXHttpMainConf OR NGXHttpSrvConf OR NGXHttpLocConf OR NGXHttpLifConf OR NGXHttpLmtConf OR
    NGXConf1More"
  let ?m2 = "NGXStreamMainConf OR NGXStreamSrvConf OR NGXConf1More"
  have ctx: "inContext [''http'']"
    by (simp add: inContext_def contexts_def context_table_def toCtx_def)
  have fmt: "Sprintf (\<lambda>_. True) ''invalid number of arguments in %q directive'' ''access_log'' =
      ''invalid number of arguments in '' @ CHR 0x22 # ''access_log'' @ CHR 0x22 # '' directive''"
    using Sprintf_verb [of "''invalid number of arguments in ''" "'' directive''" "CHR ''q''"
        "\<lambda>_. True" "''access_log''"]
    by (simp add: printArg_def Quote_plain plain_char_def)
  have rej: "\<not> mask_admits ?m1 '';'' []" "\<not> mask_admits ?m2 '';'' []"
    by (simp_all add: mask_admits_def mask_defs)
  have why: "mask_reason ?m2 '';'' [] = Some ''invalid number of arguments in %q directive''"
    by (simp add: mask_reason_def arity_fits_def mask_defs)
  show ?thesis
    using analyze_error_text [of directives ?stmt "[?m1]" ?m2 "[''http'']" True "'';''" _ "\<lambda>_. True",
        OF _ ctx _ _ refl]
    by (simp add: directives_access_log rej why fmt)
qed

text \<open>
  The directive table (C24). Every mask of every directive can be met: it admits some argument list
  with its terminator, and it names a context that the context table knows.
\<close>

theorem directive_table_usable:
  "list_all (\<lambda>(d, ms). list_all usable_mask ms) directive_table"
  using wf_table wf_mask_usable by (auto simp: wf_entries_def list_all_iff)

end
