(* ===== verification/Rules.thy ===== *)
theory Rules
  imports Config_Analyze
begin

text \<open>
  The rule tree of \<open>ngx_startup.go\<close>. A rule points to its parent and to its children, so the rules
  live in a store, a list indexed by pointers. \<open>ruleFromStmt\<close> builds the tree of a parsed statement;
  \<open>collect\<close> climbs from a rule to the root and gathers the rules in force there. The main result is
  that on the tree of a statement this is the list of the preceding siblings at each level followed
  by the rule's own children.
\<close>

section \<open>The store\<close>

record rule =
  parent :: "nat option"
  rule_name :: string
  rule_args :: "string list"
  children :: "nat list"

text \<open>A pointer is an index into the store that was handed out by an allocation.\<close>

abbreviation deref :: "rule list \<Rightarrow> nat \<Rightarrow> rule" where
  "deref st r \<equiv> st ! r"

definition blocks_of :: "Stmt \<Rightarrow> Stmt list" where
  "blocks_of stmt = (case Blocks stmt of None \<Rightarrow> [] | Some bs \<Rightarrow> bs)"

lemma size_blocks_of [termination_simp]: "b \<in> set (blocks_of stmt) \<Longrightarrow> size b < size stmt"
  by (cases "Blocks stmt") (auto simp: blocks_of_def intro: size_block)

lemma size_list_blocks_of: "size_list size (blocks_of stmt) < size stmt"
  by (cases stmt; cases "Blocks stmt") (auto simp: blocks_of_def)

lemma size_rules [termination_simp]: "Suc (2 * size_list size (blocks_of stmt)) < 2 * size stmt"
  using size_list_blocks_of [of stmt] by arith

text \<open>\<open>ruleFromStmt\<close> and its loop over the block; both return the store and the new pointers.\<close>

function (sequential) ruleFromStmt :: "rule list \<Rightarrow> Stmt \<Rightarrow> nat option \<Rightarrow> rule list \<times> nat"
  and rulesFromBlock :: "rule list \<Rightarrow> Stmt list \<Rightarrow> nat \<Rightarrow> rule list \<times> nat list" where
  "ruleFromStmt st stmt par =
     (let r = length st;
          st1 = st @ [\<lparr>parent = par, rule_name = Directive stmt, rule_args = Args stmt, children = []\<rparr>];
          (st2, cs) = rulesFromBlock st1 (blocks_of stmt) r
      in (st2[r := (st2 ! r)\<lparr>children := cs\<rparr>], r))"
| "rulesFromBlock st [] r = (st, [])"
| "rulesFromBlock st (b # bs) r =
     (let (st1, c) = ruleFromStmt st b (Some r);
          (st2, cs) = rulesFromBlock st1 bs r
      in (st2, c # cs))"
  by pat_completeness auto
termination
  by (relation "measure (\<lambda>x. case x of Inl (st, stmt, par) \<Rightarrow> 2 * size stmt
                                 | Inr (st, bs, r) \<Rightarrow> 2 * size_list size bs + 1)")
     (auto simp: size_rules)

declare ruleFromStmt.simps [simp del]

text \<open>\<open>collect\<close>; following parent pointers need not end in an arbitrary store.\<close>

partial_function (option) collect :: "rule list \<Rightarrow> nat \<Rightarrow> nat option \<Rightarrow> nat list option" where
  "collect st r n =
     (let v = (case n of None \<Rightarrow> children (deref st r)
                       | Some n \<Rightarrow> takeWhile (\<lambda>a. a \<noteq> n) (children (deref st r)))
      in case parent (deref st r) of
           None \<Rightarrow> Some v
         | Some p \<Rightarrow> Option.bind (collect st p (Some r)) (\<lambda>u. Some (u @ v)))"

partial_function (option) rule_key :: "rule list \<Rightarrow> nat \<Rightarrow> string option" where
  "rule_key st r =
     (case parent (deref st r) of
        None \<Rightarrow> Some (rule_name (deref st r))
      | Some p \<Rightarrow> Option.bind (rule_key st p) (\<lambda>k. Some (k @ ''.'' @ rule_name (deref st r))))"

definition rule_String :: "rule list \<Rightarrow> nat \<Rightarrow> string option" where
  "rule_String st r =
     Option.bind (rule_key st r) (\<lambda>k. Some (k @ '' ['' @ join (rule_args (deref st r)) '','' @ '']''))"

definition overide :: "nat list \<Rightarrow> nat list" where
  "overide rules = rules"

section \<open>Trees in the store\<close>

text \<open>The rule \<open>r\<close> stands for the statement, with its children in order, all from \<open>lo\<close> on.\<close>

function represents :: "nat \<Rightarrow> rule list \<Rightarrow> nat \<Rightarrow> nat option \<Rightarrow> Stmt \<Rightarrow> bool" where
  "represents lo st r par stmt \<longleftrightarrow>
     lo \<le> r \<and> r < length st \<and> parent (deref st r) = par \<and> rule_name (deref st r) = Directive stmt \<and>
     rule_args (deref st r) = Args stmt \<and> distinct (children (deref st r)) \<and>
     length (children (deref st r)) = length (blocks_of stmt) \<and>
     (\<forall>p \<in> set (zip (children (deref st r)) (blocks_of stmt)). represents lo st (fst p) (Some r) (snd p))"
  by pat_completeness auto
termination
  by (relation "measure (\<lambda>(lo, st, r, par, stmt). size stmt)") (auto dest: set_zip_rightD simp: size_blocks_of)

declare represents.simps [simp del]

lemma represents_bound: "represents lo st r par stmt \<Longrightarrow> lo \<le> r \<and> r < length st"
  by (subst (asm) represents.simps) simp

lemma represents_frame:
  assumes "represents lo st r par stmt" "lo' \<le> lo"
    and "\<forall>i. lo \<le> i \<longrightarrow> i < length st \<longrightarrow> i < length st' \<and> st' ! i = st ! i"
  shows "represents lo' st' r par stmt"
  using assms
proof (induction lo st r par stmt rule: represents.induct)
  case (1 lo st r par stmt)
  from "1.prems"(1) have r: "lo \<le> r" "r < length st" by (simp_all add: represents.simps [of lo st r])
  with "1.prems"(3) have "r < length st'" "st' ! r = st ! r" by auto
  with 1 r show ?case
    by (simp add: represents.simps [of lo st r] represents.simps [of lo' st' r])
qed

text \<open>Building a tree extends the store and yields a representation.\<close>

lemma ruleFromStmt_represents:
  "ruleFromStmt st stmt par = (st', r) \<Longrightarrow>
     prefix st st' \<and> r = length st \<and> represents (length st) st' r par stmt"
  and rulesFromBlock_represents:
  "rulesFromBlock st bs q = (st', cs) \<Longrightarrow>
     prefix st st' \<and> length cs = length bs \<and> distinct cs \<and> (\<forall>c \<in> set cs. length st \<le> c) \<and>
     (\<forall>p \<in> set (zip cs bs). represents (length st) st' (fst p) (Some q) (snd p))"
proof (induction st stmt par and st bs q arbitrary: st' r and st' cs rule: ruleFromStmt_rulesFromBlock.induct)
  case (1 st stmt par)
  let ?r = "length st"
  let ?st1 = "st @ [\<lparr>parent = par, rule_name = Directive stmt, rule_args = Args stmt, children = []\<rparr>]"
  obtain st2 cs where b: "rulesFromBlock ?st1 (blocks_of stmt) ?r = (st2, cs)" by (metis surj_pair)
  from "1.prems" b have res: "st' = st2[?r := (st2 ! ?r)\<lparr>children := cs\<rparr>]" "r = ?r"
    by (auto simp: ruleFromStmt.simps(1) Let_def)
  from "1.IH" [OF refl refl b] have ih: "prefix ?st1 st2" "length cs = length (blocks_of stmt)" "distinct cs"
    "\<forall>p \<in> set (zip cs (blocks_of stmt)). represents (length ?st1) st2 (fst p) (Some ?r) (snd p)" by blast+
  from ih(1) obtain us where us: "st2 = ?st1 @ us" by (auto simp: prefix_def)
  have "represents ?r st' (fst p) (Some ?r) (snd p)" if "p \<in> set (zip cs (blocks_of stmt))" for p
    by (rule represents_frame [OF ih(4) [rule_format, OF that]]) (simp_all add: res(1))
  then have "represents ?r st' ?r par stmt"
    using ih(2,3) by (subst represents.simps) (simp add: res(1) us)
  moreover have "prefix st st'" by (simp add: res(1) us list_update_append)
  ultimately show ?case using res(2) by simp
next
  case (3 st b bs q)
  obtain st1 c where c: "ruleFromStmt st b (Some q) = (st1, c)" by (metis surj_pair)
  obtain st2 ds where d: "rulesFromBlock st1 bs q = (st2, ds)" by (metis surj_pair)
  from "3.prems" c d have res: "st' = st2" "cs = c # ds" by (simp_all add: Let_def)
  note i1 = "3.IH"(1) [OF c] and i2 = "3.IH"(2) [OF c [symmetric] refl d]
  then obtain us ws where ext: "st1 = st @ us" "st2 = st1 @ ws" by (auto simp: prefix_def)
  from i1 have lt: "length st < length st1" using represents_bound by blast
  have rep: "represents (length st) st2 c (Some q) b"
    by (rule represents_frame [OF conjunct2 [OF conjunct2 [OF i1]]]) (simp_all add: ext(2) nth_append)
  have "represents (length st) st2 (fst p) (Some q) (snd p)" if "p \<in> set (zip ds bs)" for p
    by (rule represents_frame [of "length st1" st2]) (use i2 that lt in simp_all)
  with rep i1 i2 lt show ?case by (fastforce simp: res)
qed simp

section \<open>The rules in force\<close>

text \<open>Positions in a statement tree as paths of block indices.\<close>

fun valid_path :: "Stmt \<Rightarrow> nat list \<Rightarrow> bool" where
  "valid_path stmt [] = True"
| "valid_path stmt (i # p) \<longleftrightarrow> i < length (blocks_of stmt) \<and> valid_path (blocks_of stmt ! i) p"

fun node_at :: "rule list \<Rightarrow> nat \<Rightarrow> nat list \<Rightarrow> nat" where
  "node_at st r [] = r"
| "node_at st r (i # p) = node_at st (children (deref st r) ! i) p"

text \<open>The statements before the path at each level, outermost first, then the block at its end.\<close>

fun in_force :: "Stmt \<Rightarrow> nat list \<Rightarrow> Stmt list" where
  "in_force stmt [] = blocks_of stmt"
| "in_force stmt (i # p) = take i (blocks_of stmt) @ in_force (blocks_of stmt ! i) p"

definition same_rule :: "rule list \<Rightarrow> nat \<Rightarrow> Stmt \<Rightarrow> bool" where
  "same_rule st r stmt \<longleftrightarrow> rule_name (deref st r) = Directive stmt \<and> rule_args (deref st r) = Args stmt"

lemma represents_child:
  assumes "represents lo st r par stmt" "i < length (blocks_of stmt)"
  shows "represents lo st (children (deref st r) ! i) (Some r) (blocks_of stmt ! i)"
proof -
  have "(children (deref st r) ! i, blocks_of stmt ! i) \<in> set (zip (children (deref st r)) (blocks_of stmt))"
    using assms by (auto simp: represents.simps [of lo st r] in_set_zip)
  with assms(1) show ?thesis by (fastforce simp: represents.simps [of lo st r])
qed

lemma represents_children:
  assumes "represents lo st r par stmt"
  shows "list_all2 (same_rule st) (children (deref st r)) (blocks_of stmt)"
proof (rule list_all2_all_nthI)
  show "length (children (deref st r)) = length (blocks_of stmt)"
    using assms by (simp add: represents.simps [of lo st r])
next
  fix i assume "i < length (children (deref st r))"
  with assms have "i < length (blocks_of stmt)" by (simp add: represents.simps [of lo st r])
  from represents_child [OF assms this] show "same_rule st (children (deref st r) ! i) (blocks_of stmt ! i)"
    by (simp add: represents.simps [of lo st "children (deref st r) ! i"] same_rule_def)
qed

lemma takeWhile_nth: "distinct xs \<Longrightarrow> i < length xs \<Longrightarrow> takeWhile (\<lambda>a. a \<noteq> xs ! i) xs = take i xs"
proof (induction xs arbitrary: i)
  case (Cons x xs)
  then show ?case by (cases i) auto
qed simp

lemma collect_path:
  assumes "represents lo st r par stmt" "valid_path stmt p"
    and "case par of None \<Rightarrow> pre = [] | Some q \<Rightarrow> collect st q (Some r) = Some pre"
    and "list_all2 (same_rule st) pre outer"
  shows "\<exists>ids. collect st (node_at st r p) None = Some ids \<and>
    list_all2 (same_rule st) ids (outer @ in_force stmt p)"
  using assms
proof (induction p arbitrary: r par stmt pre outer)
  case Nil
  note rep = Nil.prems(1)
  from rep have par: "parent (deref st r) = par" by (simp add: represents.simps [of lo st r])
  have "collect st r None = Some (pre @ children (deref st r))"
    using Nil.prems(3) par by (subst collect.simps) (auto simp: Let_def split: option.splits)
  with represents_children [OF rep] Nil.prems(4) show ?case
    by (auto intro: list_all2_appendI)
next
  case (Cons i p)
  note rep = Cons.prems(1)
  let ?c = "children (deref st r) ! i"
  from Cons.prems(2) have i: "i < length (blocks_of stmt)" "valid_path (blocks_of stmt ! i) p" by simp_all
  from rep have par: "parent (deref st r) = par" "distinct (children (deref st r))"
    "i < length (children (deref st r))" using i by (simp_all add: represents.simps [of lo st r])
  have "collect st r (Some ?c) = Some (pre @ take i (children (deref st r)))"
    using Cons.prems(3) par by (subst collect.simps) (auto simp: Let_def takeWhile_nth split: option.splits)
  moreover have "list_all2 (same_rule st) (pre @ take i (children (deref st r))) (outer @ take i (blocks_of stmt))"
    using represents_children [OF rep] Cons.prems(4) by (intro list_all2_appendI list_all2_takeI)
  ultimately show ?case
    using Cons.IH [OF represents_child [OF rep i(1)] i(2), of "pre @ take i (children (deref st r))"
        "outer @ take i (blocks_of stmt)"] by simp
qed

text \<open>
  (C11) The rules a location gets: on the rule tree built from a parsed configuration, \<open>collect\<close> of
  the rule at any position of the tree returns, and it gives, outermost level first, the rules that
  precede the position's ancestors and the position itself in their blocks, followed by the rules
  of its own block, in the order of the configuration.
\<close>

theorem collect_in_force:
  assumes "ruleFromStmt [] stmt None = (st, r)" "valid_path stmt p"
  shows "\<exists>ids. collect st (node_at st r p) None = Some ids \<and>
    list_all2 (same_rule st) ids (in_force stmt p)"
proof -
  from ruleFromStmt_represents [OF assms(1)] have "represents 0 st r None stmt" by auto
  from collect_path [OF this assms(2), of "[]" "[]"] show ?thesis by simp
qed

theorem collect_in_force_witness:
  "let main = Stmt ''main'' [] 0 [] [] [] (Some [
         Stmt ''a'' [] 1 [''x''] [] [] None,
         Stmt ''b'' [] 2 [] [] [] (Some [Stmt ''c'' [] 3 [] [] [] None]),
         Stmt ''d'' [] 4 [] [] [] None]);
       (st, r) = ruleFromStmt [] main None
   in \<exists>ids. collect st (node_at st r [1]) None = Some ids \<and>
        list_all2 (same_rule st) ids [Stmt ''a'' [] 1 [''x''] [] [] None, Stmt ''c'' [] 3 [] [] [] None]"
proof -
  let ?main = "Stmt ''main'' [] 0 [] [] [] (Some [Stmt ''a'' [] 1 [''x''] [] [] None,
    Stmt ''b'' [] 2 [] [] [] (Some [Stmt ''c'' [] 3 [] [] [] None]), Stmt ''d'' [] 4 [] [] [] None])"
  obtain st r where st: "ruleFromStmt [] ?main None = (st, r)" by (metis surj_pair)
  have v: "valid_path ?main [1]"
    and f: "in_force ?main [1] = [Stmt ''a'' [] 1 [''x''] [] [] None, Stmt ''c'' [] 3 [] [] [] None]"
    by (simp_all add: blocks_of_def)
  from collect_in_force [OF st v] show ?thesis unfolding Let_def st prod.case f .
qed

end
