(* ===== verification/Http_Core.thy ===== *)
theory Http_Core
  imports Values Go_Net Rules
begin

text \<open>
  The HTTP core module of \<open>ngx_http_core.go\<close>: the SSL options with the directives that fill them and
  the TLS configuration made from them, the translation of OpenSSL cipher names into the names of
  \<open>crypto/tls\<close>, the \<open>listen\<close> directive, and the core options. Reading files, running \<open>openssl\<close>, the
  size parser \<open>bytefmt\<close>, IP addresses and URLs are fields of the environment \<open>core_env\<close>.
\<close>

section \<open>Ciphers\<close>

record cipher =
  proto :: string
  kx :: string
  auth :: string
  enc :: string
  encSize :: nat
  encPad :: string
  mac :: string

definition cipher_init :: cipher where
  "cipher_init =
     \<lparr>proto = ''TLS'', kx = ''RSA'', auth = ''RSA'', enc = ''AES'', encSize = 128, encPad = ''CBC'',
      mac = ''SHA''\<rparr>"

definition cipher_String :: "cipher \<Rightarrow> string" where
  "cipher_String c =
     (if kx c = auth c then proto c @ ''_'' @ kx c @ ''_WITH_'' @ enc c
      else proto c @ ''_'' @ kx c @ ''_'' @ auth c @ ''_WITH_'' @ enc c) @
     (if enc c \<noteq> ''3DES_EDE'' \<and> enc c \<noteq> ''SEED'' then ''_'' @ utoa (encSize c) else []) @
     (if enc c \<noteq> ''RC4'' then ''_'' @ encPad c else []) @ ''_'' @ mac c"

definition kxProto :: "string \<rightharpoonup> string" where
  "kxProto = map_of
     [(''AECDH'', ''ECDH_anon''), (''ADH'', ''DH_anon''), (''DH'', ''DH''), (''DHE'', ''DHE''),
      (''ECDH'', ''ECDH''), (''ECDHE'', ''ECDHE''), (''EDH'', ''EDH''), (''PSK'', ''PSK''),
      (''RSA'', ''RSA''), (''SRP'', ''SRP'')]"

definition authProto :: "string \<Rightarrow> bool" where
  "authProto s \<longleftrightarrow> s \<in> {''DSS'', ''ECDSA'', ''PSK'', ''RSA'', ''SRP''}"

definition digests :: "string \<Rightarrow> bool" where
  "digests s \<longleftrightarrow> s \<in> {''MD5'', ''SHA'', ''SHA256'', ''SHA384''}"

definition ciphers_table :: "string \<rightharpoonup> string \<times> nat" where
  "ciphers_table = map_of
     [(''AES'', (''AES'', 128)), (''AES128'', (''AES'', 128)), (''AES256'', (''AES'', 126)),
      (''3DES'', (''3DES_EDE'', 112)), (''DES'', (''3DES_EDE'', 112)), (''RC4'', (''RC4'', 128)),
      (''SEED'', (''SEED'', 128)), (''CAMELLIA128'', (''CAMELLIA128'', 128)),
      (''CAMELLIA256'', (''CAMELLIA128'', 256)), (''IDEA'', (''IDEA'', 128))]"

text \<open>The suites with the numbers that \<open>crypto/tls\<close> gives them. Some of the names end in spaces.\<close>

definition suite_list :: "(string \<times> nat) list" where
  "suite_list =
     [(''TLS_RSA_WITH_RC4_128_SHA'', 0x0005), (''TLS_RSA_WITH_3DES_EDE_CBC_SHA'', 0x000A),
      (''TLS_RSA_WITH_AES_128_CBC_SHA '', 0x002F), (''TLS_RSA_WITH_AES_256_CBC_SHA '', 0x0035),
      (''TLS_RSA_WITH_AES_128_CBC_SHA256'', 0x003C), (''TLS_RSA_WITH_AES_128_GCM_SHA256'', 0x009C),
      (''TLS_RSA_WITH_AES_256_GCM_SHA384'', 0x009D), (''TLS_ECDHE_ECDSA_WITH_RC4_128_SHA'', 0xC007),
      (''TLS_ECDHE_ECDSA_WITH_AES_128_CBC_SHA'', 0xC009), (''TLS_ECDHE_ECDSA_WITH_AES_256_CBC_SHA'', 0xC00A),
      (''TLS_ECDHE_RSA_WITH_RC4_128_SHA '', 0xC011), (''TLS_ECDHE_RSA_WITH_3DES_EDE_CBC_SHA'', 0xC012),
      (''TLS_ECDHE_RSA_WITH_AES_128_CBC_SHA '', 0xC013), (''TLS_ECDHE_RSA_WITH_AES_256_CBC_SHA '', 0xC014),
      (''TLS_ECDHE_ECDSA_WITH_AES_128_CBC_SHA256 '', 0xC023), (''TLS_ECDHE_RSA_WITH_AES_128_CBC_SHA256'', 0xC027),
      (''TLS_ECDHE_RSA_WITH_AES_128_GCM_SHA256'', 0xC02F), (''TLS_ECDHE_ECDSA_WITH_AES_128_GCM_SHA256 '', 0xC02B),
      (''TLS_ECDHE_RSA_WITH_AES_256_GCM_SHA384'', 0xC030), (''TLS_ECDHE_ECDSA_WITH_AES_256_GCM_SHA384 '', 0xC02C),
      (''TLS_ECDHE_RSA_WITH_CHACHA20_POLY1305'', 0xCCA8), (''TLS_ECDHE_ECDSA_WITH_CHACHA20_POLY1305'', 0xCCA9),
      (''TLS_AES_128_GCM_SHA256  '', 0x1301), (''TLS_AES_256_GCM_SHA384  '', 0x1302),
      (''TLS_CHACHA20_POLY1305_SHA256 '', 0x1303), (''TLS_FALLBACK_SCSV '', 0x5600)]"

definition standardCipherSuits :: "string \<rightharpoonup> nat" where
  "standardCipherSuits = map_of suite_list"

text \<open>A slice expression \<open>s[0:n]\<close> panics when the string is shorter.\<close>

definition slice_to :: "string \<Rightarrow> nat \<Rightarrow> string go" where
  "slice_to s n = (if n \<le> length s then Inr (take n s) else Inl IndexOutOfRange)"

text \<open>\<open>cipher.parse\<close>: the key exchange with its authentication, then the cipher at position \<open>idx\<close>, then
  mode and digest.\<close>

definition cipher_kx :: "string list \<Rightarrow> cipher \<Rightarrow> (cipher \<times> nat) go" where
  "cipher_kx parts c =
     (case kxProto (hd parts) of
        None \<Rightarrow> Inr (c, 0)
      | Some k \<Rightarrow>
          gbind (go_index parts 1) (\<lambda>p1.
            if authProto p1 then Inr (c\<lparr>kx := k, auth := p1\<rparr>, 2)
            else Inr (c\<lparr>kx := k, auth := k\<rparr>, 1)))"

definition cipher_enc :: "string \<Rightarrow> cipher \<Rightarrow> cipher" where
  "cipher_enc p c =
     (case ciphers_table p of None \<Rightarrow> c | Some (e, n) \<Rightarrow> c\<lparr>enc := e, encSize := n\<rparr>)"

definition cipher_mode :: "string list \<Rightarrow> nat \<Rightarrow> cipher \<Rightarrow> cipher go" where
  "cipher_mode parts idx c =
     (if length parts > idx + 1 \<and> digests (parts ! (idx + 1)) then Inr (c\<lparr>mac := parts ! (idx + 1)\<rparr>)
      else
        gbind (if length parts > idx + 1
               then gbind (slice_to (parts ! (idx + 1)) 3) (\<lambda>p. Inr (c\<lparr>encPad := p\<rparr>)) else Inr c) (\<lambda>c.
          Inr (if length parts > idx + 2 then c\<lparr>mac := parts ! (idx + 2)\<rparr> else c)))"

definition cipher_parse :: "string \<Rightarrow> cipher go" where
  "cipher_parse spec =
     (let parts = split spec ''-''
      in gbind (cipher_kx parts cipher_init) (\<lambda>(c, idx).
           gbind (go_index parts idx) (\<lambda>p. cipher_mode parts idx (cipher_enc p c))))"

fun parse_all :: "string list \<Rightarrow> cipher list go" where
  "parse_all [] = Inr []"
| "parse_all (v # vs) = gbind (cipher_parse v) (\<lambda>c. gbind (parse_all vs) (\<lambda>cs. Inr (c # cs)))"

text \<open>\<open>bytes.TrimSpace\<close> on ASCII white space.\<close>

definition TrimSpace :: "string \<Rightarrow> string" where
  "TrimSpace s =
     (let sp = (\<lambda>c. rune_of c \<in> {9, 10, 11, 12, 13, 32})
      in rev (dropWhile sp (rev (dropWhile sp s))))"

text \<open>\<open>openSSLCiphers\<close>, given what the command printed or its error.\<close>

definition openSSLCiphers :: "string + string \<Rightarrow> (string + cipher list) go" where
  "openSSLCiphers run =
     (case run of
        Inl err \<Rightarrow> Inr (Inl err)
      | Inr out \<Rightarrow> gbind (parse_all (split (TrimSpace out) '':'')) (\<lambda>cs. Inr (Inr cs)))"

definition standardCiphers :: "cipher list \<Rightarrow> cipher list" where
  "standardCiphers cs = filter (\<lambda>v. standardCipherSuits (cipher_String v) \<noteq> None) cs"

section \<open>SSL options\<close>

record sslOptions =
  bufferSize :: intValue
  certificate :: stringValue
  certificateKey :: stringValue
  clientCertificate :: stringValue
  ssl_ciphers :: stringSliceValue
  crl :: stringValue
  dhParam :: stringValue
  earlData :: boolValue
  ecdheCUrve :: stringValue
  passwordFile :: stringValue
  preferServerCiphers :: boolValue
  protocols :: stringSliceValue
  sessionCache :: stringValue
  sessionTicketKey :: stringValue
  sessionTickets :: boolValue
  timeout :: durationValue
  stapling :: boolValue
  staplingFile :: stringValue
  staplingResponder :: stringValue
  staplingVerify :: boolValue
  trustedCertificate :: stringValue

definition zero_sslOptions :: sslOptions where
  "zero_sslOptions =
     \<lparr>bufferSize = unset_cell 0, certificate = unset_cell [], certificateKey = unset_cell [],
      clientCertificate = unset_cell [], ssl_ciphers = unset_cell [], crl = unset_cell [],
      dhParam = unset_cell [], earlData = unset_cell False, ecdheCUrve = unset_cell [],
      passwordFile = unset_cell [], preferServerCiphers = unset_cell False, protocols = unset_cell [],
      sessionCache = unset_cell [], sessionTicketKey = unset_cell [], sessionTickets = unset_cell False,
      timeout = unset_cell 0, stapling = unset_cell False, staplingFile = unset_cell [],
      staplingResponder = unset_cell [], staplingVerify = unset_cell False,
      trustedCertificate = unset_cell []\<rparr>"

definition sslOptions_init :: "sslOptions \<Rightarrow> sslOptions" where
  "sslOptions_init ss =
     ss\<lparr>earlData := boolValue_store (earlData ss) False,
        ecdheCUrve := stringValue_store (ecdheCUrve ss) ''auto'',
        preferServerCiphers := boolValue_store (preferServerCiphers ss) False,
        sessionCache := stringValue_store (sessionCache ss) ''none'',
        protocols := stringSliceValue_store (protocols ss) [''TLSv1'', ''TLSv1.1'', ''TLSv1.2''],
        sessionTickets := boolValue_store (sessionTickets ss) True,
        timeout := durationValue_store (timeout ss) (5 * 60000000000),
        stapling := boolValue_store (stapling ss) False,
        staplingVerify := boolValue_store (staplingVerify ss) False\<rparr>"

text \<open>The environment: sizes, the error of opening and closing a file, the output of
  \<open>openssl ciphers\<close>, the fraction step of durations, and the network parsers.\<close>

record core_env =
  ToBytes :: "string \<Rightarrow> string + int"
  checkFile :: "string \<Rightarrow> string option"
  openssl :: "string \<Rightarrow> string + string"
  fraction :: "int \<Rightarrow> int \<Rightarrow> nat \<Rightarrow> int"
  net :: net_env

datatype load_error =
    SizeError string | FileError string | OpenSSLError string | DurationError duration_error | URLError

type_synonym load_result = "(sslOptions \<times> load_error option) go"

definition load_file :: "core_env \<Rightarrow> string \<Rightarrow> sslOptions \<Rightarrow> sslOptions \<Rightarrow> load_result" where
  "load_file E f ss ss' = (case checkFile E f of Some err \<Rightarrow> Inr (ss, Some (FileError err)) | None \<Rightarrow> Inr (ss', None))"

definition switch_store :: "boolValue \<Rightarrow> string \<Rightarrow> boolValue" where
  "switch_store b a =
     (if a = ''on'' then boolValue_store b True else if a = ''off'' then boolValue_store b False else b)"

definition load_ciphers :: "core_env \<Rightarrow> string \<Rightarrow> sslOptions \<Rightarrow> load_result" where
  "load_ciphers E a ss =
     gbind (openSSLCiphers (openssl E a)) (\<lambda>r.
       case r of
         Inl err \<Rightarrow> Inr (ss, Some (OpenSSLError err))
       | Inr cs \<Rightarrow>
           Inr (ss\<lparr>ssl_ciphers :=
                    stringSliceValue_store (ssl_ciphers ss) (map cipher_String (standardCiphers cs))\<rparr>, None))"

text \<open>The directives. Every case does nothing on a rule without arguments.\<close>

definition sslOptions_load :: "core_env \<Rightarrow> sslOptions \<Rightarrow> rule \<Rightarrow> load_result" where
  "sslOptions_load E ss r =
     (if rule_args r = [] then Inr (ss, None)
      else let a = rule_args r ! 0; name = rule_name r in
        if name = ''ssl_buffer_size'' then
          (case ToBytes E a of
             Inl err \<Rightarrow> Inr (ss, Some (SizeError err))
           | Inr v \<Rightarrow> Inr (ss\<lparr>bufferSize := intValue_store (bufferSize ss) (int64 v)\<rparr>, None))
        else if name = ''ssl_certificate'' then
          load_file E a ss (ss\<lparr>certificate := stringValue_store (certificate ss) a\<rparr>)
        else if name = ''ssl_certificate_key'' then
          load_file E a ss (ss\<lparr>certificateKey := stringValue_store (certificateKey ss) a\<rparr>)
        else if name = ''ssl_ciphers'' then load_ciphers E a ss
        else if name = ''ssl_client_certificate'' then
          load_file E a ss (ss\<lparr>clientCertificate := stringValue_store (clientCertificate ss) a\<rparr>)
        else if name = ''ssl_crl'' then load_file E a ss (ss\<lparr>crl := stringValue_store (crl ss) a\<rparr>)
        else if name = ''ssl_dhparam'' then
          load_file E a ss (ss\<lparr>dhParam := stringValue_store (dhParam ss) a\<rparr>)
        else if name = ''ssl_early_data'' then
          Inr (ss\<lparr>earlData := switch_store (earlData ss) a\<rparr>, None)
        else if name = ''ssl_ecdh_curve'' then
          Inr (ss\<lparr>ecdheCUrve := stringValue_store (ecdheCUrve ss) a\<rparr>, None)
        else if name = ''ssl_password_file'' then
          load_file E a ss (ss\<lparr>dhParam := stringValue_store (dhParam ss) a\<rparr>)
        else if name = ''ssl_prefer_server_ciphers'' then
          Inr (ss\<lparr>preferServerCiphers := switch_store (preferServerCiphers ss) a\<rparr>, None)
        else if name = ''ssl_protocols'' then
          Inr (ss\<lparr>protocols := stringSliceValue_store (protocols ss) (rule_args r)\<rparr>, None)
        else if name = ''ssl_session_cache'' then
          Inr (ss\<lparr>ecdheCUrve := stringValue_store (ecdheCUrve ss) a\<rparr>, None)
        else if name = ''ssl_session_ticket_key'' then
          load_file E a ss (ss\<lparr>sessionTicketKey := stringValue_store (sessionTicketKey ss) a\<rparr>)
        else if name = ''ssl_session_tickets'' then
          Inr (ss\<lparr>sessionTickets := switch_store (sessionTickets ss) a\<rparr>, None)
        else if name = ''ssl_session_timeout'' then
          (case ParseDuration (fraction E) a of
             Inl e \<Rightarrow> Inr (ss, Some (DurationError e))
           | Inr d \<Rightarrow> Inr (ss\<lparr>timeout := durationValue_store (timeout ss) d\<rparr>, None))
        else if name = ''ssl_stapling'' then
          Inr (ss\<lparr>stapling := switch_store (stapling ss) a\<rparr>, None)
        else if name = ''ssl_stapling_file'' then
          load_file E a ss (ss\<lparr>staplingFile := stringValue_store (staplingFile ss) a\<rparr>)
        else if name = ''ssl_stapling_responder'' then
          (case URLParse (net E) a of
             None \<Rightarrow> Inr (ss, Some URLError)
           | Some u \<Rightarrow> Inr (ss\<lparr>staplingResponder := stringValue_store (staplingResponder ss) a\<rparr>, None))
        else if name = ''ssl_stapling_verify'' then
          Inr (ss\<lparr>staplingVerify := switch_store (staplingVerify ss) a\<rparr>, None)
        else Inr (ss, None))"

text \<open>
  The TLS configuration. The certificate pair and the ticket key file are read through arguments;
  the copy into a key of 32 bytes pads with zero bytes or cuts.
\<close>

record 'cert tls_Config =
  Certificates :: "'cert list"
  CipherSuites :: "nat list"
  PreferServerCipherSuites :: bool
  SessionTicketsDisabled :: bool
  sessionTicketKeys :: "string option"
  ClientSessionCache :: bool
  NextProtos :: "string list"

definition key32 :: "string \<Rightarrow> string" where
  "key32 b = take 32 b @ replicate (32 - length b) CHR 0x00"

definition sslOptions_config ::
  "(string \<Rightarrow> string \<Rightarrow> string + 'cert) \<Rightarrow> (string \<Rightarrow> string + string) \<Rightarrow> sslOptions \<Rightarrow> string + 'cert tls_Config" where
  "sslOptions_config LoadX509KeyPair ReadFile ss =
     (case LoadX509KeyPair (val (certificate ss)) (val (certificateKey ss)) of
        Inl err \<Rightarrow> Inl err
      | Inr cert \<Rightarrow>
          let c = \<lparr>Certificates = [cert],
                   CipherSuites = (if isset (ssl_ciphers ss)
                     then map (\<lambda>f. case standardCipherSuits f of None \<Rightarrow> 0 | Some n \<Rightarrow> n) (val (ssl_ciphers ss))
                     else []),
                   PreferServerCipherSuites =
                     (if isset (preferServerCiphers ss) then val (preferServerCiphers ss) else False),
                   SessionTicketsDisabled =
                     (if isset (sessionTickets ss) then \<not> val (sessionTickets ss) else False),
                   sessionTicketKeys = None,
                   ClientSessionCache = isset (sessionCache ss),
                   NextProtos = (if isset (protocols ss) then val (protocols ss) else [])\<rparr>
          in if isset (sessionTicketKey ss)
             then (case ReadFile (val (sessionTicketKey ss)) of
                     Inl err \<Rightarrow> Inl err
                   | Inr b \<Rightarrow> Inr (c\<lparr>sessionTicketKeys := Some (key32 b)\<rparr>))
             else Inr c)"

section \<open>The listen directive\<close>

record httpListenOpts =
  listen_net :: string
  addrPort :: string
  defaultServer :: bool
  ssl :: bool
  http2 :: bool
  spdy :: bool
  proxyProtocol :: bool
  sslOpts :: sslOptions

definition zero_listen :: httpListenOpts where
  "zero_listen =
     \<lparr>listen_net = [], addrPort = [], defaultServer = False, ssl = False, http2 = False, spdy = False,
      proxyProtocol = False, sslOpts = zero_sslOptions\<rparr>"

text \<open>The network and the address of the first argument.\<close>

definition listen_addr :: "net_env \<Rightarrow> string \<Rightarrow> string \<Rightarrow> string \<times> string" where
  "listen_addr N a defaultPort =
     (case Atoi a of
        Inr v \<Rightarrow> (''tcp'', ''0.0.0.0:'' @ a)
      | Inl e \<Rightarrow>
          (case ParseIP N a of
             Some ip \<Rightarrow> (''tcp'', ip @ '':'' @ defaultPort)
           | None \<Rightarrow>
               (case SplitHostPort a of
                  Inr (h, p) \<Rightarrow> if h = ''unix'' then (h, p) else (''tcp'', a)
                | Inl e \<Rightarrow>
                    if a \<in> {''localhost'', ''[::]'', ''[::1]''} then (''tcp'', a @ '':'' @ defaultPort)
                    else (case URLParse N a of Some (scheme, host) \<Rightarrow> (scheme, host) | None \<Rightarrow> ([], [])))))"

fun listen_flag :: "string \<Rightarrow> httpListenOpts \<Rightarrow> httpListenOpts" where
  "listen_flag a ls =
     (if a = ''default_server'' then ls\<lparr>defaultServer := True\<rparr>
      else if a = ''ssl'' then ls\<lparr>ssl := True\<rparr>
      else if a = ''http2'' then ls\<lparr>http2 := True\<rparr>
      else if a = ''spdy'' then ls\<lparr>spdy := True\<rparr>
      else if a = ''proxy_protocol'' then ls\<lparr>proxyProtocol := True\<rparr>
      else ls)"

text \<open>The loops that load the SSL directives of a block stop at the first error, which is dropped.\<close>

fun load_rules :: "core_env \<Rightarrow> rule list \<Rightarrow> nat list \<Rightarrow> sslOptions \<Rightarrow> sslOptions go" where
  "load_rules E st [] ss = Inr ss"
| "load_rules E st (b # bs) ss =
     gbind (sslOptions_load E ss (deref st b)) (\<lambda>(ss', err).
       if err \<noteq> None then Inr ss' else load_rules E st bs ss')"

definition go_parent :: "rule list \<Rightarrow> nat \<Rightarrow> nat go" where
  "go_parent st r = (case parent (deref st r) of None \<Rightarrow> Inl NilPointer | Some p \<Rightarrow> Inr p)"

definition parseListen :: "core_env \<Rightarrow> rule list \<Rightarrow> nat \<Rightarrow> string \<Rightarrow> httpListenOpts go" where
  "parseListen E st r defaultPort =
     (let args = rule_args (deref st r);
          ls = (case args of
                  [] \<Rightarrow> zero_listen
                | a # flags \<Rightarrow>
                    (case listen_addr (net E) a defaultPort of
                       (n, ap) \<Rightarrow> fold listen_flag flags (zero_listen\<lparr>listen_net := n, addrPort := ap\<rparr>)))
      in if ssl ls
         then gbind (go_parent st r) (\<lambda>serverRule.
                gbind (go_parent st serverRule) (\<lambda>httpRule.
                  gbind (load_rules E st (children (deref st httpRule)) (sslOpts ls)) (\<lambda>ss.
                    gbind (load_rules E st (children (deref st serverRule)) ss) (\<lambda>ss.
                      Inr (ls\<lparr>sslOpts := ss\<rparr>)))))
         else Inr ls)"

section \<open>Core options\<close>

record httpCoreConfig =
  root_dir :: stringValue
  alias_dir :: stringValue
  body_bufferSize :: intValue
  body_timeout :: durationValue
  body_maxSize :: intValue

definition httpCoreConfig_load ::
  "core_env \<Rightarrow> httpCoreConfig \<Rightarrow> rule \<Rightarrow> (httpCoreConfig \<times> load_error option) go" where
  "httpCoreConfig_load E c r =
     (let name = rule_name r
      in if name \<notin> {''root'', ''alias'', ''client_body_buffer_size'', ''client_body_timeout'', ''client_max_body_size''}
         then Inr (c, None)
         else gbind (go_index (rule_args r) 0) (\<lambda>a.
           if name = ''root'' then Inr (c\<lparr>root_dir := stringValue_store (root_dir c) a\<rparr>, None)
           else if name = ''alias'' then Inr (c\<lparr>alias_dir := stringValue_store (alias_dir c) a\<rparr>, None)
           else if name = ''client_body_timeout'' then
             (case ParseDuration (fraction E) a of
                Inl e \<Rightarrow> Inr (c, Some (DurationError e))
              | Inr v \<Rightarrow> Inr (c\<lparr>body_timeout := durationValue_store (body_timeout c) v\<rparr>, None))
           else
             (case ToBytes E a of
                Inl e \<Rightarrow> Inr (c, Some (SizeError e))
              | Inr v \<Rightarrow> Inr (c\<lparr>body_bufferSize := intValue_store (body_bufferSize c) (int64 v)\<rparr>, None))))"

section \<open>Properties\<close>

text \<open>What no directive can change.\<close>

definition ssl_frame :: "sslOptions \<Rightarrow> sslOptions \<Rightarrow> bool" where
  "ssl_frame ss ss' \<longleftrightarrow>
     passwordFile ss' = passwordFile ss \<and> sessionCache ss' = sessionCache ss \<and>
     trustedCertificate ss' = trustedCertificate ss"

lemma ssl_frame_refl [simp]: "ssl_frame ss ss"
  by (simp add: ssl_frame_def)

lemma ssl_frame_trans: "ssl_frame ss ss1 \<Longrightarrow> ssl_frame ss1 ss2 \<Longrightarrow> ssl_frame ss ss2"
  by (simp add: ssl_frame_def)

lemma load_file_frame: "load_file E f ss ss1 = Inr (ss', err) \<Longrightarrow> ssl_frame ss ss1 \<Longrightarrow> ssl_frame ss ss'"
  by (auto simp: load_file_def split: option.splits)

lemma load_ciphers_frame: "load_ciphers E a ss = Inr (ss', err) \<Longrightarrow> ssl_frame ss ss'"
  by (cases "openSSLCiphers (openssl E a)") (auto simp: load_ciphers_def ssl_frame_def split: sum.splits)

lemma ssl_frame_upd [simp]:
  "ssl_frame ss (ss\<lparr>bufferSize := v1\<rparr>)" "ssl_frame ss (ss\<lparr>certificate := v2\<rparr>)"
  "ssl_frame ss (ss\<lparr>certificateKey := v3\<rparr>)" "ssl_frame ss (ss\<lparr>clientCertificate := v4\<rparr>)"
  "ssl_frame ss (ss\<lparr>crl := v5\<rparr>)" "ssl_frame ss (ss\<lparr>dhParam := v6\<rparr>)"
  "ssl_frame ss (ss\<lparr>earlData := v7\<rparr>)" "ssl_frame ss (ss\<lparr>ecdheCUrve := v8\<rparr>)"
  "ssl_frame ss (ss\<lparr>preferServerCiphers := v9\<rparr>)" "ssl_frame ss (ss\<lparr>protocols := v10\<rparr>)"
  "ssl_frame ss (ss\<lparr>sessionTicketKey := v11\<rparr>)" "ssl_frame ss (ss\<lparr>sessionTickets := v12\<rparr>)"
  "ssl_frame ss (ss\<lparr>timeout := v13\<rparr>)" "ssl_frame ss (ss\<lparr>stapling := v14\<rparr>)"
  "ssl_frame ss (ss\<lparr>staplingFile := v15\<rparr>)" "ssl_frame ss (ss\<lparr>staplingResponder := v16\<rparr>)"
  "ssl_frame ss (ss\<lparr>staplingVerify := v17\<rparr>)"
  by (simp_all add: ssl_frame_def)

lemma sslOptions_load_frame:
  assumes "sslOptions_load E ss r = Inr (ss', err)"
  shows "ssl_frame ss ss'"
  using assms unfolding sslOptions_load_def Let_def
  by (auto split: if_splits option.splits sum.splits dest: load_ciphers_frame dest!: load_file_frame)

lemma load_rules_frame: "load_rules E st bs ss = Inr ss' \<Longrightarrow> ssl_frame ss ss'"
proof (induction bs arbitrary: ss)
  case (Cons b bs)
  then obtain ss1 err where s1: "sslOptions_load E ss (deref st b) = Inr (ss1, err)"
    "(if err \<noteq> None then Inr ss1 else load_rules E st bs ss1) = Inr ss'"
    by (auto simp: gbind_eq_Inr)
  from s1(2) Cons.IH [of ss1] have "ssl_frame ss1 ss'" by (auto split: if_splits)
  with sslOptions_load_frame [OF s1(1)] show ?case by (rule ssl_frame_trans)
qed simp

lemma listen_flags_ssl: "sslOpts (fold listen_flag flags ls) = sslOpts ls"
  by (induction flags arbitrary: ls) simp_all

lemma parseListen_ssl:
  assumes "parseListen E st r p = Inr ls"
  shows "ssl_frame zero_sslOptions (sslOpts ls)"
proof -
  define ls0 where "ls0 = (case rule_args (deref st r) of [] \<Rightarrow> zero_listen
    | a # flags \<Rightarrow> (case listen_addr (net E) a p of
        (n, ap) \<Rightarrow> fold listen_flag flags (zero_listen\<lparr>listen_net := n, addrPort := ap\<rparr>)))"
  have z: "sslOpts ls0 = zero_sslOptions"
    by (auto simp: ls0_def listen_flags_ssl zero_listen_def split: list.splits prod.splits)
  note run = assms [unfolded parseListen_def Let_def ls0_def [symmetric]]
  show ?thesis
  proof (cases "ssl ls0")
    case True
    with run obtain bs1 bs2 ss1 ss2 where "load_rules E st bs1 (sslOpts ls0) = Inr ss1"
      "load_rules E st bs2 ss1 = Inr ss2" "ls = ls0\<lparr>sslOpts := ss2\<rparr>"
      by (auto simp: gbind_eq_Inr)
    with z show ?thesis using load_rules_frame ssl_frame_trans by fastforce
  qed (use run z in simp)
qed

text \<open>
  (C37) Three SSL settings can never be configured: for every configuration, the options of a listener
  have no password file, no session cache and no trusted certificate, because \<open>ssl_password_file\<close>
  is stored as the DH parameter file, \<open>ssl_session_cache\<close> as the curve, and
  \<open>ssl_trusted_certificate\<close> not at all. So no listener gets a session cache.
\<close>

theorem ssl_settings_lost:
  assumes "parseListen E st r p = Inr ls"
  shows "\<not> isset (passwordFile (sslOpts ls)) \<and> \<not> isset (sessionCache (sslOpts ls)) \<and>
    \<not> isset (trustedCertificate (sslOpts ls)) \<and>
    map_sum id ClientSessionCache (sslOptions_config LoadX509KeyPair ReadFile (sslOpts ls)) \<noteq> Inr True"
proof -
  from parseListen_ssl [OF assms] have "\<not> isset (passwordFile (sslOpts ls))"
    "\<not> isset (sessionCache (sslOpts ls))" "\<not> isset (trustedCertificate (sslOpts ls))"
    by (simp_all add: ssl_frame_def zero_sslOptions_def unset_cell_def)
  then show ?thesis by (auto simp: sslOptions_config_def Let_def split: sum.splits if_splits)
qed

definition sample_env :: core_env where
  "sample_env =
     \<lparr>ToBytes = \<lambda>_. Inl [], checkFile = \<lambda>_. None, openssl = \<lambda>_. Inl [], fraction = \<lambda>_ _ _. 0,
      net = \<lparr>ParseIP = \<lambda>_. None, URLParse = \<lambda>_. None\<rparr>\<rparr>"

definition sample_rules :: "rule list" where
  "sample_rules =
     [\<lparr>parent = None, rule_name = ''http'', rule_args = [], children = [1]\<rparr>,
      \<lparr>parent = Some 0, rule_name = ''server'', rule_args = [], children = [2, 3]\<rparr>,
      \<lparr>parent = Some 1, rule_name = ''listen'', rule_args = [''443'', ''ssl''], children = []\<rparr>,
      \<lparr>parent = Some 1, rule_name = ''ssl_session_cache'', rule_args = [''shared''], children = []\<rparr>]"

theorem ssl_settings_lost_witness:
  "\<exists>ls. parseListen sample_env sample_rules 2 ''80'' = Inr ls \<and> ssl ls \<and> addrPort ls = ''0.0.0.0:443'' \<and>
     \<not> isset (sessionCache (sslOpts ls))"
proof -
  have at: "Atoi ''443'' = Inr 443" by code_simp
  have "\<exists>ls. parseListen sample_env sample_rules 2 ''80'' = Inr ls \<and> ssl ls \<and> addrPort ls = ''0.0.0.0:443''"
    by (simp add: parseListen_def sample_rules_def sample_env_def listen_addr_def at go_parent_def
        sslOptions_load_def zero_listen_def Let_def)
  then show ?thesis using ssl_settings_lost by blast
qed

subsection \<open>Cipher names\<close>

fun contains :: "string \<Rightarrow> string \<Rightarrow> bool" where
  "contains [] t = False"
| "contains (c # s) t \<longleftrightarrow> prefix t (c # s) \<or> contains s t"

lemma contains_append: "t \<noteq> [] \<Longrightarrow> contains (u @ t @ v) t"
  by (induction u) (cases t; simp)+

lemma suites_no_126: "standardCipherSuits s = Some n \<Longrightarrow> \<not> contains s ''_126''"
proof -
  assume "standardCipherSuits s = Some n"
  then have "s \<in> fst ` set suite_list"
    unfolding standardCipherSuits_def by (metis domI dom_map_of_conv_image_fst)
  moreover have "list_all (\<lambda>(s, n). \<not> contains s ''_126'') suite_list" by (simp add: suite_list_def)
  ultimately show ?thesis by (auto simp: list_all_iff)
qed

lemma utoa_126: "utoa 126 = ''126''"
  by code_simp

lemma cipher_String_126:
  assumes "enc c = ''AES''" "encSize c = 126"
  shows "standardCipherSuits (cipher_String c) = None"
proof -
  have "cipher_String c = ((if kx c = auth c then proto c @ ''_'' @ kx c else proto c @ ''_'' @ kx c @ ''_'' @ auth c) @
      ''_WITH_AES'') @ ''_126'' @ ''_'' @ encPad c @ ''_'' @ mac c"
    by (simp add: cipher_String_def assms utoa_126)
  then have "contains (cipher_String c) ''_126''" by (simp only: contains_append list.discI not_False_eq_True)
  with suites_no_126 [of "cipher_String c"] show ?thesis by (cases "standardCipherSuits (cipher_String c)") auto
qed

lemma cipher_mode_enc: "cipher_mode parts idx c = Inr c' \<Longrightarrow> enc c' = enc c \<and> encSize c' = encSize c"
  by (auto simp: cipher_mode_def gbind_eq_Inr split: if_splits)

lemma cipher_kx_enc: "cipher_kx parts c = Inr (c', idx) \<Longrightarrow> enc c' = enc c \<and> encSize c' = encSize c"
  by (auto simp: cipher_kx_def gbind_eq_Inr split: option.splits if_splits)

lemma cipher_parse_aes:
  assumes "cipher_parse spec = Inr c" "enc c = ''AES''"
  shows "encSize c = 128 \<or> encSize c = 126"
proof -
  from assms(1) obtain c1 idx p where "cipher_kx (split spec ''-'') cipher_init = Inr (c1, idx)"
    "cipher_mode (split spec ''-'') idx (cipher_enc p c1) = Inr c"
    by (auto simp: cipher_parse_def Let_def gbind_eq_Inr)
  with cipher_kx_enc cipher_mode_enc assms(2) have "enc c1 = ''AES''" "encSize c1 = 128"
    "enc c = enc (cipher_enc p c1)" "encSize c = encSize (cipher_enc p c1)"
    by (fastforce simp: cipher_init_def)+
  with assms(2) show ?thesis by (auto simp: cipher_enc_def ciphers_table_def split: if_splits)
qed

lemma parse_all_mem: "parse_all vs = Inr cs \<Longrightarrow> c \<in> set cs \<Longrightarrow> \<exists>v. cipher_parse v = Inr c"
  by (induction vs arbitrary: cs) (auto simp: gbind_eq_Inr)

text \<open>
  No suite with 256-bit AES can be selected: whatever \<open>openssl ciphers\<close> prints, every AES suite
  that \<open>standardCiphers\<close> keeps has key size 128. The cipher table gives AES256 the key size 126, and
  no suite of the standard table has that size in its name.
\<close>

theorem no_aes_256:
  assumes "openSSLCiphers run = Inr (Inr cs)" "v \<in> set (standardCiphers cs)" "enc v = ''AES''"
  shows "encSize v = 128"
proof -
  from assms(1) obtain out where "parse_all (split (TrimSpace out) '':'') = Inr cs"
    by (auto simp: openSSLCiphers_def gbind_eq_Inr split: sum.splits)
  moreover from assms(2) have v: "v \<in> set cs" "standardCipherSuits (cipher_String v) \<noteq> None"
    by (auto simp: standardCiphers_def)
  ultimately obtain spec where "cipher_parse spec = Inr v" using parse_all_mem by blast
  from cipher_parse_aes [OF this assms(3)] cipher_String_126 [OF assms(3)] v(2) show ?thesis by auto
qed

theorem no_aes_256_witness:
  "\<exists>cs v. openSSLCiphers (Inr ''AES128-GCM-SHA256:AES256-GCM-SHA384'') = Inr (Inr cs) \<and>
     v \<in> set (standardCiphers cs) \<and> enc v = ''AES'' \<and> encSize v = 128"
proof -
  let ?v = "cipher_init\<lparr>encPad := ''GCM'', mac := ''SHA256''\<rparr>"
  let ?w = "cipher_init\<lparr>encSize := 126, encPad := ''GCM'', mac := ''SHA384''\<rparr>"
  have run: "openSSLCiphers (Inr ''AES128-GCM-SHA256:AES256-GCM-SHA384'') = Inr (Inr [?v, ?w])" by code_simp
  have "cipher_String ?v = ''TLS_RSA_WITH_AES_128_GCM_SHA256''" by code_simp
  then have "?v \<in> set (standardCiphers [?v, ?w])"
    by (simp add: standardCiphers_def standardCipherSuits_def suite_list_def)
  moreover have "enc ?v = ''AES''" by (simp add: cipher_init_def)
  ultimately show ?thesis using no_aes_256 [OF run] run by blast
qed

section \<open>Session cache and default port\<close>

text \<open>
  The session cache shared by all TLS clients. A stored session may be nil, which is an entry all
  the same; only \<open>Put\<close> writes to the map, so the type of an entry is known.
\<close>

definition tlsClientCache_Get :: "(string \<rightharpoonup> 's option) \<Rightarrow> string \<Rightarrow> 's option \<times> bool" where
  "tlsClientCache_Get tlsCache key = (case tlsCache key of None \<Rightarrow> (None, False) | Some v \<Rightarrow> (v, True))"

definition tlsClientCache_Put :: "(string \<rightharpoonup> 's option) \<Rightarrow> string \<Rightarrow> 's option \<Rightarrow> string \<rightharpoonup> 's option" where
  "tlsClientCache_Put tlsCache key cs = tlsCache(key \<mapsto> cs)"

lemma tlsClientCache_Get_Put:
  "tlsClientCache_Get (tlsClientCache_Put m k cs) k' = (if k' = k then (cs, True) else tlsClientCache_Get m k')"
  by (simp add: tlsClientCache_Get_def tlsClientCache_Put_def)

text \<open>
  \<open>defaultPort\<close> tries to listen on port 80, then on 8000, and remembers the port that worked. The
  error of listening is an argument.
\<close>

definition defaultPort :: "(int \<Rightarrow> string option) \<Rightarrow> int option \<Rightarrow> int go \<times> int option" where
  "defaultPort listenErr ngxPort =
     (case ngxPort of
        Some v \<Rightarrow> (Inr v, ngxPort)
      | None \<Rightarrow>
          (case listenErr 80 of
             None \<Rightarrow> (Inr 80, Some 80)
           | Some _ \<Rightarrow>
               (case listenErr 8000 of
                  None \<Rightarrow> (Inr 8000, Some 8000)
                | Some err \<Rightarrow> (Inl (Explicit (''vince: failed to bind to default port '' @ err)), None))))"

text \<open>The answer does not change later, even when the port is taken by then.\<close>

lemma defaultPort_stable:
  "defaultPort err p = (Inr n, p') \<Longrightarrow> defaultPort err' p' = (Inr n, p')"
  by (auto simp: defaultPort_def split: option.splits)

end
