(* ===== verification/Router.thy ===== *)
theory Router
  imports Http_Core
begin

text \<open>
  Request routing of \<open>ngx_startup.go\<close>: collecting the servers of a configuration by listening
  address, wildcard server names, choosing the server of a host and the location of a path. The
  regular-expression engine is the environment \<open>regexp_env\<close>; the order in which a Go map is visited
  is an argument. Indexing past the end of a slice is a panic.
\<close>

section \<open>Wildcard names\<close>

text \<open>The loop of \<open>matchWildCard\<close> over the labels that are left of the host and of the pattern.\<close>

fun wild_loop :: "string list \<Rightarrow> string list \<Rightarrow> bool go" where
  "wild_loop [] wp = Inr True"
| "wild_loop (s # sp) wp =
     gbind (go_index wp 0) (\<lambda>w.
       if w = ''*'' then wild_loop sp wp
       else if s \<noteq> w then Inr False
       else wild_loop sp (tl wp))"

definition matchWildCard :: "string \<Rightarrow> string \<Rightarrow> bool go" where
  "matchWildCard s wild =
     (let wp = split wild ''.''; sp = split s ''.''
      in if length sp < length wp then Inr False else wild_loop sp wp)"

definition isWildCard :: "string \<Rightarrow> bool" where
  "isWildCard w \<longleftrightarrow> CHR ''*'' \<in> set w \<and> (hasPrefix w ''*.'' \<or> hasSuffix w ''.*'')"

section \<open>Locations\<close>

datatype matchKind = MatchExact | MatchCaret | MatchPrefix | MatchRegexp

record location_match =
  kind :: matchKind
  match_rule :: nat
  regexp :: string

text \<open>Regular expressions: whether a pattern compiles, and whether it matches a text.\<close>

record regexp_env =
  Compiles :: "string \<Rightarrow> bool"
  MatchString :: "string \<Rightarrow> string \<Rightarrow> bool"

definition MustCompile :: "regexp_env \<Rightarrow> string \<Rightarrow> string go" where
  "MustCompile R p = (if Compiles R p then Inr p else Inl (Explicit (''regexp: Compile('' @ p)))"

definition location_of :: "regexp_env \<Rightarrow> rule list \<Rightarrow> nat \<Rightarrow> location_match option go" where
  "location_of R st ch =
     (let args = rule_args (deref st ch);
          plain = (\<lambda>k. Inr (Some \<lparr>kind = k, match_rule = ch, regexp = []\<rparr>));
          re = (\<lambda>p. gbind (MustCompile R p) (\<lambda>p. Inr (Some \<lparr>kind = MatchRegexp, match_rule = ch, regexp = p\<rparr>)))
      in if rule_name (deref st ch) \<noteq> ''location'' then Inr None
         else if length args = 1 then plain MatchPrefix
         else if length args = 2 then
           (if args ! 0 = ''='' then plain MatchExact
            else if args ! 0 = ''~'' then re (args ! 1)
            else if args ! 0 = ''~*'' then re (''(?i)'' @ args ! 1)
            else if args ! 0 = ''^~'' then plain MatchCaret
            else Inr None)
         else Inr None)"

fun load_locations :: "regexp_env \<Rightarrow> rule list \<Rightarrow> nat list \<Rightarrow> location_match list go" where
  "load_locations R st [] = Inr []"
| "load_locations R st (ch # cs) =
     gbind (location_of R st ch) (\<lambda>m.
       gbind (load_locations R st cs) (\<lambda>ms. Inr (case m of None \<Rightarrow> ms | Some m \<Rightarrow> m # ms)))"

definition locationMatch_load :: "regexp_env \<Rightarrow> rule list \<Rightarrow> nat \<Rightarrow> location_match list go" where
  "locationMatch_load R st srv = load_locations R st (children (deref st srv))"

abbreviation match_args :: "rule list \<Rightarrow> location_match \<Rightarrow> string list" where
  "match_args st m \<equiv> rule_args (deref st (match_rule m))"

text \<open>The first loop of \<open>match\<close>: the exact locations. The second: the prefixes of the path.\<close>

fun find_exact :: "rule list \<Rightarrow> string \<Rightarrow> location_match list \<Rightarrow> location_match option go" where
  "find_exact st p [] = Inr None"
| "find_exact st p (m # ms) =
     (if kind m = MatchExact
      then gbind (go_index (match_args st m) 1) (\<lambda>a. if a = p then Inr (Some m) else find_exact st p ms)
      else find_exact st p ms)"

definition is_prefix_match :: "rule list \<Rightarrow> string \<Rightarrow> location_match \<Rightarrow> bool go" where
  "is_prefix_match st p m =
     (case kind m of
        MatchPrefix \<Rightarrow> gbind (go_index (match_args st m) 0) (\<lambda>a. Inr (hasPrefix p a))
      | MatchCaret \<Rightarrow> gbind (go_index (match_args st m) 1) (\<lambda>a. Inr (hasPrefix p a))
      | _ \<Rightarrow> Inr False)"

fun prefix_matches :: "rule list \<Rightarrow> string \<Rightarrow> location_match list \<Rightarrow> location_match list go" where
  "prefix_matches st p [] = Inr []"
| "prefix_matches st p (m # ms) =
     gbind (is_prefix_match st p m) (\<lambda>b.
       gbind (prefix_matches st p ms) (\<lambda>r. Inr (if b then m # r else r)))"

text \<open>
  \<open>sort.Slice\<close> as the standard library does it for up to twelve elements: one pass with gap six and
  an insertion sort, comparing by index. For longer slices its quicksort is an argument.
\<close>

definition swap :: "'a list \<Rightarrow> nat \<Rightarrow> nat \<Rightarrow> 'a list" where
  "swap xs i j = xs[i := xs ! j, j := xs ! i]"

fun shell_pass :: "('a list \<Rightarrow> nat \<Rightarrow> nat \<Rightarrow> bool go) \<Rightarrow> nat list \<Rightarrow> 'a list \<Rightarrow> 'a list go" where
  "shell_pass lt [] m = Inr m"
| "shell_pass lt (i # is1) m =
     gbind (lt m i (i - 6)) (\<lambda>b. shell_pass lt is1 (if b then swap m i (i - 6) else m))"

fun sift :: "('a list \<Rightarrow> nat \<Rightarrow> nat \<Rightarrow> bool go) \<Rightarrow> nat \<Rightarrow> 'a list \<Rightarrow> 'a list go" where
  "sift lt 0 m = Inr m"
| "sift lt (Suc j) m =
     gbind (lt m (Suc j) j) (\<lambda>b. if b then sift lt j (swap m (Suc j) j) else Inr m)"

fun insertion_sort :: "('a list \<Rightarrow> nat \<Rightarrow> nat \<Rightarrow> bool go) \<Rightarrow> nat list \<Rightarrow> 'a list \<Rightarrow> 'a list go" where
  "insertion_sort lt [] m = Inr m"
| "insertion_sort lt (i # is1) m = gbind (sift lt i m) (insertion_sort lt is1)"

definition sort_Slice ::
  "(('a list \<Rightarrow> nat \<Rightarrow> nat \<Rightarrow> bool go) \<Rightarrow> 'a list \<Rightarrow> 'a list go) \<Rightarrow>
   ('a list \<Rightarrow> nat \<Rightarrow> nat \<Rightarrow> bool go) \<Rightarrow> 'a list \<Rightarrow> 'a list go" where
  "sort_Slice quick lt m =
     (if length m \<le> 12
      then gbind (shell_pass lt [6..<length m] m) (insertion_sort lt [1..<length m])
      else quick lt m)"

text \<open>The comparison of \<open>match\<close> indexes the arguments of one rule with the positions of the slice.\<close>

definition location_less :: "rule list \<Rightarrow> location_match list \<Rightarrow> nat \<Rightarrow> nat \<Rightarrow> bool go" where
  "location_less st m i j =
     gbind (go_index m i) (\<lambda>mi.
       gbind (go_index (match_args st mi) i) (\<lambda>a.
         gbind (go_index (match_args st mi) j) (\<lambda>b. Inr (a > b))))"

definition find_regexp :: "regexp_env \<Rightarrow> string \<Rightarrow> location_match list \<Rightarrow> location_match option" where
  "find_regexp R p ms = find (\<lambda>m. kind m = MatchRegexp \<and> MatchString R (regexp m) p) ms"

text \<open>The last loop runs over the positions of the nested locations but looks into the outer ones.\<close>

definition find_outer :: "regexp_env \<Rightarrow> string \<Rightarrow> location_match list \<Rightarrow> nat \<Rightarrow> location_match option go" where
  "find_outer R p ls n =
     (case find_regexp R p (take n ls) of
        Some m \<Rightarrow> Inr (Some m)
      | None \<Rightarrow> if length ls < n then Inl IndexOutOfRange else Inr None)"

definition locationMatch_match ::
  "((location_match list \<Rightarrow> nat \<Rightarrow> nat \<Rightarrow> bool go) \<Rightarrow> location_match list \<Rightarrow> location_match list go) \<Rightarrow>
   regexp_env \<Rightarrow> rule list \<Rightarrow> location_match list \<Rightarrow> string \<Rightarrow> location_match option go" where
  "locationMatch_match quick R st ls p =
     gbind (find_exact st p ls) (\<lambda>e.
       if e \<noteq> None then Inr e
       else
         gbind (prefix_matches st p ls) (\<lambda>m.
           if m = [] then Inr None
           else
             gbind (sort_Slice quick (location_less st) m) (\<lambda>m.
               gbind (go_index m 0) (\<lambda>selected.
                 if kind selected = MatchCaret then Inr (Some selected)
                 else
                   gbind (locationMatch_load R st (match_rule selected)) (\<lambda>up.
                     case find_regexp R p up of
                       Some r \<Rightarrow> Inr (Some r)
                     | None \<Rightarrow>
                         gbind (find_outer R p ls (length up)) (\<lambda>r.
                           Inr (case r of Some r \<Rightarrow> Some r | None \<Rightarrow> Some selected)))))))"

section \<open>Servers\<close>

record handlerMatch =
  regExp :: "(string \<times> nat) list"
  exact :: "string \<rightharpoonup> nat list"
  wild :: "string \<rightharpoonup> nat"
  default_rule :: "nat option"

text \<open>The names of a server's first \<open>server_name\<close> directive, one after the other.\<close>

definition add_name :: "regexp_env \<Rightarrow> nat \<Rightarrow> string \<Rightarrow> handlerMatch \<Rightarrow> handlerMatch go" where
  "add_name R srv a h =
     gbind (go_index a 0) (\<lambda>c.
       if c = CHR ''~'' then
         gbind (MustCompile R (drop 1 a)) (\<lambda>re. Inr (h\<lparr>regExp := regExp h @ [(re, srv)]\<rparr>))
       else if isWildCard a then Inr (h\<lparr>wild := (wild h)(a \<mapsto> srv)\<rparr>)
       else
         Inr (h\<lparr>exact := (exact h)(a \<mapsto> (case exact h a of Some v \<Rightarrow> v @ [srv] | None \<Rightarrow> [srv]))\<rparr>))"

fun add_names :: "regexp_env \<Rightarrow> nat \<Rightarrow> string list \<Rightarrow> handlerMatch \<Rightarrow> handlerMatch go" where
  "add_names R srv [] h = Inr h"
| "add_names R srv (a # as) h = gbind (add_name R srv a h) (add_names R srv as)"

definition server_names :: "rule list \<Rightarrow> nat \<Rightarrow> string list" where
  "server_names st srv =
     (case find (\<lambda>ch. rule_name (deref st ch) = ''server_name'') (children (deref st srv)) of
        None \<Rightarrow> []
      | Some ch \<Rightarrow> rule_args (deref st ch))"

fun add_servers :: "regexp_env \<Rightarrow> rule list \<Rightarrow> nat list \<Rightarrow> handlerMatch \<Rightarrow> handlerMatch go" where
  "add_servers R st [] h = Inr h"
| "add_servers R st (srv # servers) h =
     gbind (add_names R srv (server_names st srv) h) (add_servers R st servers)"

definition handlerMatch_init ::
  "regexp_env \<Rightarrow> rule list \<Rightarrow> nat list \<Rightarrow> nat option \<Rightarrow> handlerMatch go" where
  "handlerMatch_init R st servers dflt =
     add_servers R st servers
       \<lparr>regExp = [], exact = Map.empty, wild = Map.empty, default_rule = dflt\<rparr>"

text \<open>The loop over the wildcard names, in the order \<open>ws\<close>: the greatest name that matches.\<close>

fun best_wild :: "string \<Rightarrow> string list \<Rightarrow> string \<Rightarrow> string go" where
  "best_wild name [] best = Inr best"
| "best_wild name (w # ws) best =
     gbind (matchWildCard name w) (\<lambda>b. best_wild name ws (if b \<and> w > best then w else best))"

text \<open>\<open>find\<close>; \<open>ws\<close> and \<open>res\<close> are the wildcard names and the expressions in the order visited.\<close>

definition handlerMatch_find ::
  "regexp_env \<Rightarrow> string list \<Rightarrow> (string \<times> nat) list \<Rightarrow> handlerMatch \<Rightarrow> string \<Rightarrow> nat option go" where
  "handlerMatch_find R ws res h name =
     (case exact h name of
        Some r \<Rightarrow> gbind (go_index r 0) (\<lambda>s. Inr (Some s))
      | None \<Rightarrow>
          gbind (best_wild name ws []) (\<lambda>best.
            if best \<noteq> [] then Inr (wild h best)
            else
              Inr (case find (\<lambda>(re, r). MatchString R re name) res of
                     Some (re, r) \<Rightarrow> Some r
                   | None \<Rightarrow> default_rule h)))"

section \<open>Listeners\<close>

fun listeners :: "core_env \<Rightarrow> rule list \<Rightarrow> string \<Rightarrow> nat list \<Rightarrow> httpListenOpts list go" where
  "listeners E st p [] = Inr []"
| "listeners E st p (v # vs) =
     (if rule_name (deref st v) = ''listen''
      then gbind (parseListen E st v p) (\<lambda>ls. gbind (listeners E st p vs) (\<lambda>r. Inr (ls # r)))
      else listeners E st p vs)"

definition findListener :: "core_env \<Rightarrow> rule list \<Rightarrow> nat \<Rightarrow> int \<Rightarrow> httpListenOpts list go" where
  "findListener E st r port = listeners E st (Itoa port) (children (deref st r))"

text \<open>The server blocks of the http blocks, and their grouping by listening address.\<close>

definition named_children :: "rule list \<Rightarrow> string \<Rightarrow> nat \<Rightarrow> nat list" where
  "named_children st name r = filter (\<lambda>c. rule_name (deref st c) = name) (children (deref st r))"

definition all_servers :: "rule list \<Rightarrow> nat \<Rightarrow> nat list" where
  "all_servers st core = concat (map (named_children st ''server'') (named_children st ''http'' core))"

record server_table =
  address :: "string \<rightharpoonup> httpListenOpts"
  serverRules :: "string \<rightharpoonup> nat list"

definition add_listener :: "nat \<Rightarrow> httpListenOpts \<Rightarrow> server_table \<Rightarrow> server_table" where
  "add_listener v ls t =
     t\<lparr>address := (if address t (addrPort ls) = None then (address t)(addrPort ls \<mapsto> ls) else address t),
       serverRules := (serverRules t)(addrPort ls \<mapsto>
         (case serverRules t (addrPort ls) of Some a \<Rightarrow> a @ [v] | None \<Rightarrow> [v]))\<rparr>"

fun group_servers :: "core_env \<Rightarrow> rule list \<Rightarrow> int \<Rightarrow> nat list \<Rightarrow> server_table \<Rightarrow> server_table go" where
  "group_servers E st port [] t = Inr t"
| "group_servers E st port (v # servers) t =
     gbind (findListener E st v port) (\<lambda>ls. group_servers E st port servers (fold (add_listener v) ls t))"

definition server_groups :: "core_env \<Rightarrow> rule list \<Rightarrow> nat \<Rightarrow> int \<Rightarrow> server_table go" where
  "server_groups E st core port =
     group_servers E st port (all_servers st core) \<lparr>address = Map.empty, serverRules = Map.empty\<rparr>"

section \<open>Wildcards match by prefix\<close>

lemma wild_loop_prefix:
  assumes "''*'' \<notin> set pre"
  shows "wild_loop sp (pre @ ''*'' # ws) = Inr (prefix (take (length sp) pre) sp)"
  using assms
proof (induction sp arbitrary: pre)
  case (Cons s sp)
  show ?case
  proof (cases pre)
    case Nil
    with Cons.IH [of "[]"] show ?thesis by simp
  next
    case (Cons p ps)
    with Cons.prems Cons.IH [of ps] show ?thesis by auto
  qed
qed simp

lemma wild_loop_star: "wild_loop sp (''*'' # ws) = Inr True"
  by (induction sp) simp_all

lemma wild_loop_plain:
  "''*'' \<notin> set wp \<Longrightarrow>
     wild_loop sp wp = (if prefix sp wp then Inr True else if prefix wp sp then Inl IndexOutOfRange else Inr False)"
proof (induction sp arbitrary: wp)
  case (Cons s sp)
  show ?case
  proof (cases wp)
    case (Cons w ws)
    with Cons.prems Cons.IH [of ws] show ?thesis by auto
  qed simp
qed simp

text \<open>A pattern with a star is a prefix of labels; what follows the first star is never compared.\<close>

lemma matchWildCard_star:
  assumes "split w ''.'' = pre @ ''*'' # ws" "''*'' \<notin> set pre"
  shows "matchWildCard s w =
    Inr (length (split w ''.'') \<le> length (split s ''.'') \<and> prefix pre (split s ''.''))"
proof (cases "length (split s ''.'') < length (split w ''.'')")
  case False
  then have "take (length (split s ''.'')) pre = pre" using assms(1) by simp
  with False assms show ?thesis
    by (simp add: matchWildCard_def wild_loop_prefix)
qed (simp add: matchWildCard_def)

lemma split_aux_snoc: "split_aux [c] cur (s @ c # t) = split_aux [c] cur s @ split_aux [c] [] t"
proof (induction s arbitrary: cur)
  case Nil
  then show ?case by (simp add: hasPrefix_def)
next
  case (Cons x s)
  then show ?case by (auto simp: hasPrefix_def)
qed

lemma split_snoc: "split (s @ c # t) [c] = split s [c] @ split t [c]"
  by (simp add: split_def split_aux_snoc)

lemma first_occurrence: "\<exists>ws. xs @ [a] = takeWhile (\<lambda>l. l \<noteq> a) xs @ a # ws"
  by (induction xs) auto

text \<open>
  Wildcard server names: \<open>matchWildCard\<close> of a name that ends in a star compares the labels before
  the star, as intended. Of a name that starts with a star it compares nothing: every host with
  more labels than the rest of the name matches, whatever its domain.
\<close>

theorem wildcard_names:
  "matchWildCard s (''*.'' @ d) = Inr (length (split d ''.'') < length (split s ''.'')) \<and>
   matchWildCard s (d @ ''.*'') =
     Inr (length (split d ''.'') < length (split s ''.'') \<and>
          prefix (takeWhile (\<lambda>l. l \<noteq> ''*'') (split d ''.'')) (split s ''.''))"
proof (rule conjI)
  have "split (''*.'' @ d) ''.'' = [] @ ''*'' # split d ''.''"
    using split_append [of "CHR ''.''" "''*''" d] by simp
  from matchWildCard_star [OF this, of s] this
  show "matchWildCard s (''*.'' @ d) = Inr (length (split d ''.'') < length (split s ''.''))"
    by (simp add: Suc_le_eq)
next
  let ?pre = "takeWhile (\<lambda>l. l \<noteq> ''*'') (split d ''.'')"
  have sp: "split (d @ ''.*'') ''.'' = split d ''.'' @ [''*'']"
    using split_snoc [of d "CHR ''.''" "''*''"] by (simp add: split_single)
  with first_occurrence obtain ws where ws: "split (d @ ''.*'') ''.'' = ?pre @ ''*'' # ws" by metis
  have "''*'' \<notin> set ?pre" using set_takeWhileD by fast
  from matchWildCard_star [OF ws this, of s]
  show "matchWildCard s (d @ ''.*'') =
     Inr (length (split d ''.'') < length (split s ''.'') \<and> prefix ?pre (split s ''.''))"
    unfolding sp by (simp add: Suc_le_eq)
qed

section \<open>The choice of a location\<close>

text \<open>What \<open>load\<close> guarantees: a location without a modifier has one argument, the others have two.\<close>

definition loaded :: "rule list \<Rightarrow> location_match list \<Rightarrow> bool" where
  "loaded st ls \<longleftrightarrow>
     list_all (\<lambda>m. length (match_args st m) = (if kind m = MatchPrefix then 1 else 2)) ls"

lemma loaded_simps [simp]:
  "loaded st []"
  "loaded st (m # ls) \<longleftrightarrow>
     length (match_args st m) = (if kind m = MatchPrefix then 1 else 2) \<and> loaded st ls"
  by (simp_all add: loaded_def)

lemma load_loaded: "load_locations R st cs = Inr ls \<Longrightarrow> loaded st ls"
proof (induction cs arbitrary: ls)
  case (Cons c cs)
  then obtain m ms where "location_of R st c = Inr m" "load_locations R st cs = Inr ms"
    "ls = (case m of None \<Rightarrow> ms | Some m \<Rightarrow> m # ms)" by (auto simp: gbind_eq_Inr)
  with Cons.IH [of ms] show ?case
    by (auto simp: location_of_def MustCompile_def Let_def gbind_eq_Inr split: if_splits)
qed simp

definition is_exact :: "rule list \<Rightarrow> string \<Rightarrow> location_match \<Rightarrow> bool" where
  "is_exact st p m \<longleftrightarrow> kind m = MatchExact \<and> match_args st m ! 1 = p"

definition candidates :: "rule list \<Rightarrow> string \<Rightarrow> location_match list \<Rightarrow> location_match list" where
  "candidates st p ls =
     filter (\<lambda>m. kind m = MatchPrefix \<and> hasPrefix p (match_args st m ! 0) \<or>
                 kind m = MatchCaret \<and> hasPrefix p (match_args st m ! 1)) ls"

lemma find_exact_find: "loaded st ls \<Longrightarrow> find_exact st p ls = Inr (find (is_exact st p) ls)"
  by (induction ls) (auto simp: is_exact_def go_index_def)

lemma prefix_matches_candidates: "loaded st ls \<Longrightarrow> prefix_matches st p ls = Inr (candidates st p ls)"
proof (induction ls)
  case (Cons m ls)
  then show ?case
    by (cases "kind m") (simp_all add: candidates_def is_prefix_match_def go_index_def)
qed (simp add: candidates_def)

lemma candidates_loaded: "loaded st ls \<Longrightarrow> loaded st (candidates st p ls)"
  by (auto simp: loaded_def candidates_def list_all_iff)

text \<open>Comparing at a position past the arguments panics.\<close>

lemma location_less_panics:
  assumes "i < length m" "length (match_args st (m ! i)) \<le> i"
  shows "location_less st m i j = Inl IndexOutOfRange"
  using assms by (simp add: location_less_def go_index_ok go_index_panic)

lemma sift_panics:
  assumes "0 < i" "i < length m" "length (match_args st (m ! i)) \<le> i"
  shows "sift (location_less st) i m = Inl IndexOutOfRange"
proof -
  obtain j where j: "i = Suc j" using assms(1) by (cases i) auto
  show ?thesis using location_less_panics [OF assms(2,3)] by (simp add: j)
qed

text \<open>The first round of the insertion sort compares the first two elements and leaves the third.\<close>

lemma sift_one:
  assumes "1 < length m" "length (match_args st (m ! 1)) = 2"
  shows "\<exists>m'. sift (location_less st) 1 m = Inr m' \<and> length m' = length m \<and> (\<forall>i > 1. m' ! i = m ! i)"
proof -
  obtain b where "location_less st m 1 0 = Inr b"
    using assms by (simp add: location_less_def go_index_ok)
  then show ?thesis by (auto simp: swap_def)
qed

lemma insertion_sort_panics:
  assumes "loaded st m" "2 \<le> length m" "kind (m ! 1) = MatchPrefix \<or> 3 \<le> length m"
  shows "insertion_sort (location_less st) [1..<length m] m = Inl IndexOutOfRange"
proof -
  have args: "length (match_args st (m ! i)) = (if kind (m ! i) = MatchPrefix then 1 else 2)"
    if "i < length m" for i using assms(1) that by (simp add: loaded_def list_all_length)
  have is1: "[1..<length m] = 1 # [2..<length m]" using assms(2) by (simp add: upt_conv_Cons numeral_2_eq_2)
  show ?thesis
  proof (cases "kind (m ! 1) = MatchPrefix")
    case True
    then have "sift (location_less st) 1 m = Inl IndexOutOfRange"
      using assms(2) args [of 1] by (intro sift_panics) simp_all
    then show ?thesis unfolding is1 by (simp del: sift.simps One_nat_def)
  next
    case False
    with assms(3) have len: "3 \<le> length m" by simp
    from sift_one [of m st] False args [of 1] len obtain m' where m':
      "sift (location_less st) 1 m = Inr m'" "length m' = length m" "m' ! 2 = m ! 2" by auto
    have "sift (location_less st) 2 m' = Inl IndexOutOfRange"
      using len args [of 2] m' by (intro sift_panics) simp_all
    moreover have "[2..<length m] = 2 # [3..<length m]" using len by (simp add: upt_conv_Cons)
    ultimately show ?thesis unfolding is1 using m'(1) by (simp del: sift.simps One_nat_def)
  qed
qed

lemma sort_panics:
  assumes "loaded st m" "2 \<le> length m" "length m \<le> 12" "kind (m ! 1) = MatchPrefix \<or> 3 \<le> length m"
  shows "sort_Slice quick (location_less st) m = Inl IndexOutOfRange"
proof (cases "6 < length m")
  case True
  then have "[6..<length m] = 6 # [7..<length m]" by (simp add: upt_conv_Cons)
  moreover have "location_less st m 6 0 = Inl IndexOutOfRange"
    using assms(1) True by (intro location_less_panics) (simp_all add: loaded_def list_all_length)
  ultimately show ?thesis using assms(3) by (simp add: sort_Slice_def)
next
  case False
  with insertion_sort_panics [OF assms(1,2,4)] assms(3) show ?thesis by (simp add: sort_Slice_def)
qed

text \<open>
  (C36) A path under two locations panics: when no exact location matches and two or more prefix
  locations are prefixes of the path, the second of them without a modifier, as with
  \<open>location /\<close> followed by \<open>location /api\<close>, or three or more of any kind, sorting them indexes past
  the arguments of a location. Up to twelve such locations the sort is the library's insertion sort.
\<close>

theorem location_ambiguous_panics:
  assumes "locationMatch_load R st srv = Inr ls" "find (is_exact st p) ls = None"
    and "2 \<le> length (candidates st p ls)" "length (candidates st p ls) \<le> 12"
    and "kind (candidates st p ls ! 1) = MatchPrefix \<or> 3 \<le> length (candidates st p ls)"
  shows "locationMatch_match quick R st ls p = Inl IndexOutOfRange"
proof -
  have l: "loaded st ls" using assms(1) by (auto simp: locationMatch_load_def intro: load_loaded)
  have "candidates st p ls \<noteq> []" using assms(3) by auto
  with sort_panics [OF candidates_loaded [OF l] assms(3-5)] assms(2) show ?thesis
    by (simp add: locationMatch_match_def find_exact_find [OF l] prefix_matches_candidates [OF l])
qed

definition sample_server :: "rule list" where
  "sample_server =
     [\<lparr>parent = None, rule_name = ''server'', rule_args = [], children = [1, 2, 3]\<rparr>,
      \<lparr>parent = Some 0, rule_name = ''location'', rule_args = [''/''], children = []\<rparr>,
      \<lparr>parent = Some 0, rule_name = ''location'', rule_args = [''/api''], children = []\<rparr>,
      \<lparr>parent = Some 0, rule_name = ''location'', rule_args = [''~'', ''x''], children = []\<rparr>]"

definition all_regexps :: regexp_env where
  "all_regexps = \<lparr>Compiles = \<lambda>_. True, MatchString = \<lambda>_ _. True\<rparr>"

lemma sample_load:
  "locationMatch_load all_regexps sample_server 0 =
     Inr [\<lparr>kind = MatchPrefix, match_rule = 1, regexp = []\<rparr>, \<lparr>kind = MatchPrefix, match_rule = 2, regexp = []\<rparr>,
          \<lparr>kind = MatchRegexp, match_rule = 3, regexp = ''x''\<rparr>]"
  by (simp add: locationMatch_load_def sample_server_def location_of_def MustCompile_def all_regexps_def Let_def)

theorem location_ambiguous_panics_witness:
  "\<exists>ls. locationMatch_load all_regexps sample_server 0 = Inr ls \<and>
     locationMatch_match (\<lambda>_. Inr) all_regexps sample_server ls ''/api/v1'' = Inl IndexOutOfRange"
  using location_ambiguous_panics [OF sample_load, of "''/api/v1''" "\<lambda>_. Inr"] sample_load
  by (auto simp: is_exact_def candidates_def sample_server_def hasPrefix_def)

lemma load_none:
  "list_all (\<lambda>c. rule_name (deref st c) \<noteq> ''location'') cs \<Longrightarrow> load_locations R st cs = Inr []"
  by (induction cs) (simp_all add: location_of_def)

lemma sort_one: "length m \<le> 1 \<Longrightarrow> sort_Slice quick lt m = Inr m"
  by (simp add: sort_Slice_def)

text \<open>
  Regular-expression locations of a server are never chosen on their own: when no exact location
  matches and at most one prefix location is a prefix of the path, and that one has no nested
  locations, then it is chosen, or nothing is, and the request gets a 404, whichever of the
  server's expressions match the path.
\<close>

theorem regexp_locations_ignored:
  assumes "locationMatch_load R st srv = Inr ls" "find (is_exact st p) ls = None"
    and "length (candidates st p ls) \<le> 1"
    and "list_all (\<lambda>m. named_children st ''location'' (match_rule m) = []) (candidates st p ls)"
  shows "locationMatch_match quick R st ls p =
    Inr (case candidates st p ls of [] \<Rightarrow> None | m # ms \<Rightarrow> Some m)"
proof -
  have l: "loaded st ls" using assms(1) by (auto simp: locationMatch_load_def intro: load_loaded)
  note run = locationMatch_match_def find_exact_find [OF l] prefix_matches_candidates [OF l] assms(2)
  show ?thesis
  proof (cases "candidates st p ls")
    case Nil
    then show ?thesis by (simp add: run)
  next
    case (Cons m ms)
    with assms(4) have "list_all (\<lambda>c. rule_name (deref st c) \<noteq> ''location'') (children (deref st (match_rule m)))"
      by (simp add: named_children_def filter_empty_conv list_all_iff)
    from load_none [OF this, of R] sort_one [of "m # ms"] assms(3) Cons show ?thesis
      by (simp add: run locationMatch_load_def find_regexp_def find_outer_def)
  qed
qed

theorem regexp_locations_ignored_witness:
  "\<exists>ls. locationMatch_load all_regexps sample_server 0 = Inr ls \<and>
     locationMatch_match (\<lambda>_. Inr) all_regexps sample_server ls ''x'' = Inr None"
  using regexp_locations_ignored [OF sample_load, of "''x''" "\<lambda>_. Inr"] sample_load
  by (auto simp: is_exact_def candidates_def sample_server_def hasPrefix_def)

section \<open>The choice of a server\<close>

definition plain_name :: "string \<Rightarrow> bool" where
  "plain_name a \<longleftrightarrow> a \<noteq> [] \<and> hd a \<noteq> CHR ''~'' \<and> \<not> isWildCard a"

text \<open>The first server for a name is the head of its list.\<close>

definition first_exact :: "handlerMatch \<Rightarrow> string \<Rightarrow> nat option" where
  "first_exact h a = map_option hd (exact h a)"

definition names_ok :: "handlerMatch \<Rightarrow> bool" where
  "names_ok h \<longleftrightarrow> (\<forall>w. wild h w \<noteq> None \<longrightarrow> isWildCard w) \<and> (\<forall>a. exact h a \<noteq> Some [])"

text \<open>What adding names of a server does to the first server of a plain name.\<close>

definition names_added :: "nat \<Rightarrow> string list \<Rightarrow> handlerMatch \<Rightarrow> handlerMatch \<Rightarrow> bool" where
  "names_added srv as h h' \<longleftrightarrow>
     default_rule h' = default_rule h \<and>
     (\<forall>a. plain_name a \<longrightarrow>
        first_exact h' a = (if first_exact h a = None \<and> a \<in> set as then Some srv else first_exact h a))"

lemma add_name_ok:
  assumes "add_name R srv b h = Inr h'" "names_ok h"
  shows "names_ok h' \<and> names_added srv [b] h h'"
proof -
  from assms(1) obtain c where "go_index b 0 = Inr c" by (auto simp: add_name_def gbind_eq_Inr)
  then have b: "b \<noteq> []" "go_index b 0 = Inr (hd b)" by (cases b; simp)+
  consider "hd b = CHR ''~''" | "hd b \<noteq> CHR ''~''" "isWildCard b" | "hd b \<noteq> CHR ''~''" "\<not> isWildCard b"
    by blast
  then show ?thesis
  proof cases
    case 1
    with assms b show ?thesis
      by (auto simp: add_name_def gbind_eq_Inr names_ok_def names_added_def first_exact_def plain_name_def)
  next
    case 2
    with assms b show ?thesis
      by (auto simp: add_name_def names_ok_def names_added_def first_exact_def plain_name_def split: if_splits)
  next
    case 3
    show ?thesis
    proof (cases "exact h b")
      case None
      with 3 assms b show ?thesis
        by (auto simp: add_name_def names_ok_def names_added_def first_exact_def split: if_splits)
    next
      case (Some l)
      with assms(2) have "l \<noteq> []" by (auto simp: names_ok_def)
      with 3 Some assms b show ?thesis
        by (auto simp: add_name_def names_ok_def names_added_def first_exact_def split: if_splits)
    qed
  qed
qed

lemma names_added_trans:
  "names_added srv as h h1 \<Longrightarrow> names_added srv bs h1 h2 \<Longrightarrow> names_added srv (as @ bs) h h2"
  by (auto simp: names_added_def)

lemma add_names_ok:
  "add_names R srv as h = Inr h' \<Longrightarrow> names_ok h \<Longrightarrow> names_ok h' \<and> names_added srv as h h'"
proof (induction as arbitrary: h)
  case (Cons a as)
  then obtain h1 where h1: "add_name R srv a h = Inr h1" "add_names R srv as h1 = Inr h'"
    by (auto simp: gbind_eq_Inr)
  with add_name_ok [OF h1(1) Cons.prems(2)] Cons.IH [OF h1(2)] names_added_trans [of srv "[a]" h h1 as h']
  show ?case by simp
qed (simp add: names_added_def)

lemma add_servers_ok:
  "add_servers R st servers h = Inr h' \<Longrightarrow> names_ok h \<Longrightarrow> plain_name a \<Longrightarrow>
     names_ok h' \<and> default_rule h' = default_rule h \<and>
     first_exact h' a =
       (case first_exact h a of
          Some s \<Rightarrow> Some s
        | None \<Rightarrow> find (\<lambda>srv. a \<in> set (server_names st srv)) servers)"
proof (induction servers arbitrary: h)
  case (Cons srv servers)
  then obtain h1 where h1: "add_names R srv (server_names st srv) h = Inr h1" "add_servers R st servers h1 = Inr h'"
    by (auto simp: gbind_eq_Inr)
  from add_names_ok [OF h1(1) Cons.prems(2)] Cons.IH [OF h1(2) _ Cons.prems(3)] Cons.prems(3) show ?case
    by (auto simp: names_added_def split: option.splits)
qed (simp split: option.splits)

lemma isWildCard_star:
  assumes "isWildCard w"
  shows "\<exists>pre ws. split w ''.'' = pre @ ''*'' # ws \<and> ''*'' \<notin> set pre"
proof -
  from assms consider d where "w = ''*.'' @ d" | d where "w = d @ ''.*''"
    by (auto simp: isWildCard_def hasPrefix_iff hasSuffix_iff)
  then have "''*'' \<in> set (split w ''.'')"
  proof cases
    case (1 d)
    then show ?thesis using split_append [of "CHR ''.''" "''*''" d] by simp
  next
    case (2 d)
    then show ?thesis using split_snoc [of d "CHR ''.''" "''*''"] by (simp add: split_single)
  qed
  then show ?thesis by (metis split_list_first)
qed

lemma Max_insert_Nil: "finite W \<Longrightarrow> Max (insert [] W) = (if W = {} then [] else Max W)" for W :: "string set"
  by (simp add: max_def)

lemma Max_insert_two:
  "finite W \<Longrightarrow> Max (insert (if a < w then w else a) W) = Max (insert a (insert w W))" for W :: "string set"
  by (cases "W = {}") (auto simp: max_def)

lemma best_wild_Max:
  "\<forall>w \<in> set ws. isWildCard w \<Longrightarrow>
     best_wild name ws best = Inr (Max (insert best {w \<in> set ws. matchWildCard name w = Inr True}))"
proof (induction ws arbitrary: best)
  case (Cons w ws)
  from isWildCard_star [of w] matchWildCard_star Cons.prems obtain b where
    b: "matchWildCard name w = Inr b" by fastforce
  let ?W = "{w \<in> set ws. matchWildCard name w = Inr True}"
  have "Max (insert (if b \<and> best < w then w else best) ?W) =
      Max (insert best {v \<in> set (w # ws). matchWildCard name v = Inr True})"
  proof (cases b)
    case True
    then have "{v \<in> set (w # ws). matchWildCard name v = Inr True} = insert w ?W" using b by auto
    with True Max_insert_two [of ?W best w] show ?thesis by (simp only: simp_thms if_True) simp
  next
    case False
    then have "{v \<in> set (w # ws). matchWildCard name v = Inr True} = ?W" using b by auto
    then show ?thesis using False by simp
  qed
  with Cons b show ?case by simp
qed simp

text \<open>
  (C6) The choice of a server for a host: the first server of the configuration that lists the host
  among its names; else the server of the lexicographically greatest wildcard name that matches,
  whatever the order in which the map is visited; else the server of the first matching regular
  expression in the order visited; else the default server. No step panics.
\<close>

theorem server_choice:
  assumes "handlerMatch_init R st servers dflt = Inr h" "set ws = dom (wild h)" "plain_name name"
  shows "handlerMatch_find R ws res h name =
    Inr (case find (\<lambda>srv. name \<in> set (server_names st srv)) servers of
           Some s \<Rightarrow> Some s
         | None \<Rightarrow>
             let W = {w \<in> dom (wild h). matchWildCard name w = Inr True}
             in if W \<noteq> {} then wild h (Max W)
                else (case find (\<lambda>(re, r). MatchString R re name) res of Some (re, r) \<Rightarrow> Some r | None \<Rightarrow> dflt))"
proof -
  let ?W = "{w \<in> dom (wild h). matchWildCard name w = Inr True}"
  from add_servers_ok [OF assms(1) [unfolded handlerMatch_init_def] _ assms(3)]
  have h: "names_ok h" "default_rule h = dflt"
    "first_exact h name = find (\<lambda>srv. name \<in> set (server_names st srv)) servers"
    by (simp_all add: names_ok_def first_exact_def)
  show ?thesis
  proof (cases "exact h name")
    case (Some l)
    then obtain s r where "l = s # r" using h(1) by (cases l) (auto simp: names_ok_def)
    with Some h(3) [symmetric] show ?thesis by (simp add: handlerMatch_find_def first_exact_def)
  next
    case None
    have best: "best_wild name ws [] = Inr (Max (insert [] ?W))"
      using best_wild_Max [of ws name "[]"] h(1) assms(2) by (simp add: names_ok_def dom_def)
    have fin: "finite ?W" using assms(2) [symmetric] by simp
    have "\<not> isWildCard []" by (simp add: isWildCard_def)
    then have ne: "[] \<notin> ?W" using h(1) by (auto simp: names_ok_def)
    note Max_insert_Nil [OF fin]
    moreover have "?W \<noteq> {} \<Longrightarrow> Max ?W \<noteq> []" using Max_in [OF fin] ne by auto
    ultimately show ?thesis
      using None best h(2) h(3) [symmetric] by (auto simp: handlerMatch_find_def first_exact_def Let_def)
  qed
qed

definition sample_names :: "rule list" where
  "sample_names =
     [\<lparr>parent = None, rule_name = ''server'', rule_args = [], children = [1]\<rparr>,
      \<lparr>parent = Some 0, rule_name = ''server_name'', rule_args = [''a.b''], children = []\<rparr>,
      \<lparr>parent = None, rule_name = ''server'', rule_args = [], children = [3]\<rparr>,
      \<lparr>parent = Some 2, rule_name = ''server_name'', rule_args = [''a.b'', ''*.c''], children = []\<rparr>]"

definition sample_match :: handlerMatch where
  "sample_match =
     \<lparr>regExp = [], exact = [''a.b'' \<mapsto> [0, 2]], wild = [''*.c'' \<mapsto> 2], default_rule = Some 0\<rparr>"

lemma sample_init: "handlerMatch_init all_regexps sample_names [0, 2] (Some 0) = Inr sample_match"
  by (simp add: handlerMatch_init_def sample_names_def sample_match_def server_names_def add_name_def
      isWildCard_def hasPrefix_def hasSuffix_def)

theorem server_choice_witness:
  "handlerMatch_find all_regexps [''*.c''] [] sample_match ''a.b'' = Inr (Some 0) \<and>
   handlerMatch_find all_regexps [''*.c''] [] sample_match ''x.y'' = Inr (Some 2)"
proof -
  have d: "set [''*.c''] = dom (wild sample_match)" by (simp add: sample_match_def)
  have p: "plain_name ''a.b''" "plain_name ''x.y''"
    by (simp_all add: plain_name_def isWildCard_def hasPrefix_def hasSuffix_def)
  have m: "matchWildCard ''x.y'' ''*.c'' = Inr True" by code_simp
  have "{w \<in> dom (wild sample_match). matchWildCard ''x.y'' w = Inr True} = {''*.c''}"
    using m by (auto simp: sample_match_def split: if_splits)
  with server_choice [OF sample_init d p(1), of "[]"] server_choice [OF sample_init d p(2), of "[]"]
  show ?thesis by (simp add: sample_names_def server_names_def) (simp add: sample_match_def)
qed

end
