(* ===== verification/Proxy.thy ===== *)
theory Proxy
  imports Router
begin

text \<open>
  The \<open>proxy_pass\<close> module of \<open>ngx_proxy_pass.go\<close>: the options that the rules of the enclosing http,
  server and location blocks set, and the rewriting of a request before it is forwarded. The
  packages \<open>text/template\<close> and \<open>net/url\<close> are parameters; \<open>httputil.ReverseProxy\<close> sends the request
  that the director made, so the model ends with that request.
\<close>

section \<open>Options\<close>

record 'tpl proxyOption =
  bind_address :: stringValue
  bind_transparent :: boolValue
  bind_off :: boolValue
  buffer_size :: intValue
  buffer_enable :: boolValue
  cache_enabled :: boolValue
  cache_bypass :: stringSliceValue
  cache_key :: stringValue
  pass_uri :: "'tpl stringTemplateValue"
  pass_header :: stringSliceValue
  pass_body :: boolValue
  pass_headers :: boolValue
  pass_method :: stringValue
  redirect_isDefault :: boolValue
  redirect_off :: boolValue
  redirect_replace :: stringSliceValue

definition zero_proxyOption :: "'tpl proxyOption" where
  "zero_proxyOption =
     \<lparr>bind_address = unset_cell [], bind_transparent = unset_cell False, bind_off = unset_cell False,
      buffer_size = unset_cell 0, buffer_enable = unset_cell False, cache_enabled = unset_cell False,
      cache_bypass = unset_cell [], cache_key = unset_cell [],
      pass_uri = \<lparr>tv_value = [], tv_set = False, tv_tpl = None\<rparr>, pass_header = unset_cell [],
      pass_body = unset_cell False, pass_headers = unset_cell False, pass_method = unset_cell [],
      redirect_isDefault = unset_cell False, redirect_off = unset_cell False, redirect_replace = unset_cell []\<rparr>"

fun bind_flag :: "string \<Rightarrow> 'tpl proxyOption \<Rightarrow> 'tpl proxyOption" where
  "bind_flag a p =
     (if a = ''transparent'' then p\<lparr>bind_transparent := boolValue_store (bind_transparent p) True\<rparr>
      else if a = ''off'' then p\<lparr>bind_off := boolValue_store (bind_off p) True\<rparr> else p)"

text \<open>The directives; a rule without arguments panics. The template parser is a parameter.\<close>

definition loadKey :: "(string \<Rightarrow> string + 'tpl) \<Rightarrow> rule \<Rightarrow> 'tpl proxyOption \<Rightarrow> 'tpl proxyOption go" where
  "loadKey Parse r p =
     (if rule_name r = ''proxy_bind'' then
        gbind (go_index (rule_args r) 0) (\<lambda>a.
          Inr (fold bind_flag (rule_args r) (p\<lparr>bind_address := stringValue_store (bind_address p) a\<rparr>)))
      else if rule_name r = ''proxy_pass'' then
        gbind (go_index (rule_args r) 0) (\<lambda>a.
          gbind (stringTemplateValue_store Parse (pass_uri p) a) (\<lambda>u. Inr (p\<lparr>pass_uri := u\<rparr>)))
      else if rule_name r = ''proxy_pass_header'' then
        gbind (go_index (rule_args r) 0) (\<lambda>a.
          Inr (p\<lparr>pass_header := stringSliceValue_store (pass_header p) [a]\<rparr>))
      else if rule_name r = ''proxy_pass_request_body'' then
        gbind (go_index (rule_args r) 0) (\<lambda>a. Inr (p\<lparr>pass_body := switch_store (pass_body p) a\<rparr>))
      else if rule_name r = ''proxy_method'' then
        gbind (go_index (rule_args r) 0) (\<lambda>a.
          Inr (p\<lparr>pass_method := stringValue_store (pass_method p) a\<rparr>))
      else Inr p)"

fun loadKeys :: "(string \<Rightarrow> string + 'tpl) \<Rightarrow> rule list \<Rightarrow> 'tpl proxyOption \<Rightarrow> 'tpl proxyOption go" where
  "loadKeys Parse [] p = Inr p"
| "loadKeys Parse (r # rs) p = gbind (loadKey Parse r p) (loadKeys Parse rs)"

definition proxied_block :: "string \<Rightarrow> bool" where
  "proxied_block name \<longleftrightarrow> name \<in> {''http'', ''server'', ''location''}"

partial_function (option) proxyOption_load ::
  "(string \<Rightarrow> string + 'tpl) \<Rightarrow> rule list \<Rightarrow> nat \<Rightarrow> 'tpl proxyOption \<Rightarrow> 'tpl proxyOption go option" where
  "proxyOption_load Parse st r p =
     (if \<not> proxied_block (rule_name (deref st r)) then Some (Inr p)
      else go_then
        (case parent (deref st r) of None \<Rightarrow> Some (Inr p) | Some q \<Rightarrow> proxyOption_load Parse st q p)
        (\<lambda>p. Some (loadKeys Parse (map (deref st) (children (deref st r))) p)))"

definition proxy_init :: "(string \<Rightarrow> string + 'tpl) \<Rightarrow> rule list \<Rightarrow> nat \<Rightarrow> 'tpl proxyOption go option" where
  "proxy_init Parse st r = proxyOption_load Parse st r zero_proxyOption"

section \<open>Inheritance of the options\<close>

text \<open>The directives in scope at a position: those of the enclosing blocks, outermost first.\<close>

definition rule_of :: "Stmt \<Rightarrow> rule" where
  "rule_of stmt = \<lparr>parent = None, rule_name = Directive stmt, rule_args = Args stmt, children = []\<rparr>"

fun proxy_scope :: "Stmt list \<Rightarrow> Stmt \<Rightarrow> nat list \<Rightarrow> Stmt list" where
  "proxy_scope outer stmt [] = (if proxied_block (Directive stmt) then outer @ blocks_of stmt else [])"
| "proxy_scope outer stmt (i # p) =
     proxy_scope (if proxied_block (Directive stmt) then outer @ blocks_of stmt else []) (blocks_of stmt ! i) p"

lemma loadKeys_append: "loadKeys Parse (rs @ ss) p = gbind (loadKeys Parse rs p) (loadKeys Parse ss)"
proof (induction rs arbitrary: p)
  case (Cons r rs)
  then show ?case by (cases "loadKey Parse r p") simp_all
qed simp

lemma loadKeys_same:
  assumes "list_all2 (same_rule st) ids stmts"
  shows "loadKeys Parse (map (deref st) ids) p = loadKeys Parse (map rule_of stmts) p"
  using assms
proof (induction ids stmts arbitrary: p rule: list_all2_induct)
  case (Cons r rs s ss)
  then have "loadKey Parse (deref st r) p = loadKey Parse (rule_of s) p"
    by (simp add: same_rule_def rule_of_def loadKey_def)
  moreover have "loadKeys Parse (map (deref st) rs) = loadKeys Parse (map rule_of ss)" using Cons.IH by (rule ext)
  ultimately show ?case by simp
qed simp

lemma load_step:
  assumes "represents lo st r par stmt"
    and "(case par of None \<Rightarrow> Some (Inr p) | Some q \<Rightarrow> proxyOption_load Parse st q p) =
      Some (loadKeys Parse (map rule_of outer) p)"
  shows "proxyOption_load Parse st r p =
    Some (loadKeys Parse (map rule_of (proxy_scope outer stmt [])) p)"
proof -
  from assms(1) have r: "parent (deref st r) = par" "rule_name (deref st r) = Directive stmt"
    by (simp_all add: represents.simps [of lo st r])
  from loadKeys_same [OF represents_children [OF assms(1)]]
  have kids: "loadKeys Parse (map (deref st) (children (deref st r))) = loadKeys Parse (map rule_of (blocks_of stmt))"
    by (rule ext)
  show ?thesis
    by (subst proxyOption_load.simps, subst r(1), subst assms(2))
       (simp add: r(2) kids loadKeys_append go_then_def gbind_def split: sum.splits)
qed

lemma load_path:
  assumes "represents lo st r par stmt" "valid_path stmt q"
    and "(case par of None \<Rightarrow> Some (Inr p) | Some q \<Rightarrow> proxyOption_load Parse st q p) =
      Some (loadKeys Parse (map rule_of outer) p)"
  shows "proxyOption_load Parse st (node_at st r q) p =
    Some (loadKeys Parse (map rule_of (proxy_scope outer stmt q)) p)"
  using assms
proof (induction q arbitrary: r par stmt outer)
  case Nil
  from load_step [OF Nil(1,3)] show ?case by simp
next
  case (Cons i q)
  from Cons.prems(2) have i: "i < length (blocks_of stmt)" "valid_path (blocks_of stmt ! i) q" by simp_all
  show ?case unfolding node_at.simps proxy_scope.simps(2)
    using Cons.IH [OF represents_child [OF Cons.prems(1) i(1)] i(2)] load_step [OF Cons.prems(1,3)]
    by simp
qed

text \<open>
  (C12) Inheritance of proxy settings: on the rule tree of a parsed configuration, initialising the
  proxy of a location always returns, and it applies the directives of the enclosing http, server
  and location blocks block by block, outermost first, each block in the order of the
  configuration; a directive without arguments panics. So an inner setting overrides an outer one.
\<close>

theorem proxy_init_inherits:
  assumes "ruleFromStmt [] stmt None = (st, r)" "valid_path stmt q"
  shows "proxy_init Parse st (node_at st r q) =
    Some (loadKeys Parse (map rule_of (proxy_scope [] stmt q)) zero_proxyOption)"
proof -
  from ruleFromStmt_represents [OF assms(1)] have "represents 0 st r None stmt" by auto
  from load_path [OF this assms(2), of zero_proxyOption Parse "[]"] show ?thesis by (simp add: proxy_init_def)
qed

text \<open>A method set for all servers is overridden by the location.\<close>

theorem proxy_init_inherits_witness:
  "let loc = Stmt ''location'' [] 3 [''/''] [] [] (Some [Stmt ''proxy_method'' [] 4 [''PUT''] [] [] None]);
       srv = Stmt ''server'' [] 2 [] [] [] (Some [loc]);
       http = Stmt ''http'' [] 1 [] [] [] (Some [srv, Stmt ''proxy_method'' [] 5 [''GET''] [] [] None]);
       (st, r) = ruleFromStmt [] (Stmt ''main'' [] 0 [] [] [] (Some [http])) None
   in proxy_init (\<lambda>t. Inr t) st (node_at st r [0, 0, 0]) =
        Some (Inr (zero_proxyOption\<lparr>pass_method := \<lparr>isset = True, val = ''PUT''\<rparr>\<rparr>))"
proof -
  let ?loc = "Stmt ''location'' [] 3 [''/''] [] [] (Some [Stmt ''proxy_method'' [] 4 [''PUT''] [] [] None])"
  let ?http = "Stmt ''http'' [] 1 [] [] [] (Some [Stmt ''server'' [] 2 [] [] [] (Some [?loc]),
    Stmt ''proxy_method'' [] 5 [''GET''] [] [] None])"
  let ?main = "Stmt ''main'' [] 0 [] [] [] (Some [?http])"
  obtain st r where st: "ruleFromStmt [] ?main None = (st, r)" by (metis surj_pair)
  have v: "valid_path ?main [0, 0, 0]" by (simp add: blocks_of_def)
  have "loadKeys Inr (map rule_of (proxy_scope [] ?main [0, 0, 0])) zero_proxyOption =
      Inr (zero_proxyOption\<lparr>pass_method := \<lparr>isset = True, val = ''PUT''\<rparr>\<rparr>)"
    by (simp add: blocks_of_def proxied_block_def rule_of_def loadKey_def zero_proxyOption_def
        stringValue_store_def unset_cell_def)
  from proxy_init_inherits [OF st v, of Inr, unfolded this]
  show ?thesis unfolding Let_def st prod.case .
qed

section \<open>Requests\<close>

text \<open>
  \<open>parseProxyURL\<close>. The URL of a socket has the host \<open>unix:\<close> and a path \<open>socket:path\<close>.
\<close>

definition parseProxyURL :: "url_env \<Rightarrow> string \<Rightarrow> (string + url) go" where
  "parseProxyURL U s =
     (case url_Parse U s of
        Inl err \<Rightarrow> Inr (Inl err)
      | Inr u \<Rightarrow>
          if u_host u \<noteq> ''unix:'' then Inr (Inr u)
          else let p = split (u_path u) '':'' in
            gbind (go_index p 0) (\<lambda>p0. gbind (go_index p 1) (\<lambda>p1.
              Inr (Inr (u\<lparr>u_host := u_host u @ p0, u_path := p1\<rparr>)))))"

record 'ctx proxy_request =
  pr_url :: "url option"
  pr_method :: string
  pr_body :: bool
  pr_vars :: "'ctx option"
  pr_match :: "location_match option"

text \<open>The director's rewriting of the path for a prefix location; \<open>u\<close> is nil when the URL is bad.\<close>

definition prefix_path :: "rule list \<Rightarrow> location_match option \<Rightarrow> string \<Rightarrow> url option \<Rightarrow> url option go" where
  "prefix_path st m path u =
     (case m of
        None \<Rightarrow> Inr u
      | Some m \<Rightarrow>
          if kind m = MatchPrefix then
            (case u of
               None \<Rightarrow> Inl NilPointer
             | Some u \<Rightarrow>
                 if u_path u = ''/'' \<and> path \<noteq> ''/'' then
                   gbind (go_index (rule_args (deref st (match_rule m))) 0) (\<lambda>a.
                     Inr (Some (u\<lparr>u_path := u_path u @ trimPrefix (trimPrefix path a) ''/''\<rparr>)))
                 else Inr (Some u))
          else Inr u)"

definition director ::
  "('tpl \<Rightarrow> 'ctx \<Rightarrow> string + string) \<Rightarrow> url_env \<Rightarrow> rule list \<Rightarrow> 'tpl proxyOption \<Rightarrow> 'ctx proxy_request \<Rightarrow>
     'ctx proxy_request go" where
  "director Execute U st p r =
     gbind (case pr_vars r of None \<Rightarrow> Inl TypeAssertion | Some v \<Rightarrow>
              stringTemplateValue_Value Execute (pass_uri p) v) (\<lambda>target.
       gbind (parseProxyURL U target) (\<lambda>u.
         gbind (case pr_url r of None \<Rightarrow> Inl NilPointer | Some orig \<Rightarrow>
                  prefix_path st (pr_match r) (u_path orig) (case u of Inl e \<Rightarrow> None | Inr u \<Rightarrow> Some u)) (\<lambda>u.
           let r = r\<lparr>pr_url := u\<rparr>;
               r = (if isset (pass_body p) \<and> \<not> val (pass_body p) then r\<lparr>pr_body := False\<rparr> else r)
           in Inr (if isset (pass_method p) then r\<lparr>pr_method := val (pass_method p)\<rparr> else r))))"

text \<open>\<open>valid\<close> looks at the plain value of the setting, not at what its template gives.\<close>

definition proxy_valid :: "url_env \<Rightarrow> 'tpl proxyOption \<Rightarrow> string option" where
  "proxy_valid U p =
     (if \<not> tv_set (pass_uri p) then Some ''vince: proxy_pass url not set''
      else case url_Parse U (tv_value (pass_uri p)) of Inl err \<Rightarrow> Some err | Inr u \<Rightarrow> None)"

text \<open>What a handler does with a request: an error status, or a request sent upstream.\<close>

datatype 'ctx outcome = Status nat | Upstream "'ctx proxy_request"

definition proxy_ServeHTTP ::
  "('tpl \<Rightarrow> 'ctx \<Rightarrow> string + string) \<Rightarrow> url_env \<Rightarrow> rule list \<Rightarrow> 'tpl proxyOption \<Rightarrow> 'ctx proxy_request \<Rightarrow>
     'ctx outcome go" where
  "proxy_ServeHTTP Execute U st p r =
     (case proxy_valid U p of
        Some err \<Rightarrow> Inr (Status 502)
      | None \<Rightarrow> gbind (director Execute U st p r) (\<lambda>r. Inr (Upstream r)))"

text \<open>\<open>modifyResponse\<close> on the Location header, given the raw path of the original URL.\<close>

definition modifyResponse :: "'tpl proxyOption \<Rightarrow> string \<Rightarrow> string \<Rightarrow> string" where
  "modifyResponse p origRawPath loc = (if isset (redirect_isDefault p) \<and> loc \<noteq> [] then origRawPath else loc)"

text \<open>Dialling a socket: the host of the address without \<open>unix:\<close>.\<close>

definition dialCtx :: "string \<Rightarrow> (addr_error + string) go" where
  "dialCtx addr =
     (case SplitHostPort addr of
        Inl err \<Rightarrow> Inr (Inl err)
      | Inr (h, port) \<Rightarrow> if length h < 5 then Inl IndexOutOfRange else Inr (Inr (drop 5 h)))"

definition roundTrip_unix :: "url \<Rightarrow> bool" where
  "roundTrip_unix u \<longleftrightarrow> hasPrefix (u_host u) ''unix:''"

section \<open>What is forwarded\<close>

text \<open>No directive sets the default redirect, so the Location header is never rewritten.\<close>

lemma bind_flag_redirect [simp]: "redirect_isDefault (bind_flag a p) = redirect_isDefault p"
  by simp

lemma bind_flags_redirect [simp]: "redirect_isDefault (fold bind_flag as p) = redirect_isDefault p"
  by (induction as arbitrary: p) (simp_all del: bind_flag.simps)

lemma loadKey_redirect:
  assumes "loadKey Parse r p = Inr p'"
  shows "redirect_isDefault p' = redirect_isDefault p"
  using assms unfolding loadKey_def by (auto simp: gbind_eq_Inr split: if_splits)

lemma loadKeys_redirect:
  "loadKeys Parse rs p = Inr p' \<Longrightarrow> redirect_isDefault p' = redirect_isDefault p"
  by (induction rs arbitrary: p) (auto simp: gbind_eq_Inr dest: loadKey_redirect)

lemma modifyResponse_id:
  assumes "loadKeys Parse rs zero_proxyOption = Inr p"
  shows "modifyResponse p orig loc = loc"
  using loadKeys_redirect [OF assms] by (simp add: modifyResponse_def zero_proxyOption_def unset_cell_def)


text \<open>A package \<open>net/url\<close> that knows one host, to run the model.\<close>

definition app_url :: "string \<Rightarrow> url" where
  "app_url path = \<lparr>u_scheme = ''http'', u_host = ''app'', u_path = path, u_fragment = [], u_query = []\<rparr>"

definition app_env :: url_env where
  "app_env = \<lparr>url_Parse = (\<lambda>s. if s = ''%'' then Inl ''parse'' else Inr (app_url ''/'')), QueryUnescape = Inr,
     ParseQuery = (\<lambda>q k. []), Encode = (\<lambda>vs. []), url_String = u_path\<rparr>"

definition api_request :: "unit proxy_request" where
  "api_request = \<lparr>pr_url = Some (app_url ''/api/users''), pr_method = ''POST'', pr_body = True, pr_vars = Some (),
     pr_match = Some \<lparr>kind = MatchPrefix, match_rule = 0, regexp = []\<rparr>\<rparr>"


text \<open>
  A \<open>proxy_pass\<close> URL with a variable is not checked: \<open>valid\<close> parses the plain value of the
  setting, which stays empty, and the director ignores the error of parsing what the template gave.
  When that is no URL, a request for a prefix location ends in a nil dereference.
\<close>

theorem proxy_template_panics:
  assumes "CHR ''$'' \<in> set s" "stringTemplateValue_store Parse (pass_uri zero_proxyOption) s = Inr uri"
    and "url_Parse U [] = Inr u0" "\<And>t. Execute t v = Inr target" "url_Parse U target = Inl err"
    and "pr_vars r = Some v" "pr_url r = Some orig" "pr_match r = Some m" "kind m = MatchPrefix"
  shows "proxy_ServeHTTP Execute U st (zero_proxyOption\<lparr>pass_uri := uri\<rparr>) r = Inl NilPointer"
proof -
  from assms(1,2) obtain t where "tv_tpl uri = Some t" "tv_value uri = []" "tv_set uri"
    by (auto simp: stringTemplateValue_store_def zero_proxyOption_def split: sum.splits)
  with assms show ?thesis
    by (simp add: proxy_ServeHTTP_def proxy_valid_def director_def stringTemplateValue_Value_def
        parseProxyURL_def prefix_path_def)
qed

theorem proxy_template_panics_witness:
  "proxy_ServeHTTP (\<lambda>t c. Inr ''%'') app_env []
     (zero_proxyOption\<lparr>pass_uri := \<lparr>tv_value = [], tv_set = True, tv_tpl = Some ''{{.x}}''\<rparr>\<rparr>) api_request =
   Inl NilPointer"
proof (rule proxy_template_panics [where err = "''parse''" and m = "\<lparr>kind = MatchPrefix, match_rule = 0, regexp = []\<rparr>"])
  show "stringTemplateValue_store Inr (pass_uri zero_proxyOption) ''$x'' =
      Inr \<lparr>tv_value = [], tv_set = True, tv_tpl = Some ''{{.x}}''\<rparr>"
    by (simp add: stringTemplateValue_store_def zero_proxyOption_def) code_simp
qed (simp_all add: app_env_def api_request_def)

end
