(* ===== verification/Variables.thy ===== *)
theory Variables
  imports Router
begin

text \<open>
  The variables of \<open>ngx_ctx_variables.go\<close>: their names, and what \<open>setRequestVariables\<close> writes for a
  request. The map lives in the context of a listener, so it is a state that all requests of the
  listener share. A request carries the views that \<open>net/http\<close> has parsed: header, query and cookies.
\<close>

section \<open>Names\<close>

text \<open>The constants, each with its text; a few texts end in blanks.\<close>

definition ngx_variables :: "(string \<times> string) list" where
  "ngx_variables = [
    (''vAncientBrowser'', ''$ancient_browser''), (''vArg'', ''$arg''), (''vArgs'', ''$args''),
    (''vBinaryRemoteAddress'', ''$binary_remote_addr ''), (''vBodyBytesSent'', ''$body_bytes_sent''),
    (''vBytesReceived'', ''$bytes_received''), (''vBytesSent'', ''$bytes_sent''),
    (''vConnection'', ''$connection ''), (''vConnectionRequests'', ''$connection_requests''),
    (''vConnectionActive'', ''$connections_active''), (''vConnectionReading'', ''$connections_reading''),
    (''vConnectionWaiting'', ''$connections_waiting''), (''vConnectionWriting'', ''$connections_writing''),
    (''vContentLength'', ''$content_length''), (''vContentType'', ''$content_type''),
    (''vCookie'', ''$cookie''), (''vDateGMT'', ''$date_gmt''), (''vDateLocal'', ''$date_local''),
    (''vDocumentRoot'', ''$document_root''), (''vDocumentURI'', ''$document_uri''),
    (''vFastCGIPathInfo'', ''$fastcgi_path_info''), (''vGeoIPAreaCode'', ''$geoip_area_code ''),
    (''vGeoIPCity'', ''$geoip_city  ''), (''vGeoIPCityContinentCode'', ''$geoip_city_continent_code''),
    (''vGeoIPCityCountryCode'', ''$geoip_city_country_code''),
    (''vGeoIPCityCountryCode3'', ''$geoip_city_country_code3''),
    (''vGeoIPCityCountryName'', ''$geoip_city_country_name''),
    (''vGeoIPCountryCode'', ''$geoip_country_code''), (''vGeoIPCountryCode3'', ''$geoip_country_code3''),
    (''vGeoIPCountryName'', ''$geoip_country_name''), (''vGeoIPDMACode'', ''$geoip_dma_name''),
    (''vGeoIPLatitude'', ''$geoip_latitude''), (''vGeoIPLongitude'', ''$geoip_longitude''),
    (''vGeoIPOrg'', ''$geoip_org''), (''vGeoIPPostalCode'', ''$geoip_postal_code''),
    (''vGeoIPRegion'', ''$geoip_region''), (''vGeoIPRegionName'', ''$geoip_region_name''),
    (''vGzipRatio'', ''$gzip_ratio''), (''vHost'', ''$host''), (''vHostname'', ''$hostname''),
    (''vHTTP2'', ''$http2''), (''vHTTP'', ''$http''), (''vHTTPS'', ''$https''),
    (''vInvalidReferer'', ''$invalid_referer''), (''vIsArgs'', ''$is_args''), (''vJWTClaim'', ''$jwt_claim''),
    (''vJWTHeader'', ''$jwt_header''), (''vLimitConnStatus'', ''$limit_conn_status''),
    (''vLimitRate'', ''$limit_rate''), (''vLimitReqStatus'', ''$limit_req_status''),
    (''vMemcachedKey'', ''$memcached_key''), (''vModernBrowser'', ''$modern_browser''), (''vMsec'', ''$msec''),
    (''vMsie'', ''$msie''), (''vNginxVersion'', ''$nginx_version''), (''vPid'', ''$pid''),
    (''vPipe'', ''$pipe''), (''vProtocol'', ''$protocol''),
    (''vProxyAddXForwardFor'', ''$proxy_add_x_forwarded_for''), (''vProxyHost'', ''$proxy_host''),
    (''vProxyPort'', ''$proxy_port''), (''vProxyProtocolAddr'', ''$proxy_protocol_addr''),
    (''vProxyProtocolPort'', ''$proxy_protocol_port''),
    (''vProxyProtocolServerAddr'', ''$proxy_protocol_server_addr''),
    (''vProxyProtocolServerPort'', ''$proxy_protocol_server_port''), (''vQueryString'', ''$query_string''),
    (''vRealIPRemoteAddr'', ''$realip_remote_addr ''), (''vRealIPRemotePort'', ''$realip_remote_port ''),
    (''vRealPathRoot'', ''$realpath_root ''), (''vRemoteAddr'', ''$remote_addr''),
    (''vRemotePort'', ''$remote_port''), (''vRemoteUser'', ''$remote_user''), (''vRequest'', ''$request''),
    (''vRequestBody'', ''$request_body''), (''vRequestBodyFile'', ''$request_body_file''),
    (''vRequestCompletion'', ''$request_completion''), (''vRequestFilename'', ''$request_filename''),
    (''vRequestID'', ''$request_id''), (''vRequestLength'', ''$request_length''),
    (''vRequestMethod'', ''$request_method''), (''vRequestTime'', ''$request_time''),
    (''vRequestURI'', ''$request_uri''), (''vScheme'', ''$scheme''), (''vSecureLink'', ''$secure_link''),
    (''vSecureLinkExpires'', ''$secure_link_expires''), (''vSentHTTP'', ''$sent_http''),
    (''vSentTrailer'', ''$sent_trailer''), (''vServerAddr'', ''$server_addr''),
    (''vServerPort'', ''$server_port''), (''vServerProtocol'', ''$server_protocol''),
    (''vSessionLogBinaryID'', ''$session_log_binary_id''), (''vSessionLogID'', ''$session_log_id''),
    (''vSessionTime'', ''$session_time''), (''vSliceRange'', ''$slice_range''), (''vSPDY'', ''$spdy''),
    (''vSPDYRequestPriority'', ''$spdy_request_priority''), (''vSSLCipher'', ''$ssl_cipher''),
    (''vSSLCiphers'', ''$ssl_ciphers''), (''vSSLClientFingerprint'', ''$ssl_client_fingerprint''),
    (''vSSLClientIDN'', ''$ssl_client_i_dn''), (''vSSLClientIDNLegacy'', ''$ssl_client_i_dn_legacy''),
    (''vSSLClientRawCert'', ''$ssl_client_raw_cert''), (''vSSLClientSDN'', ''$ssl_client_s_dn''),
    (''vSSLClientSDNLegacy'', ''$ssl_client_s_dn_legacy''), (''vSSLClientSerial'', ''$ssl_client_serial''),
    (''vSSLClientVEnd'', ''$ssl_client_v_end''), (''vSSLClientVReamin'', ''$ssl_client_v_remain''),
    (''vSSLClientVStart'', ''$ssl_client_v_start''), (''vSSLClientVerify'', ''$ssl_client_verify''),
    (''vSSLCurves'', ''$ssl_curves''), (''vSSLEarlyData'', ''$ssl_early_data''),
    (''vSSLPrereadAlpnProtocols'', ''$ssl_preread_alpn_protocols''),
    (''vSSLPrereadProtocols'', ''$ssl_preread_protocols''),
    (''vSSLPrereadServerName'', ''$ssl_preread_server_name''), (''vSSLProtocol'', ''$ssl_protocol''),
    (''vSSLServerName'', ''$ssl_server_name''), (''vSSLSessionID'', ''$ssl_session_id''),
    (''vSSLSessionReused'', ''$ssl_session_reused''), (''vStatus'', ''$status''),
    (''vTCPInfoRtt'', ''$tcpinfo_rtt''), (''vTCPInfoRttVar'', ''$tcpinfo_rttvar''),
    (''vTCPInfoSndCwnd'', ''$tcpinfo_snd_cwnd''), (''vTCPInfoRcvSpace'', ''$tcpinfo_rcv_space''),
    (''vTimeISO8601'', ''$time_iso8601''), (''vTimeLocal'', ''$time_local''), (''vUIDGot'', ''$uid_got''),
    (''vUIDReset'', ''$uid_reset''), (''vUIDSet'', ''$uid_set''), (''vUpstreamAddr'', ''$upstream_addr''),
    (''vUpstreamBytesReceived'', ''$upstream_bytes_received''),
    (''vUpstreamBytesSent'', ''$upstream_bytes_sent''), (''vUpstreamCacheStatu'', ''$upstream_cache_status''),
    (''vUpstreamConnectTime'', ''$upstream_connect_time''), (''vUpstreamCookie'', ''$upstream_cookie''),
    (''vUpstreamFirstByteTime'', ''$upstream_first_byte_time''),
    (''vUpstreamHeaderTime'', ''$upstream_header_time''), (''vUpstreamHTTP'', ''$upstream_http''),
    (''vUpstreamQueueTime'', ''$upstream_queue_time''),
    (''vUpstreamResponseLength'', ''$upstream_response_length''),
    (''vUpstreamResponseTime'', ''$upstream_response_time''),
    (''vUpstreamSessionTime'', ''$upstream_session_time''), (''vUpstreamStatus'', ''$upstream_status''),
    (''vUpstreamTrailer'', ''$upstream_trailer''), (''vURI'', ''$uri'')]"

definition vRequestMatchKind :: string where
  "vRequestMatchKind = ''request_match_kind''"

definition var :: "string \<Rightarrow> string" where
  "var c = (case map_of ngx_variables c of Some t \<Rightarrow> t | None \<Rightarrow> [])"

section \<open>Requests\<close>

text \<open>
  Header keys are compared in canonical form: when all bytes are token bytes, the first letter and
  each letter after a hyphen in upper case, the others in lower case.
\<close>

definition is_lower :: "char \<Rightarrow> bool" where
  "is_lower c \<longleftrightarrow> of_char c \<in> {97 .. 122 :: nat}"

definition is_upper :: "char \<Rightarrow> bool" where
  "is_upper c \<longleftrightarrow> of_char c \<in> {65 .. 90 :: nat}"

definition token_byte :: "char \<Rightarrow> bool" where
  "token_byte c \<longleftrightarrow> is_lower c \<or> is_upper c \<or> digit c \<or> c \<in> set ''!#$%&*+-.^_`|~'' \<or> c = CHR 0x27"

definition upper_byte :: "char \<Rightarrow> char" where
  "upper_byte c = (if is_lower c then char_of (of_char c - (32 :: nat)) else c)"

definition lower_byte :: "char \<Rightarrow> char" where
  "lower_byte c = (if is_upper c then char_of (of_char c + (32 :: nat)) else c)"

fun canonical :: "bool \<Rightarrow> string \<Rightarrow> string" where
  "canonical up [] = []"
| "canonical up (c # cs) = (if up then upper_byte c else lower_byte c) # canonical (c = CHR ''-'') cs"

definition CanonicalHeaderKey :: "string \<Rightarrow> string" where
  "CanonicalHeaderKey s = (if list_all token_byte s then canonical True s else s)"

type_synonym http_Header = "(string \<times> string list) list"

definition header_Get :: "http_Header \<Rightarrow> string \<Rightarrow> string" where
  "header_Get h k = (case map_of h (CanonicalHeaderKey k) of Some (v # vs) \<Rightarrow> v | _ \<Rightarrow> [])"

text \<open>
  The values a request's context may carry. A logger is the program's \<open>cacheLogger\<close> or one that has
  the method \<open>Println\<close>.
\<close>

datatype logger = CacheLogger | PrintlnLogger

datatype net_Addr = UnixAddr | OtherAddr

record request_ctx =
  rootKey :: "string option"
  aliasKey :: "string option"
  serverNameKey :: "string option"
  errorLogKey :: "string option"
  accessLogPathKey :: "string option"
  accessLogLevelKey :: "string option"
  accessLogFormat :: "string option"
  ngxLoggerKey :: "logger option"
  accessAllowed :: "bool option"
  localAddr :: "net_Addr option"

record http_request =
  rq_method :: string
  rq_url :: url
  rq_query :: "(string \<times> string list) list"
  rq_header :: http_Header
  rq_cookies :: "(string \<times> string) list"
  rq_host :: string
  rq_remote :: string
  rq_body :: bool
  rq_ctx :: request_ctx

section \<open>Setting variables\<close>

datatype variable_value = VString string | VInt int | VURL url | VMatch location_match

type_synonym variables = "string \<rightharpoonup> variable_value"

definition setVariable :: "variables option \<Rightarrow> string \<Rightarrow> variable_value \<Rightarrow> variables option" where
  "setVariable m key v = map_option (\<lambda>m. m(key \<mapsto> v)) m"

text \<open>The loops over the query and the header visit distinct keys, so their order is immaterial.\<close>

definition query_Get :: "(string \<times> string list) list \<Rightarrow> string \<Rightarrow> string" where
  "query_Get q k = (case map_of q k of Some (v # vs) \<Rightarrow> v | _ \<Rightarrow> [])"

definition set_query :: "http_request \<Rightarrow> variables \<Rightarrow> variables" where
  "set_query r m = fold (\<lambda>(k, _) m. m(var ''vArg'' @ ''_'' @ k \<mapsto> VString (query_Get (rq_query r) k))) (rq_query r) m"

definition set_cookies :: "http_request \<Rightarrow> variables \<Rightarrow> variables" where
  "set_cookies r m = fold (\<lambda>(k, v) m. m(var ''vCookie'' @ ''_'' @ k \<mapsto> VString v)) (rq_cookies r) m"

definition set_headers :: "http_request \<Rightarrow> variables \<Rightarrow> variables" where
  "set_headers r m = fold (\<lambda>(k, _) m. m(var ''vHTTP'' @ ''_'' @ k \<mapsto> VString (header_Get (rq_header r) k))) (rq_header r) m"

definition document_root :: "http_request \<Rightarrow> string" where
  "document_root r =
     (case rootKey (rq_ctx r) of
        Some v \<Rightarrow> v
      | None \<Rightarrow> (case aliasKey (rq_ctx r) of Some v \<Rightarrow> v | None \<Rightarrow> []))"

definition request_host :: "http_request \<Rightarrow> string" where
  "request_host r =
     (let host = (if rq_host r = [] then header_Get (rq_header r) ''Host'' else rq_host r)
      in if host = [] then (case serverNameKey (rq_ctx r) of Some v \<Rightarrow> v | None \<Rightarrow> host) else host)"

text \<open>The whole function; the host name of the machine is an argument.\<close>

definition setRequestVariables :: "string \<Rightarrow> variables \<Rightarrow> http_request \<Rightarrow> variables" where
  "setRequestVariables hostname m r =
     (let m = set_query r m;
          m = m(var ''vArgs'' \<mapsto> VString (u_query (rq_url r)));
          m = m(var ''vContentLength'' \<mapsto> VString (header_Get (rq_header r) ''Content-Length''));
          m = m(var ''vContentType'' \<mapsto> VString (header_Get (rq_header r) ''Content-Type''));
          m = set_cookies r m;
          m = m(var ''vDocumentRoot'' \<mapsto> VString (document_root r));
          m = m(var ''vDocumentURI'' \<mapsto> VURL (rq_url r));
          m = m(var ''vURI'' \<mapsto> VURL (rq_url r));
          m = m(var ''vHost'' \<mapsto> VString (request_host r));
          m = m(var ''vHostname'' \<mapsto> VString hostname);
          m = set_headers r m
      in m(var ''vIsArgs'' \<mapsto> VString (if rq_query r \<noteq> [] then ''?'' else [])))"

text \<open>\<open>baseCtx\<close> makes the map of a listener.\<close>

definition baseCtx_variables :: variables where
  "baseCtx_variables = Map.empty"

section \<open>What the variables are\<close>

text \<open>The names that \<open>setRequestVariables\<close> uses.\<close>

lemma var_simps [simp]:
  "var ''vArg'' = ''$arg''" "var ''vArgs'' = ''$args''" "var ''vContentLength'' = ''$content_length''"
  "var ''vContentType'' = ''$content_type''" "var ''vCookie'' = ''$cookie''"
  "var ''vDocumentRoot'' = ''$document_root''" "var ''vDocumentURI'' = ''$document_uri''" "var ''vURI'' = ''$uri''"
  "var ''vHost'' = ''$host''" "var ''vHostname'' = ''$hostname''" "var ''vHTTP'' = ''$http''"
  "var ''vIsArgs'' = ''$is_args''" "var ''vRequestID'' = ''$request_id''"
  by code_simp+

lemma fold_keyed:
  "fold (\<lambda>(k, _) m. m(p @ k \<mapsto> g k)) xs m x =
     (if hasPrefix x p \<and> drop (length p) x \<in> fst ` set xs then Some (g (drop (length p) x)) else m x)"
  by (induction xs arbitrary: m) (auto simp: hasPrefix_iff)

lemma fold_cookies:
  "fold (\<lambda>(k, v) m. m(p @ k \<mapsto> VString v)) xs m x =
     (if hasPrefix x p then (case map_of (rev xs) (drop (length p) x) of Some v \<Rightarrow> Some (VString v) | None \<Rightarrow> m x)
      else m x)"
  by (induction xs arbitrary: m)
     (auto simp: hasPrefix_iff map_add_def split: option.splits)

lemma set_query_at:
  "set_query r m x = (if hasPrefix x ''$arg_'' \<and> drop 5 x \<in> fst ` set (rq_query r)
     then Some (VString (query_Get (rq_query r) (drop 5 x))) else m x)"
  using fold_keyed [of "''$arg_''" "\<lambda>k. VString (query_Get (rq_query r) k)" "rq_query r" m x]
  by (simp add: set_query_def numeral_eq_Suc)

lemma set_headers_at:
  "set_headers r m x = (if hasPrefix x ''$http_'' \<and> drop 6 x \<in> fst ` set (rq_header r)
     then Some (VString (header_Get (rq_header r) (drop 6 x))) else m x)"
  using fold_keyed [of "''$http_''" "\<lambda>k. VString (header_Get (rq_header r) k)" "rq_header r" m x]
  by (simp add: set_headers_def numeral_eq_Suc)

lemma set_cookies_at:
  "set_cookies r m x = (if hasPrefix x ''$cookie_''
     then (case map_of (rev (rq_cookies r)) (drop 8 x) of Some v \<Rightarrow> Some (VString v) | None \<Rightarrow> m x) else m x)"
  using fold_cookies [of "''$cookie_''" "rq_cookies r" m x] by (simp add: set_cookies_def numeral_eq_Suc)

lemmas set_at = set_query_at set_headers_at set_cookies_at

text \<open>
  What a request's variables are: \<open>$arg_k\<close> is the first value of the query parameter \<open>k\<close>,
  \<open>$http_k\<close> the first value of the header \<open>k\<close> and \<open>$cookie_k\<close> the last cookie named \<open>k\<close>, when the
  request has one. When it has none the entry keeps the value it had before, which in the map that
  all requests of a listener share is the value of an earlier request, of any client.
\<close>

theorem request_variables_shared:
  "setRequestVariables hostname m r (''$arg_'' @ k) =
     (if k \<in> fst ` set (rq_query r) then Some (VString (query_Get (rq_query r) k)) else m (''$arg_'' @ k)) \<and>
   setRequestVariables hostname m r (''$http_'' @ k) =
     (if k \<in> fst ` set (rq_header r) then Some (VString (header_Get (rq_header r) k)) else m (''$http_'' @ k)) \<and>
   setRequestVariables hostname m r (''$cookie_'' @ k) =
     (case map_of (rev (rq_cookies r)) k of Some v \<Rightarrow> Some (VString v) | None \<Rightarrow> m (''$cookie_'' @ k))"
  by (simp add: setRequestVariables_def Let_def set_at hasPrefix_def split: option.split)

text \<open>Every entry that a request writes has a name that starts with a dollar sign.\<close>

lemma setRequestVariables_other:
  assumes "c \<noteq> CHR ''$''"
  shows "setRequestVariables hostname m r (c # cs) = m (c # cs)"
  using assms by (simp add: setRequestVariables_def Let_def set_at hasPrefix_def)

lemma requests_other:
  assumes "c \<noteq> CHR ''$''"
  shows "fold (\<lambda>r m. setRequestVariables hostname m r) rs m (c # cs) = m (c # cs)"
  by (induction rs arbitrary: m) (simp_all add: setRequestVariables_other [OF assms])


definition sample_request :: http_request where
  "sample_request =
     \<lparr>rq_method = ''GET'', rq_url = \<lparr>u_scheme = [], u_host = [], u_path = ''/'', u_fragment = [], u_query = []\<rparr>,
      rq_query = [], rq_header = [], rq_cookies = [], rq_host = ''example.com'', rq_remote = ''10.0.0.1:80'',
      rq_body = False,
      rq_ctx = \<lparr>rootKey = None, aliasKey = None, serverNameKey = None, errorLogKey = None, accessLogPathKey = None,
        accessLogLevelKey = None, accessLogFormat = None, ngxLoggerKey = Some CacheLogger, accessAllowed = None,
        localAddr = Some OtherAddr\<rparr>\<rparr>"


end
