(* ===== verification/File_Cache.thy ===== *)
theory File_Cache
  imports Values "HOL-Library.Multiset"
begin

text \<open>
  The cache of open log files of \<open>read_writer_closer_cache.go\<close>: a doubly linked list of entries,
  most recently used first, a hash table from paths to list nodes, and a use count per path. List
  nodes are pointers, here numbers into a store \<open>nodes\<close>, because the hash table and the list share
  them. The component \<open>closed\<close> records the files that were closed, in order.

  The operations run under the mutex of the cache, so they are atomic steps. The main results are a
  refinement to an abstract least-recently-used list, the absence of nil dereferences and the
  ledger of files: each file that was opened is either cached or closed, exactly once.
\<close>

section \<open>State\<close>

record 'f fileObject =
  path :: string
  handle :: 'f

record readWriterCloserCacheOption =
  on_opt :: boolValue
  max_opt :: intValue
  inactive_opt :: durationValue
  valid_opt :: durationValue
  min_opt :: intValue

definition zero_cache_options :: readWriterCloserCacheOption where
  "zero_cache_options =
     \<lparr>on_opt = unset_cell False, max_opt = unset_cell 0, inactive_opt = unset_cell 0, valid_opt = unset_cell 0,
      min_opt = unset_cell 0\<rparr>"

text \<open>Durations are in nanoseconds.\<close>

definition Second :: int where
  "Second = 1000000000"

definition cache_defaults :: "readWriterCloserCacheOption \<Rightarrow> readWriterCloserCacheOption" where
  "cache_defaults o1 =
     o1\<lparr>on_opt := boolValue_store (on_opt o1) True, max_opt := intValue_store (max_opt o1) 100,
        inactive_opt := durationValue_store (inactive_opt o1) (10 * Second),
        valid_opt := durationValue_store (valid_opt o1) (60 * Second),
        min_opt := intValue_store (min_opt o1) 1\<rparr>"

record 'f cache =
  cache_opts :: readWriterCloserCacheOption
  lru :: "nat list"
  uses :: "string \<rightharpoonup> int"
  hash :: "string \<rightharpoonup> nat"
  nodes :: "nat \<rightharpoonup> 'f fileObject"
  next_node :: nat
  closed :: "'f list"

definition cache_init :: "readWriterCloserCacheOption \<Rightarrow> 'f cache option" where
  "cache_init o1 =
     (if \<not> val (on_opt o1) then None
      else Some \<lparr>cache_opts = o1, lru = [], uses = Map.empty, hash = Map.empty, nodes = Map.empty,
                 next_node = 0, closed = []\<rparr>)"

section \<open>Operations\<close>

text \<open>The functions of \<open>container/list\<close>: a node that is not in the list is left alone.\<close>

definition MoveToFront :: "nat \<Rightarrow> nat list \<Rightarrow> nat list" where
  "MoveToFront n l = (if n \<in> set l then n # removeAll n l else l)"

definition Back :: "nat list \<Rightarrow> nat option" where
  "Back l = (if l = [] then None else Some (last l))"

definition node_value :: "'f cache \<Rightarrow> nat \<Rightarrow> 'f fileObject go" where
  "node_value c n = (case nodes c n of None \<Rightarrow> Inl NilPointer | Some v \<Rightarrow> Inr v)"

definition deleteUnsafe :: "'f cache \<Rightarrow> nat option \<Rightarrow> 'f cache go" where
  "deleteUnsafe c node =
     (case node of
        None \<Rightarrow> Inr c
      | Some n \<Rightarrow>
          gbind (node_value c n) (\<lambda>v.
            Inr (c\<lparr>closed := closed c @ [handle v], hash := (hash c)(path v := None),
                   uses := (uses c)(path v := None), lru := removeAll n (lru c)\<rparr>)))"

fun delete_loop :: "'f cache \<Rightarrow> string list \<Rightarrow> 'f cache go" where
  "delete_loop c [] = Inr c"
| "delete_loop c (key # keys) = gbind (deleteUnsafe c (hash c key)) (\<lambda>c. delete_loop c keys)"

definition cache_Delete :: "'f cache \<Rightarrow> string list \<Rightarrow> 'f cache go" where
  "cache_Delete c keys = (if length keys > 0 then delete_loop c keys else Inr c)"

definition hit :: "'f cache \<Rightarrow> string \<Rightarrow> 'f cache" where
  "hit c p =
     (case uses c p of
        Some v \<Rightarrow> c\<lparr>uses := (uses c)(p \<mapsto> v + 1)\<rparr>
      | None \<Rightarrow> c\<lparr>uses := (uses c)(p \<mapsto> 1)\<rparr>)"

definition cache_Get :: "'f cache \<Rightarrow> string \<Rightarrow> ('f cache \<times> 'f option) go" where
  "cache_Get c key =
     (case hash c key of
        None \<Rightarrow> Inr (c, None)
      | Some node \<Rightarrow>
          gbind (node_value c node) (\<lambda>v.
            Inr (hit (c\<lparr>lru := MoveToFront node (lru c)\<rparr>) key, Some (handle v))))"

text \<open>\<open>Put\<close>; the opener's result is an argument, an error or a file.\<close>

definition cache_Put :: "'f cache \<Rightarrow> string \<Rightarrow> 'e + 'f \<Rightarrow> ('f cache \<times> ('e + 'f)) go" where
  "cache_Put c p opened =
     (case opened of
        Inl err \<Rightarrow> Inr (c, Inl err)
      | Inr f \<Rightarrow>
          gbind
            (case hash c p of
               Some node \<Rightarrow>
                 (let c = c\<lparr>lru := MoveToFront node (lru c)\<rparr>
                  in gbind (node_value c node) (\<lambda>v.
                       Inr (c\<lparr>nodes := (nodes c)(node \<mapsto> \<lparr>path = p, handle = f\<rparr>),
                              closed := closed c @ [handle v]\<rparr>)))
             | None \<Rightarrow>
                 gbind (if int (length (lru c)) \<ge> val (max_opt (cache_opts c))
                        then deleteUnsafe c (Back (lru c)) else Inr c) (\<lambda>c.
                   let n = next_node c
                   in Inr (c\<lparr>hash := (hash c)(p \<mapsto> n), lru := n # lru c, next_node := n + 1,
                             nodes := (nodes c)(n \<mapsto> \<lparr>path = p, handle = f\<rparr>)\<rparr>)))
            (\<lambda>c. Inr (hit c p, Inr f)))"

text \<open>\<open>Close\<close>; \<open>CloseErr\<close> gives the error that closing a file returns.\<close>

fun close_loop :: "('f \<Rightarrow> string option) \<Rightarrow> 'f cache \<Rightarrow> nat list \<Rightarrow> string list \<Rightarrow> ('f cache \<times> string list) go" where
  "close_loop CloseErr c [] errs = Inr (c, errs)"
| "close_loop CloseErr c (e # es) errs =
     gbind (node_value c e) (\<lambda>v.
       close_loop CloseErr (c\<lparr>closed := closed c @ [handle v]\<rparr>) es
         (case CloseErr (handle v) of None \<Rightarrow> errs | Some err \<Rightarrow> errs @ [err]))"

definition cache_Close :: "('f \<Rightarrow> string option) \<Rightarrow> 'f cache \<Rightarrow> ('f cache \<times> string option) go" where
  "cache_Close CloseErr c =
     gbind (close_loop CloseErr c (lru c) []) (\<lambda>(c, errs).
       Inr (c\<lparr>lru := [], hash := Map.empty\<rparr>,
            if errs \<noteq> [] then Some (''filecache: '' @ join errs '','') else None))"

text \<open>
  One round of \<open>manageKeys\<close> collects the paths to drop from \<open>uses\<close>, in the order in which
  \<open>sync.Map\<close> visits them, then calls \<open>Delete\<close>. On the \<open>inactive\<close> ticker it collects the paths used
  less than \<open>min\<close> times, on the \<open>valid\<close> ticker those whose file is gone.
\<close>

fun collect_junk :: "(string \<Rightarrow> int \<Rightarrow> bool) \<Rightarrow> string list \<Rightarrow> 'f cache \<Rightarrow> string list \<Rightarrow> 'f cache \<times> string list" where
  "collect_junk drop_it [] c junk = (c, junk)"
| "collect_junk drop_it (key # order) c junk =
     (case uses c key of
        None \<Rightarrow> collect_junk drop_it order c junk
      | Some v \<Rightarrow>
          if drop_it key v
          then collect_junk drop_it order (c\<lparr>uses := (uses c)(key := None)\<rparr>) (junk @ [key])
          else collect_junk drop_it order c junk)"

definition manage_inactive :: "string list \<Rightarrow> 'f cache \<Rightarrow> 'f cache go" where
  "manage_inactive order c =
     (case collect_junk (\<lambda>key v. v < val (min_opt (cache_opts c))) order c [] of
        (c, junk) \<Rightarrow> cache_Delete c junk)"

definition manage_valid :: "(string \<Rightarrow> bool) \<Rightarrow> string list \<Rightarrow> 'f cache \<Rightarrow> 'f cache go" where
  "manage_valid IsNotExist order c =
     (case collect_junk (\<lambda>key v. IsNotExist key) order c [] of (c, junk) \<Rightarrow> cache_Delete c junk)"

section \<open>The hash table as an index of the list\<close>

definition index_by :: "(nat \<Rightarrow> string) \<Rightarrow> nat list \<Rightarrow> string \<rightharpoonup> nat" where
  "index_by P l = map_of (map (\<lambda>n. (P n, n)) l)"

lemma index_by_simps [simp]:
  "index_by P [] = Map.empty" "index_by P (n # l) = (index_by P l)(P n \<mapsto> n)"
  by (simp_all add: index_by_def)

lemma index_by_None [simp]: "index_by P l p = None \<longleftrightarrow> p \<notin> P ` set l"
  by (induction l) auto

lemma index_by_Some: "index_by P l p = Some n \<Longrightarrow> n \<in> set l \<and> P n = p"
  by (induction l) (auto split: if_splits)

lemma index_by_mem: "distinct (map P l) \<Longrightarrow> n \<in> set l \<Longrightarrow> index_by P l (P n) = Some n"
  by (induction l) (auto simp: image_iff)

lemma index_by_iff: "distinct (map P l) \<Longrightarrow> index_by P l p = Some n \<longleftrightarrow> n \<in> set l \<and> P n = p"
  using index_by_mem index_by_Some by metis

lemma remove_by_key:
  "distinct (map P l) \<Longrightarrow> n \<in> set l \<Longrightarrow> removeAll n l = filter (\<lambda>m. P m \<noteq> P n) l"
  unfolding removeAll_filter_not_eq distinct_map by (auto intro!: filter_cong dest: inj_onD)

lemma distinct_remove: "distinct (map P l) \<Longrightarrow> distinct (map P (removeAll n l))"
  by (simp add: distinct_map distinct_removeAll inj_on_def)

lemma index_by_remove:
  assumes "distinct (map P l)" "n \<in> set l"
  shows "index_by P (removeAll n l) = (index_by P l)(P n := None)"
proof
  fix p
  have "index_by P (removeAll n l) p = Some m \<longleftrightarrow> ((index_by P l)(P n := None)) p = Some m" for m
    unfolding index_by_iff [OF distinct_remove [OF assms(1)]]
    using index_by_iff [OF assms(1), of p m] assms by (auto simp: distinct_map dest: inj_onD)
  then show "index_by P (removeAll n l) p = ((index_by P l)(P n := None)) p"
    by (metis not_Some_eq)
qed

lemma index_by_front:
  assumes "distinct (map P l)" "n \<in> set l"
  shows "index_by P (n # removeAll n l) = index_by P l"
  using index_by_remove [OF assms] index_by_mem [OF assms] by (auto simp: fun_eq_iff)

lemma index_by_cong: "(\<And>n. n \<in> set l \<Longrightarrow> P n = Q n) \<Longrightarrow> index_by P l = index_by Q l"
  by (auto simp: index_by_def intro!: arg_cong [where f = map_of])

section \<open>Refinement to a least-recently-used list\<close>

text \<open>The abstract cache is the list of its entries, most recently used first.\<close>

definition entries :: "'f cache \<Rightarrow> 'f fileObject list" where
  "entries c = map (\<lambda>n. the (nodes c n)) (lru c)"

abbreviation node_path :: "'f cache \<Rightarrow> nat \<Rightarrow> string" where
  "node_path c n \<equiv> path (the (nodes c n))"

definition cache_ok :: "'f cache \<Rightarrow> bool" where
  "cache_ok c \<longleftrightarrow>
     (\<forall>n \<in> set (lru c). nodes c n \<noteq> None \<and> n < next_node c) \<and>
     distinct (map (node_path c) (lru c)) \<and> hash c = index_by (node_path c) (lru c)"

definition lru_lookup :: "string \<Rightarrow> 'f fileObject list \<Rightarrow> 'f fileObject option" where
  "lru_lookup p es = find (\<lambda>e. path e = p) es"

definition lru_delete :: "string \<Rightarrow> 'f fileObject list \<Rightarrow> 'f fileObject list" where
  "lru_delete p es = filter (\<lambda>e. path e \<noteq> p) es"

definition lru_touch :: "string \<Rightarrow> 'f fileObject list \<Rightarrow> 'f fileObject list" where
  "lru_touch p es = (case lru_lookup p es of None \<Rightarrow> es | Some e \<Rightarrow> e # lru_delete p es)"

definition lru_insert :: "int \<Rightarrow> string \<Rightarrow> 'f \<Rightarrow> 'f fileObject list \<Rightarrow> 'f fileObject list" where
  "lru_insert limit p f es =
     \<lparr>path = p, handle = f\<rparr> #
     (if lru_lookup p es \<noteq> None then lru_delete p es
      else if int (length es) \<ge> limit then butlast es else es)"

lemma node_value_ok: "cache_ok c \<Longrightarrow> n \<in> set (lru c) \<Longrightarrow> node_value c n = Inr (the (nodes c n))"
  by (auto simp: cache_ok_def node_value_def split: option.splits)

lemma find_map_index:
  "find (\<lambda>e. path e = p) (map g l) = map_option g (find (\<lambda>n. path (g n) = p) l)"
  by (induction l) simp_all

lemma index_by_find: "distinct (map P l) \<Longrightarrow> index_by P l p = find (\<lambda>n. P n = p) l"
  by (induction l) (auto simp: image_iff find_None_iff2)

lemma cache_lookup:
  assumes "cache_ok c"
  shows "lru_lookup p (entries c) = map_option (\<lambda>n. the (nodes c n)) (hash c p)"
  using assms by (simp add: lru_lookup_def entries_def find_map_index cache_ok_def index_by_find)

lemma hash_Some:
  "cache_ok c \<Longrightarrow> hash c p = Some n \<Longrightarrow> n \<in> set (lru c) \<and> node_path c n = p"
  using index_by_Some by (fastforce simp: cache_ok_def)

text \<open>
  One operation: from \<open>c\<close> to \<open>c'\<close> the entries became \<open>es\<close>, and the files of the cache and the
  closed files are those of before and the newly opened ones.
\<close>

definition refines :: "'f cache \<Rightarrow> 'f fileObject list \<Rightarrow> 'f list \<Rightarrow> 'f cache \<Rightarrow> bool" where
  "refines c es new c' \<longleftrightarrow>
     cache_ok c' \<and> entries c' = es \<and> cache_opts c' = cache_opts c \<and>
     mset (map handle es) + mset (closed c') = mset (map handle (entries c)) + mset (closed c) + mset new"

lemma refines_refl: "cache_ok c \<Longrightarrow> refines c (entries c) [] c"
  by (simp add: refines_def)

lemma refines_trans: "refines c es new c1 \<Longrightarrow> refines c1 es' new' c2 \<Longrightarrow> refines c es' (new @ new') c2"
  by (simp add: refines_def)

lemma refines_uses: "refines c es new (c'\<lparr>uses := u\<rparr>) \<longleftrightarrow> refines c es new c'"
  by (simp add: refines_def cache_ok_def entries_def)

lemma refines_hit: "refines c es new (hit c' p) \<longleftrightarrow> refines c es new c'"
  by (simp add: hit_def refines_uses split: option.splits)

lemma entries_remove:
  assumes "cache_ok c" "n \<in> set (lru c)"
  shows "map (\<lambda>n. the (nodes c n)) (removeAll n (lru c)) = lru_delete (node_path c n) (entries c)"
  using assms
  by (simp add: remove_by_key [of "node_path c"] cache_ok_def lru_delete_def entries_def filter_map comp_def)

lemma handles_remove:
  assumes "cache_ok c" "n \<in> set (lru c)"
  shows "mset (map handle (entries c)) =
    add_mset (handle (the (nodes c n))) (mset (map handle (lru_delete (node_path c n) (entries c))))"
proof -
  have "distinct (lru c)" using assms(1) by (simp add: cache_ok_def distinct_map)
  then have "mset (lru c) = add_mset n (mset (removeAll n (lru c)))"
    using assms(2) by (simp add: distinct_remove1_removeAll [symmetric])
  then have "mset (map (\<lambda>n. handle (the (nodes c n))) (lru c)) =
      add_mset (handle (the (nodes c n))) (mset (map (\<lambda>n. handle (the (nodes c n))) (removeAll n (lru c))))"
    by (simp only: mset_map image_mset_add_mset)
  with entries_remove [OF assms, symmetric] show ?thesis by (simp add: entries_def comp_def)
qed

lemma deleteUnsafe_ok:
  assumes "cache_ok c" "n \<in> set (lru c)"
  shows "\<exists>c'. deleteUnsafe c (Some n) = Inr c' \<and>
    refines c (lru_delete (node_path c n) (entries c)) [] c' \<and> next_node c' = next_node c"
proof -
  let ?c = "c\<lparr>closed := closed c @ [handle (the (nodes c n))], hash := (hash c)(node_path c n := None),
    uses := (uses c)(node_path c n := None), lru := removeAll n (lru c)\<rparr>"
  have "deleteUnsafe c (Some n) = Inr ?c" by (simp add: deleteUnsafe_def node_value_ok [OF assms])
  moreover have "cache_ok ?c"
    using assms by (simp add: cache_ok_def index_by_remove distinct_remove)
  moreover have "entries ?c = lru_delete (node_path c n) (entries c)"
    using entries_remove [OF assms] by (simp add: entries_def)
  ultimately show ?thesis
    using handles_remove [OF assms] by (intro exI [of _ ?c]) (simp add: refines_def)
qed

lemma lru_delete_absent: "lru_lookup p es = None \<Longrightarrow> lru_delete p es = es"
  by (auto simp: lru_lookup_def lru_delete_def find_None_iff intro: filter_True)

lemma delete_loop_ok:
  "cache_ok c \<Longrightarrow> \<exists>c'. delete_loop c keys = Inr c' \<and> refines c (fold lru_delete keys (entries c)) [] c'"
proof (induction keys arbitrary: c)
  case (Cons key keys)
  have "\<exists>c1. deleteUnsafe c (hash c key) = Inr c1 \<and> refines c (lru_delete key (entries c)) [] c1"
  proof (cases "hash c key")
    case None
    with Cons.prems show ?thesis
      by (simp add: deleteUnsafe_def cache_lookup refines_refl lru_delete_absent)
  next
    case (Some n)
    with hash_Some [OF Cons.prems] deleteUnsafe_ok [OF Cons.prems] show ?thesis by fastforce
  qed
  then obtain c1 where c1: "deleteUnsafe c (hash c key) = Inr c1" "refines c (lru_delete key (entries c)) [] c1"
    by blast
  from c1(2) have "cache_ok c1" "entries c1 = lru_delete key (entries c)" by (simp_all add: refines_def)
  with Cons.IH [of c1] obtain c2 where
    "delete_loop c1 keys = Inr c2" "refines c1 (fold lru_delete keys (lru_delete key (entries c))) [] c2" by auto
  with c1 refines_trans [OF c1(2)] show ?case by auto
qed (simp add: refines_refl)

lemma cache_Delete_ok:
  "cache_ok c \<Longrightarrow> \<exists>c'. cache_Delete c keys = Inr c' \<and> refines c (fold lru_delete keys (entries c)) [] c'"
  using delete_loop_ok [of c keys] by (auto simp: cache_Delete_def refines_refl)

lemma touch_ok:
  assumes "cache_ok c" "hash c p = Some n"
  shows "cache_ok (c\<lparr>lru := MoveToFront n (lru c)\<rparr>)"
    and "entries (c\<lparr>lru := MoveToFront n (lru c)\<rparr>) = the (nodes c n) # lru_delete p (entries c)"
proof -
  from hash_Some [OF assms] have n: "n \<in> set (lru c)" "node_path c n = p" by simp_all
  with assms(1) show "cache_ok (c\<lparr>lru := MoveToFront n (lru c)\<rparr>)"
    using index_by_front [of "node_path c" "lru c" n]
    by (auto simp: cache_ok_def MoveToFront_def distinct_map inj_on_def distinct_removeAll simp del: index_by_simps)
  from n entries_remove [OF assms(1) n(1)]
  show "entries (c\<lparr>lru := MoveToFront n (lru c)\<rparr>) = the (nodes c n) # lru_delete p (entries c)"
    by (simp add: entries_def MoveToFront_def)
qed

lemma cache_Get_ok:
  assumes "cache_ok c"
  shows "\<exists>c'. cache_Get c p = Inr (c', map_option handle (lru_lookup p (entries c))) \<and>
    refines c (lru_touch p (entries c)) [] c'"
proof (cases "hash c p")
  case None
  with assms show ?thesis by (simp add: cache_Get_def cache_lookup lru_touch_def refines_refl)
next
  case (Some n)
  from hash_Some [OF assms Some] have n: "n \<in> set (lru c)" "node_path c n = p" by simp_all
  let ?c1 = "c\<lparr>lru := MoveToFront n (lru c)\<rparr>"
  from handles_remove [OF assms n(1)] touch_ok [OF assms Some] n(2)
  have "refines c (the (nodes c n) # lru_delete p (entries c)) [] ?c1" by (simp add: refines_def)
  then have "refines c (lru_touch p (entries c)) [] (hit ?c1 p)"
    using assms Some by (simp add: refines_hit lru_touch_def cache_lookup)
  moreover have "cache_Get c p = Inr (hit ?c1 p, map_option handle (lru_lookup p (entries c)))"
    using assms Some n(1) by (simp add: cache_Get_def node_value_ok cache_lookup)
  ultimately show ?thesis by blast
qed

text \<open>\<open>Put\<close> of a cached path replaces its file.\<close>

lemma replace_ok:
  assumes "cache_ok c" "n \<in> set (lru c)" "node_path c n = p"
  shows "cache_ok (c\<lparr>nodes := (nodes c)(n \<mapsto> \<lparr>path = p, handle = f\<rparr>)\<rparr>)"
proof -
  have "node_path (c\<lparr>nodes := (nodes c)(n \<mapsto> \<lparr>path = p, handle = f\<rparr>)\<rparr>) = node_path c"
    using assms(3) by auto
  with assms(1) show ?thesis by (auto simp: cache_ok_def)
qed

lemma put_cached:
  assumes "cache_ok c" "hash c p = Some n"
  shows "\<exists>c'. cache_Put c p (Inr f) = Inr (c', Inr f) \<and>
    refines c (\<lparr>path = p, handle = f\<rparr> # lru_delete p (entries c)) [f] c'"
proof -
  from hash_Some [OF assms] have n: "n \<in> set (lru c)" "node_path c n = p" by simp_all
  let ?c1 = "c\<lparr>lru := MoveToFront n (lru c)\<rparr>"
  let ?c2 = "?c1\<lparr>nodes := (nodes c)(n \<mapsto> \<lparr>path = p, handle = f\<rparr>),
    closed := closed c @ [handle (the (nodes c n))]\<rparr>"
  note t = touch_ok [OF assms]
  have lru: "lru ?c1 = n # removeAll n (lru c)" by (simp add: MoveToFront_def n)
  then have ok: "cache_ok ?c2" using replace_ok [OF t(1), of n p f] n by (simp add: cache_ok_def)
  have "map (\<lambda>m. the (if m = n then Some \<lparr>path = p, handle = f\<rparr> else nodes c m)) (removeAll n (lru c)) =
      map (\<lambda>m. the (nodes c m)) (removeAll n (lru c))" by (rule map_cong) auto
  with t(2) lru have "entries ?c2 = \<lparr>path = p, handle = f\<rparr> # lru_delete p (entries c)"
    by (simp add: entries_def)
  with ok handles_remove [OF assms(1) n(1)] n(2) have "refines c (\<lparr>path = p, handle = f\<rparr> # lru_delete p (entries c)) [f] ?c2"
    by (simp add: refines_def)
  moreover have "node_value ?c1 n = Inr (the (nodes c n))" using node_value_ok [OF t(1)] lru by simp
  then have "cache_Put c p (Inr f) = Inr (hit ?c2 p, Inr f)"
    using assms(2) by (simp add: cache_Put_def Let_def)
  ultimately show ?thesis unfolding refines_hit [symmetric, of _ _ _ ?c2 p] by blast
qed

lemma butlast_delete:
  assumes "distinct (map path es)" "es \<noteq> []"
  shows "lru_delete (path (last es)) es = butlast es"
proof -
  obtain xs x where es: "es = xs @ [x]" using assms(2) by (metis rev_exhaust)
  with assms(1) have "\<forall>e \<in> set xs. path e \<noteq> path x" by (auto simp: image_iff)
  with es show ?thesis by (simp add: lru_delete_def)
qed

text \<open>The eviction before an insertion: the least recently used entry goes.\<close>

lemma evict_ok:
  assumes "cache_ok c"
  shows "\<exists>c'. deleteUnsafe c (Back (lru c)) = Inr c' \<and> refines c (butlast (entries c)) [] c' \<and>
    next_node c' = next_node c"
proof (cases "lru c = []")
  case True
  with assms show ?thesis by (simp add: Back_def deleteUnsafe_def refines_def entries_def)
next
  case False
  then have last: "node_path c (last (lru c)) = path (last (entries c))" "entries c \<noteq> []"
    by (simp_all add: entries_def last_map)
  have "distinct (map path (entries c))" using assms by (simp add: cache_ok_def entries_def comp_def)
  with butlast_delete [of "entries c"] last deleteUnsafe_ok [OF assms, of "last (lru c)"] False show ?thesis
    by (simp add: Back_def)
qed

lemma push_ok:
  assumes "cache_ok c" "lru_lookup p (entries c) = None"
  shows "refines c (\<lparr>path = p, handle = f\<rparr> # entries c) [f]
    (c\<lparr>hash := (hash c)(p \<mapsto> next_node c), lru := next_node c # lru c, next_node := next_node c + 1,
       nodes := (nodes c)(next_node c \<mapsto> \<lparr>path = p, handle = f\<rparr>)\<rparr>)" (is "refines _ _ _ ?c")
proof -
  have old: "n \<in> set (lru c) \<Longrightarrow> n < next_node c \<and> nodes c n \<noteq> None" for n
    using assms(1) by (simp add: cache_ok_def)
  have same: "nodes ?c n = nodes c n" if "n \<in> set (lru c)" for n
    using old [OF that] by auto
  have paths: "map (node_path ?c) (lru c) = map (node_path c) (lru c)"
    "index_by (node_path ?c) (lru c) = index_by (node_path c) (lru c)"
    by (rule map_cong [OF refl] index_by_cong; simp only: same)+
  have "p \<notin> node_path c ` set (lru c)"
    using assms by (auto simp: lru_lookup_def find_None_iff entries_def)
  with assms(1) paths(1) have "distinct (map (node_path ?c) (lru ?c))"
    by (simp add: cache_ok_def del: map_eq_conv)
  moreover have "hash ?c = index_by (node_path ?c) (lru ?c)"
    using assms(1) paths(2) by (simp add: cache_ok_def)
  moreover have "\<forall>n \<in> set (lru ?c). nodes ?c n \<noteq> None \<and> n < next_node ?c"
    using old by (auto simp: less_SucI)
  ultimately have "cache_ok ?c" unfolding cache_ok_def by blast
  moreover have "entries ?c = \<lparr>path = p, handle = f\<rparr> # entries c"
    using old by (auto simp: entries_def)
  ultimately show ?thesis by (simp add: refines_def)
qed

lemma cache_Put_ok:
  assumes "cache_ok c"
  shows "\<exists>c'. cache_Put c p (Inr f :: 'e + 'f) = Inr (c', Inr f) \<and>
    refines c (lru_insert (val (max_opt (cache_opts c))) p f (entries c)) [f] c'"
proof (cases "hash c p")
  case (Some n)
  with put_cached [OF assms Some, of f] assms show ?thesis by (simp add: lru_insert_def cache_lookup)
next
  case None
  let ?full = "int (length (lru c)) \<ge> val (max_opt (cache_opts c))"
  let ?es = "if ?full then butlast (entries c) else entries c"
  have miss: "lru_lookup p (entries c) = None" using None assms by (simp add: cache_lookup)
  have "\<exists>c1. (if ?full then deleteUnsafe c (Back (lru c)) else Inr c) = Inr c1 \<and> refines c ?es [] c1"
    using evict_ok [OF assms] refines_refl [OF assms] by auto
  then obtain c1 where c1: "(if ?full then deleteUnsafe c (Back (lru c)) else Inr c) = Inr c1"
    "refines c ?es [] c1" by blast
  have "lru_lookup p ?es = None"
    using miss by (auto simp: lru_lookup_def find_None_iff dest: in_set_butlastD)
  with c1(2) have "cache_ok c1" "lru_lookup p (entries c1) = None" by (auto simp: refines_def)
  from push_ok [OF this, of f] refines_trans [OF c1(2)] have r:
    "refines c (\<lparr>path = p, handle = f\<rparr> # entries c1) [f]
      (c1\<lparr>hash := (hash c1)(p \<mapsto> next_node c1), lru := next_node c1 # lru c1, next_node := next_node c1 + 1,
          nodes := (nodes c1)(next_node c1 \<mapsto> \<lparr>path = p, handle = f\<rparr>)\<rparr>)" (is "refines _ _ _ ?c2")
    by fastforce
  have "\<lparr>path = p, handle = f\<rparr> # entries c1 = lru_insert (val (max_opt (cache_opts c))) p f (entries c)"
    using c1(2) miss by (simp add: lru_insert_def refines_def) (simp add: entries_def)
  moreover have "cache_Put c p (Inr f :: 'e + 'f) = Inr (hit ?c2 p, Inr f)"
    using None c1(1) by (simp add: cache_Put_def Let_def)
  ultimately show ?thesis using r refines_hit by metis
qed

lemma close_loop_ok:
  "(\<forall>n \<in> set l. nodes c n \<noteq> None) \<Longrightarrow>
     \<exists>errs'. close_loop CloseErr c l errs =
       Inr (c\<lparr>closed := closed c @ map (\<lambda>n. handle (the (nodes c n))) l\<rparr>, errs')"
proof (induction l arbitrary: c errs)
  case (Cons n l)
  then obtain v where v: "nodes c n = Some v" by auto
  with Cons.IH [of "c\<lparr>closed := closed c @ [handle v]\<rparr>"] Cons.prems show ?case
    by (simp add: node_value_def)
qed simp

lemma cache_Close_ok:
  assumes "cache_ok c"
  shows "\<exists>c' e. cache_Close CloseErr c = Inr (c', e) \<and> refines c [] [] c' \<and> uses c' = uses c"
proof -
  from close_loop_ok [of "lru c" c CloseErr "[]"] assms obtain errs where
    "close_loop CloseErr c (lru c) [] =
       Inr (c\<lparr>closed := closed c @ map (\<lambda>n. handle (the (nodes c n))) (lru c)\<rparr>, errs)"
    by (auto simp: cache_ok_def)
  then show ?thesis
    by (simp add: cache_Close_def refines_def cache_ok_def entries_def comp_def)
qed

lemma collect_junk_ok:
  "cache_ok c \<Longrightarrow> refines c (entries c) [] (fst (collect_junk P order c junk))"
proof (induction P order c junk rule: collect_junk.induct)
  case (2 P key order c junk)
  have "cache_ok (c\<lparr>uses := u\<rparr>)" "entries (c\<lparr>uses := u\<rparr>) = entries c" for u
    using "2.prems" by (simp_all add: cache_ok_def entries_def)
  moreover have "refines (c\<lparr>uses := u\<rparr>) es new c' = refines c es new c'" for u es new c'
    by (simp add: refines_def entries_def)
  ultimately show ?case using 2 by (simp split: option.splits)
qed (simp add: refines_refl)

section \<open>Sequences of operations\<close>

text \<open>What the users of the cache and its key manager do, in any order.\<close>

datatype ('e, 'f) cache_op =
    Put string "'e + 'f"
  | Get string
  | Delete "string list"
  | Close "'f \<Rightarrow> string option"
  | Inactive "string list"
  | Valid "string \<Rightarrow> bool" "string list"

fun cache_step :: "('e, 'f) cache_op \<Rightarrow> 'f cache \<Rightarrow> 'f cache go" where
  "cache_step (Put p r) c = gbind (cache_Put c p r) (\<lambda>(c, _). Inr c)"
| "cache_step (Get p) c = gbind (cache_Get c p) (\<lambda>(c, _). Inr c)"
| "cache_step (Delete keys) c = cache_Delete c keys"
| "cache_step (Close CloseErr) c = gbind (cache_Close CloseErr c) (\<lambda>(c, _). Inr c)"
| "cache_step (Inactive order) c = manage_inactive order c"
| "cache_step (Valid IsNotExist order) c = manage_valid IsNotExist order c"

fun cache_run :: "('e, 'f) cache_op list \<Rightarrow> 'f cache \<Rightarrow> 'f cache go" where
  "cache_run [] c = Inr c"
| "cache_run (op # ops) c = gbind (cache_step op c) (cache_run ops)"

text \<open>The files an operation opened, and the calls of the users among the operations with their effect
  on the abstract cache.\<close>

fun opened_by :: "('e, 'f) cache_op \<Rightarrow> 'f list" where
  "opened_by (Put p (Inr f)) = [f]"
| "opened_by op = []"

fun user_call :: "('e, 'f) cache_op \<Rightarrow> bool" where
  "user_call (Inactive order) = False"
| "user_call (Valid IsNotExist order) = False"
| "user_call op = True"

fun lru_step :: "int \<Rightarrow> ('e, 'f) cache_op \<Rightarrow> 'f fileObject list \<Rightarrow> 'f fileObject list" where
  "lru_step limit (Put p (Inr f)) es = lru_insert limit p f es"
| "lru_step limit (Get p) es = lru_touch p es"
| "lru_step limit (Delete keys) es = fold lru_delete keys es"
| "lru_step limit (Close CloseErr) es = []"
| "lru_step limit op es = es"

lemma length_deletes: "length (fold lru_delete keys es) \<le> length es"
proof (induction keys arbitrary: es)
  case (Cons k keys)
  show ?case using Cons.IH [of "lru_delete k es"] length_filter_le [of _ es]
    by (simp add: lru_delete_def le_trans)
qed simp

lemma length_touch: "length (lru_touch p es) \<le> length es"
proof (cases "lru_lookup p es")
  case (Some e)
  then have "e \<in> set es" "path e = p" by (auto simp: lru_lookup_def find_Some_iff)
  then have "length (lru_delete p es) < length es"
    unfolding lru_delete_def by (intro length_filter_less) auto
  with Some show ?thesis by (simp add: lru_touch_def)
qed (simp add: lru_touch_def)

lemma length_insert:
  "int (length es) \<le> max 1 limit \<Longrightarrow> int (length (lru_insert limit p f es)) \<le> max 1 limit"
proof (cases "lru_lookup p es")
  case None
  then show "int (length es) \<le> max 1 limit \<Longrightarrow> ?thesis" by (auto simp: lru_insert_def)
next
  case (Some e)
  then have "Suc (length (lru_delete p es)) \<le> length es" using length_touch [of p es] by (simp add: lru_touch_def)
  with Some show "int (length es) \<le> max 1 limit \<Longrightarrow> ?thesis" by (simp add: lru_insert_def)
qed

lemma manage_ok:
  assumes "cache_ok c" "collect_junk P order c [] = (c1, junk)"
  shows "\<exists>c'. cache_Delete c1 junk = Inr c' \<and> refines c (fold lru_delete junk (entries c)) [] c'"
proof -
  have c1: "refines c (entries c) [] c1" using collect_junk_ok [OF assms(1), of P order "[]"] assms(2) by simp
  then have "cache_ok c1" "entries c1 = entries c" by (simp_all add: refines_def)
  with cache_Delete_ok [of c1 junk] refines_trans [OF c1] show ?thesis by fastforce
qed

text \<open>Every operation returns, keeps the invariant, the bound and the ledger, and a user's call has
  its abstract effect.\<close>

definition fits :: "'f cache \<Rightarrow> bool" where
  "fits c \<longleftrightarrow> int (length (entries c)) \<le> max 1 (val (max_opt (cache_opts c)))"

definition step_ok :: "('e, 'f) cache_op \<Rightarrow> 'f cache \<Rightarrow> 'f cache \<Rightarrow> bool" where
  "step_ok op c c' \<longleftrightarrow>
     refines c (entries c') (opened_by op) c' \<and> (fits c \<longrightarrow> fits c') \<and>
     (user_call op \<longrightarrow> entries c' = lru_step (val (max_opt (cache_opts c))) op (entries c))"

lemma step_okI:
  assumes "refines c es (opened_by op) c'"
    and "user_call op \<Longrightarrow> es = lru_step (val (max_opt (cache_opts c))) op (entries c)"
    and "fits c \<Longrightarrow> int (length es) \<le> max 1 (val (max_opt (cache_opts c)))"
  shows "step_ok op c c'"
  using assms by (auto simp: step_ok_def refines_def fits_def)

lemma step_ok_shrinks:
  assumes "refines c es (opened_by op) c'"
    and "user_call op \<Longrightarrow> es = lru_step (val (max_opt (cache_opts c))) op (entries c)"
    and "length es \<le> length (entries c)"
  shows "step_ok op c c'"
  using assms by (intro step_okI [of c es]) (auto simp: fits_def)

lemma put_step_ok: "cache_ok c \<Longrightarrow> \<exists>c'. cache_step (Put p r) c = Inr c' \<and> step_ok (Put p r) c c'"
proof (cases r)
  case (Inl e)
  then show "cache_ok c \<Longrightarrow> ?thesis"
    by (auto simp: cache_Put_def intro!: step_ok_shrinks [of c "entries c"] refines_refl)
next
  case (Inr f)
  assume "cache_ok c"
  from cache_Put_ok [OF this, of p f] obtain c' where c':
    "cache_Put c p r = Inr (c', r)"
    "refines c (lru_insert (val (max_opt (cache_opts c))) p f (entries c)) [f] c'"
    unfolding Inr by blast
  then have "step_ok (Put p r) c c'"
    using Inr length_insert [of "entries c" _ p f]
    by (intro step_okI [of c "lru_insert (val (max_opt (cache_opts c))) p f (entries c)"])
       (simp_all add: fits_def)
  with c'(1) show ?thesis by simp
qed

lemma manage_step_ok:
  assumes "cache_ok c" "\<not> user_call op" "opened_by op = []"
    and "cache_step op c = (case collect_junk P order c [] of (c, junk) \<Rightarrow> cache_Delete c junk)"
  shows "\<exists>c'. cache_step op c = Inr c' \<and> step_ok op c c'"
proof -
  obtain c1 junk where j: "collect_junk P order c [] = (c1, junk)" by (metis surj_pair)
  from manage_ok [OF assms(1) j] obtain c' where c':
    "cache_Delete c1 junk = Inr c'" "refines c (fold lru_delete junk (entries c)) [] c'" by blast
  then have "step_ok op c c'"
    using assms(2,3) length_deletes by (intro step_ok_shrinks [of c "fold lru_delete junk (entries c)"]) auto
  with c'(1) j assms(4) show ?thesis by simp
qed

lemma cache_step_ok: "cache_ok c \<Longrightarrow> \<exists>c'. cache_step op c = Inr c' \<and> step_ok op c c'"
proof (cases op)
  case (Get p)
  assume "cache_ok c"
  from cache_Get_ok [OF this, of p] obtain c' where
    "cache_Get c p = Inr (c', map_option handle (lru_lookup p (entries c)))"
    "refines c (lru_touch p (entries c)) [] c'" by blast
  with Get length_touch show ?thesis by (auto intro!: step_ok_shrinks)
next
  case (Delete keys)
  assume "cache_ok c"
  from cache_Delete_ok [OF this, of keys] obtain c' where
    "cache_Delete c keys = Inr c'" "refines c (fold lru_delete keys (entries c)) [] c'" by blast
  with Delete length_deletes show ?thesis by (auto intro!: step_ok_shrinks)
next
  case (Close CloseErr)
  assume "cache_ok c"
  from cache_Close_ok [OF this, of CloseErr] obtain c' e where
    "cache_Close CloseErr c = Inr (c', e)" "refines c [] [] c'" by blast
  with Close show ?thesis by (auto intro!: step_ok_shrinks)
next
  case (Inactive order)
  assume "cache_ok c"
  then show ?thesis unfolding Inactive by (rule manage_step_ok) (simp_all add: manage_inactive_def)
next
  case (Valid IsNotExist order)
  assume "cache_ok c"
  then show ?thesis unfolding Valid by (rule manage_step_ok) (simp_all add: manage_valid_def)
qed (simp only: put_step_ok)

lemma cache_run_ok:
  assumes "cache_ok c" "fits c"
  shows "\<exists>c'. cache_run ops c = Inr c' \<and> refines c (entries c') (concat (map opened_by ops)) c' \<and> fits c' \<and>
    (list_all user_call ops \<longrightarrow>
       entries c' = fold (lru_step (val (max_opt (cache_opts c)))) ops (entries c))"
  using assms
proof (induction ops arbitrary: c)
  case (Cons op ops)
  from cache_step_ok [OF Cons.prems(1), of op] obtain c1 where
    c1: "cache_step op c = Inr c1" "step_ok op c c1" by blast
  then have r: "refines c (entries c1) (opened_by op) c1" "fits c1"
    using Cons.prems(2) by (simp_all add: step_ok_def)
  then have o: "cache_ok c1" "cache_opts c1 = cache_opts c" by (simp_all add: refines_def)
  from Cons.IH [OF o(1) r(2)] obtain c2 where c2:
    "cache_run ops c1 = Inr c2" "refines c1 (entries c2) (concat (map opened_by ops)) c2" "fits c2"
    "list_all user_call ops \<longrightarrow>
       entries c2 = fold (lru_step (val (max_opt (cache_opts c)))) ops (entries c1)"
    by (auto simp: o(2))
  with c1 refines_trans [OF r(1) c2(2)] show ?case by (auto simp: step_ok_def)
qed (simp add: refines_refl)

lemma cache_init_ok:
  "cache_init o1 = Some c \<Longrightarrow>
     cache_ok c \<and> fits c \<and> entries c = [] \<and> closed c = [] \<and> cache_opts c = o1 \<and> uses c = Map.empty"
  by (auto simp: cache_init_def cache_ok_def fits_def entries_def split: if_splits)

text \<open>
  (C5) The cache implements a least-recently-used list: after any sequence of \<open>Put\<close>, \<open>Get\<close>,
  \<open>Delete\<close> and \<open>Close\<close> calls on a new cache, no call has panicked and the entries in list order are
  those of the abstract list, on which an insertion or a hit moves the path to the front and an
  insertion into a full list drops the last entry.
\<close>

theorem cache_refines_lru:
  assumes "cache_init o1 = Some c" "list_all user_call ops"
  shows "\<exists>c'. cache_run ops c = Inr c' \<and> entries c' = fold (lru_step (val (max_opt o1))) ops []"
  using cache_run_ok [of c ops] cache_init_ok [OF assms(1)] assms(2) by auto

theorem cache_refines_lru_witness:
  "\<exists>c c'. cache_init (cache_defaults zero_cache_options) = Some c \<and>
     cache_run [Put ''a'' (Inr (1 :: nat)), Put ''b'' (Inr 2), Put ''c'' (Inl ()), Get ''a''] c = Inr c' \<and>
     entries c' = [\<lparr>path = ''a'', handle = 1\<rparr>, \<lparr>path = ''b'', handle = 2\<rparr>]"
proof -
  obtain c :: "nat cache" where c: "cache_init (cache_defaults zero_cache_options) = Some c"
    by (simp add: cache_init_def cache_defaults_def boolValue_store_def)
  from cache_refines_lru [OF c, of "[Put ''a'' (Inr 1), Put ''b'' (Inr 2), Put ''c'' (Inl ()), Get ''a'']"] c
  show ?thesis
    by (simp add: cache_defaults_def intValue_store_def lru_insert_def lru_touch_def lru_lookup_def
        lru_delete_def)
qed

text \<open>
  (C15) The ledger of files: after any sequence of operations on a new cache, the rounds of the key
  manager included, no operation has panicked, and the files that the opener returned are, with
  their multiplicity, the files of the cache and the files that were closed. So none leaks, none is
  closed twice and no cached file is closed.
\<close>

theorem cache_ledger:
  assumes "cache_init o1 = Some c"
  shows "\<exists>c'. cache_run ops c = Inr c' \<and>
    mset (map handle (entries c')) + mset (closed c') = mset (concat (map opened_by ops))"
  using cache_run_ok [of c ops] cache_init_ok [OF assms] by (auto simp: refines_def)

theorem cache_ledger_witness:
  "\<exists>c c'. cache_init (cache_defaults zero_cache_options) = Some c \<and>
     cache_run [Put ''a'' (Inr (1 :: nat) :: unit + nat), Put ''a'' (Inr 2), Valid (\<lambda>_. True) [''a'']] c = Inr c' \<and>
     mset (map handle (entries c')) + mset (closed c') = {#1, 2#}"
proof -
  obtain c :: "nat cache" where c: "cache_init (cache_defaults zero_cache_options) = Some c"
    by (simp add: cache_init_def cache_defaults_def boolValue_store_def)
  from cache_ledger [OF c, of "[Put ''a'' (Inr 1 :: unit + nat), Put ''a'' (Inr 2), Valid (\<lambda>_. True) [''a'']]"] c
  show ?thesis by (auto simp del: cache_run.simps)
qed

text \<open>
  The bound: the cache never holds more entries than its limit, or one when the limit is zero
  or negative.
\<close>

theorem cache_bounded:
  assumes "cache_init o1 = Some c" "cache_run ops c = Inr c'"
  shows "int (length (lru c')) \<le> max 1 (val (max_opt o1))"
  using cache_run_ok [of c ops] cache_init_ok [OF assms(1)] assms(2)
  by (auto simp: fits_def refines_def entries_def)

theorem cache_bounded_witness:
  "\<exists>c c'. cache_init ((cache_defaults zero_cache_options)\<lparr>max_opt := \<lparr>isset = True, val = 1\<rparr>\<rparr>) = Some c \<and>
     cache_run [Put ''a'' (Inr (1 :: nat) :: unit + nat), Put ''b'' (Inr 2)] c = Inr c' \<and>
     int (length (lru c')) \<le> max 1 1"
proof -
  let ?o = "(cache_defaults zero_cache_options)\<lparr>max_opt := \<lparr>isset = True, val = 1\<rparr>\<rparr>"
  let ?ops = "[Put ''a'' (Inr 1 :: unit + nat), Put ''b'' (Inr 2)]"
  obtain c :: "nat cache" where c: "cache_init ?o = Some c"
    by (simp add: cache_init_def cache_defaults_def boolValue_store_def)
  moreover obtain c' where c': "cache_run ?ops c = Inr c'"
    using cache_run_ok [of c ?ops] cache_init_ok [OF c] by blast
  ultimately show ?thesis using cache_bounded [OF c c'] by auto
qed

section \<open>The inactivity check\<close>

definition uses_ok :: "'f cache \<Rightarrow> bool" where
  "uses_ok c \<longleftrightarrow> (\<forall>p v. uses c p = Some v \<longrightarrow> 1 \<le> v)"

lemma uses_ok_hit: "uses_ok c \<Longrightarrow> uses_ok (hit c p)"
  by (auto simp: uses_ok_def hit_def split: option.splits) fastforce

lemma uses_ok_remove: "uses_ok c \<Longrightarrow> uses c' = (uses c)(p := None) \<Longrightarrow> uses_ok c'"
  by (simp add: uses_ok_def)

lemma uses_ok_same: "uses_ok c \<Longrightarrow> uses c' = uses c \<Longrightarrow> uses_ok c'"
  by (simp add: uses_ok_def)

lemma deleteUnsafe_uses: "deleteUnsafe c node = Inr c' \<Longrightarrow> uses_ok c \<Longrightarrow> uses_ok c'"
  by (auto simp: deleteUnsafe_def gbind_eq_Inr intro: uses_ok_remove split: option.splits)

lemma delete_loop_uses: "delete_loop c keys = Inr c' \<Longrightarrow> uses_ok c \<Longrightarrow> uses_ok c'"
  by (induction keys arbitrary: c) (auto simp: gbind_eq_Inr dest: deleteUnsafe_uses)

lemma cache_Delete_uses: "cache_Delete c keys = Inr c' \<Longrightarrow> uses_ok c \<Longrightarrow> uses_ok c'"
  by (auto simp: cache_Delete_def dest: delete_loop_uses split: if_splits)

lemma cache_Get_uses: "cache_Get c p = Inr (c', r) \<Longrightarrow> uses_ok c \<Longrightarrow> uses_ok c'"
  by (auto simp: cache_Get_def gbind_eq_Inr uses_ok_same intro!: uses_ok_hit split: option.splits)

lemma cache_Put_uses: "cache_Put c p r = Inr (c', q) \<Longrightarrow> uses_ok c \<Longrightarrow> uses_ok c'"
  by (auto simp: cache_Put_def gbind_eq_Inr Let_def uses_ok_same intro!: uses_ok_hit
      dest!: deleteUnsafe_uses split: sum.splits option.splits if_splits)

lemma collect_junk_uses: "uses_ok c \<Longrightarrow> uses_ok (fst (collect_junk P order c junk))"
  by (induction P order c junk rule: collect_junk.induct) (auto simp: uses_ok_remove split: option.splits)

lemma cache_step_uses:
  assumes "cache_step op c = Inr c'" "cache_ok c" "uses_ok c"
  shows "uses_ok c'"
proof (cases op)
  case (Close CloseErr)
  with cache_Close_ok [OF assms(2), of CloseErr] assms show ?thesis by (auto intro: uses_ok_same)
next
  case (Inactive order)
  with assms collect_junk_uses [OF assms(3)] show ?thesis
    by (auto simp: manage_inactive_def dest: cache_Delete_uses split: prod.splits) (metis cache_Delete_uses fst_conv)
next
  case (Valid IsNotExist order)
  with assms collect_junk_uses [OF assms(3)] show ?thesis
    by (auto simp: manage_valid_def split: prod.splits) (metis cache_Delete_uses fst_conv)
qed (use assms in \<open>auto simp: gbind_eq_Inr dest: cache_Put_uses cache_Get_uses cache_Delete_uses\<close>)

lemma cache_run_uses: "cache_run ops c = Inr c' \<Longrightarrow> cache_ok c \<Longrightarrow> uses_ok c \<Longrightarrow> uses_ok c'"
proof (induction ops arbitrary: c)
  case (Cons op ops)
  from Cons.prems(1) obtain c1 where c1: "cache_step op c = Inr c1" "cache_run ops c1 = Inr c'"
    by (auto simp: gbind_eq_Inr)
  moreover from this cache_step_ok [OF Cons.prems(2), of op] have "cache_ok c1"
    by (auto simp: step_ok_def refines_def)
  ultimately show ?case using Cons cache_step_uses by blast
qed simp

lemma collect_junk_none:
  "(\<forall>p v. uses c p = Some v \<longrightarrow> \<not> P p v) \<Longrightarrow> collect_junk P order c junk = (c, junk)"
  by (induction order) (auto split: option.splits)

text \<open>
  The inactivity check never drops anything under the default options: a use count starts at
  one and only grows, and the check drops what was used less than \<open>min\<close> times since it was put in
  the cache, with \<open>min\<close> one by default. So however long a file is not used, the check on the
  \<open>inactive\<close> ticker leaves the cache as it is.
\<close>

theorem inactive_never_expires:
  assumes "cache_init o1 = Some c" "cache_run ops c = Inr c'" "val (min_opt o1) \<le> 1"
  shows "manage_inactive order c' = Inr c'"
proof -
  note i = cache_init_ok [OF assms(1)]
  from i have "uses_ok c" by (simp add: uses_ok_def)
  with i assms(2) have "uses_ok c'" using cache_run_uses by blast
  moreover have "cache_opts c' = o1" using i cache_run_ok [of c ops] assms(2) by (auto simp: refines_def)
  ultimately have "collect_junk (\<lambda>key v. v < val (min_opt (cache_opts c'))) order c' [] = (c', [])"
    using assms(3) by (intro collect_junk_none) (force simp: uses_ok_def)
  then show ?thesis by (simp add: manage_inactive_def cache_Delete_def)
qed

theorem inactive_never_expires_witness:
  "\<exists>c c'. cache_init (cache_defaults zero_cache_options) = Some c \<and>
     cache_run [Put ''a'' (Inr (1 :: nat) :: unit + nat)] c = Inr c' \<and> manage_inactive [''a''] c' = Inr c'"
proof -
  let ?ops = "[Put ''a'' (Inr 1 :: unit + nat)]"
  obtain c :: "nat cache" where c: "cache_init (cache_defaults zero_cache_options) = Some c"
    by (simp add: cache_init_def cache_defaults_def boolValue_store_def)
  moreover obtain c' where c': "cache_run ?ops c = Inr c'"
    using cache_run_ok [of c ?ops] cache_init_ok [OF c] by blast
  ultimately show ?thesis
    using inactive_never_expires [OF c c', of "[''a'']"] by (auto simp: cache_defaults_def intValue_store_def)
qed

end
