(* ===== verification/Logging.thy ===== *)
theory Logging
  imports Proxy Variables File_Cache
begin

text \<open>
  Logging of \<open>ngx_log.go\<close>: levels, log formats, the logger over the file cache, the functions that
  write to the error log, and the middleware of the access log. A handler works on the state of a
  request: the variables of the listener, the log lines and the answers written so far.
\<close>

section \<open>Levels and formats\<close>

definition levels :: "string \<rightharpoonup> int" where
  "levels = map_of [(''debug'', 6), (''info'', 5), (''notice'', 4), (''warn'', 3), (''error'', 2), (''crit'', 1),
     (''alert'', 0)]"

text \<open>A missing key of a Go map reads as zero.\<close>

definition level_of :: "string \<Rightarrow> int" where
  "level_of a = (case levels a of Some n \<Rightarrow> n | None \<Rightarrow> 0)"

definition withinLevel :: "string \<Rightarrow> string \<Rightarrow> bool" where
  "withinLevel a b \<longleftrightarrow> level_of a < level_of b"

definition defaultLogFormat :: string where
  "defaultLogFormat =
     ''$remote_addr - $remote_user [$time_local] '' @ [CHR 0x22] @ ''$request'' @ [CHR 0x22] @
     '' $status $body_bytes_sent '' @ [CHR 0x22] @ ''$http_referer'' @ [CHR 0x22] @ '' '' @ [CHR 0x22] @
     ''$http_user_agent'' @ [CHR 0x22]"

record logFormat =
  format_name :: string
  format_template :: string
  format_escape :: string

definition logFormat_defaults :: logFormat where
  "logFormat_defaults = \<lparr>format_name = ''combined'', format_template = defaultLogFormat, format_escape = ''default''\<rparr>"

definition logFormat_load :: "logFormat \<Rightarrow> string list \<Rightarrow> logFormat" where
  "logFormat_load l args =
     (if length args > 0 then
        let l = l\<lparr>format_name := args ! 0\<rparr>
        in if length args > 1 then
             if args ! 1 \<in> {''default'', ''json'', ''none''} then
               let l = l\<lparr>format_escape := args ! 1\<rparr>
               in if length args > 2 then l\<lparr>format_template := join (drop 2 args) []\<rparr> else l
             else l\<lparr>format_template := join (drop 1 args) []\<rparr>
           else l
      else l)"

section \<open>The logger over the file cache\<close>

text \<open>What a file does: the error of a write, and that of a sync for files that have one.\<close>

record 'f file_env =
  file_Write :: "'f \<Rightarrow> string \<Rightarrow> string option"
  file_Sync :: "'f \<Rightarrow> string option option"

definition cacheLogger_sync :: "'f file_env \<Rightarrow> 'f \<Rightarrow> string \<Rightarrow> string option" where
  "cacheLogger_sync F w data =
     (case file_Write F w data of
        Some err \<Rightarrow> Some err
      | None \<Rightarrow> (case file_Sync F w of Some e \<Rightarrow> e | None \<Rightarrow> None))"

text \<open>\<open>Print\<close> returns the cache, the file it wrote to, if any, and the error.\<close>

definition cacheLogger_Print ::
  "'f file_env \<Rightarrow> 'f cache \<Rightarrow> string \<Rightarrow> string + 'f \<Rightarrow> string \<Rightarrow> ('f cache \<times> 'f option \<times> string option) go" where
  "cacheLogger_Print F c file opened message =
     gbind (cache_Get c file) (\<lambda>(c, f).
       case f of
         Some f \<Rightarrow> Inr (c, Some f, cacheLogger_sync F f message)
       | None \<Rightarrow>
           gbind (cache_Put c file opened) (\<lambda>(c, res).
             case res of
               Inl err \<Rightarrow> Inr (c, None, Some err)
             | Inr f \<Rightarrow> Inr (c, Some f, cacheLogger_sync F f message)))"

section \<open>Handlers\<close>

record 'tpl hstate =
  hs_vars :: "variables option"
  hs_log :: "(string \<times> string \<times> string) list"
  hs_out :: "variables outcome list"
  hs_tpls :: "string \<rightharpoonup> 'tpl stringTemplateValue"

text \<open>A handler changes the state and returns the panic, if any.\<close>

type_synonym 'tpl handler = "'tpl hstate \<Rightarrow> http_request \<Rightarrow> 'tpl hstate \<times> panic option"

text \<open>The conversion to \<open>ngxLogger\<close>: the program's own logger has no method \<open>Println\<close>.\<close>

definition as_ngxLogger :: "logger \<Rightarrow> unit go" where
  "as_ngxLogger lg = (case lg of CacheLogger \<Rightarrow> Inl TypeAssertion | PrintlnLogger \<Rightarrow> Inr ())"

definition errorLog :: "request_ctx \<Rightarrow> string \<Rightarrow> string \<Rightarrow> (string \<times> string \<times> string) list go" where
  "errorLog ctx level message =
     (case errorLogKey ctx of
        None \<Rightarrow> Inr []
      | Some f \<Rightarrow>
          (case ngxLoggerKey ctx of
             None \<Rightarrow> Inr []
           | Some lg \<Rightarrow> gbind (as_ngxLogger lg) (\<lambda>_. Inr [(f, level, message)])))"

definition logDebug :: "request_ctx \<Rightarrow> string \<Rightarrow> (string \<times> string \<times> string) list go" where
  "logDebug ctx msg = errorLog ctx ''info'' msg"

definition logInfo :: "request_ctx \<Rightarrow> string \<Rightarrow> (string \<times> string \<times> string) list go" where
  "logInfo ctx msg = errorLog ctx ''debug'' msg"

definition logNotice :: "request_ctx \<Rightarrow> string \<Rightarrow> (string \<times> string \<times> string) list go" where
  "logNotice ctx msg = errorLog ctx ''notice'' msg"

definition logWarn :: "request_ctx \<Rightarrow> string \<Rightarrow> (string \<times> string \<times> string) list go" where
  "logWarn ctx msg = errorLog ctx ''warn'' msg"

definition logError :: "request_ctx \<Rightarrow> string \<Rightarrow> (string \<times> string \<times> string) list go" where
  "logError ctx msg = errorLog ctx ''error'' msg"

definition logCrit :: "request_ctx \<Rightarrow> string \<Rightarrow> (string \<times> string \<times> string) list go" where
  "logCrit ctx msg = errorLog ctx ''crit'' msg"

definition logAlert :: "request_ctx \<Rightarrow> string \<Rightarrow> (string \<times> string \<times> string) list go" where
  "logAlert ctx msg = errorLog ctx ''alert'' msg"

text \<open>
  The line of the access log, written after the request was served; \<open>elapsed\<close> is the duration in
  milliseconds. The template of a format is parsed once per middleware.
\<close>

definition log_line ::
  "(string \<Rightarrow> string + 'tpl) \<Rightarrow> ('tpl \<Rightarrow> variables \<Rightarrow> string + string) \<Rightarrow> int \<Rightarrow> string \<Rightarrow> string \<Rightarrow> request_ctx \<Rightarrow>
     'tpl hstate \<Rightarrow> 'tpl hstate \<times> panic option" where
  "log_line Parse Execute elapsed destPath level ctx s =
     (case hs_vars s of
        None \<Rightarrow> (s, Some TypeAssertion)
      | Some m \<Rightarrow>
          let m = m(''$request_time'' \<mapsto> VInt elapsed);
              s = s\<lparr>hs_vars := Some m\<rparr>;
              format = (case accessLogFormat ctx of Some f \<Rightarrow> f | None \<Rightarrow> defaultLogFormat)
          in (case (case hs_tpls s format of
                     Some t \<Rightarrow> Inr (t, s)
                   | None \<Rightarrow>
                       gbind (stringTemplateValue_store Parse \<lparr>tv_value = [], tv_set = False, tv_tpl = None\<rparr> format)
                         (\<lambda>t. Inr (t, s\<lparr>hs_tpls := (hs_tpls s)(format \<mapsto> t)\<rparr>))) of
               Inl p \<Rightarrow> (s, Some p)
             | Inr (t, s) \<Rightarrow>
                 (case stringTemplateValue_Value Execute t m of
                    Inl p \<Rightarrow> (s, Some p)
                  | Inr line \<Rightarrow> (s\<lparr>hs_log := hs_log s @ [(destPath, level, line)]\<rparr>, None))))"

definition accessLogMiddlewareFunc ::
  "(string \<Rightarrow> string + 'tpl) \<Rightarrow> ('tpl \<Rightarrow> variables \<Rightarrow> string + string) \<Rightarrow> int \<Rightarrow> 'tpl handler \<Rightarrow> 'tpl handler" where
  "accessLogMiddlewareFunc Parse Execute elapsed next s r =
     (let ctx = rq_ctx r in
      case accessLogPathKey ctx of
        None \<Rightarrow> next s r
      | Some destPath \<Rightarrow>
          if destPath = [] \<or> destPath = ''/dev/null'' then next s r
          else
            let level = (case accessLogLevelKey ctx of Some v \<Rightarrow> v | None \<Rightarrow> ''info'')
            in (case ngxLoggerKey ctx of
                 None \<Rightarrow> (s, None)
               | Some lg \<Rightarrow>
                   (case as_ngxLogger lg of
                      Inl p \<Rightarrow> (s, Some p)
                    | Inr _ \<Rightarrow>
                        (case next s r of
                           (s, Some p) \<Rightarrow> (s, Some p)
                         | (s, None) \<Rightarrow> log_line Parse Execute elapsed destPath level ctx s))))"

text \<open>
  The same for the \<open>echo\<close> framework, whose handlers return an error; \<open>OnError\<close> is its error handler.
\<close>

type_synonym 'tpl echo_handler = "'tpl hstate \<Rightarrow> http_request \<Rightarrow> 'tpl hstate \<times> string option go"

definition accessLog ::
  "(string \<Rightarrow> string + 'tpl) \<Rightarrow> ('tpl \<Rightarrow> variables \<Rightarrow> string + string) \<Rightarrow> (string \<Rightarrow> 'tpl hstate \<Rightarrow> 'tpl hstate) \<Rightarrow> int \<Rightarrow>
     'tpl echo_handler \<Rightarrow> 'tpl echo_handler" where
  "accessLog Parse Execute OnError elapsed next s r =
     (let ctx = rq_ctx r in
      case accessLogPathKey ctx of
        None \<Rightarrow> next s r
      | Some destPath \<Rightarrow>
          if destPath = [] \<or> destPath = ''/dev/null'' then next s r
          else
            let level = (case accessLogLevelKey ctx of Some v \<Rightarrow> v | None \<Rightarrow> ''info'')
            in (case ngxLoggerKey ctx of
                 None \<Rightarrow> (s, Inr None)
               | Some lg \<Rightarrow>
                   (case as_ngxLogger lg of
                      Inl p \<Rightarrow> (s, Inl p)
                    | Inr _ \<Rightarrow>
                        (case next s r of
                           (s, Inl p) \<Rightarrow> (s, Inl p)
                         | (s, Inr err) \<Rightarrow>
                             (case log_line Parse Execute elapsed destPath level ctx
                                     (case err of None \<Rightarrow> s | Some e \<Rightarrow> OnError e s) of
                                (s, Some p) \<Rightarrow> (s, Inl p)
                              | (s, None) \<Rightarrow> (s, Inr None))))))"

section \<open>Writing to a log\<close>

text \<open>By the ledger of the cache, the file of its first entry has not been closed.\<close>

lemma ledger_fresh:
  assumes "refines c es new c'" "e \<in> set es" "distinct new" "distinct (map handle (entries c) @ closed c)"
    and "\<forall>g \<in> set new. g \<notin> set (map handle (entries c) @ closed c)"
  shows "handle e \<notin> set (closed c')"
proof
  assume f: "handle e \<in> set (closed c')"
  from assms(1) have "mset (map handle es @ closed c') = mset ((map handle (entries c) @ closed c) @ new)"
    by (simp add: refines_def)
  moreover have "distinct ((map handle (entries c) @ closed c) @ new)" using assms(3-5) by auto
  ultimately have "distinct (map handle es @ closed c')" by (metis mset_eq_imp_distinct_iff)
  with assms(2) f show False by auto
qed

lemma Print_hit:
  assumes "cache_ok c" "lru_lookup file (entries c) = Some e"
  shows "\<exists>c'. cacheLogger_Print F c file opened message =
      Inr (c', Some (handle e), cacheLogger_sync F (handle e) message) \<and>
    refines c (e # lru_delete file (entries c)) [] c'"
  using cache_Get_ok [OF assms(1), of "file"] assms(2) by (auto simp: cacheLogger_Print_def lru_touch_def)

lemma Print_miss:
  assumes "cache_ok c" "lru_lookup file (entries c) = None"
  shows "\<exists>c'. cacheLogger_Print F c file opened message =
      Inr (c', case opened of Inl err \<Rightarrow> (None, Some err) | Inr f \<Rightarrow> (Some f, cacheLogger_sync F f message)) \<and>
    (case opened of
       Inl err \<Rightarrow> refines c (entries c) [] c'
     | Inr f \<Rightarrow> refines c (lru_insert (val (max_opt (cache_opts c))) file f (entries c)) [f] c')"
proof -
  obtain c1 where c1: "cache_Get c file = Inr (c1, None)" "refines c (entries c) [] c1"
    using cache_Get_ok [OF assms(1), of "file"] assms(2) by (auto simp: lru_touch_def)
  then have ok: "cache_ok c1" "entries c1 = entries c" "cache_opts c1 = cache_opts c" by (simp_all add: refines_def)
  show ?thesis
  proof (cases opened)
    case (Inr f)
    obtain c2 where "cache_Put c1 file opened = Inr (c2, Inr f)"
      "refines c1 (lru_insert (val (max_opt (cache_opts c))) file f (entries c)) [f] c2"
      using cache_Put_ok [OF ok(1)] ok(2,3) Inr by metis
    with c1 refines_trans [OF c1(2)] Inr show ?thesis by (fastforce simp: cacheLogger_Print_def)
  qed (use c1 in \<open>simp add: cacheLogger_Print_def cache_Put_def\<close>)
qed

text \<open>
  (C30) Writing to a log: over a well-formed file cache \<open>Print\<close> never panics. It writes to the cached
  file of the path or to the file it has opened, that file is afterwards the most recently used
  entry, and when no file handle is in use twice it is not one that was closed. When the file
  cannot be opened the error is returned and the cached files are as before.
\<close>

theorem cacheLogger_Print_ok:
  assumes "cache_ok c"
  shows "\<exists>c' f err. cacheLogger_Print F c file opened message = Inr (c', f, err) \<and> cache_ok c' \<and>
    (case f of
       None \<Rightarrow> opened = Inl (the err) \<and> err \<noteq> None \<and> entries c' = entries c
     | Some f \<Rightarrow> err = cacheLogger_sync F f message \<and> (\<exists>es. entries c' = \<lparr>path = file, handle = f\<rparr> # es) \<and>
         (case lru_lookup file (entries c) of Some e \<Rightarrow> f = handle e | None \<Rightarrow> opened = Inr f) \<and>
         (distinct (map handle (entries c) @ closed c) \<and>
            (\<forall>g. opened = Inr g \<longrightarrow> g \<notin> set (map handle (entries c) @ closed c)) \<longrightarrow> f \<notin> set (closed c')))"
proof (cases "lru_lookup file (entries c)")
  case (Some e)
  then have e: "\<lparr>path = file, handle = handle e\<rparr> = e" by (auto simp: lru_lookup_def find_Some_iff)
  obtain c' where c': "cacheLogger_Print F c file opened message =
      Inr (c', Some (handle e), cacheLogger_sync F (handle e) message)"
    "refines c (e # lru_delete file (entries c)) [] c'" using Print_hit [OF assms Some] by blast
  from c'(2) have "cache_ok c'" "entries c' = e # lru_delete file (entries c)" by (simp_all add: refines_def)
  with c' Some e ledger_fresh [OF c'(2), of e] show ?thesis by simp
next
  case None
  show ?thesis
  proof (cases opened)
    case (Inl err)
    with Print_miss [OF assms None, of F opened message] show ?thesis by (auto simp: refines_def)
  next
    case (Inr f)
    obtain c' where c': "cacheLogger_Print F c file opened message = Inr (c', Some f, cacheLogger_sync F f message)"
      "refines c (lru_insert (val (max_opt (cache_opts c))) file f (entries c)) [f] c'"
      using Print_miss [OF assms None, of F opened message] Inr by auto
    from c'(2) have "cache_ok c'" "\<exists>es. entries c' = \<lparr>path = file, handle = f\<rparr> # es"
      by (simp_all add: refines_def lru_insert_def)
    with c' None Inr ledger_fresh [OF c'(2), of "\<lparr>path = file, handle = f\<rparr>"] show ?thesis
      by (simp add: lru_insert_def)
  qed
qed

definition empty_cache :: "nat cache" where
  "empty_cache = the (cache_init (cache_defaults zero_cache_options))"

definition quiet_files :: "nat file_env" where
  "quiet_files = \<lparr>file_Write = (\<lambda>f d. None), file_Sync = (\<lambda>f. None)\<rparr>"

theorem cacheLogger_Print_ok_witness:
  "\<exists>c'. cacheLogger_Print quiet_files empty_cache ''access.log'' (Inr 7) ''line'' = Inr (c', Some 7, None) \<and>
     cache_ok c' \<and> (7 :: nat) \<notin> set (closed c')"
proof -
  have c: "lru empty_cache = []" "hash empty_cache = Map.empty" "closed empty_cache = []"
    by (simp_all add: empty_cache_def cache_init_def cache_defaults_def zero_cache_options_def boolValue_store_def)
  then have ok: "cache_ok empty_cache" "entries empty_cache = []" by (simp_all add: cache_ok_def entries_def)
  then show ?thesis
    using cacheLogger_Print_ok [OF ok(1), of quiet_files "''access.log''" "Inr 7" "''line''"] c(3)
    by (auto simp: quiet_files_def cacheLogger_sync_def lru_lookup_def split: option.splits)
qed

section \<open>The loggers of the program\<close>

text \<open>The server puts its \<open>cacheLogger\<close> into the context, so a configured error log is a panic.\<close>

lemma errorLog_panics:
  "errorLogKey ctx = Some f \<Longrightarrow> ngxLoggerKey ctx = Some CacheLogger \<Longrightarrow> errorLog ctx level msg = Inl TypeAssertion"
  by (simp add: errorLog_def as_ngxLogger_def)

text \<open>Debug messages are logged as info, and info messages as debug.\<close>

lemma log_levels_swapped:
  assumes "errorLogKey ctx = Some f" "ngxLoggerKey ctx = Some PrintlnLogger"
  shows "logDebug ctx msg = Inr [(f, ''info'', msg)]" "logInfo ctx msg = Inr [(f, ''debug'', msg)]"
  using assms by (simp_all add: logDebug_def logInfo_def errorLog_def as_ngxLogger_def)

text \<open>No request context carries the path of an access log, and then the middleware does nothing.\<close>

lemma access_log_off: "accessLogPathKey (rq_ctx r) = None \<Longrightarrow> accessLogMiddlewareFunc Parse Execute t next s r = next s r"
  by (simp add: accessLogMiddlewareFunc_def)

text \<open>With a path and no logger, the request is not passed on at all.\<close>

lemma access_log_drops_request:
  assumes "accessLogPathKey (rq_ctx r) = Some dest" "dest \<noteq> []" "dest \<noteq> ''/dev/null''" "ngxLoggerKey (rq_ctx r) = None"
  shows "accessLogMiddlewareFunc Parse Execute t next s r = (s, None)"
  using assms by (simp add: accessLogMiddlewareFunc_def)

end
