(* ===== verification/Badger.thy ===== *)
theory Badger
  imports Prelude "HOL-Library.AList"
begin

text \<open>
  The key-value database Badger as the program uses it: transactions on one key, batches of writes
  and iterators over a prefix. The database is a parameter, the record \<open>badger\<close>; the predicate
  \<open>badger_laws\<close> states its documented behaviour in terms of its contents, and an association list is
  a database that satisfies it. The raft store and the key-value store of the OAuth2 server rest on
  this theory.
\<close>

section \<open>Operations\<close>

datatype db_error = ErrKeyNotFound | DbError string

text \<open>
  Transactions on one key, batches of writes, and iterators: \<open>keys_from db p rev k\<close> are the keys that
  an iterator with prefix \<open>p\<close> visits after \<open>Seek k\<close>. A \<open>None\<close> in a batch is a deletion.
\<close>

record 'db badger =
  txn_get :: "'db \<Rightarrow> string \<Rightarrow> db_error + string"
  txn_set :: "'db \<Rightarrow> string \<Rightarrow> string \<Rightarrow> db_error + 'db"
  txn_delete :: "'db \<Rightarrow> string \<Rightarrow> db_error + 'db"
  flush :: "'db \<Rightarrow> (string \<times> string option) list \<Rightarrow> db_error + 'db"
  keys_from :: "'db \<Rightarrow> string \<Rightarrow> bool \<Rightarrow> string \<Rightarrow> string list"

text \<open>Keys are built by joining a prefix and a name.\<close>

definition joinSlice :: "string \<Rightarrow> string \<Rightarrow> string" where
  "joinSlice a b = a @ b"

section \<open>Laws\<close>

text \<open>The documented behaviour of the database in terms of its contents, a finite map of keys.\<close>

definition apply_writes :: "(string \<times> string option) list \<Rightarrow> (string \<rightharpoonup> string) \<Rightarrow> string \<rightharpoonup> string" where
  "apply_writes ws m = fold (\<lambda>(k, v) m. m(k := v)) ws m"

definition badger_laws :: "'db badger \<Rightarrow> ('db \<Rightarrow> string \<rightharpoonup> string) \<Rightarrow> bool" where
  "badger_laws B content \<longleftrightarrow>
     (\<forall>d k. txn_get B d k = (case content d k of None \<Rightarrow> Inl ErrKeyNotFound | Some v \<Rightarrow> Inr v)) \<and>
     (\<forall>d k v d'. txn_set B d k v = Inr d' \<longrightarrow> content d' = (content d)(k \<mapsto> v)) \<and>
     (\<forall>d k d'. txn_delete B d k = Inr d' \<longrightarrow> content d' = (content d)(k := None)) \<and>
     (\<forall>d ws d'. flush B d ws = Inr d' \<longrightarrow> content d' = apply_writes ws (content d)) \<and>
     (\<forall>d p k. set (keys_from B d p False k) = {x \<in> dom (content d). hasPrefix x p \<and> k \<le> x} \<and>
        sorted (keys_from B d p False k)) \<and>
     (\<forall>d p k. set (keys_from B d p True k) = {x \<in> dom (content d). hasPrefix x p \<and> x \<le> k} \<and>
        sorted (rev (keys_from B d p True k)))"

text \<open>A database that satisfies them: an association list, for which every write succeeds.\<close>

definition list_badger :: "(string \<times> string) list badger" where
  "list_badger =
     \<lparr>txn_get = (\<lambda>d k. case map_of d k of None \<Rightarrow> Inl ErrKeyNotFound | Some v \<Rightarrow> Inr v),
      txn_set = (\<lambda>d k v. Inr (AList.update k v d)),
      txn_delete = (\<lambda>d k. Inr (AList.delete k d)),
      flush = (\<lambda>d ws. Inr (fold (\<lambda>(k, v) d. case v of None \<Rightarrow> AList.delete k d | Some v \<Rightarrow> AList.update k v d) ws d)),
      keys_from = (\<lambda>d p reverse k.
        if reverse then rev (sort (filter (\<lambda>x. hasPrefix x p \<and> x \<le> k) (map fst d)))
        else sort (filter (\<lambda>x. hasPrefix x p \<and> k \<le> x) (map fst d)))\<rparr>"

lemma list_badger_flush:
  "map_of (fold (\<lambda>(k, v) d. case v of None \<Rightarrow> AList.delete k d | Some v \<Rightarrow> AList.update k v d) ws d) =
     apply_writes ws (map_of d)"
proof (induction ws arbitrary: d)
  case (Cons w ws)
  obtain k v where w: "w = (k, v)" by (cases w)
  show ?case
    by (cases v) (simp_all add: w Cons apply_writes_def AList.delete_conv' AList.update_conv' fun_upd_def)
qed (simp add: apply_writes_def)

lemma list_badger_laws: "badger_laws list_badger map_of"
  by (auto simp: badger_laws_def list_badger_def list_badger_flush AList.update_conv' AList.delete_conv' fun_upd_def dom_map_of_conv_image_fst)

lemma badger_get:
  "badger_laws B content \<Longrightarrow>
     txn_get B d k = (case content d k of None \<Rightarrow> Inl ErrKeyNotFound | Some v \<Rightarrow> Inr v)"
  by (simp add: badger_laws_def)

lemma badger_set: "badger_laws B content \<Longrightarrow> txn_set B d k v = Inr d' \<Longrightarrow> content d' = (content d)(k \<mapsto> v)"
  by (simp add: badger_laws_def)

lemma badger_delete: "badger_laws B content \<Longrightarrow> txn_delete B d k = Inr d' \<Longrightarrow> content d' = (content d)(k := None)"
  by (simp add: badger_laws_def)

end
