(* ===== verification/Kv_Store.thy ===== *)
theory Kv_Store
  imports Badger
begin

text \<open>
  The interface \<open>kvStore\<close> of \<open>oauth2_server.go\<close> and its implementation \<open>kvStoreDB\<close> over Badger. A
  write that succeeds starts a goroutine that runs callbacks with the key; here it also returns the
  calls of that goroutine. The locale \<open>kv_store\<close> is the contract of the interface, a finite map, and
  \<open>kvStoreDB\<close> meets it over every database with the laws of Badger.
\<close>

section \<open>The interface\<close>

record 'kv kvStore =
  store_get :: "'kv \<Rightarrow> string \<Rightarrow> db_error + string"
  store_set :: "'kv \<Rightarrow> string \<Rightarrow> string \<Rightarrow> 'kv \<times> db_error option"
  store_remove :: "'kv \<Rightarrow> string \<Rightarrow> 'kv \<times> db_error option"

locale kv_store =
  fixes S :: "'kv kvStore" and content :: "'kv \<Rightarrow> string \<rightharpoonup> string"
  assumes get_content:
      "store_get S kv k = (case content kv k of None \<Rightarrow> Inl ErrKeyNotFound | Some v \<Rightarrow> Inr v)"
    and set_content:
      "store_set S kv k v = (kv', e) \<Longrightarrow> content kv' = (if e = None then (content kv)(k \<mapsto> v) else content kv)"
    and remove_content:
      "store_remove S kv k = (kv', e) \<Longrightarrow> content kv' = (if e = None then (content kv)(k := None) else content kv)"
begin

lemma get_set: "store_set S kv k v = (kv', None) \<Longrightarrow> store_get S kv' j = (if j = k then Inr v else store_get S kv j)"
  using set_content [of kv k v kv' None] by (simp add: get_content)

lemma get_remove:
  "store_remove S kv k = (kv', None) \<Longrightarrow>
     store_get S kv' j = (if j = k then Inl ErrKeyNotFound else store_get S kv j)"
  using remove_content [of kv k kv' None] by (simp add: get_content)

lemma set_failed: "store_set S kv k v = (kv', Some e) \<Longrightarrow> store_get S kv' j = store_get S kv j"
  using set_content [of kv k v kv' "Some e"] by (simp add: get_content)

lemma remove_failed: "store_remove S kv k = (kv', Some e) \<Longrightarrow> store_get S kv' j = store_get S kv j"
  using remove_content [of kv k kv' "Some e"] by (simp add: get_content)

text \<open>A set of keys that no write touches stays absent.\<close>

lemma set_absent:
  "store_set S kv k v = (kv', e) \<Longrightarrow> k \<notin> K \<Longrightarrow> dom (content kv) \<inter> K = {} \<Longrightarrow> dom (content kv') \<inter> K = {}"
  using set_content [of kv k v kv' e] by (auto split: if_splits)

lemma remove_absent:
  "store_remove S kv k = (kv', e) \<Longrightarrow> dom (content kv) \<inter> K = {} \<Longrightarrow> dom (content kv') \<inter> K = {}"
  using remove_content [of kv k kv' e] by (auto split: if_splits)

end

section \<open>The implementation\<close>

record ('db, 'cb) kvStoreDB =
  kv_db :: 'db
  setCallbacks :: "'cb list"
  removeCallbacks :: "'cb list"

definition kv_clone :: "('db, 'cb) kvStoreDB \<Rightarrow> ('db, 'cb) kvStoreDB" where
  "kv_clone kv = \<lparr>kv_db = kv_db kv, setCallbacks = [], removeCallbacks = []\<rparr>"

definition setCb :: "('db, 'cb) kvStoreDB \<Rightarrow> string \<Rightarrow> ('cb \<times> string) list" where
  "setCb kv key = map (\<lambda>v. (v, key)) (setCallbacks kv)"

definition removeCb :: "('db, 'cb) kvStoreDB \<Rightarrow> string \<Rightarrow> ('cb \<times> string) list" where
  "removeCb kv key = map (\<lambda>v. (v, key)) (removeCallbacks kv)"

definition kv_get :: "'db badger \<Rightarrow> ('db, 'cb) kvStoreDB \<Rightarrow> string \<Rightarrow> db_error + string" where
  "kv_get B kv key = txn_get B (kv_db kv) key"

definition kv_set ::
  "'db badger \<Rightarrow> ('db, 'cb) kvStoreDB \<Rightarrow> string \<Rightarrow> string \<Rightarrow>
     ('db, 'cb) kvStoreDB \<times> db_error option \<times> ('cb \<times> string) list" where
  "kv_set B kv key v =
     (case txn_set B (kv_db kv) key v of
        Inl err \<Rightarrow> (kv, Some err, [])
      | Inr d \<Rightarrow> (kv\<lparr>kv_db := d\<rparr>, None, if length (setCallbacks kv) > 0 then setCb kv key else []))"

definition kv_remove ::
  "'db badger \<Rightarrow> ('db, 'cb) kvStoreDB \<Rightarrow> string \<Rightarrow>
     ('db, 'cb) kvStoreDB \<times> db_error option \<times> ('cb \<times> string) list" where
  "kv_remove B kv key =
     (case txn_delete B (kv_db kv) key of
        Inl err \<Rightarrow> (kv, Some err, [])
      | Inr d \<Rightarrow> (kv\<lparr>kv_db := d\<rparr>, None, if length (setCallbacks kv) > 0 then removeCb kv key else []))"

definition onSet :: "('db, 'cb) kvStoreDB \<Rightarrow> 'cb \<Rightarrow> ('db, 'cb) kvStoreDB" where
  "onSet kv fn = kv\<lparr>setCallbacks := setCallbacks kv @ [fn]\<rparr>"

definition onRemove :: "('db, 'cb) kvStoreDB \<Rightarrow> 'cb \<Rightarrow> ('db, 'cb) kvStoreDB" where
  "onRemove kv fn = kv\<lparr>removeCallbacks := removeCallbacks kv @ [fn]\<rparr>"

definition kvStoreDB_ops :: "'db badger \<Rightarrow> ('db, 'cb) kvStoreDB kvStore" where
  "kvStoreDB_ops B =
     \<lparr>store_get = kv_get B,
      store_set = (\<lambda>kv k v. case kv_set B kv k v of (kv', e, cbs) \<Rightarrow> (kv', e)),
      store_remove = (\<lambda>kv k. case kv_remove B kv k of (kv', e, cbs) \<Rightarrow> (kv', e))\<rparr>"

lemma kvStoreDB_contract:
  assumes "badger_laws B content"
  shows "kv_store (kvStoreDB_ops B) (\<lambda>kv. content (kv_db kv))"
  using badger_get [OF assms] badger_set [OF assms] badger_delete [OF assms]
  by unfold_locales
     (auto simp: kvStoreDB_ops_def kv_get_def kv_set_def kv_remove_def split: sum.splits)

text \<open>The database of association lists, with callbacks of any type, gives an instance.\<close>

interpretation list_kv: kv_store "kvStoreDB_ops list_badger" "\<lambda>kv. map_of (kv_db kv)"
  by (rule kvStoreDB_contract [OF list_badger_laws])

section \<open>Callbacks\<close>

text \<open>
  The callbacks for removals run only when there is a callback for writes: \<open>remove\<close> tests the wrong
  list.
\<close>

lemma remove_callbacks_missed:
  assumes "setCallbacks kv = []" "kv_remove B kv k = (kv', None, cbs)"
  shows "cbs = [] \<and> removeCallbacks kv' = removeCallbacks kv"
  using assms by (auto simp: kv_remove_def split: sum.splits)

lemma set_callbacks_run:
  "kv_set B kv k v = (kv', None, cbs) \<Longrightarrow> cbs = map (\<lambda>f. (f, k)) (setCallbacks kv)"
  by (auto simp: kv_set_def setCb_def split: sum.splits if_splits)

end
