(* ===== verification/Access.thy ===== *)
theory Access
  imports Variables Kv_Store
begin

text \<open>
  Access control of \<open>access_control.go\<close>: the rules \<open>allow\<close> and \<open>deny\<close> with the client address they
  look at, and the adapter that keeps the policies of \<open>casbin\<close> in the key-value store. The policy
  type of \<open>casbin\<close> and its JSON form are parameters.
\<close>

section \<open>allow and deny\<close>

datatype access_match = MatchNone | MatchAll | MatchUnix | MatchIP string

record nginxAccess =
  access_allow :: bool
  access_addr :: string
  access_match :: access_match

definition nginxAccess_init :: "net_env \<Rightarrow> string \<Rightarrow> bool \<Rightarrow> nginxAccess" where
  "nginxAccess_init N addr allow =
     \<lparr>access_allow = allow, access_addr = addr,
      access_match =
        (if addr = ''all'' then MatchAll
         else if addr = ''unix:'' then MatchUnix
         else (case ParseIP N addr of Some ip \<Rightarrow> MatchIP ip | None \<Rightarrow> MatchNone))\<rparr>"

definition realIPString :: "http_request \<Rightarrow> string go" where
  "realIPString r =
     (let ip = header_Get (rq_header r) ''X-Forwarded-For''
      in if ip \<noteq> [] then go_index (split ip '', '') 0
         else let ip = header_Get (rq_header r) ''X-Real-IP''
              in if ip \<noteq> [] then Inr ip
                 else Inr (case SplitHostPort (rq_remote r) of Inl err \<Rightarrow> [] | Inr (h, port) \<Rightarrow> h))"

definition realIP :: "net_env \<Rightarrow> http_request \<Rightarrow> string option go" where
  "realIP N r = gbind (realIPString r) (\<lambda>s. Inr (ParseIP N s))"

text \<open>Two addresses are equal when they print the same.\<close>

definition matchIP :: "net_env \<Rightarrow> string \<Rightarrow> http_request \<Rightarrow> bool go" where
  "matchIP N ip r = gbind (realIP N r) (\<lambda>ap. Inr (case ap of Some ap \<Rightarrow> ip = ap | None \<Rightarrow> False))"

fun access_matches :: "net_env \<Rightarrow> access_match \<Rightarrow> http_request \<Rightarrow> bool go" where
  "access_matches N MatchNone r = Inr False"
| "access_matches N MatchAll r = Inr True"
| "access_matches N MatchUnix r =
     (case localAddr (rq_ctx r) of None \<Rightarrow> Inl TypeAssertion | Some a \<Rightarrow> Inr (a = UnixAddr))"
| "access_matches N (MatchIP ip) r = matchIP N ip r"

definition access_check :: "net_env \<Rightarrow> nginxAccess \<Rightarrow> http_request \<Rightarrow> bool go" where
  "access_check N a r =
     gbind (access_matches N (access_match a) r) (\<lambda>m. Inr (if access_allow a then m else \<not> m))"

definition passthrough :: "request_ctx \<Rightarrow> bool" where
  "passthrough ctx = (case accessAllowed ctx of Some v \<Rightarrow> v | None \<Rightarrow> False)"

section \<open>Policies\<close>

definition accessControlModelPrefix :: string where
  "accessControlModelPrefix = ''/access/model''"

record 'kv accessControlAdapter =
  adapter_store :: 'kv
  adapter_file :: string

text \<open>The JSON codec of a policy model; decoding adds to the model it is given.\<close>

record 'm model_codec =
  model_marshal :: "'m \<Rightarrow> string + string"
  model_unmarshal :: "string \<Rightarrow> 'm \<Rightarrow> string + 'm"
  model_empty :: 'm

datatype policy_error = StoreError db_error | CodecError string

definition model_key :: "'kv accessControlAdapter \<Rightarrow> string" where
  "model_key a = joinSlice accessControlModelPrefix (adapter_file a)"

definition LoadPolicy ::
  "'kv kvStore \<Rightarrow> 'm model_codec \<Rightarrow> 'kv accessControlAdapter \<Rightarrow> 'm \<Rightarrow> policy_error + 'm" where
  "LoadPolicy S C a m =
     (case store_get S (adapter_store a) (model_key a) of
        Inl err \<Rightarrow> Inl (StoreError err)
      | Inr b \<Rightarrow> (case model_unmarshal C b m of Inl err \<Rightarrow> Inl (CodecError err) | Inr m \<Rightarrow> Inr m))"

definition SavePolicy ::
  "'kv kvStore \<Rightarrow> 'm model_codec \<Rightarrow> 'kv accessControlAdapter \<Rightarrow> 'm \<Rightarrow>
     'kv accessControlAdapter \<times> policy_error option" where
  "SavePolicy S C a m =
     (case model_marshal C m of
        Inl err \<Rightarrow> (a, Some (CodecError err))
      | Inr b \<Rightarrow>
          (case store_set S (adapter_store a) (model_key a) b of
             (kv, err) \<Rightarrow> (a\<lparr>adapter_store := kv\<rparr>, map_option StoreError err)))"

text \<open>
  \<open>AddPolicy\<close>, \<open>RemovePolicy\<close> and \<open>RemoveFilteredPolicy\<close> differ in the change they make to the model
  that they have loaded; \<open>change\<close> is the method of \<open>casbin\<close>.
\<close>

definition update_policy ::
  "'kv kvStore \<Rightarrow> 'm model_codec \<Rightarrow> ('m \<Rightarrow> 'm) \<Rightarrow> 'kv accessControlAdapter \<Rightarrow>
     'kv accessControlAdapter \<times> policy_error option" where
  "update_policy S C change a =
     (case LoadPolicy S C a (model_empty C) of
        Inl err \<Rightarrow> (a, Some err)
      | Inr m \<Rightarrow> SavePolicy S C a (change m))"

record 'm casbin =
  casbin_add :: "string \<Rightarrow> string \<Rightarrow> string list \<Rightarrow> 'm \<Rightarrow> 'm"
  casbin_remove :: "string \<Rightarrow> string \<Rightarrow> string list \<Rightarrow> 'm \<Rightarrow> 'm"
  casbin_remove_filtered :: "string \<Rightarrow> string \<Rightarrow> int \<Rightarrow> string list \<Rightarrow> 'm \<Rightarrow> 'm"

definition AddPolicy ::
  "'kv kvStore \<Rightarrow> 'm model_codec \<Rightarrow> 'm casbin \<Rightarrow> 'kv accessControlAdapter \<Rightarrow> string \<Rightarrow> string \<Rightarrow> string list \<Rightarrow>
     'kv accessControlAdapter \<times> policy_error option" where
  "AddPolicy S C K a sec ptype rule = update_policy S C (casbin_add K sec ptype rule) a"

definition RemovePolicy ::
  "'kv kvStore \<Rightarrow> 'm model_codec \<Rightarrow> 'm casbin \<Rightarrow> 'kv accessControlAdapter \<Rightarrow> string \<Rightarrow> string \<Rightarrow> string list \<Rightarrow>
     'kv accessControlAdapter \<times> policy_error option" where
  "RemovePolicy S C K a sec ptype rule = update_policy S C (casbin_remove K sec ptype rule) a"

definition RemoveFilteredPolicy ::
  "'kv kvStore \<Rightarrow> 'm model_codec \<Rightarrow> 'm casbin \<Rightarrow> 'kv accessControlAdapter \<Rightarrow> string \<Rightarrow> string \<Rightarrow> int \<Rightarrow> string list \<Rightarrow>
     'kv accessControlAdapter \<times> policy_error option" where
  "RemoveFilteredPolicy S C K a sec ptype i vals = update_policy S C (casbin_remove_filtered K sec ptype i vals) a"

text \<open>The callback on writes and removals: whether it loads the policy again.\<close>

definition access_reload :: "string \<Rightarrow> bool" where
  "access_reload key \<longleftrightarrow> hasPrefix key accessControlModelPrefix"

section \<open>Results\<close>

text \<open>
  The client address is what the client says: a request with a header \<open>X-Forwarded-For\<close> whose
  first entry is the address of an \<open>allow\<close> rule passes it, and one with another address passes a
  \<open>deny\<close> rule, whatever address the connection comes from.
\<close>

theorem forwarded_header_decides:
  assumes "header_Get (rq_header r) ''X-Forwarded-For'' = claimed" "claimed \<noteq> []"
    and "ParseIP N addr = Some ip" "addr \<noteq> ''all''" "addr \<noteq> ''unix:''"
  shows "access_check N (nginxAccess_init N addr True) r = Inr (ParseIP N (hd (split claimed '', '')) = Some ip) \<and>
    access_check N (nginxAccess_init N addr False) r = Inr (ParseIP N (hd (split claimed '', '')) \<noteq> Some ip)"
proof -
  obtain c cs where "split claimed '', '' = c # cs" using split_nonempty by (cases "split claimed '', ''") auto
  then have "realIP N r = Inr (ParseIP N (hd (split claimed '', '')))"
    using assms(1,2) by (simp add: realIP_def realIPString_def)
  with assms(3-5) show ?thesis
    by (auto simp: access_check_def nginxAccess_init_def matchIP_def split: option.splits)
qed

theorem forwarded_header_decides_witness:
  "let N = \<lparr>ParseIP = (\<lambda>s. if s = ''10.0.0.1'' then Some s else None), URLParse = (\<lambda>s. None)\<rparr>;
       r = sample_request\<lparr>rq_header := [(''X-Forwarded-For'', [''10.0.0.1''])], rq_remote := ''192.0.2.7:4000''\<rparr>
   in access_check N (nginxAccess_init N ''10.0.0.1'' True) r = Inr True"
proof -
  let ?N = "\<lparr>ParseIP = (\<lambda>s. if s = ''10.0.0.1'' then Some s else None), URLParse = (\<lambda>s. None)\<rparr>"
  let ?r = "sample_request\<lparr>rq_header := [(''X-Forwarded-For'', [''10.0.0.1''])], rq_remote := ''192.0.2.7:4000''\<rparr>"
  have h: "header_Get (rq_header ?r) ''X-Forwarded-For'' = ''10.0.0.1''" by code_simp
  have s: "hd (split ''10.0.0.1'' '', '') = ''10.0.0.1''" by code_simp
  show ?thesis
    using forwarded_header_decides [OF h, of ?N "''10.0.0.1''" "''10.0.0.1''"] unfolding s Let_def by simp
qed

text \<open>Policies over a store that meets the contract.\<close>

context kv_store
begin

lemma policy_missing:
  assumes "content (adapter_store a) (model_key a) = None"
  shows "update_policy S C change a = (a, Some (StoreError ErrKeyNotFound))"
  using assms by (simp add: update_policy_def LoadPolicy_def get_content)

lemma policy_saved:
  assumes "SavePolicy S C a m = (a', None)"
    and "\<And>b. model_marshal C m = Inr b \<Longrightarrow> model_unmarshal C b (model_empty C) = Inr m"
  shows "LoadPolicy S C a' (model_empty C) = Inr m"
  using assms(1)
  by (auto simp: SavePolicy_def LoadPolicy_def model_key_def assms(2) get_set split: sum.splits prod.splits)

lemma policy_updated:
  assumes "update_policy S C change a = (a', None)"
    and "\<And>m b. model_marshal C m = Inr b \<Longrightarrow> model_unmarshal C b (model_empty C) = Inr m"
  shows "\<exists>m. LoadPolicy S C a (model_empty C) = Inr m \<and> LoadPolicy S C a' (model_empty C) = Inr (change m)"
proof (cases "LoadPolicy S C a (model_empty C)")
  case (Inr m)
  with assms(1) have "SavePolicy S C a (change m) = (a', None)" by (simp add: update_policy_def)
  from policy_saved [OF this assms(2)] Inr show ?thesis by blast
qed (use assms(1) in \<open>simp add: update_policy_def\<close>)

end

text \<open>
  Policies over Badger: adding a policy to a file that has no stored model fails with the
  store's not-found error and writes nothing, so the first policy cannot be added this way; when an
  update succeeds, loading the policies gives the old model with exactly that change.
\<close>

theorem policy_updates:
  assumes "badger_laws B content"
    and "\<And>m b. model_marshal C m = Inr b \<Longrightarrow> model_unmarshal C b (model_empty C) = Inr m"
  shows "(content (kv_db (adapter_store a)) (model_key a) = None \<longrightarrow>
      AddPolicy (kvStoreDB_ops B) C K a sec ptype rule = (a, Some (StoreError ErrKeyNotFound))) \<and>
    (AddPolicy (kvStoreDB_ops B) C K a sec ptype rule = (a', None) \<longrightarrow>
      (\<exists>m. LoadPolicy (kvStoreDB_ops B) C a (model_empty C) = Inr m \<and>
        LoadPolicy (kvStoreDB_ops B) C a' (model_empty C) = Inr (casbin_add K sec ptype rule m)))"
  unfolding AddPolicy_def
  using kv_store.policy_missing [OF kvStoreDB_contract [OF assms(1)], of a C]
    kv_store.policy_updated [OF kvStoreDB_contract [OF assms(1)] _ assms(2)] by blast

definition text_codec :: "string model_codec" where
  "text_codec = \<lparr>model_marshal = Inr, model_unmarshal = (\<lambda>b m. Inr b), model_empty = []\<rparr>"

definition text_casbin :: "string casbin" where
  "text_casbin = \<lparr>casbin_add = (\<lambda>sec ptype rule m. m @ ptype), casbin_remove = (\<lambda>sec ptype rule m. m),
     casbin_remove_filtered = (\<lambda>sec ptype i vals m. m)\<rparr>"

definition text_adapter :: "(string \<times> string) list \<Rightarrow> ((string \<times> string) list, unit) kvStoreDB accessControlAdapter" where
  "text_adapter db = \<lparr>adapter_store = \<lparr>kv_db = db, setCallbacks = [], removeCallbacks = []\<rparr>, adapter_file = []\<rparr>"

theorem policy_updates_witness:
  "AddPolicy (kvStoreDB_ops list_badger) text_codec text_casbin (text_adapter []) ''p'' ''p'' [] =
     (text_adapter [], Some (StoreError ErrKeyNotFound)) \<and>
   LoadPolicy (kvStoreDB_ops list_badger) text_codec (text_adapter [(''/access/model'', ''gp'')]) [] = Inr ''gp''"
proof -
  have codec: "model_unmarshal text_codec b (model_empty text_codec) = Inr m" if "model_marshal text_codec m = Inr b"
    for m b using that by (simp add: text_codec_def)
  note upd = policy_updates [OF list_badger_laws codec, of _ text_casbin "''p''" "''p''" "[]"]
  have "AddPolicy (kvStoreDB_ops list_badger) text_codec text_casbin (text_adapter []) ''p'' ''p'' [] =
      (text_adapter [], Some (StoreError ErrKeyNotFound))"
    using upd [of "text_adapter []"] by (simp add: text_adapter_def)
  moreover have "AddPolicy (kvStoreDB_ops list_badger) text_codec text_casbin
      (text_adapter [(''/access/model'', ''g'')]) ''p'' ''p'' [] = (text_adapter [(''/access/model'', ''gp'')], None)"
    by code_simp
  moreover have "LoadPolicy (kvStoreDB_ops list_badger) text_codec (text_adapter [(''/access/model'', ''g'')])
      (model_empty text_codec) = Inr ''g''" by code_simp
  ultimately show ?thesis
    using upd [of "text_adapter [(''/access/model'', ''g'')]" "text_adapter [(''/access/model'', ''gp'')]"]
    by (simp add: text_codec_def text_casbin_def)
qed

end
