(* ===== verification/Pipeline.thy ===== *)
theory Pipeline
  imports Logging Access
begin

text \<open>
  The request pipeline of \<open>ngx_startup.go\<close>: the handler of a listening address finds the server and
  the location of a request, collects the rules in force there and runs the chain of handlers they
  give. It composes the variables, the router, the rule tree, the access rules, the access log and
  the proxy. Building a handler may panic, and climbing the rule tree need not end in an arbitrary
  store, so the handler of a listener returns an option.
\<close>

section \<open>Handlers\<close>

record 'tpl http_env =
  env_net :: net_env
  env_url :: url_env
  env_regexp :: regexp_env
  env_quick :: "(location_match list \<Rightarrow> nat \<Rightarrow> nat \<Rightarrow> bool go) \<Rightarrow> location_match list \<Rightarrow> location_match list go"
  env_Parse :: "string \<Rightarrow> string + 'tpl"
  env_Execute :: "'tpl \<Rightarrow> variables \<Rightarrow> string + string"
  env_hostname :: string
  env_elapsed :: int

definition http_Error :: "nat \<Rightarrow> 'tpl hstate \<Rightarrow> 'tpl hstate \<times> panic option" where
  "http_Error code s = (s\<lparr>hs_out := hs_out s @ [Status code]\<rparr>, None)"

definition notFoundHandler :: "'tpl handler" where
  "notFoundHandler s r = http_Error 404 s"

definition nextHandler :: "'tpl handler \<Rightarrow> 'tpl handler" where
  "nextHandler next = next"

definition wrap_handler :: "'tpl handler \<Rightarrow> bool \<Rightarrow> 'tpl handler \<Rightarrow> 'tpl handler" where
  "wrap_handler h halt next s r =
     (case h s r of
        (s, Some p) \<Rightarrow> (s, Some p)
      | (s, None) \<Rightarrow> if halt then (s, None) else next s r)"

definition access_handle :: "net_env \<Rightarrow> nginxAccess \<Rightarrow> 'tpl handler \<Rightarrow> 'tpl handler" where
  "access_handle N a next s r =
     (if \<not> passthrough (rq_ctx r) then
        (case access_check N a r of
           Inl p \<Rightarrow> (s, Some p)
         | Inr ok \<Rightarrow>
             if \<not> ok then http_Error 403 s
             else next s (r\<lparr>rq_ctx := (rq_ctx r)\<lparr>accessAllowed := Some True\<rparr>\<rparr>))
      else next s r)"

text \<open>
  The proxy as a handler: the director reads the variables of the listener, and in them the match
  that the router stored.
\<close>

definition matched :: "variables \<Rightarrow> location_match option go" where
  "matched v =
     (case v vRequestMatchKind of
        None \<Rightarrow> Inr None
      | Some (VMatch m) \<Rightarrow> Inr (Some m)
      | Some _ \<Rightarrow> Inl TypeAssertion)"

definition proxy_request_of :: "variables option \<Rightarrow> http_request \<Rightarrow> variables proxy_request go" where
  "proxy_request_of v r =
     gbind (case v of None \<Rightarrow> Inr None | Some v \<Rightarrow> matched v) (\<lambda>m.
       Inr \<lparr>pr_url = Some (rq_url r), pr_method = rq_method r, pr_body = rq_body r, pr_vars = v, pr_match = m\<rparr>)"

definition proxy_handler :: "'tpl http_env \<Rightarrow> rule list \<Rightarrow> 'tpl proxyOption \<Rightarrow> 'tpl handler" where
  "proxy_handler E st p s r =
     (case gbind (proxy_request_of (hs_vars s) r) (proxy_ServeHTTP (env_Execute E) (env_url E) st p) of
        Inl e \<Rightarrow> (s, Some e)
      | Inr out \<Rightarrow> (s\<lparr>hs_out := hs_out s @ [out]\<rparr>, None))"

section \<open>The chain of a location\<close>

text \<open>\<open>handle\<close> gives the middleware of a rule; the access rules need an argument.\<close>

definition handle_rule :: "'tpl http_env \<Rightarrow> rule list \<Rightarrow> nat \<Rightarrow> ('tpl handler \<Rightarrow> 'tpl handler) go option" where
  "handle_rule E st r =
     (if rule_name (deref st r) = ''proxy_pass'' then
        (case parent (deref st r) of
           None \<Rightarrow> Some (Inl NilPointer)
         | Some q \<Rightarrow> go_then (proxy_init (env_Parse E) st q) (\<lambda>p. Some (Inr (wrap_handler (proxy_handler E st p) True))))
      else if rule_name (deref st r) = ''allow'' then
        Some (gbind (go_index (rule_args (deref st r)) 0) (\<lambda>a.
          Inr (access_handle (env_net E) (nginxAccess_init (env_net E) a True))))
      else if rule_name (deref st r) = ''deny'' then
        Some (gbind (go_index (rule_args (deref st r)) 0) (\<lambda>a.
          Inr (access_handle (env_net E) (nginxAccess_init (env_net E) a False))))
      else Some (Inr nextHandler))"

fun handle_rules :: "'tpl http_env \<Rightarrow> rule list \<Rightarrow> nat list \<Rightarrow> ('tpl handler \<Rightarrow> 'tpl handler) list go option" where
  "handle_rules E st [] = Some (Inr [])"
| "handle_rules E st (r # rs) =
     go_then (handle_rule E st r) (\<lambda>m. go_then (handle_rules E st rs) (\<lambda>ms. Some (Inr (m # ms))))"

definition chain :: "'tpl http_env \<Rightarrow> rule list \<Rightarrow> nat list \<Rightarrow> ('tpl handler \<Rightarrow> 'tpl handler) list go option" where
  "chain E st rs =
     go_then (handle_rules E st rs) (\<lambda>ms.
       Some (Inr (accessLogMiddlewareFunc (env_Parse E) (env_Execute E) (env_elapsed E) # ms)))"

definition alice_then :: "('tpl handler \<Rightarrow> 'tpl handler) list \<Rightarrow> 'tpl handler option \<Rightarrow> 'tpl handler" where
  "alice_then a h = foldr (\<lambda>f h. f h) a (case h of None \<Rightarrow> notFoundHandler | Some h \<Rightarrow> h)"

section \<open>The handler of a listener\<close>

text \<open>
  What \<open>vinceHandler\<close> keeps: its servers, the names it matches and the locations it has loaded, a
  \<open>sync.Map\<close>. The maps of names are visited in the orders \<open>vh_wild\<close> and \<open>vh_regexps\<close>.
\<close>

record vince_handler =
  vh_servers :: "nat list"
  vh_match :: handlerMatch
  vh_wild :: "string list"
  vh_regexps :: "(string \<times> nat) list"
  vh_location :: "nat \<rightharpoonup> location_match list"

definition choose_server :: "'tpl http_env \<Rightarrow> vince_handler \<Rightarrow> string \<Rightarrow> nat go" where
  "choose_server E h host =
     gbind (if length (vh_servers h) = 1 then gbind (go_index (vh_servers h) 0) (\<lambda>s. Inr (Some s))
            else handlerMatch_find (env_regexp E) (vh_wild h) (vh_regexps h) (vh_match h) host) (\<lambda>srv.
       case srv of Some s \<Rightarrow> Inr s | None \<Rightarrow> go_index (vh_servers h) 0)"

definition load_location ::
  "'tpl http_env \<Rightarrow> rule list \<Rightarrow> vince_handler \<Rightarrow> nat \<Rightarrow> (location_match list \<times> vince_handler) go" where
  "load_location E st h srv =
     (case vh_location h srv of
        Some loc \<Rightarrow> Inr (loc, h)
      | None \<Rightarrow>
          gbind (locationMatch_load (env_regexp E) st srv) (\<lambda>loc.
            Inr (loc, h\<lparr>vh_location := (vh_location h)(srv \<mapsto> loc)\<rparr>)))"

text \<open>
  The rules of the location that was found make the chain. The middleware of the access log is new
  for each request, so its table of templates is empty.
\<close>

definition store_match :: "location_match \<Rightarrow> 'tpl hstate \<Rightarrow> 'tpl hstate" where
  "store_match l s =
     s\<lparr>hs_vars := map_option (\<lambda>v. v(vRequestMatchKind \<mapsto> VMatch l)) (hs_vars s), hs_tpls := Map.empty\<rparr>"

definition serve_location ::
  "'tpl http_env \<Rightarrow> rule list \<Rightarrow> location_match \<Rightarrow> 'tpl hstate \<Rightarrow> http_request \<Rightarrow> ('tpl hstate \<times> panic option) option" where
  "serve_location E st l s r =
     Option.bind (collect st (match_rule l) None) (\<lambda>c.
       let s = store_match l s
       in Option.bind (chain E st (overide c)) (\<lambda>a.
            Some (case a of Inl p \<Rightarrow> (s, Some p) | Inr a \<Rightarrow> alice_then a None s r)))"

definition serve_server ::
  "'tpl http_env \<Rightarrow> rule list \<Rightarrow> location_match list \<Rightarrow> 'tpl hstate \<Rightarrow> http_request \<Rightarrow>
     ('tpl hstate \<times> panic option) option" where
  "serve_server E st loc s r =
     (case locationMatch_match (env_quick E) (env_regexp E) st loc (u_path (rq_url r)) of
        Inl p \<Rightarrow> Some (s, Some p)
      | Inr None \<Rightarrow> Some (http_Error 404 s)
      | Inr (Some l) \<Rightarrow> serve_location E st l s r)"

definition vinceHandler ::
  "'tpl http_env \<Rightarrow> rule list \<Rightarrow> vince_handler \<Rightarrow> 'tpl hstate \<Rightarrow> http_request \<Rightarrow>
     (vince_handler \<times> 'tpl hstate \<times> panic option) option" where
  "vinceHandler E st h s r =
     (case hs_vars s of
        None \<Rightarrow> Some (h, s, Some TypeAssertion)
      | Some v \<Rightarrow>
          let s = s\<lparr>hs_vars := Some (setRequestVariables (env_hostname E) v r)\<rparr>
          in (case gbind (choose_server E h (rq_host r)) (load_location E st h) of
                Inl p \<Rightarrow> Some (h, s, Some p)
              | Inr (loc, h) \<Rightarrow> map_option (\<lambda>sp. (h, sp)) (serve_server E st loc s r)))"

text \<open>Making the handler of a list of servers; the default server comes from the listener's context.\<close>

definition make_handler ::
  "'tpl http_env \<Rightarrow> rule list \<Rightarrow> string list \<Rightarrow> (string \<times> nat) list \<Rightarrow> nat list \<Rightarrow> nat option \<Rightarrow> vince_handler go" where
  "make_handler E st ws res servers dflt =
     gbind (handlerMatch_init (env_regexp E) st servers dflt) (\<lambda>hm.
       Inr \<lparr>vh_servers = servers, vh_match = hm, vh_wild = ws, vh_regexps = res, vh_location = Map.empty\<rparr>)"

section \<open>The cache of locations\<close>

definition cache_sound :: "'tpl http_env \<Rightarrow> rule list \<Rightarrow> vince_handler \<Rightarrow> bool" where
  "cache_sound E st h \<longleftrightarrow>
     (\<forall>srv loc. vh_location h srv = Some loc \<longrightarrow> locationMatch_load (env_regexp E) st srv = Inr loc)"

lemma load_location_sound:
  assumes "cache_sound E st h" "load_location E st h srv = Inr (loc, h')"
  shows "locationMatch_load (env_regexp E) st srv = Inr loc \<and> cache_sound E st h' \<and>
    (\<exists>c. h' = h\<lparr>vh_location := c\<rparr>)"
proof (cases "vh_location h srv")
  case None
  with assms(2) have "locationMatch_load (env_regexp E) st srv = Inr loc"
    "h' = h\<lparr>vh_location := (vh_location h)(srv \<mapsto> loc)\<rparr>" by (auto simp: load_location_def gbind_eq_Inr)
  with assms(1) show ?thesis by (auto simp: cache_sound_def)
next
  case (Some l)
  with assms have "h' = h" "locationMatch_load (env_regexp E) st srv = Inr loc"
    by (simp_all add: load_location_def cache_sound_def)
  with assms(1) show ?thesis by (metis vince_handler.surjective vince_handler.update_convs(5))
qed

lemma load_location_fresh:
  assumes "cache_sound E st h"
  shows "gbind (load_location E st h srv) (\<lambda>x. Inr (fst x)) = locationMatch_load (env_regexp E) st srv"
proof (cases "vh_location h srv")
  case None
  then show ?thesis by (cases "locationMatch_load (env_regexp E) st srv") (simp_all add: load_location_def)
qed (use assms in \<open>simp add: load_location_def cache_sound_def\<close>)

text \<open>The answer to a request without the cache.\<close>

definition serve_uncached ::
  "'tpl http_env \<Rightarrow> rule list \<Rightarrow> vince_handler \<Rightarrow> 'tpl hstate \<Rightarrow> http_request \<Rightarrow> ('tpl hstate \<times> panic option) option" where
  "serve_uncached E st h s r =
     (case hs_vars s of
        None \<Rightarrow> Some (s, Some TypeAssertion)
      | Some v \<Rightarrow>
          let s = s\<lparr>hs_vars := Some (setRequestVariables (env_hostname E) v r)\<rparr>
          in (case gbind (choose_server E h (rq_host r)) (locationMatch_load (env_regexp E) st) of
                Inl p \<Rightarrow> Some (s, Some p)
              | Inr loc \<Rightarrow> serve_server E st loc s r))"

lemma vinceHandler_uncached:
  assumes "cache_sound E st h"
  shows "map_option snd (vinceHandler E st h s r) = serve_uncached E st h s r"
proof (cases "hs_vars s")
  case (Some v)
  show ?thesis
  proof (cases "choose_server E h (rq_host r)")
    case (Inr srv)
    with Some show ?thesis
      unfolding vinceHandler_def serve_uncached_def Let_def Some Inr gbind_simps
        load_location_fresh [OF assms, of srv, symmetric]
      by (cases "load_location E st h srv") (auto simp: option.map_comp comp_def option.map_ident)
  qed (simp add: vinceHandler_def serve_uncached_def Some Let_def)
qed (simp add: vinceHandler_def serve_uncached_def)

lemma vinceHandler_sound:
  assumes "cache_sound E st h" "vinceHandler E st h s r = Some (h', s', p)"
  shows "cache_sound E st h' \<and> (\<exists>c. h' = h\<lparr>vh_location := c\<rparr>)"
proof (cases "gbind (choose_server E h (rq_host r)) (load_location E st h)")
  case (Inl q)
  have "h' = h" using assms(2) Inl by (auto simp: vinceHandler_def Let_def split: option.splits)
  with assms(1) show ?thesis by (metis vince_handler.surjective vince_handler.update_convs(5))
next
  case (Inr lh)
  then obtain srv where srv: "load_location E st h srv = Inr (fst lh, snd lh)" by (auto simp: gbind_eq_Inr)
  have "h' = h \<or> h' = snd lh" using assms(2) Inr by (cases lh) (auto simp: vinceHandler_def Let_def split: option.splits)
  with load_location_sound [OF assms(1) srv] assms(1) show ?thesis
    by (metis vince_handler.surjective vince_handler.update_convs(5))
qed

text \<open>Serving a sequence of requests, each on the state that the one before has left.\<close>

fun serve_all ::
  "'tpl http_env \<Rightarrow> rule list \<Rightarrow> vince_handler \<Rightarrow> 'tpl hstate \<Rightarrow> http_request list \<Rightarrow> ('tpl hstate \<times> panic option list) option" where
  "serve_all E st h s [] = Some (s, [])"
| "serve_all E st h s (r # rs) =
     Option.bind (vinceHandler E st h s r) (\<lambda>(h, s, p).
       Option.bind (serve_all E st h s rs) (\<lambda>(s, ps). Some (s, p # ps)))"

fun serve_all_uncached ::
  "'tpl http_env \<Rightarrow> rule list \<Rightarrow> vince_handler \<Rightarrow> 'tpl hstate \<Rightarrow> http_request list \<Rightarrow> ('tpl hstate \<times> panic option list) option" where
  "serve_all_uncached E st h s [] = Some (s, [])"
| "serve_all_uncached E st h s (r # rs) =
     Option.bind (serve_uncached E st h s r) (\<lambda>(s, p).
       Option.bind (serve_all_uncached E st h s rs) (\<lambda>(s, ps). Some (s, p # ps)))"

lemma choose_server_cache: "choose_server E (h\<lparr>vh_location := c\<rparr>) = choose_server E h"
proof (cases h)
  case (fields servers hm ws res c')
  show ?thesis unfolding fields vince_handler.update_convs
    by (rule ext) (simp only: choose_server_def vince_handler.select_convs)
qed

lemma serve_uncached_cache: "serve_uncached E st (h\<lparr>vh_location := c\<rparr>) s r = serve_uncached E st h s r"
  by (simp only: serve_uncached_def choose_server_cache)

lemma serve_all_uncached_cache:
  "serve_all_uncached E st (h\<lparr>vh_location := c\<rparr>) s rs = serve_all_uncached E st h s rs"
  by (induction rs arbitrary: s) (simp_all add: serve_uncached_cache)

lemma serve_all_eq: "cache_sound E st h \<Longrightarrow> serve_all E st h s rs = serve_all_uncached E st h s rs"
proof (induction rs arbitrary: h s)
  case (Cons r rs)
  note unc = vinceHandler_uncached [OF Cons.prems, of s r, symmetric]
  show ?case
  proof (cases "vinceHandler E st h s r")
    case (Some x)
    obtain h' s' p where x: "x = (h', s', p)" by (cases x)
    with vinceHandler_sound [OF Cons.prems, of s r] Some obtain c where
      h': "cache_sound E st h'" "h' = h\<lparr>vh_location := c\<rparr>" by blast
    from Cons.IH [OF h'(1)] have "serve_all E st h' s' rs = serve_all_uncached E st h s' rs"
      by (simp add: h'(2) serve_all_uncached_cache)
    with Some x unc show ?thesis by simp
  qed (simp add: unc)
qed simp

text \<open>
  (C14) The location cache is transparent: a handler that starts with an empty cache answers every
  sequence of requests exactly as one that loads the locations of the server anew for each request.
\<close>

theorem location_cache_transparent:
  assumes "make_handler E st ws res servers dflt = Inr h"
  shows "serve_all E st h s rs = serve_all_uncached E st h s rs"
proof -
  from assms have "cache_sound E st h" by (auto simp: make_handler_def cache_sound_def gbind_eq_Inr)
  then show ?thesis by (rule serve_all_eq)
qed

section \<open>Every request is answered once\<close>

text \<open>
  A property of handlers that the last handler has and every middleware keeps holds for the whole
  chain of a location.
\<close>

locale handler_property =
  fixes E :: "'tpl http_env" and st :: "rule list" and P :: "'tpl handler \<Rightarrow> bool"
  assumes not_found: "P notFoundHandler"
    and proxy: "P (wrap_handler (proxy_handler E st p) True next)"
    and access: "P next \<Longrightarrow> P (access_handle (env_net E) a next)"
    and logged: "P next \<Longrightarrow> P (accessLogMiddlewareFunc (env_Parse E) (env_Execute E) (env_elapsed E) next)"
begin

lemma handle_rule_keeps:
  assumes "handle_rule E st r = Some (Inr m)" "P next"
  shows "P (m next)"
  using assms proxy access
  by (auto simp: handle_rule_def nextHandler_def gbind_eq_Inr go_then_def split: if_splits option.splits sum.splits bind_splits)

lemma handle_rules_keep: "handle_rules E st rs = Some (Inr ms) \<Longrightarrow> P (alice_then ms None)"
proof (induction rs arbitrary: ms)
  case Nil
  then show ?case by (simp add: alice_then_def not_found)
next
  case (Cons r rs)
  then obtain m ms' where m: "handle_rule E st r = Some (Inr m)" "handle_rules E st rs = Some (Inr ms')" "ms = m # ms'"
    by (auto simp: go_then_def split: bind_splits sum.splits)
  from handle_rule_keeps [OF m(1) Cons.IH [OF m(2)]] m(3) show ?case by (simp add: alice_then_def)
qed

lemma chain_has:
  assumes "chain E st rs = Some (Inr ms)"
  shows "P (alice_then ms None)"
proof -
  from assms obtain ms' where m: "handle_rules E st rs = Some (Inr ms')"
    "ms = accessLogMiddlewareFunc (env_Parse E) (env_Execute E) (env_elapsed E) # ms'"
    by (auto simp: chain_def go_then_def split: bind_splits sum.splits)
  from logged [OF handle_rules_keep [OF m(1)]] m(2) show ?thesis by (simp add: alice_then_def)
qed

end

text \<open>A handler answers when it writes exactly one answer whenever it does not panic.\<close>

definition answered :: "'tpl hstate \<Rightarrow> 'tpl hstate \<times> panic option \<Rightarrow> bool" where
  "answered s res \<longleftrightarrow> (snd res = None \<longrightarrow> (\<exists>out. hs_out (fst res) = hs_out s @ [out]))"

definition answers :: "'tpl handler \<Rightarrow> bool" where
  "answers h \<longleftrightarrow> (\<forall>s r. accessLogPathKey (rq_ctx r) = None \<longrightarrow> answered s (h s r))"

lemma answered_panic [simp]: "answered s (s', Some p)"
  by (simp add: answered_def)

lemma answered_Error [simp]: "answered s (http_Error code s)"
  by (simp add: answered_def http_Error_def)

lemma proxy_answers: "answers (wrap_handler (proxy_handler E st p) True next)"
  by (auto simp: answers_def answered_def wrap_handler_def proxy_handler_def split: sum.splits)

lemma access_answers: "answers next \<Longrightarrow> answers (access_handle N a next)"
  by (auto simp: answers_def access_handle_def split: sum.splits)

interpretation answering: handler_property E st answers for E :: "'tpl http_env" and st
proof
  show "answers notFoundHandler" by (simp add: answers_def notFoundHandler_def)
  show "answers (accessLogMiddlewareFunc (env_Parse E) (env_Execute E) (env_elapsed E) next)" if "answers next"
    for E :: "'tpl http_env" and "next" :: "'tpl handler"
    using that by (simp add: answers_def access_log_off)
qed (rule proxy_answers access_answers; assumption?)+

lemma serve_location_answers:
  assumes "serve_location E st l s r = Some res" "accessLogPathKey (rq_ctx r) = None"
  shows "answered s res"
proof -
  let ?s = "store_match l s"
  from assms(1) obtain c a where a: "chain E st (overide c) = Some a"
    "res = (case a of Inl p \<Rightarrow> (?s, Some p) | Inr a \<Rightarrow> alice_then a None ?s r)"
    by (auto simp: serve_location_def Let_def bind_eq_Some_conv)
  show ?thesis
  proof (cases a)
    case (Inr ms)
    then have "answered ?s (alice_then ms None ?s r)"
      using answering.chain_has [of E st "overide c" ms] a(1) assms(2) by (simp add: answers_def)
    with a(2) Inr show ?thesis by (simp add: answered_def store_match_def)
  qed (simp add: a(2))
qed

text \<open>
  (C8) Every request is answered once: when the handler of a listener returns without a panic it has
  written exactly one answer, an error status or a request forwarded upstream, whatever rules are
  in force; a request with no variables in its context, or whose rules lack arguments, panics
  instead. The path of an access log is never set in the context.
\<close>

theorem request_answered_once:
  assumes "vinceHandler E st h s r = Some (h', s', None)" "accessLogPathKey (rq_ctx r) = None"
  shows "\<exists>out. hs_out s' = hs_out s @ [out]"
proof -
  from assms(1) obtain v loc where v: "hs_vars s = Some v" and
    "serve_server E st loc (s\<lparr>hs_vars := Some (setRequestVariables (env_hostname E) v r)\<rparr>) r = Some (s', None)"
    (is "serve_server E st loc ?s r = _")
    by (auto simp: vinceHandler_def Let_def split: option.splits sum.splits)
  then have "answered ?s (s', None)"
    using serve_location_answers [OF _ assms(2), of E st _ ?s]
    by (auto simp: serve_server_def http_Error_def answered_def split: sum.splits option.splits)
  then show ?thesis by (simp add: answered_def)
qed

section \<open>Access rules\<close>

definition access_rule :: "rule list \<Rightarrow> nat \<Rightarrow> bool" where
  "access_rule st r \<longleftrightarrow> rule_name (deref st r) \<in> {''allow'', ''deny''}"

definition acting_rule :: "rule list \<Rightarrow> nat \<Rightarrow> bool" where
  "acting_rule st r \<longleftrightarrow> rule_name (deref st r) \<in> {''allow'', ''deny'', ''proxy_pass''}"

text \<open>Once a request has passed an access rule, the remaining ones let it through.\<close>

lemma access_passed:
  assumes "handle_rules E st rs = Some (Inr ms)"
  shows "\<exists>ms'. handle_rules E st (filter (\<lambda>r. \<not> access_rule st r) rs) = Some (Inr ms') \<and>
    (\<forall>s r. passthrough (rq_ctx r) \<longrightarrow> alice_then ms None s r = alice_then ms' None s r)"
  using assms
proof (induction rs arbitrary: ms)
  case (Cons x rs)
  then obtain m ms1 where m: "handle_rule E st x = Some (Inr m)" "handle_rules E st rs = Some (Inr ms1)" "ms = m # ms1"
    by (auto simp: go_then_def split: bind_splits sum.splits)
  from Cons.IH [OF m(2)] obtain ms2 where ms2:
    "handle_rules E st (filter (\<lambda>r. \<not> access_rule st r) rs) = Some (Inr ms2)"
    "\<And>s r. passthrough (rq_ctx r) \<Longrightarrow> alice_then ms1 None s r = alice_then ms2 None s r" by blast
  show ?case
  proof (cases "access_rule st x")
    case True
    with m(1) obtain N a where "m = access_handle N a"
      by (auto simp: handle_rule_def access_rule_def gbind_eq_Inr split: if_splits)
    with True ms2 m(3) show ?thesis by (simp add: alice_then_def access_handle_def)
  next
    case False
    with m(1) have "m = nextHandler \<or> (\<exists>h. m = wrap_handler h True)"
      by (auto simp: handle_rule_def access_rule_def go_then_def split: if_splits option.splits bind_splits sum.splits)
    then have "m (alice_then ms1 None) s r = m (alice_then ms2 None) s r" if "passthrough (rq_ctx r)" for s r
      using ms2(2) [OF that, of s]
      by (auto simp: nextHandler_def wrap_handler_def split: prod.splits option.splits)
    with False m ms2(1) show ?thesis by (simp add: alice_then_def)
  qed
qed simp

text \<open>Rules that are neither access rules nor \<open>proxy_pass\<close> do not act.\<close>

lemma idle_rules:
  assumes "handle_rules E st rs = Some (Inr ms)"
  shows "\<exists>ms'. handle_rules E st (dropWhile (\<lambda>r. \<not> acting_rule st r) rs) = Some (Inr ms') \<and>
    alice_then ms None = alice_then ms' None"
  using assms
proof (induction rs arbitrary: ms)
  case (Cons x rs)
  then obtain m ms1 where m: "handle_rule E st x = Some (Inr m)" "handle_rules E st rs = Some (Inr ms1)" "ms = m # ms1"
    by (auto simp: go_then_def split: bind_splits sum.splits)
  show ?case
  proof (cases "acting_rule st x")
    case False
    with m(1) have "m = nextHandler" by (auto simp: handle_rule_def acting_rule_def)
    with False Cons.IH [OF m(2)] m(3) show ?thesis by (simp add: alice_then_def nextHandler_def)
  qed (use Cons.prems in simp)
qed simp


section \<open>Concurrent requests\<close>

text \<open>
  Requests of one listener share their match: when a second request is routed, to the location
  \<open>m\<close>, between the routing of a first one to the location \<open>l\<close> and the run of its proxy, the director
  of the first request sees the match \<open>m\<close> and rewrites its path by the prefix of the wrong location.
\<close>

theorem concurrent_requests_share_match:
  assumes "hs_vars s = Some v"
    and "s1 = store_match l (s\<lparr>hs_vars := Some (setRequestVariables host v r)\<rparr>)"
    and "s2 = store_match m (s1\<lparr>hs_vars := map_option (\<lambda>v. setRequestVariables host v q) (hs_vars s1)\<rparr>)"
  shows "(\<exists>p. proxy_request_of (hs_vars s1) r = Inr p \<and> pr_match p = Some l) \<and>
    (\<exists>p. proxy_request_of (hs_vars s2) r = Inr p \<and> pr_url p = Some (rq_url r) \<and> pr_match p = Some m)"
  using assms by (simp add: store_match_def proxy_request_of_def matched_def)

section \<open>Samples\<close>

text \<open>
  A server with one location that denies all clients and then allows all. Templates are their own
  text, and every address is its own printed form.
\<close>

definition plain_env :: "string http_env" where
  "plain_env =
     \<lparr>env_net = \<lparr>ParseIP = Some, URLParse = (\<lambda>s. None)\<rparr>, env_url = app_env, env_regexp = all_regexps,
      env_quick = (\<lambda>lt m. Inr m), env_Parse = Inr, env_Execute = (\<lambda>t v. Inr t), env_hostname = ''box'', env_elapsed = 0\<rparr>"

definition plain_rules :: "rule list" where
  "plain_rules =
     [\<lparr>parent = None, rule_name = ''server'', rule_args = [], children = [1]\<rparr>,
      \<lparr>parent = Some 0, rule_name = ''location'', rule_args = [''/''], children = [2, 3]\<rparr>,
      \<lparr>parent = Some 1, rule_name = ''deny'', rule_args = [''all''], children = []\<rparr>,
      \<lparr>parent = Some 1, rule_name = ''allow'', rule_args = [''all''], children = []\<rparr>]"

definition plain_state :: "string hstate" where
  "plain_state = \<lparr>hs_vars = Some baseCtx_variables, hs_log = [], hs_out = [], hs_tpls = Map.empty\<rparr>"

definition plain_handler :: vince_handler where
  "plain_handler =
     \<lparr>vh_servers = [0], vh_match = \<lparr>regExp = [], exact = Map.empty, wild = Map.empty, default_rule = None\<rparr>,
      vh_wild = [], vh_regexps = [], vh_location = Map.empty\<rparr>"

lemma plain_make: "make_handler plain_env plain_rules [] [] [0] None = Inr plain_handler"
  by (simp add: make_handler_def handlerMatch_init_def plain_env_def plain_rules_def plain_handler_def
      server_names_def)

theorem location_cache_transparent_witness:
  "serve_all plain_env plain_rules plain_handler plain_state [sample_request, sample_request] =
   serve_all_uncached plain_env plain_rules plain_handler plain_state [sample_request, sample_request]"
  by (rule location_cache_transparent [OF plain_make])

lemma plain_collect: "collect plain_rules (Suc 0) None = Some [2, 3]"
  by (subst collect.simps, simp add: plain_rules_def, subst collect.simps, simp)

lemma plain_chain:
  "chain plain_env plain_rules [2, 3] = Some (Inr
     [accessLogMiddlewareFunc Inr (\<lambda>t v. Inr t) 0, access_handle (env_net plain_env) (nginxAccess_init (env_net plain_env) ''all'' False),
      access_handle (env_net plain_env) (nginxAccess_init (env_net plain_env) ''all'' True)])"
  by (simp add: chain_def handle_rule_def plain_rules_def numeral_eq_Suc) (simp add: plain_env_def)


lemma plain_load:
  "locationMatch_load all_regexps plain_rules 0 = Inr [\<lparr>kind = MatchPrefix, match_rule = Suc 0, regexp = []\<rparr>]"
  by code_simp

lemma plain_match:
  "locationMatch_match (\<lambda>lt m. Inr m) all_regexps plain_rules [\<lparr>kind = MatchPrefix, match_rule = Suc 0, regexp = []\<rparr>] ''/'' =
     Inr (Some \<lparr>kind = MatchPrefix, match_rule = Suc 0, regexp = []\<rparr>)"
  by code_simp

lemma plain_serve_query:
  "\<exists>h' s'. vinceHandler plain_env plain_rules plain_handler plain_state (sample_request\<lparr>rq_query := q\<rparr>) = Some (h', s', None)"
proof -
  have env: "env_regexp plain_env = all_regexps" "env_quick plain_env = (\<lambda>lt m. Inr m)"
    by (simp_all add: plain_env_def)
  have "choose_server plain_env plain_handler (rq_host (sample_request\<lparr>rq_query := q\<rparr>)) = Inr 0"
    "load_location plain_env plain_rules plain_handler 0 =
       Inr ([\<lparr>kind = MatchPrefix, match_rule = Suc 0, regexp = []\<rparr>],
            plain_handler\<lparr>vh_location := [0 \<mapsto> [\<lparr>kind = MatchPrefix, match_rule = Suc 0, regexp = []\<rparr>]]\<rparr>)"
    by (simp_all add: choose_server_def load_location_def plain_handler_def env plain_load)
  moreover have "u_path (rq_url (sample_request\<lparr>rq_query := q\<rparr>)) = ''/''" by (simp add: sample_request_def)
  ultimately show ?thesis
    by (simp add: vinceHandler_def plain_state_def Let_def serve_server_def env plain_match serve_location_def
        plain_collect plain_chain overide_def alice_then_def access_log_off access_handle_def http_Error_def
        access_check_def nginxAccess_init_def passthrough_def sample_request_def)
qed

theorem request_answered_once_witness:
  "\<exists>h' s' out. vinceHandler plain_env plain_rules plain_handler plain_state sample_request = Some (h', s', None) \<and>
     hs_out s' = [out]"
proof -
  obtain h' s' where v: "vinceHandler plain_env plain_rules plain_handler plain_state sample_request = Some (h', s', None)"
    using plain_serve_query [of "[]"] by (auto simp: sample_request_def)
  have "accessLogPathKey (rq_ctx sample_request) = None" by (simp add: sample_request_def)
  from request_answered_once [OF v this] v show ?thesis by (auto simp: plain_state_def)
qed

text \<open>A request for \<open>/api\<close> whose proxy runs after another request was routed to the location of \<open>/\<close>.\<close>

theorem concurrent_requests_share_match_witness:
  "let l = \<lparr>kind = MatchPrefix, match_rule = 5, regexp = []\<rparr>; m = \<lparr>kind = MatchPrefix, match_rule = 1, regexp = []\<rparr>;
       r = sample_request\<lparr>rq_url := app_url ''/api''\<rparr>;
       s1 = store_match l (plain_state\<lparr>hs_vars := Some (setRequestVariables ''box'' baseCtx_variables r)\<rparr>);
       s2 = store_match m (s1\<lparr>hs_vars := map_option (\<lambda>v. setRequestVariables ''box'' v sample_request) (hs_vars s1)\<rparr>)
   in \<exists>p. proxy_request_of (hs_vars s2) r = Inr p \<and> pr_url p = Some (app_url ''/api'') \<and> pr_match p = Some m"
  unfolding Let_def
  using concurrent_requests_share_match [OF _ refl refl, of plain_state baseCtx_variables
      "\<lparr>kind = MatchPrefix, match_rule = 5, regexp = []\<rparr>" "''box''" "sample_request\<lparr>rq_url := app_url ''/api''\<rparr>"
      "\<lparr>kind = MatchPrefix, match_rule = 1, regexp = []\<rparr>" sample_request]
  by (simp add: plain_state_def)

end
