(* ===== verification/Conn_Manager.thy ===== *)
theory Conn_Manager
  imports Prelude
begin

text \<open>
  The connection manager of \<open>ngx_http_core_conn_manager.go\<close>: a map from connections to their
  state and four counters, updated from the connection-state callback of the HTTP server. The
  second part runs it under the life cycle of a connection that \<open>net/http\<close> documents and shows
  that the counters are exact; the third part is the status report that resets them.

  A call for one connection touches its own entry of the map and adds to atomic counters, so calls
  for different connections interleave as whole steps.
\<close>

section \<open>The manager\<close>

datatype ConnState = StateNew | StateActive | StateIdle | StateHijacked | StateClosed

record connInfo =
  ci_id :: int
  ci_state :: ConnState

record httpConnStatus =
  st_open :: int
  st_active :: int
  st_idle :: int
  st_hijacked :: int

text \<open>The field \<open>serial\<close> is the last number the global \<open>nextID\<close> returned.\<close>

record 'c connManager =
  conns :: "'c \<rightharpoonup> connInfo"
  status :: httpConnStatus
  serial :: int

definition no_status :: httpConnStatus where
  "no_status = \<lparr>st_open = 0, st_active = 0, st_idle = 0, st_hijacked = 0\<rparr>"

definition status_Add :: "httpConnStatus \<Rightarrow> httpConnStatus \<Rightarrow> httpConnStatus" where
  "status_Add c other =
     \<lparr>st_open = st_open c + st_open other, st_active = st_active c + st_active other,
      st_idle = st_idle c + st_idle other, st_hijacked = st_hijacked c + st_hijacked other\<rparr>"

definition status_Set :: "httpConnStatus \<Rightarrow> httpConnStatus \<Rightarrow> httpConnStatus" where
  "status_Set c other =
     c\<lparr>st_open := st_open other, st_active := st_active other, st_idle := st_idle other,
       st_hijacked := st_hijacked other\<rparr>"

text \<open>\<open>Reset\<close> returns the old counters and clears them, except for the hijacked connections: it
  neither reports nor clears those.\<close>

definition status_Reset :: "httpConnStatus \<Rightarrow> httpConnStatus \<times> httpConnStatus" where
  "status_Reset c =
     (let h = no_status\<lparr>st_open := st_open c, st_active := st_active c, st_idle := st_idle c\<rparr>
      in (h, c\<lparr>st_open := 0, st_active := 0, st_idle := 0\<rparr>))"

definition connManager_init :: "int \<Rightarrow> 'c connManager" where
  "connManager_init n = \<lparr>conns = Map.empty, status = no_status, serial = n\<rparr>"

definition nextID :: "'c connManager \<Rightarrow> int \<times> 'c connManager" where
  "nextID m = (serial m + 1, m\<lparr>serial := serial m + 1\<rparr>)"

fun track_status :: "httpConnStatus \<Rightarrow> ConnState \<Rightarrow> int \<Rightarrow> httpConnStatus" where
  "track_status s StateNew n = s\<lparr>st_open := st_open s + n\<rparr>"
| "track_status s StateActive n = s\<lparr>st_active := st_active s + n\<rparr>"
| "track_status s StateIdle n = s\<lparr>st_idle := st_idle s + n\<rparr>"
| "track_status s StateHijacked n = s\<lparr>st_hijacked := st_hijacked s + n\<rparr>"
| "track_status s StateClosed n = s"

definition track :: "'c connManager \<Rightarrow> ConnState \<Rightarrow> int \<Rightarrow> 'c connManager" where
  "track m state n = m\<lparr>status := track_status (status m) state n\<rparr>"

definition inc :: "'c connManager \<Rightarrow> ConnState \<Rightarrow> 'c connManager" where
  "inc m state = track m state 1"

definition dec :: "'c connManager \<Rightarrow> ConnState \<Rightarrow> 'c connManager" where
  "dec m state = track m state (- 1)"

text \<open>The function passed to \<open>changeState\<close> updates the entry of the connection and may call the
  manager.\<close>

definition changeState ::
  "'c connManager \<Rightarrow> 'c \<Rightarrow> ('c connManager \<times> connInfo \<Rightarrow> 'c connManager \<times> connInfo) \<Rightarrow> 'c connManager" where
  "changeState m conn fn =
     (case conns m conn of
        None \<Rightarrow> m
      | Some s \<Rightarrow> (case fn (m, s) of (m', s') \<Rightarrow> m'\<lparr>conns := (conns m')(conn \<mapsto> s')\<rparr>))"

fun manageConnState :: "'c connManager \<Rightarrow> 'c \<Rightarrow> ConnState \<Rightarrow> 'c connManager" where
  "manageConnState m conn StateNew =
     (let m = (if conns m conn = None
               then (case nextID m of (n, m) \<Rightarrow> m\<lparr>conns := (conns m)(conn \<mapsto> \<lparr>ci_id = n, ci_state = StateNew\<rparr>)\<rparr>)
               else m);
          m = changeState m conn (\<lambda>(m, i). (m, i\<lparr>ci_state := StateNew\<rparr>))
      in inc m StateNew)"
| "manageConnState m conn StateActive =
     inc (changeState m conn (\<lambda>(m, i).
            (if ci_state i \<noteq> StateNew then dec m (ci_state i) else m, i\<lparr>ci_state := StateActive\<rparr>)))
       StateActive"
| "manageConnState m conn StateIdle =
     inc (changeState m conn (\<lambda>(m, i). (dec m (ci_state i), i\<lparr>ci_state := StateIdle\<rparr>))) StateIdle"
| "manageConnState m conn StateHijacked =
     inc (changeState m conn (\<lambda>(m, i). (dec m (ci_state i), i\<lparr>ci_state := StateHijacked\<rparr>))) StateHijacked"
| "manageConnState m conn StateClosed =
     (let m = changeState m conn (\<lambda>(m, i).
            (let m = dec m (ci_state i)
             in if ci_state i \<noteq> StateNew then dec m StateNew else m, i\<lparr>ci_state := StateClosed\<rparr>))
      in m\<lparr>conns := (conns m)(conn := None)\<rparr>)"

definition CloseConn :: "'c connManager \<Rightarrow> 'c \<Rightarrow> 'c connManager" where
  "CloseConn m conn =
     (case conns m conn of
        None \<Rightarrow> m
      | Some s \<Rightarrow>
          if ci_state s = StateHijacked
          then (let m = dec (dec m (ci_state s)) StateNew in m\<lparr>conns := (conns m)(conn := None)\<rparr>)
          else m)"

text \<open>
  \<open>Close\<close> and \<open>graceful\<close> visit the map in an order the package \<open>sync\<close> does not fix: \<open>order\<close> lists
  the connections as they are visited. \<open>CloseErr\<close> gives the error that closing a connection
  returns. The results also list the connections that were closed.
\<close>

fun close_range :: "('c \<Rightarrow> string option) \<Rightarrow> 'c list \<Rightarrow> 'c connManager \<Rightarrow> string list \<Rightarrow>
    'c connManager \<times> string list" where
  "close_range CloseErr [] m errs = (m, errs)"
| "close_range CloseErr (c # cs) m errs =
     close_range CloseErr cs (m\<lparr>conns := (conns m)(c := None)\<rparr>)
       (case CloseErr c of None \<Rightarrow> errs | Some e \<Rightarrow> errs @ [e])"

definition connManager_Close :: "('c \<Rightarrow> string option) \<Rightarrow> 'c list \<Rightarrow> 'c connManager \<Rightarrow>
    'c connManager \<times> string option" where
  "connManager_Close CloseErr order m =
     (case close_range CloseErr order m [] of (m, errs) \<Rightarrow>
        (m, if errs \<noteq> [] then Some (''conn_manager: error closing connections '' @ join errs '','') else None))"

fun graceful :: "'c list \<Rightarrow> 'c connManager \<Rightarrow> 'c list \<Rightarrow> 'c connManager \<times> 'c list" where
  "graceful [] m closed = (m, closed)"
| "graceful (c # cs) m closed =
     graceful cs (m\<lparr>conns := (conns m)(c := None)\<rparr>)
       (case conns m c of
          None \<Rightarrow> closed
        | Some i \<Rightarrow> if ci_state i = StateHijacked then closed @ [c] else closed)"

definition GetStatus :: "'c connManager \<Rightarrow> httpConnStatus \<times> 'c connManager" where
  "GetStatus m = (case status_Reset (status m) of (h, s) \<Rightarrow> (h, m\<lparr>status := s\<rparr>))"

text \<open>\<open>connContext\<close> also stores the number in the variables of the base context, if it has them.\<close>

definition connContext ::
  "'c connManager \<Rightarrow> 'c \<Rightarrow> (string \<rightharpoonup> int) option \<Rightarrow> 'c connManager \<times> int \<times> (string \<rightharpoonup> int) option" where
  "connContext m conn vars =
     (case nextID m of (reqID, m) \<Rightarrow>
        (m\<lparr>conns := (conns m)(conn \<mapsto> \<lparr>ci_id = reqID, ci_state = StateNew\<rparr>)\<rparr>, reqID,
         map_option (\<lambda>v. v(''$request_id'' \<mapsto> reqID)) vars))"

definition getID :: "'c connManager \<Rightarrow> 'c \<Rightarrow> int" where
  "getID m conn = (case conns m conn of Some i \<Rightarrow> ci_id i | None \<Rightarrow> 0)"

lemmas manager_defs =
  inc_def dec_def track_def changeState_def CloseConn_def connContext_def nextID_def connManager_init_def
  no_status_def GetStatus_def status_Reset_def

section \<open>The life cycle of a connection\<close>

text \<open>
  What the HTTP server of \<open>net/http\<close> does with a connection, as it documents it: it accepts it and
  calls \<open>ConnContext\<close>, then reports \<open>StateNew\<close>; a new connection becomes active or closes, an
  active one becomes idle, is hijacked or closes, an idle one becomes active or closes. Nothing is
  reported of a hijacked connection: whoever hijacked it calls \<open>CloseConn\<close>.
\<close>

datatype phase = Accepted | In ConnState

definition legal :: "ConnState \<Rightarrow> ConnState \<Rightarrow> bool" where
  "legal s s' \<longleftrightarrow>
     (s, s') \<in> {(StateNew, StateActive), (StateActive, StateIdle), (StateActive, StateHijacked),
                (StateIdle, StateActive)}"

inductive conn_step ::
  "'c connManager \<times> ('c \<rightharpoonup> phase) \<Rightarrow> 'c connManager \<times> ('c \<rightharpoonup> phase) \<Rightarrow> bool" where
  accept: "g c = None \<Longrightarrow> conn_step (m, g) (fst (connContext m c vars), g(c \<mapsto> Accepted))"
| new: "g c = Some Accepted \<Longrightarrow> conn_step (m, g) (manageConnState m c StateNew, g(c \<mapsto> In StateNew))"
| change: "g c = Some (In s) \<Longrightarrow> legal s s' \<Longrightarrow>
    conn_step (m, g) (manageConnState m c s', g(c \<mapsto> In s'))"
| close: "g c = Some (In s) \<Longrightarrow> s \<in> {StateNew, StateActive, StateIdle} \<Longrightarrow>
    conn_step (m, g) (manageConnState m c StateClosed, g(c := None))"
| close_hijacked: "g c = Some (In StateHijacked) \<Longrightarrow> conn_step (m, g) (CloseConn m c, g(c := None))"

text \<open>The number of connections in a phase.\<close>

definition phase_count :: "('c \<rightharpoonup> phase) \<Rightarrow> (phase \<Rightarrow> bool) \<Rightarrow> int" where
  "phase_count g P = int (card {c. \<exists>p. g c = Some p \<and> P p})"

definition weight :: "(phase \<Rightarrow> bool) \<Rightarrow> phase option \<Rightarrow> int" where
  "weight P x = (case x of None \<Rightarrow> 0 | Some p \<Rightarrow> if P p then 1 else 0)"

lemma weight_simps [simp]: "weight P None = 0" "weight P (Some p) = (if P p then 1 else 0)"
  by (simp_all add: weight_def)

lemma phase_count_split:
  assumes "finite (dom g)"
  shows "phase_count g P = int (card ({d. \<exists>p. g d = Some p \<and> P p} - {c})) + weight P (g c)"
proof -
  let ?A = "{d. \<exists>p. g d = Some p \<and> P p}"
  have fin: "finite ?A" by (rule finite_subset [OF _ assms]) auto
  show ?thesis
  proof (cases "c \<in> ?A")
    case True
    then have "weight P (g c) = 1" by auto
    with True card_Suc_Diff1 [OF fin True] show ?thesis by (simp add: phase_count_def)
  next
    case False
    then have "weight P (g c) = 0" by (cases "g c") auto
    with False show ?thesis by (simp add: phase_count_def)
  qed
qed

lemma phase_count_upd:
  assumes "finite (dom g)"
  shows "phase_count (g(c := x)) P = phase_count g P - weight P (g c) + weight P x"
proof -
  have "{d. \<exists>p. (g(c := x)) d = Some p \<and> P p} - {c} = {d. \<exists>p. g d = Some p \<and> P p} - {c}" by auto
  with phase_count_split [OF assms, of P c] phase_count_split [of "g(c := x)" P c] assms
  show ?thesis by simp
qed

definition opened :: "phase \<Rightarrow> bool" where
  "opened p \<longleftrightarrow> p \<noteq> Accepted"

lemma opened_simps [simp]: "\<not> opened Accepted" "opened (In s)"
  by (simp_all add: opened_def)

text \<open>The invariant: the map has the connections the server has, in their states, and each counter
  is the number of connections it stands for. An accepted connection counts as open once \<open>StateNew\<close>
  was reported, and stays open until it closes.\<close>

definition exact_counts :: "httpConnStatus \<Rightarrow> ('c \<rightharpoonup> phase) \<Rightarrow> bool" where
  "exact_counts s g \<longleftrightarrow>
     st_open s = phase_count g opened \<and> st_active s = phase_count g (\<lambda>p. p = In StateActive) \<and>
     st_idle s = phase_count g (\<lambda>p. p = In StateIdle) \<and>
     st_hijacked s = phase_count g (\<lambda>p. p = In StateHijacked)"

definition phase_state :: "phase \<Rightarrow> ConnState" where
  "phase_state p = (case p of Accepted \<Rightarrow> StateNew | In s \<Rightarrow> s)"

lemma phase_state_simps [simp]: "phase_state Accepted = StateNew" "phase_state (In s) = s"
  by (simp_all add: phase_state_def)

definition manages :: "'c connManager \<Rightarrow> ('c \<rightharpoonup> phase) \<Rightarrow> bool" where
  "manages m g \<longleftrightarrow>
     finite (dom g) \<and> map_option ci_state \<circ> conns m = map_option phase_state \<circ> g \<and>
     exact_counts (status m) g"

lemma manages_entry:
  "manages m g \<Longrightarrow> g c = Some p \<Longrightarrow> \<exists>i. conns m c = Some i \<and> ci_state i = phase_state p"
  unfolding manages_def comp_def fun_eq_iff by (metis map_option_eq_Some option.simps(9))

lemma exact_counts_upd:
  assumes "finite (dom g)" "exact_counts s g"
  shows "exact_counts s' (g(c := x)) \<longleftrightarrow>
     st_open s' = st_open s - weight opened (g c) + weight opened x \<and>
     st_active s' = st_active s - weight (\<lambda>p. p = In StateActive) (g c) + weight (\<lambda>p. p = In StateActive) x \<and>
     st_idle s' = st_idle s - weight (\<lambda>p. p = In StateIdle) (g c) + weight (\<lambda>p. p = In StateIdle) x \<and>
     st_hijacked s' = st_hijacked s - weight (\<lambda>p. p = In StateHijacked) (g c) +
       weight (\<lambda>p. p = In StateHijacked) x"
  using assms by (simp add: exact_counts_def phase_count_upd)

text \<open>One step of one connection: its entry and the counters change, nothing else.\<close>

lemma manages_upd:
  assumes "manages m g"
    and "conns m' = (conns m)(c := e)" "map_option ci_state e = map_option phase_state x"
    and "exact_counts (status m) g \<Longrightarrow> exact_counts (status m') (g(c := x))"
  shows "manages m' (g(c := x))"
  using assms by (auto simp: manages_def fun_eq_iff)

lemma manages_fin: "manages m g \<Longrightarrow> finite (dom g)"
  by (simp add: manages_def)

lemmas counts_upd = exact_counts_upd [OF manages_fin]

lemma manages_accept:
  assumes m: "manages m g" and g: "g c = None"
  shows "manages (fst (connContext m c vars)) (g(c \<mapsto> Accepted))"
  by (rule manages_upd [OF m, where e = "Some \<lparr>ci_id = serial m + 1, ci_state = StateNew\<rparr>"])
     (simp_all add: manager_defs counts_upd [OF m] g)

lemma manages_new:
  assumes m: "manages m g" and g: "g c = Some Accepted"
  shows "manages (manageConnState m c StateNew) (g(c \<mapsto> In StateNew))"
proof -
  from manages_entry [OF m g] obtain i where i: "conns m c = Some i" "ci_state i = StateNew" by auto
  show ?thesis
    by (rule manages_upd [OF m, where e = "Some (i\<lparr>ci_state := StateNew\<rparr>)"])
       (simp_all add: manager_defs counts_upd [OF m] g i)
qed

lemma manages_change:
  assumes m: "manages m g" and g: "g c = Some (In s)" and l: "legal s s'"
  shows "manages (manageConnState m c s') (g(c \<mapsto> In s'))"
proof -
  from manages_entry [OF m g] obtain i where i: "conns m c = Some i" "ci_state i = s" by auto
  show ?thesis
  proof (rule manages_upd [OF m, where e = "Some (i\<lparr>ci_state := s'\<rparr>)"])
    show "conns (manageConnState m c s') = (conns m)(c \<mapsto> i\<lparr>ci_state := s'\<rparr>)"
      using l i by (auto simp: legal_def manager_defs)
    show "exact_counts (status (manageConnState m c s')) (g(c \<mapsto> In s'))" if "exact_counts (status m) g"
      using l i that by (auto simp: legal_def manager_defs counts_upd [OF m] g)
  qed simp
qed

lemma manages_close:
  assumes m: "manages m g" and g: "g c = Some (In s)" and s: "s \<in> {StateNew, StateActive, StateIdle}"
  shows "manages (manageConnState m c StateClosed) (g(c := None))"
proof -
  from manages_entry [OF m g] obtain i where i: "conns m c = Some i" "ci_state i = s" by auto
  show ?thesis
    using s by (intro manages_upd [OF m, where e = None]) (auto simp: manager_defs counts_upd [OF m] g i)
qed

lemma manages_close_hijacked:
  assumes m: "manages m g" and g: "g c = Some (In StateHijacked)"
  shows "manages (CloseConn m c) (g(c := None))"
proof -
  from manages_entry [OF m g] obtain i where i: "conns m c = Some i" "ci_state i = StateHijacked" by auto
  show ?thesis
    by (rule manages_upd [OF m, where e = None]) (simp_all add: manager_defs counts_upd [OF m] g i)
qed

lemma conn_step_manages:
  "conn_step x y \<Longrightarrow> manages (fst x) (snd x) \<Longrightarrow> manages (fst y) (snd y)"
  by (induction rule: conn_step.induct; unfold fst_conv snd_conv)
     (blast intro: manages_accept manages_new manages_change manages_close manages_close_hijacked)+

text \<open>The states the server drives the manager through, from a fresh one.\<close>

definition served :: "'c connManager \<Rightarrow> ('c \<rightharpoonup> phase) \<Rightarrow> bool" where
  "served m g \<longleftrightarrow> (\<exists>n. conn_step\<^sup>*\<^sup>* (connManager_init n, Map.empty) (m, g))"

lemma manages_init: "manages (connManager_init n) Map.empty"
  by (simp add: manages_def connManager_init_def no_status_def exact_counts_def phase_count_def)

lemma served_manages: "served m g \<Longrightarrow> manages m g"
proof -
  assume "served m g"
  then obtain n where "conn_step\<^sup>*\<^sup>* (connManager_init n, Map.empty) (m, g)" by (auto simp: served_def)
  then have "manages (fst (m, g)) (snd (m, g))"
    by (induction rule: rtranclp_induct) (simp_all add: manages_init conn_step_manages)
  then show ?thesis by simp
qed

text \<open>
  (C7) The counters are exact: in every state the server can drive the manager to, whatever the
  interleaving of the connections, each counter is the number of connections in its state, the open
  ones being those that were reported new and have not closed, and the map holds an entry exactly
  for the connections that were accepted and have not closed.
\<close>

theorem conn_counts_exact:
  assumes "served m g"
  shows "st_open (status m) = phase_count g opened \<and>
    st_active (status m) = phase_count g (\<lambda>p. p = In StateActive) \<and>
    st_idle (status m) = phase_count g (\<lambda>p. p = In StateIdle) \<and>
    st_hijacked (status m) = phase_count g (\<lambda>p. p = In StateHijacked) \<and>
    dom (conns m) = dom g"
proof -
  from served_manages [OF assms] have "manages m g" .
  moreover from this have "dom (conns m) = dom g"
    unfolding manages_def comp_def fun_eq_iff dom_def
    by (intro Collect_cong) (metis option.map_disc_iff)
  ultimately show ?thesis by (simp add: manages_def exact_counts_def)
qed

lemma served_start: "served (connManager_init n) Map.empty"
  by (auto simp: served_def)

lemma served_step: "served m g \<Longrightarrow> conn_step (m, g) (m', g') \<Longrightarrow> served m' g'"
  unfolding served_def by (blast intro: rtranclp.rtrancl_into_rtrancl)

lemma served_one:
  "served (manageConnState (fst (connContext (connManager_init 0) (1 :: nat) None)) 1 StateNew)
     [1 \<mapsto> In StateNew]"
proof -
  have "served (fst (connContext (connManager_init 0) (1 :: nat) None)) [1 \<mapsto> Accepted]"
    by (rule served_step [OF served_start conn_step.accept]) simp
  then have "served (manageConnState (fst (connContext (connManager_init 0) (1 :: nat) None)) 1 StateNew)
      ([1 \<mapsto> Accepted](1 \<mapsto> In StateNew))"
    by (rule served_step [OF _ conn_step.new]) simp
  then show ?thesis by (simp only: fun_upd_upd)
qed

theorem conn_counts_exact_witness:
  "st_open (status (manageConnState (fst (connContext (connManager_init 0) (1 :: nat) None)) 1 StateNew)) =
   phase_count [1 :: nat \<mapsto> In StateNew] opened"
  using conn_counts_exact [OF served_one] by blast

section \<open>The status report\<close>

text \<open>
  After a status report the counters no longer count connections: \<open>GetStatus\<close> sets the open
  counter to zero while the connections are still open, so closing any of them makes it negative.
  The report itself shows no hijacked connection, however many there are.
\<close>

theorem getStatus_negative:
  assumes "served m g" "g c = Some (In s)" "s \<in> {StateNew, StateActive, StateIdle}" "GetStatus m = (h, m')"
  shows "st_open (status (manageConnState m' c StateClosed)) = - 1 \<and> st_hijacked h = 0"
proof -
  from manages_entry [OF served_manages [OF assms(1)] assms(2)] obtain i where
    i: "conns m c = Some i" "ci_state i = s" by auto
  with assms(3,4) show ?thesis
    by (auto simp: manager_defs)
qed

theorem getStatus_negative_witness:
  "\<exists>h m'. GetStatus (manageConnState (fst (connContext (connManager_init 0) (1 :: nat) None)) 1 StateNew) = (h, m') \<and>
     st_open (status (manageConnState m' 1 StateClosed)) = - 1"
proof -
  obtain h m' where gs:
    "GetStatus (manageConnState (fst (connContext (connManager_init 0) (1 :: nat) None)) 1 StateNew) = (h, m')"
    by (metis surj_pair)
  have "st_open (status (manageConnState m' 1 StateClosed)) = - 1"
    using getStatus_negative [OF served_one _ _ gs, of 1 StateNew]
    by (simp del: manageConnState.simps)
  with gs show ?thesis by blast
qed

end
