(* ===== verification/Config_Parse.thy ===== *)
theory Config_Parse
  imports Config_Analyze
begin

text \<open>
  The parser of \<open>config_parse.go\<close>: statements from tokens, the include machinery and the merging of
  included files. The file system, \<open>filepath.Glob\<close> and the table of printable runes are parameters,
  gathered in \<open>parse_env\<close>. A nil dereference or an index out of range is a panic value; a parse that
  never returns is \<open>None\<close>.
\<close>

section \<open>Paths\<close>

text \<open>\<open>filepath.Clean\<close> on Unix: the components are pushed on a stack, empty components and dots are
  dropped, a double dot pops a component.\<close>

fun clean_parts :: "bool \<Rightarrow> string list \<Rightarrow> string list \<Rightarrow> string list" where
  "clean_parts rooted out [] = rev out"
| "clean_parts rooted out (c # cs) =
     (if c = [] \<or> c = ''.'' then clean_parts rooted out cs
      else if c = ''..'' then
        (case out of
           [] \<Rightarrow> clean_parts rooted (if rooted then [] else [''..'']) cs
         | o1 # os \<Rightarrow> if o1 = ''..'' then clean_parts rooted (''..'' # out) cs
                     else clean_parts rooted os cs)
      else clean_parts rooted (c # out) cs)"

definition filepath_IsAbs :: "string \<Rightarrow> bool" where
  "filepath_IsAbs p \<longleftrightarrow> hasPrefix p ''/''"

definition filepath_Clean :: "string \<Rightarrow> string" where
  "filepath_Clean p =
     (let rooted = filepath_IsAbs p;
          body = join (clean_parts rooted [] (split p ''/'')) ''/''
      in if rooted then CHR ''/'' # body else if body = [] then ''.'' else body)"

definition filepath_Join :: "string \<Rightarrow> string \<Rightarrow> string" where
  "filepath_Join a b =
     (let ps = filter (\<lambda>x. x \<noteq> []) [a, b] in if ps = [] then [] else filepath_Clean (join ps ''/''))"

definition filepath_Dir :: "string \<Rightarrow> string" where
  "filepath_Dir p = filepath_Clean (rev (dropWhile (\<lambda>c. c \<noteq> CHR ''/'') (rev p)))"

section \<open>State\<close>

record fileCtx =
  fc_name :: string
  fc_ctx :: "string list"

datatype parse_error =
    DirectiveErr directive_error
  | NgxErr ngx_error
  | LexErr lex_error
  | OpenErr string

record parsingContext =
  File :: string
  Status :: string
  Errors :: "parse_error list"
  Parsed :: "Stmt list"

text \<open>\<open>Config\<close> holds the pointers of the payload: \<open>None\<close> is the nil context of a file that could
  not be read.\<close>

record payload =
  PStatus :: string
  PErrors :: "parse_error list"
  Config :: "parsingContext option list"

text \<open>\<open>errHandler\<close> is not a field: \<open>parse\<close> always sets it, to the update of the payload that
  \<open>handleErr\<close> makes.\<close>

record parseOpts =
  catchErr :: bool
  ignore :: "(string \<Rightarrow> bool) option"
  single :: bool
  strict :: bool
  comments :: bool
  combine :: bool
  checkCtx :: bool
  checkArgs :: bool
  configDir :: string
  opt_includes :: "fileCtx list"
  included :: "string \<rightharpoonup> nat"

record pstate =
  tokens :: "token list"
  dirs :: directive_map
  opts :: parseOpts
  parsing :: parsingContext
  pld :: payload

record parse_env =
  fs_Open :: "string \<Rightarrow> string + string"
  Glob :: "string \<Rightarrow> string + string list"
  env_printable :: "rune \<Rightarrow> bool"

definition defaultParseOpts :: parseOpts where
  "defaultParseOpts =
     \<lparr>catchErr = True, ignore = Some (\<lambda>_. False), single = False, strict = False, comments = False,
      combine = False, checkCtx = True, checkArgs = True, configDir = [], opt_includes = [],
      included = Map.empty\<rparr>"

definition handleErr :: "parse_error \<Rightarrow> pstate \<Rightarrow> pstate" where
  "handleErr err s =
     (let p = pld s; c = parsing s
      in s\<lparr>pld := p\<lparr>PStatus := ''failed'', PErrors := PErrors p @ [err]\<rparr>,
           parsing := c\<lparr>Status := ''failed'', Errors := Errors c @ [err]\<rparr>\<rparr>)"

section \<open>Statements\<close>

definition checkTerminal :: "string \<Rightarrow> bool" where
  "checkTerminal txt \<longleftrightarrow> txt \<in> {''{'', '';'', ''}''}"

definition inDirArgs :: "token \<Rightarrow> bool" where
  "inDirArgs tok \<longleftrightarrow> \<not> checkTerminal (tok_text tok) \<or> tok_quote tok"

definition is_comment :: "token \<Rightarrow> bool" where
  "is_comment t \<longleftrightarrow> hasPrefix (tok_text t) ''#'' \<and> \<not> tok_quote t"

definition is_open :: "token \<Rightarrow> bool" where
  "is_open t \<longleftrightarrow> tok_text t = ''{'' \<and> \<not> tok_quote t"

definition is_close :: "token \<Rightarrow> bool" where
  "is_close t \<longleftrightarrow> tok_text t = ''}'' \<and> \<not> tok_quote t"

text \<open>The argument loop: the arguments, the comments between them, the terminator and the tokens
  after it. Running out of tokens dereferences the nil token.\<close>

fun arg_loop :: "token list \<Rightarrow> (string list \<times> string list \<times> token \<times> token list) go" where
  "arg_loop [] = Inl NilPointer"
| "arg_loop (t # ts) =
     (if inDirArgs t then
        gbind (arg_loop ts) (\<lambda>(args, cmts, term, rest).
          if is_comment t then Inr (args, drop 1 (tok_text t) # cmts, term, rest)
          else Inr (tok_text t # args, cmts, term, rest))
      else Inr ([], [], t, ts))"

definition enterBlock :: "Stmt \<Rightarrow> string list \<Rightarrow> string list" where
  "enterBlock stmt ctx =
     (if ctx \<noteq> [] \<and> ctx ! 0 = ''http'' \<and> Directive stmt = ''location'' then [''http'', ''location'']
      else ctx @ [Directive stmt])"

abbreviation set_Args :: "string list \<Rightarrow> Stmt \<Rightarrow> Stmt" where
  "set_Args as st \<equiv> Stmt (Directive st) (SFilename st) (Line st) as (Comment st) (Includes st) (Blocks st)"

abbreviation set_Includes :: "nat list \<Rightarrow> Stmt \<Rightarrow> Stmt" where
  "set_Includes xs st \<equiv> Stmt (Directive st) (SFilename st) (Line st) (Args st) (Comment st) xs (Blocks st)"

abbreviation set_Blocks :: "Stmt list option \<Rightarrow> Stmt \<Rightarrow> Stmt" where
  "set_Blocks bs st \<equiv> Stmt (Directive st) (SFilename st) (Line st) (Args st) (Comment st) (Includes st) bs"

definition prepare_args :: "string list \<Rightarrow> string list" where
  "prepare_args args =
     (if length args > 0 \<and> hasPrefix (args ! 0) ''('' \<and> hasSuffix (args ! (length args - 1)) '')'' then
        let a1 = args[0 := trimLeft (args ! 0) ''(''];
            a2 = a1[length args - 1 := trimRight (a1 ! (length args - 1)) '')'']
        in filter (\<lambda>v. v \<noteq> []) a2
      else args)"

definition prepareIfArgs :: "Stmt \<Rightarrow> Stmt" where
  "prepareIfArgs stmt = set_Args (prepare_args (Args stmt)) stmt"

text \<open>The file names an include pattern stands for, with the errors reported on the way.\<close>

definition include_names :: "parse_env \<Rightarrow> Stmt \<Rightarrow> string \<Rightarrow> pstate \<Rightarrow> string list \<times> pstate" where
  "include_names env stmt pattern s =
     (let fail = (\<lambda>e. ([], handleErr (NgxErr \<lparr>Reason = e, Linenum = Line stmt,
                                               Filename = File (parsing s)\<rparr>) s))
      in case fs_Open env pattern of
           Inr _ \<Rightarrow> ([pattern], s)
         | Inl _ \<Rightarrow>
             (let pattern = (if filepath_IsAbs pattern then pattern
                             else filepath_Join (configDir (opts s)) pattern)
              in if CHR ''*'' \<in> set pattern then
                   (case Glob env pattern of Inl e \<Rightarrow> fail e | Inr n \<Rightarrow> (sort n, s))
                 else
                   (case fs_Open env pattern of
                      Inl e \<Rightarrow> fail e
                    | Inr _ \<Rightarrow> (case Glob env pattern of Inl e \<Rightarrow> fail e | Inr n \<Rightarrow> (n, s)))))"

text \<open>The loop over the file names and its body.\<close>

definition add_include :: "string list \<Rightarrow> string \<Rightarrow> Stmt \<times> pstate \<Rightarrow> Stmt \<times> pstate" where
  "add_include ctx name =
     (\<lambda>(stmt, s).
        let o1 = opts s;
            o2 = o1\<lparr>included := (included o1)(name \<mapsto> length (opt_includes o1)),
                    opt_includes := opt_includes o1 @ [\<lparr>fc_name = name, fc_ctx = ctx\<rparr>]\<rparr>
        in (set_Includes (Includes stmt @ [the (included o2 name)]) stmt, s\<lparr>opts := o2\<rparr>))"

definition add_includes :: "string list \<Rightarrow> string list \<Rightarrow> Stmt \<times> pstate \<Rightarrow> Stmt \<times> pstate" where
  "add_includes ctx names = fold (add_include ctx) names"

definition handle_include ::
  "parse_env \<Rightarrow> string list \<Rightarrow> Stmt \<Rightarrow> pstate \<Rightarrow> (Stmt \<times> pstate) go" where
  "handle_include env ctx stmt s =
     gbind (go_index (Args stmt) 0) (\<lambda>pattern.
       let (names, s') = include_names env stmt pattern s
       in Inr (add_includes ctx names (stmt, s')))"

text \<open>
  One round of the statement loop up to its recursive call: the end of the block, a finished
  statement (or none), a block to be skipped, or a block to be entered.
\<close>

datatype action =
    Done pstate
  | Emit "Stmt list" pstate
  | Consume pstate
  | Enter Stmt "string list" pstate

definition comment_stmts :: "Stmt \<Rightarrow> string list \<Rightarrow> Stmt list" where
  "comment_stmts stmt cmts = map (\<lambda>c. Stmt ''#'' [] (Line stmt) [] c [] None) cmts"

text \<open>The test \<open>ignore != nil && ignore(directive)\<close>.\<close>

definition ignored :: "parseOpts \<Rightarrow> string \<Rightarrow> bool" where
  "ignored o1 d = (case ignore o1 of None \<Rightarrow> False | Some f \<Rightarrow> f d)"

text \<open>The call of \<open>analyze\<close> and the report of its error.\<close>

definition check_stmt :: "parse_env \<Rightarrow> string list \<Rightarrow> Stmt \<Rightarrow> string \<Rightarrow> pstate \<Rightarrow> pstate" where
  "check_stmt env ctx stmt term s =
     (let (err, dirs') = analyze (env_printable env) (dirs s) (File (parsing s)) stmt term ctx
                           (strict (opts s)) (checkCtx (opts s)) (checkArgs (opts s));
          s1 = s\<lparr>dirs := dirs'\<rparr>
      in case err of None \<Rightarrow> s1 | Some e \<Rightarrow> handleErr (DirectiveErr e) s1)"

definition finish_stmt ::
  "parse_env \<Rightarrow> string list \<Rightarrow> Stmt \<Rightarrow> string list \<Rightarrow> token \<Rightarrow> pstate \<Rightarrow> action go" where
  "finish_stmt env ctx stmt0 cmts term s =
     (if ignored (opts s) (Directive stmt0) then
        Inr (if is_open term then Consume s else Emit [] s)
      else
        let stmt = (if Directive stmt0 = ''if'' then prepareIfArgs stmt0 else stmt0);
            s1 = check_stmt env ctx stmt (tok_text term) s
        in gbind (if \<not> single (opts s1) \<and> Directive stmt = ''include''
                  then handle_include env ctx stmt s1 else Inr (stmt, s1))
             (\<lambda>(stmt, s2).
                Inr (if is_open term then Enter stmt cmts s2
                     else Emit (stmt # comment_stmts stmt cmts) s2)))"

definition parse_step ::
  "parse_env \<Rightarrow> string list \<Rightarrow> bool \<Rightarrow> pstate \<Rightarrow> action go" where
  "parse_step env ctx consume s =
     (case tokens s of
        [] \<Rightarrow> Inr (Done s)
      | token # ts \<Rightarrow>
          (let s' = s\<lparr>tokens := ts\<rparr>;
               filename = (if combine (opts s) then File (parsing s) else [])
           in if is_close token then Inr (Done s')
              else if consume \<and> is_open token then Inr (Consume s')
              else if is_comment token then
                Inr (Emit (if comments (opts s)
                           then [Stmt ''#'' filename (tok_line token) [] (drop 1 (tok_text token)) [] None]
                           else []) s')
              else gbind (arg_loop ts) (\<lambda>(args, cmts, term, rest).
                finish_stmt env ctx (Stmt (tok_text token) filename (tok_line token) args [] [] None)
                  cmts term (s\<lparr>tokens := rest\<rparr>))))"

subsection \<open>A round consumes tokens\<close>

fun action_state :: "action \<Rightarrow> pstate" where
  "action_state (Done s) = s"
| "action_state (Emit sts s) = s"
| "action_state (Consume s) = s"
| "action_state (Enter st cmts s) = s"

lemma arg_loop_length: "arg_loop ts = Inr (args, cmts, term, rest) \<Longrightarrow> length rest < length ts"
  by (induction ts arbitrary: args cmts)
     (auto simp: gbind_eq_Inr split: if_splits intro: less_SucI)

lemma handleErr_simps [simp]:
  "tokens (handleErr e s) = tokens s" "dirs (handleErr e s) = dirs s" "opts (handleErr e s) = opts s"
  "PErrors (pld (handleErr e s)) = PErrors (pld s) @ [e]"
  "PStatus (pld (handleErr e s)) = ''failed''"
  "Errors (parsing (handleErr e s)) = Errors (parsing s) @ [e]"
  "Status (parsing (handleErr e s)) = ''failed''"
  "File (parsing (handleErr e s)) = File (parsing s)"
  "Config (pld (handleErr e s)) = Config (pld s)"
  "Parsed (parsing (handleErr e s)) = Parsed (parsing s)"
  by (simp_all add: handleErr_def Let_def)

lemma include_names_cases:
  "snd (include_names env stmt pattern s) = s \<or>
   (\<exists>e. snd (include_names env stmt pattern s) = handleErr e s)"
  by (cases "fs_Open env pattern"; simp add: include_names_def Let_def split: sum.split) blast

lemma add_includes_state: "\<exists>o'. snd (add_includes ctx names p) = (snd p)\<lparr>opts := o'\<rparr>"
proof (induction names arbitrary: p)
  case Nil
  have "snd p = (snd p)\<lparr>opts := opts (snd p)\<rparr>" by simp
  then show ?case unfolding add_includes_def by (metis fold_simps(1))
next
  case (Cons name names)
  have "\<exists>o2. snd (add_include ctx name p) = (snd p)\<lparr>opts := o2\<rparr>"
    by (simp add: add_include_def Let_def case_prod_beta) blast
  with Cons [of "add_include ctx name p"] show ?case by (auto simp: add_includes_def)
qed

text \<open>The states a statement passes through differ from the first one in the options, in the table
  and in reported errors.\<close>

inductive reports :: "pstate \<Rightarrow> pstate \<Rightarrow> bool" where
  reports_same: "reports s s"
| reports_err: "reports s s' \<Longrightarrow> reports s (handleErr e s')"
| reports_opts: "reports s s' \<Longrightarrow> reports s (s'\<lparr>opts := o'\<rparr>)"
| reports_dirs: "reports s s' \<Longrightarrow> reports s (s'\<lparr>dirs := d'\<rparr>)"

lemma reports_tokens: "reports s s' \<Longrightarrow> tokens s' = tokens s"
  by (induction rule: reports.induct) auto

lemma handle_include_reports:
  assumes "handle_include env ctx stmt s = Inr (stmt', s')" "reports s0 s"
  shows "reports s0 s'"
proof -
  from assms(1) obtain pattern where
    "add_includes ctx (fst (include_names env stmt pattern s))
       (stmt, snd (include_names env stmt pattern s)) = (stmt', s')" (is "?add = _")
    by (auto simp: handle_include_def gbind_eq_Inr Let_def case_prod_beta)
  then have "s' = snd ?add" by simp
  then obtain o' where "s' = (snd (include_names env stmt pattern s))\<lparr>opts := o'\<rparr>"
    using add_includes_state [of ctx "fst (include_names env stmt pattern s)"
        "(stmt, snd (include_names env stmt pattern s))"] by auto
  moreover have "reports s0 (snd (include_names env stmt pattern s))"
    using include_names_cases [of env stmt pattern s] assms(2) by (metis reports_err)
  ultimately show ?thesis by (simp add: reports_opts)
qed

lemma check_stmt_reports: "reports s (check_stmt env ctx stmt tm s)"
  by (auto simp: check_stmt_def Let_def intro: reports.intros split: prod.splits option.splits)

lemma finish_stmt_reports:
  assumes "finish_stmt env ctx stmt cmts term s = Inr a"
  shows "reports s (action_state a)"
proof (cases "ignored (opts s) (Directive stmt)")
  case True
  with assms show ?thesis by (auto simp: finish_stmt_def intro: reports_same split: if_splits)
next
  case False
  let ?stmt = "if Directive stmt = ''if'' then prepareIfArgs stmt else stmt"
  let ?s1 = "check_stmt env ctx ?stmt (tok_text term) s"
  from False assms obtain stmt' s2 where
    r: "(if \<not> single (opts ?s1) \<and> Directive ?stmt = ''include'' then handle_include env ctx ?stmt ?s1
         else Inr (?stmt, ?s1)) = Inr (stmt', s2)" "action_state a = s2"
    unfolding finish_stmt_def Let_def by (auto simp: gbind_eq_Inr simp del: Stmt.sel split: if_splits)
  with check_stmt_reports [of s env ctx ?stmt "tok_text term"]
  show ?thesis by (auto intro: handle_include_reports split: if_splits)
qed

lemma parse_step_length:
  assumes "parse_step env ctx consume s = Inr a"
  shows "length (tokens (action_state a)) \<le> length (tokens s) - 1"
proof (cases "tokens s")
  case Nil
  with assms show ?thesis by (auto simp: parse_step_def)
next
  case (Cons t ts)
  show ?thesis
  proof (cases "is_close t \<or> consume \<and> is_open t \<or> is_comment t")
    case True
    with Cons assms show ?thesis by (auto simp: parse_step_def Let_def split: if_splits)
  next
    case False
    with Cons assms obtain args cmts tm rest stmt where
      a: "arg_loop ts = Inr (args, cmts, tm, rest)"
      and f: "finish_stmt env ctx stmt cmts tm (s\<lparr>tokens := rest\<rparr>) = Inr a"
      by (auto simp: parse_step_def Let_def gbind_eq_Inr)
    from reports_tokens [OF finish_stmt_reports [OF f]] arg_loop_length [OF a] Cons
    show ?thesis by simp
  qed
qed

lemma parse_step_less:
  assumes "parse_step env ctx consume s = Inr a" "\<forall>s'. a \<noteq> Done s'"
  shows "length (tokens (action_state a)) < length (tokens s)"
proof -
  from assms have "tokens s \<noteq> []" by (auto simp: parse_step_def)
  with parse_step_length [OF assms(1)] show ?thesis by (cases "tokens s") auto
qed

section \<open>The statement loop\<close>

text \<open>
  \<open>parseInternal\<close> with its result list as an accumulator. A skipped block (\<open>consume\<close>) is parsed by
  the same loop and its statements are dropped.
\<close>

function parse_loop ::
  "parse_env \<Rightarrow> string list \<Rightarrow> bool \<Rightarrow> pstate \<Rightarrow> Stmt list \<Rightarrow> (Stmt list \<times> pstate) go" where
  "parse_loop env ctx consume s parsed =
     gbind (parse_step env ctx consume s) (\<lambda>a.
       case a of
         Done s' \<Rightarrow> Inr (parsed, s')
       | Emit sts s' \<Rightarrow> parse_loop env ctx consume s' (parsed @ sts)
       | Consume s' \<Rightarrow>
           gbind (parse_loop env [] True s' []) (\<lambda>(_, s'').
             parse_loop env ctx consume s'' parsed)
       | Enter stmt cmts s' \<Rightarrow>
           gbind (parse_loop env (enterBlock stmt ctx) False s' []) (\<lambda>(blocks, s'').
             parse_loop env ctx consume s''
               (parsed @ set_Blocks (Some blocks) stmt # comment_stmts stmt cmts)))"
  by pat_completeness auto

lemma parse_loop_shrinks:
  assumes "parse_loop_dom (env, ctx, consume, s, parsed)"
    and "parse_loop env ctx consume s parsed = Inr (sts, s')"
  shows "length (tokens s') \<le> length (tokens s)"
  using assms
proof (induction env ctx consume s parsed arbitrary: sts s' rule: parse_loop.pinduct)
  case (1 env ctx consume s parsed)
  note IH = "1.IH" and ret = "1.prems" [unfolded parse_loop.psimps [OF "1.hyps"] gbind_eq_Inr]
  from ret obtain a where a: "parse_step env ctx consume s = Inr a" by blast
  show ?case
  proof (cases a)
    case (Done s1)
    with ret a parse_step_length [OF a] show ?thesis by auto
  next
    case (Emit sts1 s1)
    with ret a have "parse_loop env ctx consume s1 (parsed @ sts1) = Inr (sts, s')" by simp
    from IH(1) [OF a Emit this] parse_step_length [OF a] Emit show ?thesis by simp
  next
    case (Consume s1)
    with ret a obtain b s2 where p: "parse_loop env [] True s1 [] = Inr (b, s2)"
        "parse_loop env ctx consume s2 parsed = Inr (sts, s')"
      by (auto simp: gbind_eq_Inr)
    from IH(2) [OF a Consume p(1)] IH(3) [OF a Consume p(1) refl p(2)] parse_step_length [OF a] Consume
    show ?thesis by simp
  next
    case (Enter st cmts s1)
    with ret a obtain b s2 where p: "parse_loop env (enterBlock st ctx) False s1 [] = Inr (b, s2)"
        "parse_loop env ctx consume s2 (parsed @ set_Blocks (Some b) st # comment_stmts st cmts) =
           Inr (sts, s')"
      by (auto simp: gbind_eq_Inr)
    from IH(4) [OF a Enter p(1)] IH(5) [OF a Enter p(1) refl p(2)] parse_step_length [OF a] Enter
    show ?thesis by simp
  qed
qed

termination parse_loop
proof (relation "measure (\<lambda>(env, ctx, consume, s, parsed). length (tokens s))", goal_cases)
  case 1
  show ?case by simp
next
  case (2 env ctx consume s parsed a sts s')
  then show ?case using parse_step_less [of env ctx consume s a] by simp
next
  case (3 env ctx consume s parsed a s')
  then show ?case using parse_step_less [of env ctx consume s a] by simp
next
  case (4 env ctx consume s parsed a s' r b s2)
  then show ?case
    using parse_step_less [of env ctx consume s a] parse_loop_shrinks [of env "[]" True s' "[]" b s2]
    by simp
next
  case (5 env ctx consume s parsed a stmt cmts s')
  then show ?case using parse_step_less [of env ctx consume s a] by simp
next
  case (6 env ctx consume s parsed a stmt cmts s' r b s2)
  then show ?case
    using parse_step_less [of env ctx consume s a]
      parse_loop_shrinks [of env "enterBlock stmt ctx" False s' "[]" b s2]
    by simp
qed

declare parse_loop.simps [simp del]

definition parseInternal ::
  "parse_env \<Rightarrow> string list \<Rightarrow> bool \<Rightarrow> pstate \<Rightarrow> (Stmt list \<times> pstate) go" where
  "parseInternal env ctx consume s = parse_loop env ctx consume s []"

section \<open>Relations that every step keeps\<close>

lemma parse_step_reports:
  assumes "parse_step env ctx consume s = Inr a"
  shows "\<exists>ts. reports (s\<lparr>tokens := ts\<rparr>) (action_state a)"
proof (cases "tokens s")
  case Nil
  with assms have "a = Done s" "s = s\<lparr>tokens := tokens s\<rparr>" by (simp_all add: parse_step_def)
  then show ?thesis by (metis action_state.simps(1) reports_same)
next
  case (Cons t ts)
  show ?thesis
  proof (cases "is_close t \<or> consume \<and> is_open t \<or> is_comment t")
    case True
    with Cons assms have "action_state a = s\<lparr>tokens := ts\<rparr>"
      by (auto simp: parse_step_def Let_def split: if_splits)
    then show ?thesis using reports_same by metis
  next
    case False
    with Cons assms obtain cmts tm rest stmt where
      "finish_stmt env ctx stmt cmts tm (s\<lparr>tokens := rest\<rparr>) = Inr a"
      by (auto simp: parse_step_def Let_def gbind_eq_Inr)
    from finish_stmt_reports [OF this] show ?thesis ..
  qed
qed

text \<open>
  What a client of the statement loop can rely on: a preorder on parser states that every round
  respects is respected by the whole loop.
\<close>

locale step_relation =
  fixes R :: "pstate \<Rightarrow> pstate \<Rightarrow> bool"
  assumes R_refl: "R s s"
    and R_trans: "R s1 s2 \<Longrightarrow> R s2 s3 \<Longrightarrow> R s1 s3"
    and R_step: "parse_step env ctx consume s = Inr a \<Longrightarrow> R s (action_state a)"
begin

lemma parse_loop_R: "parse_loop env ctx consume s parsed = Inr (sts, s') \<Longrightarrow> R s s'"
proof (induction env ctx consume s parsed arbitrary: sts s' rule: parse_loop.induct)
  case (1 env ctx consume s parsed)
  note ret = "1.prems" [unfolded parse_loop.simps [of env ctx consume s] gbind_eq_Inr]
  from ret obtain a where a: "parse_step env ctx consume s = Inr a" by blast
  note st = R_step [OF a]
  show ?case
  proof (cases a)
    case (Done s1)
    with ret a st show ?thesis by simp
  next
    case (Emit sts1 s1)
    with ret a st "1.IH"(1) [OF a Emit] show ?thesis by (auto intro: R_trans)
  next
    case (Consume s1)
    with ret a obtain b s2 where p: "parse_loop env [] True s1 [] = Inr (b, s2)"
        "parse_loop env ctx consume s2 parsed = Inr (sts, s')"
      by (auto simp: gbind_eq_Inr)
    from st Consume "1.IH"(2) [OF a Consume p(1)] "1.IH"(3) [OF a Consume p(1) refl p(2)]
    show ?thesis by (auto intro: R_trans)
  next
    case (Enter st cmts s1)
    with ret a obtain b s2 where p: "parse_loop env (enterBlock st ctx) False s1 [] = Inr (b, s2)"
        "parse_loop env ctx consume s2 (parsed @ set_Blocks (Some b) st # comment_stmts st cmts) =
           Inr (sts, s')"
      by (auto simp: gbind_eq_Inr)
    from R_step [OF a] Enter "1.IH"(4) [OF a Enter p(1)] "1.IH"(5) [OF a Enter p(1) refl p(2)]
    show ?thesis by (auto intro: R_trans)
  qed
qed

lemma parseInternal_R: "parseInternal env ctx consume s = Inr (sts, s') \<Longrightarrow> R s s'"
  unfolding parseInternal_def by (rule parse_loop_R)

end

text \<open>The same for a relation that every kind of state change of a round respects.\<close>

locale report_relation =
  fixes R :: "pstate \<Rightarrow> pstate \<Rightarrow> bool"
  assumes rep_refl: "R s s"
    and rep_trans: "R s1 s2 \<Longrightarrow> R s2 s3 \<Longrightarrow> R s1 s3"
    and rep_err: "R s (handleErr e s)"
    and rep_opts: "R s (s\<lparr>opts := o'\<rparr>)"
    and rep_dirs: "R s (s\<lparr>dirs := d'\<rparr>)"
    and rep_tokens: "R s (s\<lparr>tokens := ts\<rparr>)"
begin

lemma reports_R: "reports s s' \<Longrightarrow> R s s'"
  by (induction rule: reports.induct) (blast intro: rep_refl rep_trans rep_err rep_opts rep_dirs)+

end

sublocale report_relation \<subseteq> step_relation
proof
  fix env ctx consume s a
  assume "parse_step env ctx consume s = Inr a"
  from parse_step_reports [OF this] show "R s (action_state a)"
    by (auto intro: rep_trans rep_tokens reports_R)
qed (fact rep_refl, fact rep_trans)

text \<open>The parser never touches the payload's file list or the name of the file it parses, never
  loses an error, and sets the status exactly with the first error.\<close>

interpretation keeps_files: report_relation
  "\<lambda>s s'. Config (pld s') = Config (pld s) \<and> File (parsing s') = File (parsing s)"
  by unfold_locales auto

interpretation errors_grow: report_relation
  "\<lambda>s s'. prefix (PErrors (pld s)) (PErrors (pld s')) \<and> prefix (Errors (parsing s)) (Errors (parsing s'))"
  by unfold_locales (auto simp: prefix_order.trans)

definition status_sound :: "pstate \<Rightarrow> bool" where
  "status_sound s \<longleftrightarrow>
     (PStatus (pld s) = ''failed'' \<longleftrightarrow> PErrors (pld s) \<noteq> []) \<and>
     (Status (parsing s) = ''failed'' \<longleftrightarrow> Errors (parsing s) \<noteq> [])"

interpretation keeps_status: report_relation "\<lambda>s s'. status_sound s \<longrightarrow> status_sound s'"
  by unfold_locales (auto simp: status_sound_def)

section \<open>Files and includes\<close>

definition parseInclude ::
  "parse_env \<Rightarrow> fileCtx \<Rightarrow> pstate \<Rightarrow>
   ((parsingContext option \<times> parse_error option) \<times> pstate) go option" where
  "parseInclude env f s =
     (let parsing0 = \<lparr>File = fc_name f, Status = ''ok'', Errors = [], Parsed = []\<rparr>
      in case fs_Open env (fc_name f) of
           Inl err \<Rightarrow> Some (Inr ((None, Some (OpenErr err)), s))
         | Inr file \<Rightarrow> do {
             r \<leftarrow> lex file (fc_name f);
             (case r of
                Inl err \<Rightarrow> Some (Inr ((None, Some (LexErr err)), s))
              | Inr ts \<Rightarrow>
                  Some (gbind (parseInternal env (fc_ctx f) False
                                 (s\<lparr>tokens := ts, parsing := parsing0\<rparr>))
                    (\<lambda>(parsed, s'). Inr ((Some ((parsing s')\<lparr>Parsed := parsed\<rparr>), None), s'))))
           })"

definition add_config :: "parsingContext option \<Rightarrow> parse_error option \<Rightarrow> pstate \<Rightarrow> pstate" where
  "add_config c err s =
     (let p = pld s;
          p1 = (case err of
                  None \<Rightarrow> p
                | Some e \<Rightarrow> p\<lparr>PStatus := ''failed'', PErrors := PErrors p @ [e]\<rparr>)
      in s\<lparr>pld := p1\<lparr>Config := Config p1 @ [c]\<rparr>\<rparr>)"

text \<open>The loop of \<open>parse\<close> over \<open>includeIter\<close>: the list of files grows while it runs.\<close>

partial_function (option) include_loop :: "parse_env \<Rightarrow> nat \<Rightarrow> pstate \<Rightarrow> pstate go option" where
  "include_loop env idx s =
     (if idx < length (opt_includes (opts s)) then do {
        r \<leftarrow> parseInclude env (opt_includes (opts s) ! idx) s;
        (case r of
           Inl p \<Rightarrow> Some (Inl p)
         | Inr q \<Rightarrow> include_loop env (Suc idx) (add_config (fst (fst q)) (snd (fst q)) (snd q)))
      }
      else Some (Inr s))"

text \<open>
  \<open>performInclude\<close>. The first argument holds the include indices of the current statement that are
  still to be expanded. An empty result slice is nil, also as the block of a statement.
\<close>

definition config_at :: "payload \<Rightarrow> nat \<Rightarrow> parsingContext go" where
  "config_at p idx =
     gbind (go_index (Config p) idx) (\<lambda>c. case c of None \<Rightarrow> Inl NilPointer | Some c \<Rightarrow> Inr c)"

definition nil_slice :: "'a list \<Rightarrow> 'a list option" where
  "nil_slice xs = (if xs = [] then None else Some xs)"

partial_function (option) perform_loop :: "payload \<Rightarrow> nat list \<Rightarrow> Stmt list \<Rightarrow> Stmt list go option" where
  "perform_loop p todo block =
     (case todo of
        idx # idxs \<Rightarrow>
          go_then (Some (config_at p idx)) (\<lambda>c.
          go_then (perform_loop p [] (Parsed c)) (\<lambda>vs.
          go_then (perform_loop p idxs block) (\<lambda>rest.
          Some (Inr (vs @ rest)))))
      | [] \<Rightarrow>
          (case block of
             [] \<Rightarrow> Some (Inr [])
           | stmt # stmts \<Rightarrow>
               go_then (case Blocks stmt of
                          None \<Rightarrow> Some (Inr stmt)
                        | Some b \<Rightarrow> go_then (perform_loop p [] b) (\<lambda>o1.
                            Some (Inr (set_Blocks (nil_slice o1) stmt)))) (\<lambda>stmt'.
               if Includes stmt' \<noteq> [] then perform_loop p (Includes stmt') stmts
               else go_then (perform_loop p [] stmts) (\<lambda>rest. Some (Inr (stmt' # rest))))))"

definition performInclude :: "payload \<Rightarrow> Stmt list \<Rightarrow> Stmt list go option" where
  "performInclude p block = perform_loop p [] block"

text \<open>The loop that merges the errors and the status of the files; a nil context panics.\<close>

fun merge_errors :: "parsingContext option list \<Rightarrow> parsingContext \<Rightarrow> parsingContext go" where
  "merge_errors [] acc = Inr acc"
| "merge_errors (None # cs) acc = Inl NilPointer"
| "merge_errors (Some c # cs) acc =
     merge_errors cs (acc\<lparr>Errors := Errors acc @ Errors c,
                          Status := (if Status c = ''failed'' then ''failed'' else Status acc)\<rparr>)"

definition combineParsedConfig :: "payload \<Rightarrow> payload go option" where
  "combineParsedConfig p =
     go_then (Some (config_at p 0)) (\<lambda>c0.
     go_then (Some (merge_errors (Config p)
                      \<lparr>File = File c0, Status = ''ok'', Errors = [], Parsed = []\<rparr>)) (\<lambda>acc.
     go_then (performInclude p (Parsed c0)) (\<lambda>parsed.
     Some (Inr \<lparr>PStatus = PStatus p, PErrors = PErrors p,
                Config = [Some (acc\<lparr>Parsed := parsed\<rparr>)]\<rparr>))))"

definition parse_start :: "string \<Rightarrow> parseOpts \<Rightarrow> directive_map \<Rightarrow> pstate" where
  "parse_start filename o0 ds =
     \<lparr>tokens = [], dirs = ds,
      opts = o0\<lparr>configDir := filepath_Dir filename,
                opt_includes := opt_includes o0 @ [\<lparr>fc_name = filename, fc_ctx = []\<rparr>],
                included := [''filename'' \<mapsto> 0]\<rparr>,
      parsing = \<lparr>File = [], Status = [], Errors = [], Parsed = []\<rparr>,
      pld = \<lparr>PStatus = ''ok'', PErrors = [], Config = []\<rparr>\<rparr>"

definition parse :: "parse_env \<Rightarrow> string \<Rightarrow> parseOpts \<Rightarrow> directive_map \<Rightarrow> payload go option" where
  "parse env filename o0 ds =
     go_then (include_loop env 0 (parse_start filename o0 ds)) (\<lambda>s.
       if combine (opts s) then combineParsedConfig (pld s) else Some (Inr (pld s)))"

end
