(* ===== verification/Startup.thy ===== *)
theory Startup
  imports Pipeline Conn_Manager Config_Parse
begin

text \<open>
  Starting and stopping the server, from \<open>ngx_startup.go\<close>: the context of the server, opening the
  listeners, one HTTP server per listening address, the loop over signals and the shutdown. Opening
  a listener is a parameter; a listener may be nil. The Go maps are visited in the orders given as
  arguments.
\<close>

section \<open>The server context\<close>

datatype http_handler = Vince vince_handler | Management

record http_Server =
  sv_active :: httpListenOpts
  sv_handler :: http_handler

record 'l serverCtx =
  sc_core :: nat
  sc_defaultServer :: "string \<rightharpoonup> nat"
  sc_address :: "string \<rightharpoonup> httpListenOpts"
  sc_serverRules :: "string \<rightharpoonup> nat list"
  sc_listeners :: "string \<rightharpoonup> 'l option"
  sc_servers :: "string \<rightharpoonup> http_Server"
  sc_activeListener :: httpListenOpts

text \<open>\<open>init\<close> makes all maps but that of the default servers, which stays nil and reads as empty.\<close>

definition serverCtx_init :: "nat \<Rightarrow> 'l serverCtx" where
  "serverCtx_init core =
     \<lparr>sc_core = core, sc_defaultServer = Map.empty, sc_address = Map.empty, sc_serverRules = Map.empty,
      sc_listeners = Map.empty, sc_servers = Map.empty, sc_activeListener = zero_listen\<rparr>"

definition serverCtx_with :: "'l serverCtx \<Rightarrow> httpListenOpts \<Rightarrow> 'l serverCtx" where
  "serverCtx_with s active =
     \<lparr>sc_core = sc_core s, sc_defaultServer = Map.empty, sc_address = Map.empty, sc_serverRules = sc_serverRules s,
      sc_listeners = sc_listeners s, sc_servers = sc_servers s, sc_activeListener = active\<rparr>"

section \<open>Starting the servers\<close>

record ('tpl, 'l, 'cert) start_env =
  st_http :: "'tpl http_env"
  st_core :: core_env
  st_Listen :: "string \<Rightarrow> string \<Rightarrow> string + 'l"
  st_TLSListen :: "string \<Rightarrow> string \<Rightarrow> 'cert tls_Config \<Rightarrow> string + 'l"
  st_LoadX509KeyPair :: "string \<Rightarrow> string \<Rightarrow> string + 'cert"
  st_ReadFile :: "string \<Rightarrow> string + string"
  st_names :: "nat list \<Rightarrow> string list \<times> (string \<times> nat) list"

definition address_of :: "'l serverCtx \<Rightarrow> string \<Rightarrow> httpListenOpts" where
  "address_of s k = (case sc_address s k of Some lo \<Rightarrow> lo | None \<Rightarrow> zero_listen)"

text \<open>
  Opening the listener of an address. The error of \<open>tls.Listen\<close> goes into a variable of the inner
  block, so it is lost and the listener stays nil.
\<close>

definition open_listener :: "('tpl, 'l, 'cert) start_env \<Rightarrow> httpListenOpts \<Rightarrow> string + 'l option" where
  "open_listener E lo =
     (if ssl lo then
        (case sslOptions_config (st_LoadX509KeyPair E) (st_ReadFile E) (sslOpts lo) of
           Inl err \<Rightarrow> Inl err
         | Inr c \<Rightarrow>
             (case st_TLSListen E (listen_net lo) (addrPort lo) c of Inl err \<Rightarrow> Inr None | Inr l \<Rightarrow> Inr (Some l)))
      else
        (case st_Listen E (listen_net lo) (addrPort lo) of Inl err \<Rightarrow> Inl err | Inr l \<Rightarrow> Inr (Some l)))"

fun listen_loop :: "('tpl, 'l, 'cert) start_env \<Rightarrow> string list \<Rightarrow> 'l serverCtx \<Rightarrow> string + 'l serverCtx" where
  "listen_loop E [] s = Inr s"
| "listen_loop E (k # ks) s =
     (let lo = address_of s k
      in case open_listener E lo of
           Inl err \<Rightarrow> Inl err
         | Inr l \<Rightarrow> listen_loop E ks (s\<lparr>sc_listeners := (sc_listeners s)(addrPort lo \<mapsto> l)\<rparr>))"

definition createHTTPServer ::
  "('tpl, 'l, 'cert) start_env \<Rightarrow> rule list \<Rightarrow> 'l serverCtx \<Rightarrow> nat list \<Rightarrow> httpListenOpts \<Rightarrow> http_Server go" where
  "createHTTPServer E st s rules lo =
     (let servCtx = serverCtx_with s lo
      in gbind (make_handler (st_http E) st (fst (st_names E rules)) (snd (st_names E rules)) rules
                 (sc_defaultServer servCtx (addrPort (sc_activeListener servCtx)))) (\<lambda>h.
           Inr \<lparr>sv_active = lo, sv_handler = Vince h\<rparr>))"

fun server_loop ::
  "('tpl, 'l, 'cert) start_env \<Rightarrow> rule list \<Rightarrow> string list \<Rightarrow> 'l serverCtx \<Rightarrow> 'l serverCtx go" where
  "server_loop E st [] s = Inr s"
| "server_loop E st (k # ks) s =
     (let lo = address_of s k
      in gbind (createHTTPServer E st s (case sc_serverRules s k of Some rs \<Rightarrow> rs | None \<Rightarrow> []) lo) (\<lambda>srv.
           server_loop E st ks (s\<lparr>sc_servers := (sc_servers s)(addrPort lo \<mapsto> srv)\<rparr>)))"

text \<open>The last loop prints the address of each listener before it serves; it lists what is served.\<close>

fun serve_loop :: "'l serverCtx \<Rightarrow> string list \<Rightarrow> (string \<times> 'l) list go" where
  "serve_loop s [] = Inr []"
| "serve_loop s (k # ks) =
     (case sc_listeners s k of
        Some (Some l) \<Rightarrow> gbind (serve_loop s ks) (\<lambda>rest. Inr ((k, l) # rest))
      | _ \<Rightarrow> Inl NilPointer)"

definition process ::
  "('tpl, 'l, 'cert) start_env \<Rightarrow> rule list \<Rightarrow> int \<Rightarrow> string list \<Rightarrow> string list \<Rightarrow> string list \<Rightarrow> 'l serverCtx \<Rightarrow>
     (string + 'l serverCtx \<times> (string \<times> 'l) list) go" where
  "process E st port keys1 keys2 keys3 s =
     gbind (server_groups (st_core E) st (sc_core s) port) (\<lambda>t.
       case listen_loop E keys1 (s\<lparr>sc_address := address t, sc_serverRules := serverRules t\<rparr>) of
         Inl err \<Rightarrow> Inr (Inl err)
       | Inr s \<Rightarrow>
           gbind (server_loop E st keys2 s) (\<lambda>s.
             gbind (serve_loop s keys3) (\<lambda>started. Inr (Inr (s, started)))))"

section \<open>Configuration, signals, shutdown\<close>

text \<open>The statement that stands for the whole configuration.\<close>

definition main_stmt :: "payload \<Rightarrow> (parse_error list + Stmt) go" where
  "main_stmt p =
     (if PErrors p \<noteq> [] then Inr (Inl (PErrors p))
      else gbind (config_at p 0) (\<lambda>c. Inr (Inr (Stmt ''main'' [] 0 [] [] [] (Some (Parsed c))))))"

text \<open>The management server listens before the others are started, when it is enabled.\<close>

definition start_management ::
  "('tpl, 'l, 'cert) start_env \<Rightarrow> int option \<Rightarrow> 'l serverCtx \<Rightarrow> string + 'l serverCtx" where
  "start_management E port s =
     (case port of
        None \<Rightarrow> Inr s
      | Some n \<Rightarrow>
          let lo = zero_listen\<lparr>listen_net := ''tcp'', addrPort := '':'' @ Itoa n\<rparr>
          in (case st_Listen E ''tcp'' (addrPort lo) of
                Inl err \<Rightarrow> Inl err
              | Inr l \<Rightarrow>
                  Inr (s\<lparr>sc_listeners := (sc_listeners s)(addrPort lo \<mapsto> Some l),
                         sc_servers := (sc_servers s)(addrPort lo \<mapsto> \<lparr>sv_active = lo, sv_handler = Management\<rparr>)\<rparr>)))"

datatype start_error = ParseErrors "parse_error list" | StartErr string

text \<open>
  \<open>startEverything\<close> up to the loop over signals; \<open>mgmt\<close> is the port of the management server when it
  is enabled, and the keys are the orders in which the maps are visited.
\<close>

definition startEverything ::
  "parse_env \<Rightarrow> string \<Rightarrow> directive_map \<Rightarrow> ('tpl, 'l, 'cert) start_env \<Rightarrow> int \<Rightarrow> int option \<Rightarrow>
     string list \<Rightarrow> string list \<Rightarrow> string list \<Rightarrow>
     (start_error + rule list \<times> 'l serverCtx \<times> (string \<times> 'l) list) go option" where
  "startEverything P confFile ds E port mgmt keys1 keys2 keys3 =
     go_then (parse P confFile defaultParseOpts ds) (\<lambda>p.
       Some (gbind (main_stmt p) (\<lambda>d.
         case d of
           Inl errs \<Rightarrow> Inr (Inl (ParseErrors errs))
         | Inr d \<Rightarrow>
             (case ruleFromStmt [] d None of (st, core) \<Rightarrow>
                (case start_management E mgmt (serverCtx_init core) of
                   Inl err \<Rightarrow> Inr (Inl (StartErr err))
                 | Inr s \<Rightarrow>
                     gbind (process E st port keys1 keys2 keys3 s) (\<lambda>res.
                       Inr (case res of Inl err \<Rightarrow> Inl (StartErr err) | Inr (s, started) \<Rightarrow> Inr (st, s, started))))))))"

datatype signal = SIGTERM | SIGINT | SIGABRT | SIGHUP | SIGQUIT | SIGUSR1 | SIGUSR2 | SIGWINCH

datatype event = Done | Signal signal

datatype exit_status = CtxErr | Exiting | ShutDown

fun signal_loop :: "event list \<Rightarrow> exit_status option" where
  "signal_loop [] = None"
| "signal_loop (Done # es) = Some CtxErr"
| "signal_loop (Signal sig # es) =
     (if sig \<in> {SIGTERM, SIGINT, SIGABRT} then Some Exiting
      else if sig = SIGQUIT then Some ShutDown
      else signal_loop es)"

text \<open>\<open>shutdown\<close>: servers, listeners, connections; the errors of each are collected.\<close>

definition close_errors :: "('a \<Rightarrow> string option) \<Rightarrow> 'a list \<Rightarrow> string list" where
  "close_errors CloseErr xs = concat (map (\<lambda>x. case CloseErr x of None \<Rightarrow> [] | Some e \<Rightarrow> [e]) xs)"

fun close_listeners :: "('l \<Rightarrow> string option) \<Rightarrow> 'l option list \<Rightarrow> string list \<Rightarrow> string list go" where
  "close_listeners CloseErr [] errs = Inr errs"
| "close_listeners CloseErr (None # ls) errs = Inl NilPointer"
| "close_listeners CloseErr (Some l # ls) errs =
     close_listeners CloseErr ls (case CloseErr l of None \<Rightarrow> errs | Some e \<Rightarrow> errs @ [e])"

definition serverCtx_shutdown ::
  "(rune \<Rightarrow> bool) \<Rightarrow> (http_Server \<Rightarrow> string option) \<Rightarrow> ('l \<Rightarrow> string option) \<Rightarrow> ('c \<Rightarrow> string option) \<Rightarrow>
     http_Server list \<Rightarrow> 'l option list \<Rightarrow> 'c list \<Rightarrow> 'c connManager \<Rightarrow> ('c connManager \<times> string option) go" where
  "serverCtx_shutdown printable ServerErr ListenerErr ConnErr servers ls order m =
     gbind (close_listeners ListenerErr ls (close_errors ServerErr servers)) (\<lambda>errs.
       case connManager_Close ConnErr order m of (m, e) \<Rightarrow>
         let errs = (case e of None \<Rightarrow> errs | Some e \<Rightarrow> errs @ [e])
         in Inr (m, if errs \<noteq> [] then Some (''vince: error trying to graceful shutdown '' @ Quote printable (join errs '','')) else None))"

text \<open>The signals that other servers use to reload or to reopen their logs are ignored.\<close>

lemma signal_loop_runs:
  "signal_loop es = None \<longleftrightarrow> list_all (\<lambda>e. e \<in> Signal ` {SIGHUP, SIGUSR1, SIGUSR2, SIGWINCH}) es"
proof (induction es rule: signal_loop.induct)
  case (3 sig es)
  then show ?case by (cases sig) auto
qed auto

section \<open>The servers of a configuration\<close>

lemma list_all2_filter:
  assumes "list_all2 R xs ys" "\<And>x y. R x y \<Longrightarrow> P x = Q y"
  shows "list_all2 R (filter P xs) (filter Q ys)"
  using assms(1) by (induction rule: list_all2_induct) (auto simp: assms(2))

lemma represents_all2:
  assumes "represents lo st r par stmt"
  shows "list_all2 (\<lambda>c b. represents lo st c (Some r) b) (children (deref st r)) (blocks_of stmt)"
proof (rule list_all2_all_nthI)
  show len: "length (children (deref st r)) = length (blocks_of stmt)"
    using assms by (simp add: represents.simps [of lo st r])
  show "represents lo st (children (deref st r) ! i) (Some r) (blocks_of stmt ! i)"
    if "i < length (children (deref st r))" for i using represents_child [OF assms] that len by simp
qed

lemma represents_name: "represents lo st r par stmt \<Longrightarrow> rule_name (deref st r) = Directive stmt"
  by (simp add: represents.simps [of lo st r])

lemma represents_same: "represents lo st r par stmt \<Longrightarrow> same_rule st r stmt"
  by (simp add: represents.simps [of lo st r] same_rule_def)

lemma named_children_represents:
  assumes "represents lo st r par stmt"
  shows "list_all2 (\<lambda>c b. represents lo st c (Some r) b) (named_children st name r)
    (filter (\<lambda>b. Directive b = name) (blocks_of stmt))"
  unfolding named_children_def by (rule list_all2_filter [OF represents_all2 [OF assms]]) (simp add: represents_name)

lemma list_all2_concat_map:
  assumes "list_all2 R xs ys" "\<And>x y. R x y \<Longrightarrow> list_all2 Q (f x) (g y)"
  shows "list_all2 Q (concat (map f xs)) (concat (map g ys))"
  using assms(1) by (induction rule: list_all2_induct) (auto intro: list_all2_appendI assms(2))

definition server_blocks :: "Stmt list \<Rightarrow> Stmt list" where
  "server_blocks sts =
     concat (map (\<lambda>h. filter (\<lambda>b. Directive b = ''server'') (blocks_of h)) (filter (\<lambda>h. Directive h = ''http'') sts))"

lemma all_servers_represents:
  assumes "ruleFromStmt [] d None = (st, core)"
  shows "list_all2 (same_rule st) (all_servers st core) (server_blocks (blocks_of d))"
proof -
  from ruleFromStmt_represents [OF assms] have rep: "represents 0 st core None d" by auto
  show ?thesis unfolding all_servers_def server_blocks_def
  proof (rule list_all2_concat_map [OF named_children_represents [OF rep]])
    fix h b assume "represents 0 st h (Some core) b"
    from named_children_represents [OF this, of "''server''"]
    show "list_all2 (same_rule st) (named_children st ''server'' h) (filter (\<lambda>b. Directive b = ''server'') (blocks_of b))"
      by (rule list_all2_mono) (rule represents_same)
  qed
qed

text \<open>
  Which servers are started: for a configuration without errors they are exactly the \<open>server\<close>
  blocks written in \<open>http\<close> blocks of the main file, in their order. The parse is made without
  combining the files, so a server in a file that the main file includes is parsed and checked, but
  never started.
\<close>

theorem servers_of_main_file:
  assumes "PErrors p = []" "Config p = Some c # included_files"
    and "main_stmt p = Inr (Inr d)" "ruleFromStmt [] d None = (st, core)"
  shows "list_all2 (same_rule st) (all_servers st core) (server_blocks (Parsed c))"
proof -
  have d: "blocks_of d = Parsed c" using assms(1-3) by (auto simp: main_stmt_def config_at_def blocks_of_def)
  from all_servers_represents [OF assms(4)] show ?thesis unfolding d .
qed

section \<open>Listening addresses\<close>

definition table_ok :: "server_table \<Rightarrow> bool" where
  "table_ok t \<longleftrightarrow> dom (address t) = dom (serverRules t) \<and> (\<forall>k lo. address t k = Some lo \<longrightarrow> addrPort lo = k) \<and>
     (\<forall>k rs. serverRules t k = Some rs \<longrightarrow> rs \<noteq> [])"

lemma add_listener_ok: "table_ok t \<Longrightarrow> table_ok (add_listener v lo t)"
  unfolding table_ok_def add_listener_def by (auto split: if_splits option.splits)

lemma add_listeners_ok: "table_ok t \<Longrightarrow> table_ok (fold (add_listener v) los t)"
  by (induction los arbitrary: t) (simp_all add: add_listener_ok)

lemma group_servers_ok: "group_servers C st port vs t = Inr t' \<Longrightarrow> table_ok t \<Longrightarrow> table_ok t'"
  by (induction vs arbitrary: t) (auto simp: gbind_eq_Inr add_listeners_ok)

lemma server_groups_ok: "server_groups C st core port = Inr t \<Longrightarrow> table_ok t"
  unfolding server_groups_def by (erule group_servers_ok) (simp add: table_ok_def)

lemma add_name_default: "add_name R srv a h = Inr h' \<Longrightarrow> default_rule h' = default_rule h"
  by (auto simp: add_name_def gbind_eq_Inr split: if_splits)

lemma add_names_default: "add_names R srv as h = Inr h' \<Longrightarrow> default_rule h' = default_rule h"
  by (induction as arbitrary: h) (auto simp: gbind_eq_Inr dest: add_name_default)

lemma add_servers_default: "add_servers R st vs h = Inr h' \<Longrightarrow> default_rule h' = default_rule h"
  by (induction vs arbitrary: h) (auto simp: gbind_eq_Inr dest: add_names_default)

lemma createHTTPServer_default:
  assumes "createHTTPServer E st s rules lo = Inr sv"
  shows "\<exists>h. sv = \<lparr>sv_active = lo, sv_handler = Vince h\<rparr> \<and> vh_servers h = rules \<and> default_rule (vh_match h) = None"
  using assms add_servers_default
  by (fastforce simp: createHTTPServer_def make_handler_def handlerMatch_init_def serverCtx_with_def gbind_eq_Inr Let_def)

lemma listen_loop_frame: "listen_loop E ks s = Inr s' \<Longrightarrow> \<exists>ls. s' = s\<lparr>sc_listeners := ls\<rparr>"
proof (induction ks arbitrary: s)
  case Nil
  then show ?case by (auto intro: exI [of _ "sc_listeners s"])
next
  case (Cons k ks)
  then show ?case by (fastforce simp: Let_def split: sum.splits)
qed

text \<open>What the loop over the addresses leaves: a handler of the servers of each address.\<close>

definition serves :: "'l serverCtx \<Rightarrow> string \<Rightarrow> bool" where
  "serves s k \<longleftrightarrow>
     (\<exists>h. sc_servers s k = Some \<lparr>sv_active = address_of s k, sv_handler = Vince h\<rparr> \<and>
        Some (vh_servers h) = sc_serverRules s k \<and> default_rule (vh_match h) = None)"

definition addresses_ok :: "'l serverCtx \<Rightarrow> bool" where
  "addresses_ok s \<longleftrightarrow> table_ok \<lparr>address = sc_address s, serverRules = sc_serverRules s\<rparr>"

lemma addresses_key: "addresses_ok s \<Longrightarrow> k \<in> dom (sc_serverRules s) \<Longrightarrow> addrPort (address_of s k) = k"
  by (auto simp: addresses_ok_def table_ok_def address_of_def split: option.splits)

lemma server_loop_serves:
  assumes "server_loop E st ks s = Inr s'" "addresses_ok s" "set ks \<subseteq> dom (sc_serverRules s)"
  shows "(\<exists>vs. s' = s\<lparr>sc_servers := vs\<rparr>) \<and> (\<forall>k. k \<in> set ks \<or> serves s k \<longrightarrow> serves s' k)"
  using assms
proof (induction ks arbitrary: s)
  case Nil
  then show ?case by (auto intro: exI [of _ "sc_servers s"])
next
  case (Cons k ks)
  let ?rs = "case sc_serverRules s k of Some rs \<Rightarrow> rs | None \<Rightarrow> []"
  from Cons.prems(3) obtain rs where rs: "sc_serverRules s k = Some rs" by auto
  have key: "addrPort (address_of s k) = k" using addresses_key [OF Cons.prems(2), of k] rs by blast
  from Cons.prems(1) rs key obtain srv where srv: "createHTTPServer E st s rs (address_of s k) = Inr srv"
    "server_loop E st ks (s\<lparr>sc_servers := (sc_servers s)(k \<mapsto> srv)\<rparr>) = Inr s'" (is "server_loop E st ks ?s = _")
    by (auto simp: Let_def gbind_eq_Inr)
  from createHTTPServer_default [OF srv(1)] rs have now: "serves ?s k" "serves s j \<Longrightarrow> serves ?s j" for j
    by (auto simp: serves_def address_of_def)
  have "addresses_ok ?s" "set ks \<subseteq> dom (sc_serverRules ?s)" using Cons.prems(2,3) by (simp_all add: addresses_ok_def)
  from Cons.IH [OF srv(2) this] now show ?case by auto
qed

lemma serve_loop_started:
  "serve_loop s ks = Inr started \<Longrightarrow> map fst started = ks \<and> (\<forall>(k, l) \<in> set started. sc_listeners s k = Some (Some l))"
  by (induction ks arbitrary: started) (auto simp: gbind_eq_Inr split: option.splits)


text \<open>
  A TLS listener that cannot be opened: the error is lost in an inner variable, so instead of
  returning it the program dereferences the nil listener when it prints the address it starts on.
\<close>

theorem tls_listen_error_panics:
  assumes "server_groups (st_core E) st (sc_core s) port = Inr t" "address t k = Some lo" "ssl lo"
    and "sslOptions_config (st_LoadX509KeyPair E) (st_ReadFile E) (sslOpts lo) = Inr c"
    and "st_TLSListen E (listen_net lo) (addrPort lo) c = Inl err"
  shows "\<exists>q. process E st port [k] [k] [k] s = Inl q"
proof -
  let ?s = "s\<lparr>sc_address := address t, sc_serverRules := serverRules t\<rparr>"
  have lo: "address_of ?s k = lo" "addrPort lo = k"
    using assms(2) server_groups_ok [OF assms(1)] by (simp_all add: address_of_def table_ok_def)
  let ?s1 = "?s\<lparr>sc_listeners := (sc_listeners s)(k \<mapsto> None)\<rparr>"
  have l: "listen_loop E [k] ?s = Inr ?s1"
    using assms(3-5) lo by (simp add: open_listener_def Let_def)
  have "serve_loop s' [k] = Inl NilPointer" if "server_loop E st [k] ?s1 = Inr s'" for s'
    using that lo by (auto simp: Let_def gbind_eq_Inr address_of_def)
  with l show ?thesis unfolding process_def assms(1) gbind_simps
    by (cases "server_loop E st [k] ?s1") simp_all
qed

section \<open>Samples\<close>

text \<open>One server that listens with the given arguments; plain sockets open, TLS sockets do not.\<close>

definition one_server :: "string list \<Rightarrow> rule list" where
  "one_server args =
     [\<lparr>parent = None, rule_name = ''main'', rule_args = [], children = [1]\<rparr>,
      \<lparr>parent = Some 0, rule_name = ''http'', rule_args = [], children = [2]\<rparr>,
      \<lparr>parent = Some 1, rule_name = ''server'', rule_args = [], children = [3]\<rparr>,
      \<lparr>parent = Some 2, rule_name = ''listen'', rule_args = args, children = []\<rparr>]"

definition socket_env :: "(string, string, unit) start_env" where
  "socket_env =
     \<lparr>st_http = plain_env, st_core = sample_env, st_Listen = (\<lambda>n a. Inr a), st_TLSListen = (\<lambda>n a c. Inl ''denied''),
      st_LoadX509KeyPair = (\<lambda>c k. Inr ()), st_ReadFile = (\<lambda>f. Inl f), st_names = (\<lambda>rs. ([], []))\<rparr>"

lemma Atoi_ports: "Atoi ''80'' = Inr 80" "Atoi ''443'' = Inr 443"
  by code_simp+

lemma one_server_groups:
  assumes "parseListen sample_env (one_server args) 3 (Itoa 80) = Inr lo"
  shows "server_groups sample_env (one_server args) 0 80 =
    Inr \<lparr>address = [addrPort lo \<mapsto> lo], serverRules = [addrPort lo \<mapsto> [2]]\<rparr>"
proof -
  have "all_servers (one_server args) 0 = [2]"
    by (simp add: all_servers_def named_children_def one_server_def numeral_eq_Suc)
  moreover have "children (deref (one_server args) 2) = [3]" "rule_name (deref (one_server args) 3) = ''listen''"
    by (simp_all add: one_server_def numeral_eq_Suc)
  ultimately show ?thesis using assms by (simp add: server_groups_def findListener_def add_listener_def)
qed

definition listen80 :: httpListenOpts where
  "listen80 = zero_listen\<lparr>listen_net := ''tcp'', addrPort := ''0.0.0.0:80''\<rparr>"

lemma parse80: "parseListen sample_env (one_server [''80'']) 3 p = Inr listen80"
  by (simp add: parseListen_def one_server_def sample_env_def listen_addr_def Atoi_ports zero_listen_def
      listen80_def numeral_eq_Suc)

lemma process80:
  "\<exists>s' started. process socket_env (one_server [''80'']) 80 [''0.0.0.0:80''] [''0.0.0.0:80''] [''0.0.0.0:80'']
      (serverCtx_init 0) = Inr (Inr (s', started)) \<and>
    sc_serverRules s' = [''0.0.0.0:80'' \<mapsto> [2]] \<and> dom (sc_servers s') = {''0.0.0.0:80''}"
proof -
  have g: "server_groups sample_env (one_server [''80'']) 0 80 =
      Inr \<lparr>address = [''0.0.0.0:80'' \<mapsto> listen80], serverRules = [''0.0.0.0:80'' \<mapsto> [2]]\<rparr>"
    using one_server_groups [OF parse80] by (simp add: listen80_def)
  have n: "server_names (one_server [''80'']) 2 = []"
    by (simp add: server_names_def one_server_def numeral_eq_Suc)
  show ?thesis
    by (simp add: process_def serverCtx_init_def socket_env_def g address_of_def open_listener_def listen80_def
        zero_listen_def createHTTPServer_def serverCtx_with_def make_handler_def handlerMatch_init_def n Let_def)
qed


theorem tls_listen_error_panics_witness:
  "\<exists>q. process socket_env (one_server [''443'', ''ssl'']) 80 [''0.0.0.0:443''] [''0.0.0.0:443''] [''0.0.0.0:443'']
     (serverCtx_init 0) = Inl q"
proof -
  obtain lo where lo: "parseListen sample_env (one_server [''443'', ''ssl'']) 3 (Itoa 80) = Inr lo"
    "ssl lo" "addrPort lo = ''0.0.0.0:443''" "sslOpts lo = zero_sslOptions"
    by (simp add: parseListen_def one_server_def sample_env_def listen_addr_def Atoi_ports go_parent_def
        sslOptions_load_def zero_listen_def numeral_eq_Suc)
  have "server_groups (st_core socket_env) (one_server [''443'', ''ssl'']) (sc_core (serverCtx_init 0)) 80 =
      Inr \<lparr>address = [''0.0.0.0:443'' \<mapsto> lo], serverRules = [''0.0.0.0:443'' \<mapsto> [2]]\<rparr>"
    using one_server_groups [OF lo(1)] lo(3) by (simp add: socket_env_def serverCtx_init_def)
  from tls_listen_error_panics [OF this _ lo(2)] show ?thesis
    by (simp add: socket_env_def sslOptions_config_def lo(4) zero_sslOptions_def unset_cell_def)
qed

text \<open>A main file with one server, which includes a file with another.\<close>

theorem servers_of_main_file_witness:
  "let srv = (\<lambda>n. Stmt ''server'' [] n [] [] [] (Some []));
       c = \<lparr>File = ''nginx.conf'', Status = ''ok'', Errors = [],
            Parsed = [Stmt ''http'' [] 1 [] [] [] (Some [srv 2]), Stmt ''include'' [] 3 [''b.conf''] [] [1] None]\<rparr>;
       b = \<lparr>File = ''b.conf'', Status = ''ok'', Errors = [], Parsed = [Stmt ''http'' [] 1 [] [] [] (Some [srv 9])]\<rparr>;
       (st, core) = ruleFromStmt [] (Stmt ''main'' [] 0 [] [] [] (Some (Parsed c))) None
   in main_stmt \<lparr>PStatus = ''ok'', PErrors = [], Config = [Some c, Some b]\<rparr> =
        Inr (Inr (Stmt ''main'' [] 0 [] [] [] (Some (Parsed c)))) \<and> length (all_servers st core) = 1"
proof -
  let ?c = "\<lparr>File = ''nginx.conf'', Status = ''ok'', Errors = [],
    Parsed = [Stmt ''http'' [] 1 [] [] [] (Some [Stmt ''server'' [] 2 [] [] [] (Some [])]),
      Stmt ''include'' [] 3 [''b.conf''] [] [1] None]\<rparr>"
  let ?p = "\<lparr>PStatus = ''ok'', PErrors = [], Config = [Some ?c, Some \<lparr>File = ''b.conf'', Status = ''ok'', Errors = [],
    Parsed = [Stmt ''http'' [] 1 [] [] [] (Some [Stmt ''server'' [] 9 [] [] [] (Some [])])]\<rparr>]\<rparr>"
  let ?d = "Stmt ''main'' [] 0 [] [] [] (Some (Parsed ?c))"
  obtain st core where st: "ruleFromStmt [] ?d None = (st, core)" by (metis surj_pair)
  have m: "main_stmt ?p = Inr (Inr ?d)" by (simp add: main_stmt_def config_at_def)
  have "length (all_servers st core) = 1"
    using list_all2_lengthD [OF servers_of_main_file [OF _ _ m st]] by (simp add: server_blocks_def blocks_of_def)
  with m show ?thesis unfolding Let_def st prod.case by (rule conjI)
qed

end
