(* ===== verification/Config_Build.thy ===== *)
theory Config_Build
  imports Config_Analyze
begin

text \<open>
  The printer of \<open>config_build.go\<close>, with the Lua builder of \<open>config_lex.go\<close>: escaping and quoting of
  words, statements and blocks with their indentation. The table of printable runes that
  \<open>strconv.Quote\<close> consults is the parameter \<open>printable\<close>.
\<close>

section \<open>Quoting\<close>

text \<open>A \<open>runeIter\<close> is the list of the runes that are left; at the end it returns the rune 0.\<close>

definition iter_next :: "rune list \<Rightarrow> rune \<times> bool \<times> rune list" where
  "iter_next it = (case it of [] \<Rightarrow> (0, True, []) | r # rs \<Rightarrow> (r, False, rs))"

definition iter_peek :: "rune list \<Rightarrow> rune" where
  "iter_peek it = (case it of [] \<Rightarrow> 0 | r # rs \<Rightarrow> r)"

text \<open>The loop of \<open>escape\<close>, with the previous rune, the rune of the last round and the buffer.\<close>

fun escape_loop :: "rune list \<Rightarrow> rune \<Rightarrow> rune \<Rightarrow> rune list \<Rightarrow> rune list" where
  "escape_loop [] prev ch buf =
     (if ch = rune_of CHR 0x5C \<or> ch = rune_of CHR ''$'' then buf @ [ch] else buf)"
| "escape_loop (c # cs) prev ch buf =
     (if prev = rune_of CHR 0x5C \<or> (c = rune_of CHR ''{'' \<and> prev = rune_of CHR ''$'')
      then escape_loop cs c c (buf @ [prev, c])
      else escape_loop cs c c
             (buf @ (if prev = rune_of CHR ''$'' then [prev] else [])
                  @ (if c \<noteq> rune_of CHR 0x5C \<and> c \<noteq> rune_of CHR ''$'' then [c] else [])))"

definition escape :: "string \<Rightarrow> rune list" where
  "escape src = escape_loop (runes_of_string src) 0 0 []"

definition check01 :: "rune \<Rightarrow> bool" where
  "check01 ch \<longleftrightarrow>
     isSpace ch \<or>
     ch \<in> {rune_of CHR ''{'', rune_of CHR ''}'', rune_of CHR '';'', rune_of CHR 0x22, rune_of CHR 0x27}"

definition check002 :: "rune list \<Rightarrow> rune \<Rightarrow> bool \<Rightarrow> bool" where
  "check002 it ch expanding \<longleftrightarrow>
     (if expanding then ch = rune_of CHR ''$'' \<and> iter_peek it = rune_of CHR ''$''
      else ch = rune_of CHR ''}'')"

definition check003 :: "rune list \<Rightarrow> rune \<Rightarrow> bool \<Rightarrow> bool" where
  "check003 it ch expanding \<longleftrightarrow>
     (if expanding then ch = rune_of CHR ''}''
      else ch = rune_of CHR ''$'' \<and> iter_peek it = rune_of CHR ''$'')"

text \<open>The loop of \<open>needsQuote\<close>. It ends at the end of the runes, where the last rune read is 0.\<close>

fun quote_check :: "rune list \<Rightarrow> bool \<Rightarrow> bool" where
  "quote_check [] expanding =
     (let ch = fst (iter_next [])
      in if ch = rune_of CHR 0x5C \<or> ch = rune_of CHR ''$'' then True else expanding)"
| "quote_check (ch # it) expanding =
     (if check01 ch then True
      else if check002 it ch expanding then True
      else quote_check it (if check003 it ch expanding then \<not> expanding else expanding))"

definition needsQuote :: "string \<Rightarrow> bool" where
  "needsQuote s =
     (if s = [] then True
      else case iter_next (escape s) of (ch, err, it) \<Rightarrow>
        if err then False
        else if check01 ch then True
        else if ch = rune_of CHR ''$'' \<and> iter_peek it = rune_of CHR ''{'' then True
        else quote_check it False)"

text \<open>\<open>strings.Replace\<close> of every occurrence, from left to right.\<close>

function replace_all :: "string \<Rightarrow> string \<Rightarrow> string \<Rightarrow> string" where
  "replace_all old new s =
     (if s = [] \<or> old = [] then s
      else if hasPrefix s old then new @ replace_all old new (drop (length old) s)
      else hd s # replace_all old new (tl s))"
  by pat_completeness auto
termination
  by (relation "measure (\<lambda>(old, new, s). length s)") auto

declare replace_all.simps [simp del]

definition enquote :: "(rune \<Rightarrow> bool) \<Rightarrow> string \<Rightarrow> string" where
  "enquote printable arg =
     (if \<not> needsQuote arg then arg
      else Quote printable
             (replace_all [CHR 0x5C, CHR 0x5C, CHR 0x5C, CHR 0x5C] [CHR 0x5C, CHR 0x5C] arg))"

section \<open>Blocks\<close>

definition margin :: "nat \<Rightarrow> nat \<Rightarrow> string" where
  "margin padding depth = replicate (padding * depth) CHR '' ''"

definition luaLexer_build :: "string \<Rightarrow> Stmt \<Rightarrow> string" where
  "luaLexer_build buf stmt =
     (let buf = buf @ Directive stmt; args = Args stmt
      in if Directive stmt = ''set_by_lua_block'' then
           buf @ (if length args > 0 then '' '' @ args ! 0 else [])
               @ (if length args > 1 then '' {'' @ args ! 1 @ ''}'' else [])
         else buf @ (if length args > 0 then '' {'' @ args ! 0 @ ''}'' else []))"

text \<open>The statement up to its block, for a directive without a custom builder.\<close>

definition build_head :: "(rune \<Rightarrow> bool) \<Rightarrow> Stmt \<Rightarrow> string" where
  "build_head printable stmt =
     (let directive = enquote printable (Directive stmt);
          args = map (enquote printable) (Args stmt)
      in if directive = ''if'' then '' if'' @ join args '' '' @ '')''
         else if args \<noteq> [] then directive @ '' '' @ join args '' ''
         else directive)"

text \<open>
  \<open>buildBlock\<close>: it appends the statements to \<open>output\<close>. A comment on the line of the statement
  before it stays on that line.
\<close>

function buildBlock ::
  "(rune \<Rightarrow> bool) \<Rightarrow> string \<Rightarrow> Stmt list \<Rightarrow> nat \<Rightarrow> nat \<Rightarrow> nat \<Rightarrow> string" where
  "buildBlock printable output [] padding depth lastLine = output"
| "buildBlock printable output (stmt # block) padding depth lastLine =
     (let m = margin padding depth;
          directive = enquote printable (Directive stmt)
      in if directive = ''#'' \<and> Line stmt = lastLine then
           buildBlock printable (output @ '' #'' @ Comment stmt) block padding depth lastLine
         else
           let built =
                 (if directive = ''#'' then '' #'' @ Comment stmt
                  else if directive \<in> set lua_directives then luaLexer_build [] stmt
                  else
                    case Blocks stmt of
                      Some bs \<Rightarrow>
                        buildBlock printable (build_head printable stmt @ '' {'') bs padding (depth + 1)
                          (Line stmt) @ [CHR 0x0A] @ m @ ''}''
                    | None \<Rightarrow> build_head printable stmt @ '';'')
           in buildBlock printable
                (output @ (if length output > 0 then [CHR 0x0A] else []) @ m @ built)
                block padding depth (Line stmt))"
  by pat_completeness auto
termination
proof (relation "measure (\<lambda>(printable, output, block, padding, depth, lastLine). size_list size block)",
    goal_cases)
  case (3 printable out stmt block padding depth lastLine m directive bs)
  then show ?case by (cases stmt) auto
qed auto

declare buildBlock.simps(2) [simp del]

definition build_header :: string where
  "build_header =
     ''# This config was built from JSON using NGINX crossplane.'' @ [CHR 0x0A, CHR 0x09, CHR 0x09] @
     ''# If you encounter any bugs please report them here:'' @ [CHR 0x0A, CHR 0x09, CHR 0x09] @
     ''# https://github.com/nginxinc/crossplane/issues'' @ [CHR 0x0A, CHR 0x09, CHR 0x09]"

definition build :: "(rune \<Rightarrow> bool) \<Rightarrow> Stmt list \<Rightarrow> nat \<Rightarrow> bool \<Rightarrow> string" where
  "build printable p indent header =
     buildBlock printable (if header then build_header else []) p indent 0 0"

end
