(* ===== verification/Config_Grammar.thy ===== *)
theory Config_Grammar
  imports Config_Parse
begin

text \<open>
  A grammar of the configuration language over tokens, and the proof that the statement loop of
  \<open>config_parse.go\<close> recognises it: the parser returns exactly the statements of the grammar, keeps
  its options and the file list, and reports an error exactly when a statement fails the directive
  check. The panics and the recovery behaviour on malformed input follow.
\<close>

section \<open>The grammar\<close>

definition is_semi :: "token \<Rightarrow> bool" where
  "is_semi t \<longleftrightarrow> tok_text t = '';'' \<and> \<not> tok_quote t"

definition starts_stmt :: "parseOpts \<Rightarrow> token \<Rightarrow> bool" where
  "starts_stmt o1 t \<longleftrightarrow>
     \<not> is_close t \<and> \<not> is_comment t \<and> tok_text t \<noteq> ''#'' \<and>
     \<not> ignored o1 (tok_text t) \<and>
     (single o1 \<or> tok_text t \<noteq> ''include'')"

definition arg_texts :: "token list \<Rightarrow> string list" where
  "arg_texts ats = map tok_text (filter (\<lambda>t. \<not> is_comment t) ats)"

definition arg_comments :: "token list \<Rightarrow> string list" where
  "arg_comments ats = map (\<lambda>t. drop 1 (tok_text t)) (filter is_comment ats)"

definition stmt_of :: "parseOpts \<Rightarrow> string \<Rightarrow> token \<Rightarrow> token list \<Rightarrow> Stmt list option \<Rightarrow> Stmt" where
  "stmt_of o1 fl t ats b =
     Stmt (tok_text t) (if combine o1 then fl else []) (tok_line t)
       (if tok_text t = ''if'' then prepare_args (arg_texts ats) else arg_texts ats) [] [] b"

definition comment_of :: "parseOpts \<Rightarrow> string \<Rightarrow> token \<Rightarrow> Stmt list" where
  "comment_of o1 fl t =
     (if comments o1
      then [Stmt ''#'' (if combine o1 then fl else []) (tok_line t) [] (drop 1 (tok_text t)) [] None]
      else [])"

definition stmt_group :: "parseOpts \<Rightarrow> string \<Rightarrow> token \<Rightarrow> token list \<Rightarrow> Stmt list option \<Rightarrow> Stmt list" where
  "stmt_group o1 fl t ats b =
     (let st = stmt_of o1 fl t ats b in st # comment_stmts st (arg_comments ats))"

inductive grammar :: "parseOpts \<Rightarrow> string \<Rightarrow> Stmt list \<Rightarrow> token list \<Rightarrow> bool" for o1 fl where
  g_nil: "grammar o1 fl [] []"
| g_comment: "is_comment t \<Longrightarrow> grammar o1 fl sts ts \<Longrightarrow>
    grammar o1 fl (comment_of o1 fl t @ sts) (t # ts)"
| g_simple: "starts_stmt o1 t \<Longrightarrow> list_all inDirArgs ats \<Longrightarrow> is_semi tm \<Longrightarrow> grammar o1 fl sts ts \<Longrightarrow>
    grammar o1 fl (stmt_group o1 fl t ats None @ sts) (t # ats @ tm # ts)"
| g_block: "starts_stmt o1 t \<Longrightarrow> list_all inDirArgs ats \<Longrightarrow> is_open tm \<Longrightarrow> grammar o1 fl bs bts \<Longrightarrow>
    is_close cl \<Longrightarrow> grammar o1 fl sts ts \<Longrightarrow>
    grammar o1 fl (stmt_group o1 fl t ats (Some bs) @ sts) (t # ats @ tm # bts @ cl # ts)"

text \<open>The directive check of a whole statement tree, block by block.\<close>

function stmt_ok :: "directive_map \<Rightarrow> parseOpts \<Rightarrow> string list \<Rightarrow> Stmt \<Rightarrow> bool" where
  "stmt_ok ds o1 ctx st \<longleftrightarrow>
     Directive st = ''#'' \<or>
     (accepted ds st (if Blocks st = None then '';'' else ''{'') ctx (strict o1) (checkArgs o1) \<and>
      (case Blocks st of
         None \<Rightarrow> True
       | Some bs \<Rightarrow> list_all (stmt_ok ds o1 (enterBlock st ctx)) bs))"
  by pat_completeness auto
termination by (relation "measure (\<lambda>(ds, o1, ctx, st). size st)") (simp_all add: size_block)

declare stmt_ok.simps [simp del]

section \<open>Progress of the parser state\<close>

text \<open>From \<open>s\<close> to \<open>s'\<close> the parser only permuted masks and reported errors; \<open>ok\<close> says that it
  reported none.\<close>

definition advances :: "bool \<Rightarrow> pstate \<Rightarrow> pstate \<Rightarrow> bool" where
  "advances ok s s' \<longleftrightarrow>
     opts s' = opts s \<and> File (parsing s') = File (parsing s) \<and> same_masks (dirs s) (dirs s') \<and>
     Config (pld s') = Config (pld s) \<and>
     (\<exists>es. PErrors (pld s') = PErrors (pld s) @ es \<and> Errors (parsing s') = Errors (parsing s) @ es \<and>
           PStatus (pld s') = (if es = [] then PStatus (pld s) else ''failed'') \<and>
           Status (parsing s') = (if es = [] then Status (parsing s) else ''failed'') \<and>
           (es = [] \<longleftrightarrow> ok))"

lemma advances_refl [simp]: "advances True s s"
  by (simp add: advances_def)

lemma advances_trans:
  assumes "advances a s1 s2" "advances b s2 s3"
  shows "advances (a \<and> b) s1 s3"
proof -
  from assms(1) obtain es1 where
    "PErrors (pld s2) = PErrors (pld s1) @ es1" "Errors (parsing s2) = Errors (parsing s1) @ es1"
    "PStatus (pld s2) = (if es1 = [] then PStatus (pld s1) else ''failed'')"
    "Status (parsing s2) = (if es1 = [] then Status (parsing s1) else ''failed'')" "es1 = [] \<longleftrightarrow> a"
    by (auto simp: advances_def)
  moreover from assms(2) obtain es2 where
    "PErrors (pld s3) = PErrors (pld s2) @ es2" "Errors (parsing s3) = Errors (parsing s2) @ es2"
    "PStatus (pld s3) = (if es2 = [] then PStatus (pld s2) else ''failed'')"
    "Status (parsing s3) = (if es2 = [] then Status (parsing s2) else ''failed'')" "es2 = [] \<longleftrightarrow> b"
    by (auto simp: advances_def)
  moreover have "same_masks (dirs s1) (dirs s3)"
    using assms same_masks_trans by (auto simp: advances_def)
  ultimately show ?thesis
    using assms by (simp add: advances_def)
qed

lemma advances_tokens [simp]:
  "advances ok s (s'\<lparr>tokens := ts\<rparr>) = advances ok s s'"
  "advances ok (s\<lparr>tokens := ts\<rparr>) s' = advances ok s s'"
  by (simp_all add: advances_def)

lemma arg_loop_stop:
  "list_all inDirArgs ats \<Longrightarrow> \<not> inDirArgs tm \<Longrightarrow>
     arg_loop (ats @ tm # ts) = Inr (arg_texts ats, arg_comments ats, tm, ts)"
  by (induction ats) (auto simp: arg_texts_def arg_comments_def)

lemma arg_loop_runs_out: "list_all inDirArgs ats \<Longrightarrow> arg_loop ats = Inl NilPointer"
  by (induction ats) auto

lemma terminators:
  "is_semi t \<Longrightarrow> \<not> inDirArgs t" "is_open t \<Longrightarrow> \<not> inDirArgs t" "is_close t \<Longrightarrow> \<not> inDirArgs t"
  "is_semi t \<Longrightarrow> \<not> is_open t" "is_close t \<Longrightarrow> \<not> is_open t"
  by (auto simp: is_semi_def is_open_def is_close_def inDirArgs_def checkTerminal_def)

lemma comment_not_close: "is_comment t \<Longrightarrow> \<not> is_close t" "is_comment t \<Longrightarrow> \<not> is_open t"
  by (auto simp: is_comment_def is_close_def is_open_def hasPrefix_def)

section \<open>One statement\<close>

lemma check_stmt_tokens [simp]: "tokens (check_stmt env ctx stmt tm s) = tokens s"
  using reports_tokens [OF check_stmt_reports] .

lemma check_stmt_opts [simp]: "opts (check_stmt env ctx stmt tm s) = opts s"
  by (simp add: check_stmt_def Let_def split: prod.splits option.splits)

text \<open>The check of a statement reports an error exactly when the statement is not accepted.\<close>

lemma check_stmt_advances:
  "advances (accepted (dirs s) stmt tm ctx (strict (opts s)) (checkArgs (opts s))) s
     (check_stmt env ctx stmt tm s)"
proof -
  let ?o = "opts s"
  obtain err ds where an: "analyze (env_printable env) (dirs s) (File (parsing s)) stmt tm ctx
      (strict ?o) (checkCtx ?o) (checkArgs ?o) = (err, ds)" by (meson surj_pair)
  have "(err = None) = accepted (dirs s) stmt tm ctx (strict ?o) (checkArgs ?o)"
    using analyze_None [of "env_printable env" "dirs s" "File (parsing s)" stmt tm ctx "strict ?o"
        "checkCtx ?o" "checkArgs ?o"] an by simp
  moreover have "same_masks (dirs s) ds"
    using analyze_same_masks [of "dirs s" "env_printable env" "File (parsing s)" stmt tm ctx "strict ?o"
        "checkCtx ?o" "checkArgs ?o"] an by simp
  ultimately show ?thesis
    by (cases err) (simp_all add: check_stmt_def an advances_def)
qed

lemma parse_step_plain:
  assumes "starts_stmt (opts s) t" "list_all inDirArgs ats" "\<not> inDirArgs tm"
    and "tokens s = t # ats @ tm # ts" "consume \<Longrightarrow> \<not> is_open t"
    and "st = stmt_of (opts s) (File (parsing s)) t ats None"
    and "s' = check_stmt env ctx st (tok_text tm) (s\<lparr>tokens := ts\<rparr>)"
  shows "parse_step env ctx consume s =
    Inr (if is_open tm then Enter st (arg_comments ats) s'
         else Emit (st # comment_stmts st (arg_comments ats)) s')"
  using assms
  by (auto simp: parse_step_def starts_stmt_def arg_loop_stop finish_stmt_def Let_def stmt_of_def
      prepareIfArgs_def split: option.splits)

section \<open>The statement loop on the grammar\<close>

lemma parse_loop_Emit:
  "parse_step env ctx consume s = Inr (Emit sts s') \<Longrightarrow>
     parse_loop env ctx consume s parsed = parse_loop env ctx consume s' (parsed @ sts)"
  by (simp add: parse_loop.simps [of env ctx consume s])

lemma parse_loop_Enter:
  "parse_step env ctx consume s = Inr (Enter st cmts s1) \<Longrightarrow>
   parse_loop env (enterBlock st ctx) False s1 [] = Inr (bs, s2) \<Longrightarrow>
     parse_loop env ctx consume s parsed =
       parse_loop env ctx consume s2 (parsed @ set_Blocks (Some bs) st # comment_stmts st cmts)"
  by (simp add: parse_loop.simps [of env ctx consume s])

lemma parse_loop_close:
  "tokens s = cl # ts \<Longrightarrow> is_close cl \<Longrightarrow>
     parse_loop env ctx consume s parsed = Inr (parsed, s\<lparr>tokens := ts\<rparr>)"
  by (simp add: parse_loop.simps [of env ctx consume s] parse_step_def)

lemma parse_loop_end: "tokens s = [] \<Longrightarrow> parse_loop env ctx consume s parsed = Inr (parsed, s)"
  by (simp add: parse_loop.simps [of env ctx consume s] parse_step_def)

lemma parse_step_comment:
  "tokens s = t # ts \<Longrightarrow> is_comment t \<Longrightarrow>
     parse_step env ctx consume s =
       Inr (Emit (comment_of (opts s) (File (parsing s)) t) (s\<lparr>tokens := ts\<rparr>))"
  by (auto simp: parse_step_def comment_not_close comment_of_def)

lemma stmt_ok_hash: "Directive st = ''#'' \<Longrightarrow> stmt_ok ds o1 ctx st"
  by (simp add: stmt_ok.simps [of ds o1 ctx st])

lemma stmt_ok_comments [simp]:
  "list_all (stmt_ok ds o1 ctx) (comment_stmts st cs)" "list_all (stmt_ok ds o1 ctx) (comment_of o1 fl t)"
  by (simp_all add: comment_stmts_def comment_of_def list_all_iff stmt_ok_hash)

lemma same_masks_stmt_ok: "same_masks ds ds' \<Longrightarrow> stmt_ok ds o1 ctx st = stmt_ok ds' o1 ctx st"
proof (induction ds o1 ctx st rule: stmt_ok.induct)
  case (1 ds o1 ctx st)
  have "list_all (stmt_ok ds o1 (enterBlock st ctx)) bs = list_all (stmt_ok ds' o1 (enterBlock st ctx)) bs"
    if "Blocks st = Some bs" for bs
    using "1.IH" [OF that] "1.prems" by (auto simp: list_all_iff)
  then show ?case
    using same_masks_accepted [OF "1.prems"]
    by (auto simp: stmt_ok.simps [of _ o1 ctx st] split: option.splits)
qed

lemma same_masks_stmts_ok:
  "same_masks ds ds' \<Longrightarrow> list_all (stmt_ok ds o1 ctx) sts = list_all (stmt_ok ds' o1 ctx) sts"
  by (simp add: list_all_iff same_masks_stmt_ok)

lemma advances_then:
  assumes "advances a s s1" "advances (list_all (stmt_ok (dirs s1) o1 ctx) sts) s1 s2"
  shows "advances (a \<and> list_all (stmt_ok (dirs s) o1 ctx) sts) s s2"
proof -
  from assms(1) have "same_masks (dirs s) (dirs s1)" by (simp add: advances_def)
  from advances_trans [OF assms] same_masks_stmts_ok [OF this] show ?thesis by simp
qed

lemma stmt_of_simps [simp]:
  "Directive (stmt_of o1 fl t ats b) = tok_text t" "Blocks (stmt_of o1 fl t ats b) = b"
  "Line (stmt_of o1 fl t ats b) = tok_line t"
  by (simp_all add: stmt_of_def)

lemma accepted_cong:
  "Directive st = Directive st' \<Longrightarrow> Args st = Args st' \<Longrightarrow>
     accepted ds st tm ctx x y = accepted ds st' tm ctx x y"
  by (auto simp: accepted_def split: option.splits)

lemma stmt_of_block:
  "set_Blocks (Some bs) (stmt_of o1 fl t ats None) = stmt_of o1 fl t ats (Some bs)"
  "enterBlock (stmt_of o1 fl t ats (Some bs)) ctx = enterBlock (stmt_of o1 fl t ats None) ctx"
  "comment_stmts (stmt_of o1 fl t ats (Some bs)) cs = comment_stmts (stmt_of o1 fl t ats None) cs"
  "accepted ds (stmt_of o1 fl t ats (Some bs)) tm ctx x y = accepted ds (stmt_of o1 fl t ats None) tm ctx x y"
  by (simp add: stmt_of_def, simp add: enterBlock_def, simp add: comment_stmts_def)
     (rule accepted_cong, simp_all add: stmt_of_def)

lemma stmt_group_ok:
  assumes "starts_stmt o1 t"
  shows "list_all (stmt_ok ds o1 ctx) (stmt_group o1 fl t ats b) \<longleftrightarrow>
     accepted ds (stmt_of o1 fl t ats None) (if b = None then '';'' else ''{'') ctx
       (strict o1) (checkArgs o1) \<and>
     (case b of None \<Rightarrow> True
      | Some bs \<Rightarrow> list_all (stmt_ok ds o1 (enterBlock (stmt_of o1 fl t ats None) ctx)) bs)"
  using assms stmt_ok.simps [of ds o1 ctx "stmt_of o1 fl t ats b"]
  by (cases b) (simp_all add: stmt_group_def starts_stmt_def stmt_of_block Let_def)

text \<open>One statement without a block, and one with a block whose body is parsed to \<open>bs\<close>.\<close>

lemma parse_loop_simple:
  assumes "starts_stmt o1 t" "list_all inDirArgs ats" "is_semi tm"
    and "opts s = o1" "File (parsing s) = fl" "tokens s = t # ats @ tm # ts"
  shows "\<exists>s1. (\<forall>parsed. parse_loop env ctx False s parsed =
       parse_loop env ctx False s1 (parsed @ stmt_group o1 fl t ats None)) \<and>
     tokens s1 = ts \<and>
     advances (list_all (stmt_ok (dirs s) o1 ctx) (stmt_group o1 fl t ats None)) s s1"
proof (intro exI conjI allI)
  let ?st = "stmt_of o1 fl t ats None"
  let ?s1 = "check_stmt env ctx ?st (tok_text tm) (s\<lparr>tokens := ts\<rparr>)"
  have "parse_step env ctx False s = Inr (Emit (stmt_group o1 fl t ats None) ?s1)"
    using assms parse_step_plain [of s t ats tm ts False ?st ?s1 env ctx] terminators
    by (simp add: stmt_group_def Let_def)
  then show "parse_loop env ctx False s parsed =
      parse_loop env ctx False ?s1 (parsed @ stmt_group o1 fl t ats None)" for parsed
    by (rule parse_loop_Emit)
  show "tokens ?s1 = ts" by simp
  show "advances (list_all (stmt_ok (dirs s) o1 ctx) (stmt_group o1 fl t ats None)) s ?s1"
    using check_stmt_advances [of "s\<lparr>tokens := ts\<rparr>" ?st "tok_text tm" ctx env] assms
      stmt_group_ok [OF assms(1), of "dirs s" ctx fl ats None]
    by (simp add: is_semi_def)
qed

lemma parse_loop_block:
  assumes "starts_stmt o1 t" "list_all inDirArgs ats" "is_open tm"
    and "opts s = o1" "File (parsing s) = fl" "tokens s = t # ats @ tm # ts"
    and body: "\<And>s1. opts s1 = o1 \<Longrightarrow> File (parsing s1) = fl \<Longrightarrow> tokens s1 = ts \<Longrightarrow>
      \<exists>s2. parse_loop env (enterBlock (stmt_of o1 fl t ats None) ctx) False s1 [] = Inr (bs, s2) \<and>
        tokens s2 = rest \<and>
        advances (list_all (stmt_ok (dirs s1) o1 (enterBlock (stmt_of o1 fl t ats None) ctx)) bs) s1 s2"
  shows "\<exists>s2. (\<forall>parsed. parse_loop env ctx False s parsed =
       parse_loop env ctx False s2 (parsed @ stmt_group o1 fl t ats (Some bs))) \<and>
     tokens s2 = rest \<and>
     advances (list_all (stmt_ok (dirs s) o1 ctx) (stmt_group o1 fl t ats (Some bs))) s s2"
proof -
  let ?st = "stmt_of o1 fl t ats None"
  let ?s1 = "check_stmt env ctx ?st (tok_text tm) (s\<lparr>tokens := ts\<rparr>)"
  have step: "parse_step env ctx False s = Inr (Enter ?st (arg_comments ats) ?s1)"
    using assms parse_step_plain [of s t ats tm ts False ?st ?s1 env ctx] terminators by simp
  have adv: "advances (accepted (dirs s) ?st ''{'' ctx (strict o1) (checkArgs o1)) s ?s1"
    using check_stmt_advances [of "s\<lparr>tokens := ts\<rparr>" ?st "tok_text tm" ctx env] assms
    by (simp add: is_open_def)
  then have "opts ?s1 = o1" "File (parsing ?s1) = fl" using assms by (simp_all add: advances_def)
  with body [of ?s1] obtain s2 where
    s2: "parse_loop env (enterBlock ?st ctx) False ?s1 [] = Inr (bs, s2)" "tokens s2 = rest"
      "advances (list_all (stmt_ok (dirs ?s1) o1 (enterBlock ?st ctx)) bs) ?s1 s2" by auto
  from parse_loop_Enter [OF step s2(1), unfolded stmt_of_block(1)]
  have "parse_loop env ctx False s parsed =
      parse_loop env ctx False s2 (parsed @ stmt_group o1 fl t ats (Some bs))" for parsed
    by (simp add: stmt_group_def Let_def stmt_of_block)
  moreover have "advances (list_all (stmt_ok (dirs s) o1 ctx) (stmt_group o1 fl t ats (Some bs))) s s2"
    using advances_then [OF adv s2(3)] stmt_group_ok [OF assms(1), of "dirs s" ctx fl ats "Some bs"]
    by simp
  ultimately show ?thesis using s2(2) by blast
qed

lemma parse_loop_grammar:
  assumes "grammar o1 fl sts ts" "opts s = o1" "File (parsing s) = fl" "tokens s = ts @ rest"
  shows "\<exists>s'. (\<forall>parsed. parse_loop env ctx False s parsed =
                         parse_loop env ctx False s' (parsed @ sts)) \<and>
     tokens s' = rest \<and> advances (list_all (stmt_ok (dirs s) o1 ctx) sts) s s'"
  using assms
proof (induction arbitrary: s rest ctx rule: grammar.induct)
  case g_nil
  then show ?case by (auto intro!: exI [of _ s])
next
  case (g_comment t sts ts)
  let ?s1 = "s\<lparr>tokens := ts @ rest\<rparr>"
  from g_comment parse_loop_Emit [OF parse_step_comment]
  have "parse_loop env ctx False s parsed =
      parse_loop env ctx False ?s1 (parsed @ comment_of o1 fl t)" for parsed by simp
  with g_comment.IH [of ?s1 rest ctx] g_comment.prems show ?case by auto
next
  case (g_simple t ats tm sts ts)
  have "tokens s = t # ats @ tm # ts @ rest" using g_simple.prems by simp
  from parse_loop_simple [OF g_simple.hyps(1-3) g_simple.prems(1,2) this] obtain s1 where
    s1: "\<And>parsed. parse_loop env ctx False s parsed =
           parse_loop env ctx False s1 (parsed @ stmt_group o1 fl t ats None)"
      "tokens s1 = ts @ rest"
      "advances (list_all (stmt_ok (dirs s) o1 ctx) (stmt_group o1 fl t ats None)) s s1"
    by blast
  then have "opts s1 = o1" "File (parsing s1) = fl" using g_simple.prems by (simp_all add: advances_def)
  from g_simple.IH [OF this s1(2), of ctx] s1(1) advances_then [OF s1(3)] show ?case by fastforce
next
  case (g_block t ats tm bs bts cl sts ts)
  let ?ctx = "enterBlock (stmt_of o1 fl t ats None) ctx"
  have tk: "tokens s = t # ats @ tm # bts @ cl # ts @ rest" using g_block.prems by simp
  have body: "\<exists>s2. parse_loop env ?ctx False s1 [] = Inr (bs, s2) \<and> tokens s2 = ts @ rest \<and>
      advances (list_all (stmt_ok (dirs s1) o1 ?ctx) bs) s1 s2"
    if s1: "opts s1 = o1" "File (parsing s1) = fl" "tokens s1 = bts @ cl # ts @ rest" for s1
  proof -
    from g_block.IH(1) [OF s1, of ?ctx] obtain s2 where
      "parse_loop env ?ctx False s1 [] = parse_loop env ?ctx False s2 bs"
      "tokens s2 = cl # ts @ rest" "advances (list_all (stmt_ok (dirs s1) o1 ?ctx) bs) s1 s2"
      by fastforce
    with parse_loop_close [OF _ g_block.hyps(5), of s2] show ?thesis by auto
  qed
  from parse_loop_block [OF g_block.hyps(1-3) g_block.prems(1,2) tk body] obtain s1 where
    s1: "\<And>parsed. parse_loop env ctx False s parsed =
           parse_loop env ctx False s1 (parsed @ stmt_group o1 fl t ats (Some bs))"
      "tokens s1 = ts @ rest"
      "advances (list_all (stmt_ok (dirs s) o1 ctx) (stmt_group o1 fl t ats (Some bs))) s s1"
    by blast
  then have "opts s1 = o1" "File (parsing s1) = fl" using g_block.prems by (simp_all add: advances_def)
  from g_block.IH(2) [OF this s1(2), of ctx] s1(1) advances_then [OF s1(3)] show ?case by fastforce
qed

section \<open>Malformed input\<close>

lemma parse_step_include_bare:
  assumes "tokens s = t # ats @ tm # ts" "tok_text t = ''include''" "list_all is_comment ats"
    and "\<not> inDirArgs tm" "\<not> single (opts s)" "\<not> ignored (opts s) (tok_text t)"
  shows "parse_step env ctx False s = Inl IndexOutOfRange"
proof -
  have "list_all inDirArgs ats"
    using assms(3) by (auto simp: list_all_iff is_comment_def inDirArgs_def checkTerminal_def hasPrefix_def)
  moreover have "arg_texts ats = []" using assms(3) by (auto simp: arg_texts_def list_all_iff)
  ultimately show ?thesis
    using assms
    by (simp add: parse_step_def is_close_def is_comment_def hasPrefix_def arg_loop_stop finish_stmt_def
        Let_def handle_include_def)
qed

text \<open>A statement that is ended by a closing brace: the brace is its terminator.\<close>

lemma parse_step_brace:
  assumes "starts_stmt o1 u" "list_all inDirArgs uats" "is_close cl"
    and "opts s = o1" "File (parsing s) = fl" "tokens s = u # uats @ cl # ts"
  shows "\<exists>s1. parse_step env ctx False s = Inr (Emit (stmt_group o1 fl u uats None) s1) \<and>
     tokens s1 = ts \<and> opts s1 = o1 \<and> File (parsing s1) = fl"
proof (intro exI conjI)
  let ?st = "stmt_of o1 fl u uats None"
  let ?s1 = "check_stmt env ctx ?st (tok_text cl) (s\<lparr>tokens := ts\<rparr>)"
  show "parse_step env ctx False s = Inr (Emit (stmt_group o1 fl u uats None) ?s1)"
    using assms parse_step_plain [of s u uats cl ts False ?st ?s1 env ctx] terminators
    by (simp add: stmt_group_def Let_def)
  show "tokens ?s1 = ts" "opts ?s1 = o1" using assms by simp_all
  show "File (parsing ?s1) = fl"
    using check_stmt_advances [of "s\<lparr>tokens := ts\<rparr>" ?st "tok_text cl" ctx env] assms
    by (simp add: advances_def)
qed

section \<open>Properties\<close>

text \<open>The surroundings used by the examples: no file can be opened.\<close>

definition empty_env :: parse_env where
  "empty_env = \<lparr>fs_Open = \<lambda>_. Inl ''not found'', Glob = \<lambda>_. Inr [], env_printable = \<lambda>_. True\<rparr>"

abbreviation word_tok :: "string \<Rightarrow> nat \<Rightarrow> token" where
  "word_tok x n \<equiv> \<lparr>tok_text = x, tok_line = n, tok_quote = False\<rparr>"

lemmas token_defs = starts_stmt_def is_close_def is_comment_def is_open_def is_semi_def hasPrefix_def
  inDirArgs_def checkTerminal_def stmt_group_def stmt_of_def arg_texts_def arg_comments_def
  comment_stmts_def

lemma default_opts:
  "\<not> ignored (opts (parse_start f defaultParseOpts ds)) d"
  "\<not> single (opts (parse_start f defaultParseOpts ds))"
  "\<not> combine (opts (parse_start f defaultParseOpts ds))"
  by (simp_all add: parse_start_def defaultParseOpts_def ignored_def)

text \<open>
  Parsing (C4). On tokens of the grammar, up to the end or the closing brace of the surrounding
  block, \<open>parseInternal\<close> returns exactly the statements of the grammar with their lines, arguments,
  blocks and comments. It keeps the options, and it reports an error exactly when some statement of
  the tree fails the directive check in its context.
\<close>

theorem parse_grammar_exact:
  assumes "grammar (opts s) (File (parsing s)) sts ts" "tokens s = ts @ rest"
    and "list_all is_close (take 1 rest)"
  shows "\<exists>s'. parseInternal env ctx False s = Inr (sts, s') \<and> tokens s' = drop 1 rest \<and>
     opts s' = opts s \<and>
     (PErrors (pld s') = PErrors (pld s)) = list_all (stmt_ok (dirs s) (opts s) ctx) sts"
proof -
  from parse_loop_grammar [OF assms(1) refl refl assms(2), of env ctx] obtain s1 where
    s1: "parse_loop env ctx False s [] = parse_loop env ctx False s1 sts" "tokens s1 = rest"
      "advances (list_all (stmt_ok (dirs s) (opts s) ctx) sts) s s1" by fastforce
  have "parse_loop env ctx False s1 sts = Inr (sts, s1\<lparr>tokens := drop 1 rest\<rparr>)"
    using s1(2) assms(3) by (cases rest) (simp_all add: parse_loop_end parse_loop_close)
  moreover from s1(3) have "opts s1 = opts s"
    "(PErrors (pld s1) = PErrors (pld s)) = list_all (stmt_ok (dirs s) (opts s) ctx) sts"
    by (auto simp: advances_def)
  ultimately show ?thesis using s1(1) by (simp add: parseInternal_def)
qed

theorem parse_grammar_exact_witness:
  "\<exists>s'. parseInternal empty_env [] False
      ((parse_start ''f'' defaultParseOpts directives)
         \<lparr>tokens := [word_tok ''events'' 1, word_tok ''{'' 1, word_tok ''accept_mutex'' 2,
                    word_tok ''on'' 2, word_tok '';'' 2, word_tok ''}'' 3]\<rparr>) =
      Inr ([Stmt ''events'' [] 1 [] [] []
              (Some [Stmt ''accept_mutex'' [] 2 [''on''] [] [] None])], s')"
proof -
  let ?init = "parse_start ''f'' defaultParseOpts directives"
  let ?ts = "[word_tok ''events'' 1, word_tok ''{'' 1, word_tok ''accept_mutex'' 2, word_tok ''on'' 2,
    word_tok '';'' 2, word_tok ''}'' 3]"
  let ?s = "?init\<lparr>tokens := ?ts\<rparr>"
  let ?o = "opts ?init" and ?fl = "File (parsing ?init)"
  have "grammar ?o ?fl
      (stmt_group ?o ?fl (word_tok ''accept_mutex'' 2) [word_tok ''on'' 2] None @ [])
      (word_tok ''accept_mutex'' 2 # [word_tok ''on'' 2] @ word_tok '';'' 2 # [])"
    by (rule grammar.g_simple) (simp_all add: token_defs default_opts grammar.g_nil)
  then have "grammar ?o ?fl
      (stmt_group ?o ?fl (word_tok ''events'' 1) []
        (Some [Stmt ''accept_mutex'' [] 2 [''on''] [] [] None]) @ [])
      (word_tok ''events'' 1 # [] @ word_tok ''{'' 1 #
        [word_tok ''accept_mutex'' 2, word_tok ''on'' 2, word_tok '';'' 2] @ word_tok ''}'' 3 # [])"
    by (intro grammar.g_block) (simp_all add: token_defs default_opts grammar.g_nil)
  then have "grammar (opts ?s) (File (parsing ?s)) [Stmt ''events'' [] 1 [] [] []
      (Some [Stmt ''accept_mutex'' [] 2 [''on''] [] [] None])] ?ts"
    by (simp add: token_defs default_opts)
  from parse_grammar_exact [OF this, of "[]" empty_env "[]"] show ?thesis by auto
qed

text \<open>
  Missing terminator (C25). When the tokens end inside a statement, after any well-formed
  statements, the parser dereferences the nil token and panics.
\<close>

theorem parse_unterminated_panics:
  assumes "grammar (opts s) (File (parsing s)) sts ts" "tokens s = ts @ t # ats"
    and "\<not> is_close t" "\<not> is_comment t" "list_all inDirArgs ats"
  shows "parseInternal env ctx False s = Inl NilPointer"
proof -
  from parse_loop_grammar [OF assms(1) refl refl assms(2), of env ctx] obtain s1 where
    "parse_loop env ctx False s [] = parse_loop env ctx False s1 sts" "tokens s1 = t # ats" by fastforce
  with assms(3-5) show ?thesis
    by (simp add: parseInternal_def parse_loop.simps [of env ctx False s1] parse_step_def arg_loop_runs_out)
qed

theorem parse_unterminated_panics_witness:
  "parseInternal empty_env [] False
     ((parse_start ''f'' defaultParseOpts directives)
        \<lparr>tokens := [word_tok ''user'' 1, word_tok ''www'' 1]\<rparr>) = Inl NilPointer"
  by (rule parse_unterminated_panics [of _ "[]" "[]" "word_tok ''user'' 1"
        "[word_tok ''www'' 1]"])
     (simp_all add: grammar.g_nil token_defs)

text \<open>
  Bare include. An \<open>include\<close> directive with no argument makes the parser index an empty slice
  and panic; the argument check before it reports an error but does not stop the parser.
\<close>

theorem parse_bare_include_panics:
  assumes "grammar (opts s) (File (parsing s)) sts ts" "tokens s = ts @ t # ats @ tm # rest"
    and "tok_text t = ''include''" "list_all is_comment ats" "\<not> inDirArgs tm"
    and "\<not> single (opts s)" "\<not> ignored (opts s) (tok_text t)"
  shows "parseInternal env ctx False s = Inl IndexOutOfRange"
proof -
  from parse_loop_grammar [OF assms(1) refl refl assms(2), of env ctx] obtain s1 where
    s1: "parse_loop env ctx False s [] = parse_loop env ctx False s1 sts"
      "tokens s1 = t # ats @ tm # rest"
      "advances (list_all (stmt_ok (dirs s) (opts s) ctx) sts) s s1" by fastforce
  from s1(3) have "opts s1 = opts s" by (simp add: advances_def)
  with s1 parse_step_include_bare [OF s1(2) assms(3-5), of env ctx] assms(6,7) show ?thesis
    by (simp add: parseInternal_def parse_loop.simps [of env ctx False s1])
qed

theorem parse_bare_include_panics_witness:
  "parseInternal empty_env [] False
     ((parse_start ''f'' defaultParseOpts directives)
        \<lparr>tokens := [word_tok ''include'' 1, word_tok '';'' 1]\<rparr>) = Inl IndexOutOfRange"
  by (rule parse_bare_include_panics [of _ "[]" "[]"
        "word_tok ''include'' 1" "[]"
        "word_tok '';'' 1" "[]"])
     (simp_all add: grammar.g_nil token_defs default_opts)

text \<open>
  Missing semicolon before a closing brace (C26). The last statement of a block takes the closing
  brace as its terminator, so the block stays open: the statements that follow the block become
  statements of the block.
\<close>

theorem parse_missing_semicolon:
  assumes "starts_stmt (opts s) t" "list_all inDirArgs ats" "is_open tm"
    and "starts_stmt (opts s) u" "list_all inDirArgs uats" "is_close cl"
    and "grammar (opts s) (File (parsing s)) sts ts" "tokens s = t # ats @ tm # u # uats @ cl # ts"
  shows "\<exists>s'. parseInternal env ctx False s =
     Inr (stmt_group (opts s) (File (parsing s)) t ats
            (Some (stmt_group (opts s) (File (parsing s)) u uats None @ sts)), s')"
proof -
  let ?o = "opts s" and ?fl = "File (parsing s)"
  let ?st = "stmt_of ?o ?fl t ats None"
  let ?ctx = "enterBlock ?st ctx"
  let ?s1 = "check_stmt env ctx ?st (tok_text tm) (s\<lparr>tokens := u # uats @ cl # ts\<rparr>)"
  have step: "parse_step env ctx False s = Inr (Enter ?st (arg_comments ats) ?s1)"
    using assms parse_step_plain [of s t ats tm "u # uats @ cl # ts" False ?st ?s1 env ctx] terminators
    by simp
  have "opts ?s1 = ?o" "File (parsing ?s1) = ?fl" "tokens ?s1 = u # uats @ cl # ts"
    using check_stmt_advances [of "s\<lparr>tokens := u # uats @ cl # ts\<rparr>" ?st "tok_text tm" ctx env]
    by (simp_all add: advances_def)
  from parse_step_brace [OF assms(4-6) this, of env ?ctx] obtain s2 where
    s2: "parse_step env ?ctx False ?s1 = Inr (Emit (stmt_group ?o ?fl u uats None) s2)"
      "opts s2 = ?o" "File (parsing s2) = ?fl" "tokens s2 = ts" by blast
  from parse_loop_grammar [OF assms(7) s2(2,3), of "[]" env ?ctx] s2(4) obtain s3 where
    s3: "\<And>parsed. parse_loop env ?ctx False s2 parsed = parse_loop env ?ctx False s3 (parsed @ sts)"
      "tokens s3 = []" by auto
  from parse_loop_Emit [OF s2(1), of "[]"] s3 parse_loop_end [OF s3(2)]
  have "parse_loop env ?ctx False ?s1 [] = Inr (stmt_group ?o ?fl u uats None @ sts, s3)" by simp
  from parse_loop_Enter [OF step this, of "[]", unfolded stmt_of_block(1)] parse_loop_end [OF s3(2)]
  show ?thesis by (simp add: parseInternal_def stmt_group_def Let_def stmt_of_block)
qed

theorem parse_missing_semicolon_witness:
  "\<exists>s'. parseInternal empty_env [] False
      ((parse_start ''f'' defaultParseOpts directives)
         \<lparr>tokens := [word_tok ''events'' 1, word_tok ''{'' 1, word_tok ''accept_mutex'' 2,
                    word_tok ''on'' 2, word_tok ''}'' 3, word_tok ''daemon'' 4, word_tok '';'' 4]\<rparr>) =
      Inr ([Stmt ''events'' [] 1 [] [] []
              (Some [Stmt ''accept_mutex'' [] 2 [''on''] [] [] None,
                     Stmt ''daemon'' [] 4 [] [] [] None])], s')"
proof -
  let ?init = "parse_start ''f'' defaultParseOpts directives"
  let ?s = "?init\<lparr>tokens := [word_tok ''events'' 1, word_tok ''{'' 1, word_tok ''accept_mutex'' 2,
    word_tok ''on'' 2, word_tok ''}'' 3, word_tok ''daemon'' 4, word_tok '';'' 4]\<rparr>"
  have "grammar (opts ?s) (File (parsing ?s))
      (stmt_group (opts ?s) (File (parsing ?s)) (word_tok ''daemon'' 4) [] None @ [])
      (word_tok ''daemon'' 4 # [] @ word_tok '';'' 4 # [])"
    by (rule grammar.g_simple) (simp_all add: token_defs default_opts grammar.g_nil)
  from parse_missing_semicolon [of ?s "word_tok ''events'' 1" "[]" "word_tok ''{'' 1"
      "word_tok ''accept_mutex'' 2" "[word_tok ''on'' 2]" "word_tok ''}'' 3", OF _ _ _ _ _ _ this]
  show ?thesis by (simp add: token_defs default_opts)
qed

text \<open>
  Ignored blocks. The body of an ignored block yields no statements, but it is still checked,
  as if it stood in the main context: the parser reports an error exactly when the statement in the
  block fails that check.
\<close>

theorem parse_ignored_block_checked:
  assumes "ignored (opts s) (tok_text h)" "\<not> is_close h" "\<not> is_comment h" "is_open tm"
    and "starts_stmt (opts s) t" "\<not> is_open t" "list_all inDirArgs ats" "is_semi sc" "is_close cl"
    and "tokens s = h # tm # t # ats @ [sc, cl]"
  shows "\<exists>s'. parseInternal env ctx False s = Inr ([], s') \<and>
     (PErrors (pld s') = PErrors (pld s)) =
       accepted (dirs s) (stmt_of (opts s) (File (parsing s)) t ats None) '';'' []
         (strict (opts s)) (checkArgs (opts s))"
proof -
  let ?s1 = "s\<lparr>tokens := t # ats @ [sc, cl]\<rparr>"
  let ?st = "stmt_of (opts s) (File (parsing s)) t ats None"
  let ?s2 = "check_stmt env [] ?st (tok_text sc) (s\<lparr>tokens := [cl]\<rparr>)"
  have "parse_step env ctx False s = Inr (Consume ?s1)"
    using assms arg_loop_stop [of "[]" tm] terminators
    by (simp add: parse_step_def finish_stmt_def)
  moreover have "parse_step env [] True ?s1 =
      Inr (Emit (?st # comment_stmts ?st (arg_comments ats)) ?s2)"
    using assms parse_step_plain [of ?s1 t ats sc "[cl]" True ?st ?s2 env "[]"] terminators by simp
  note parse_loop_Emit [OF this, of "[]"]
  moreover have "parse_loop env [] True ?s2 parsed = Inr (parsed, ?s2\<lparr>tokens := []\<rparr>)" for parsed
    using assms by (intro parse_loop_close) simp_all
  ultimately have "parse_loop env ctx False s [] = parse_loop env ctx False (?s2\<lparr>tokens := []\<rparr>) []"
    by (simp add: parse_loop.simps [of env ctx False s])
  then have "parseInternal env ctx False s = Inr ([], ?s2\<lparr>tokens := []\<rparr>)"
    by (simp add: parseInternal_def parse_loop_end)
  then show ?thesis
    using check_stmt_advances [of "s\<lparr>tokens := [cl]\<rparr>" ?st "tok_text sc" "[]" env] assms
    by (auto simp: advances_def is_semi_def)
qed

theorem parse_ignored_block_checked_witness:
  "\<exists>s'. parseInternal empty_env [] False
      ((parse_start ''f'' (defaultParseOpts\<lparr>ignore := Some (\<lambda>d. d = ''mail''), strict := True\<rparr>) directives)
         \<lparr>tokens := [word_tok ''mail'' 1, word_tok ''{'' 1, word_tok ''x'' 2, word_tok '';'' 2,
                    word_tok ''}'' 3]\<rparr>) = Inr ([], s')"
proof -
  let ?s = "(parse_start ''f'' (defaultParseOpts\<lparr>ignore := Some (\<lambda>d. d = ''mail''), strict := True\<rparr>)
    directives)\<lparr>tokens := [word_tok ''mail'' 1, word_tok ''{'' 1, word_tok ''x'' 2, word_tok '';'' 2,
      word_tok ''}'' 3]\<rparr>"
  from parse_ignored_block_checked [of ?s "word_tok ''mail'' 1" "word_tok ''{'' 1" "word_tok ''x'' 2" "[]"
      "word_tok '';'' 2" "word_tok ''}'' 3" empty_env "[]"]
  show ?thesis by (auto simp: token_defs parse_start_def defaultParseOpts_def ignored_def)
qed

end
