(* ===== verification/Config_Source.thy ===== *)
theory Config_Source
  imports Config_Lex
begin

text \<open>
  Source text in ASCII: words and quoted strings as lexemes of the lexer's specification, for the
  proofs that go from text to tokens.
\<close>

definition word_char :: "char \<Rightarrow> bool" where
  "word_char c \<longleftrightarrow>
     ascii c \<and> \<not> isSpace (rune_of c) \<and> c \<notin> {CHR 0x5C, CHR ''{'', CHR ''}'', CHR '';''}"

text \<open>A bare word that the lexer keeps as it is.\<close>

definition plain_word :: "string \<Rightarrow> bool" where
  "plain_word w \<longleftrightarrow>
     w \<noteq> [] \<and> list_all word_char w \<and> hd w \<notin> {CHR ''#'', CHR 0x22, CHR 0x27} \<and>
     w \<notin> set lua_directives"

definition word_lexeme :: "string \<Rightarrow> lexeme" where
  "word_lexeme w = LWord (rune_of (hd w)) (map (\<lambda>c. Plain (rune_of c)) (tl w))"

lemma plain_word_ascii: "plain_word w \<Longrightarrow> list_all ascii w"
  by (auto simp: plain_word_def word_char_def list_all_iff)

lemma atoms_src_plain [simp]: "atoms_src (map (\<lambda>c. Plain (rune_of c)) w) = map rune_of w"
  by (induction w) auto

lemma atoms_text_plain [simp]: "atoms_text q (map (\<lambda>c. Plain (rune_of c)) w) = map rune_of w"
  by (induction w) auto

lemma word_lexeme_src: "w \<noteq> [] \<Longrightarrow> lexeme_src (word_lexeme w) = map rune_of w"
  by (cases w) (simp_all add: word_lexeme_def)

lemma word_lexeme_text: "plain_word w \<Longrightarrow> utf8 (rune_of (hd w) # map rune_of (tl w)) = w"
  using utf8_ascii [of w] plain_word_ascii [of w] by (cases w) (auto simp: plain_word_def)

lemma word_lexeme_tokens:
  "plain_word w \<Longrightarrow> lexeme_tokens n (word_lexeme w) = [\<lparr>tok_text = w, tok_line = n, tok_quote = False\<rparr>]"
  using word_lexeme_text [of w] by (simp add: word_lexeme_def)

lemma no_custom_lexer: "w \<notin> set lua_directives \<Longrightarrow> defaultCustomLexers w = None"
  by (simp add: defaultCustomLexers_def)

lemma word_char_rune:
  "word_char c \<Longrightarrow> \<not> isSpace (rune_of c) \<and> rune_of c \<noteq> 92 \<and> \<not> is_punct (rune_of c) \<and> rune_of c \<noteq> 10"
  by (cases "c = CHR 0x0A") (simp_all add: word_char_def is_punct_def)

lemma word_lexeme_ok:
  assumes "plain_word w"
  shows "lexemes_ok defaultCustomLexers (word_lexeme w # l) \<longleftrightarrow>
    ends_word w l \<and> lexemes_ok defaultCustomLexers l"
proof -
  from assms have "w \<noteq> []" "list_all word_char (tl w)" "word_char (hd w)"
    "hd w \<notin> {CHR ''#'', CHR 0x22, CHR 0x27}" "w \<notin> set lua_directives"
    by (cases w; auto simp: plain_word_def)+
  then have "plain_first (rune_of (hd w))"
    using word_char_rune [of "hd w"] by (simp add: plain_first_def is_quote_def)
  moreover have "list_all word_ok (map (\<lambda>c. Plain (rune_of c)) (tl w))"
    using \<open>list_all word_char (tl w)\<close> by (auto simp: list_all_iff word_char_def is_punct_def)
  ultimately show ?thesis
    using word_lexeme_text [OF assms] no_custom_lexer [OF \<open>w \<notin> set lua_directives\<close>]
    by (simp add: word_lexeme_def)
qed

lemma lines_no_newline: "CHR 0x0A \<notin> set w \<Longrightarrow> lines (map rune_of w) n = n"
  by (induction w) auto

lemma word_lexeme_lines: "plain_word w \<Longrightarrow> lines (map rune_of w) n = n"
  by (rule lines_no_newline) (auto simp: plain_word_def list_all_iff dest!: bspec word_char_rune)

text \<open>A double-quoted string of bytes other than the quote and the backslash.\<close>

definition quotable :: "string \<Rightarrow> bool" where
  "quotable w \<longleftrightarrow>
     list_all (\<lambda>c. ascii c \<and> c \<noteq> CHR 0x22 \<and> c \<noteq> CHR 0x5C \<and> c \<noteq> CHR 0x0A) w \<and> w \<notin> set lua_directives"

definition quoted_lexeme :: "string \<Rightarrow> lexeme" where
  "quoted_lexeme w = LQuoted 34 (map (\<lambda>c. Plain (rune_of c)) w)"

lemma quoted_lexeme_src: "lexeme_src (quoted_lexeme w) = 34 # map rune_of w @ [34]"
  by (simp add: quoted_lexeme_def)

lemma quoted_lexeme_tokens:
  "quotable w \<Longrightarrow> lexeme_tokens n (quoted_lexeme w) = [\<lparr>tok_text = w, tok_line = n, tok_quote = True\<rparr>]"
  using utf8_ascii [of w] by (auto simp: quoted_lexeme_def quotable_def list_all_iff)

lemma quoted_lexeme_ok:
  "quotable w \<Longrightarrow> lexemes_ok defaultCustomLexers (quoted_lexeme w # l) \<longleftrightarrow>
     lexemes_ok defaultCustomLexers l"
  by (auto simp: quoted_lexeme_def quotable_def is_quote_def list_all_iff no_custom_lexer)

lemma quoted_lexeme_lines: "quotable w \<Longrightarrow> lines (34 # map rune_of w @ [34]) n = n"
  using lines_no_newline [of w n] by (auto simp: quotable_def list_all_iff)

lemma space_lexeme_ok [simp]:
  "lexemes_ok ext (LSpace r # l) \<longleftrightarrow> isSpace r \<and> lexemes_ok ext l"
  "lexemes_ok ext (LPunct r # l) \<longleftrightarrow> is_punct r \<and> lexemes_ok ext l"
  by simp_all

text \<open>The lexer on ASCII text.\<close>

lemma lex_ascii:
  assumes "list_all ascii src" "map rune_of src = lexemes_src l" "lexemes_ok defaultCustomLexers l"
    and "balanceBraces (lexemes_tokens 1 l) filename = None"
  shows "lex src filename = Some (Inr (lexemes_tokens 1 l))"
  using assms by (intro lex_lexemes) (simp_all add: newIter_def)

lemmas word_lexeme_simps = word_lexeme_src word_lexeme_tokens word_lexeme_ok word_lexeme_lines

lemmas quoted_lexeme_simps = quoted_lexeme_src quoted_lexeme_tokens quoted_lexeme_ok

lemmas plain_word_defs = plain_word_def word_char_def ascii_def isSpace_def lua_directives_def

end
