(* ===== verification/Config_Include.thy ===== *)
theory Config_Include
  imports Config_Grammar Config_Source
begin

text \<open>
  The include machinery of \<open>config_parse.go\<close>: which files a parse reads, the indices that connect
  an \<open>include\<close> statement with its files, and the merging of all files into one. The main result is
  that every include index points to a later file, so that merging ends; a file that includes itself
  keeps \<open>parse\<close> running for ever.
\<close>

section \<open>Include indices\<close>

function include_indices :: "Stmt \<Rightarrow> nat set" where
  "include_indices st =
     set (Includes st) \<union>
     (case Blocks st of None \<Rightarrow> {} | Some bs \<Rightarrow> \<Union> (include_indices ` set bs))"
  by pat_completeness auto
termination by (relation "measure size") (simp_all add: size_block)

declare include_indices.simps [simp del]

definition all_indices :: "Stmt list \<Rightarrow> nat set" where
  "all_indices sts = \<Union> (include_indices ` set sts)"

lemma all_indices_simps [simp]:
  "all_indices [] = {}" "all_indices (st # sts) = include_indices st \<union> all_indices sts"
  "all_indices (sts @ sts') = all_indices sts \<union> all_indices sts'"
  by (simp_all add: all_indices_def)

lemma include_indices_no_block [simp]: "include_indices (Stmt d f l as c xs None) = set xs"
  by (simp add: include_indices.simps)

lemma include_indices_block [simp]:
  "include_indices (Stmt d f l as c xs (Some bs)) = set xs \<union> all_indices bs"
  by (simp add: include_indices.simps [of "Stmt d f l as c xs (Some bs)"] all_indices_def)

lemma comment_stmts_indices [simp]: "all_indices (comment_stmts st cs) = {}"
  by (auto simp: comment_stmts_def all_indices_def)

text \<open>The number of files known so far.\<close>

abbreviation nfiles :: "pstate \<Rightarrow> nat" where
  "nfiles s \<equiv> length (opt_includes (opts s))"

subsection \<open>One round\<close>

lemma add_includes_indices:
  assumes "add_includes ctx names (stmt, s) = (stmt', s')"
  shows "nfiles s' = nfiles s + length names \<and> Blocks stmt' = Blocks stmt \<and>
     set (Includes stmt') \<subseteq> set (Includes stmt) \<union> {nfiles s..<nfiles s'}"
  using assms
proof (induction names arbitrary: stmt s)
  case Nil
  then show ?case by (simp add: add_includes_def)
next
  case (Cons name names)
  obtain stmt1 s1 where one: "add_include ctx name (stmt, s) = (stmt1, s1)" by (meson surj_pair)
  then have "nfiles s1 = Suc (nfiles s)" "Blocks stmt1 = Blocks stmt"
    "Includes stmt1 = Includes stmt @ [nfiles s]"
    by (auto simp: add_include_def Let_def)
  moreover from Cons.prems one have "add_includes ctx names (stmt1, s1) = (stmt', s')"
    by (simp add: add_includes_def)
  ultimately show ?case using Cons.IH [of stmt1 s1] by auto
qed

lemma include_names_files [simp]: "nfiles (snd (include_names env stmt pattern s)) = nfiles s"
  using include_names_cases [of env stmt pattern s] by auto

lemma handle_include_indices:
  assumes "handle_include env ctx stmt s = Inr (stmt', s')" "Includes stmt = []" "Blocks stmt = None"
  shows "nfiles s \<le> nfiles s' \<and> Blocks stmt' = None \<and> set (Includes stmt') \<subseteq> {nfiles s..<nfiles s'}"
proof -
  from assms(1) obtain pattern where
    "add_includes ctx (fst (include_names env stmt pattern s))
       (stmt, snd (include_names env stmt pattern s)) = (stmt', s')"
    by (auto simp: handle_include_def gbind_eq_Inr Let_def case_prod_beta)
  from add_includes_indices [OF this] assms(2,3) show ?thesis by auto
qed

fun action_indices :: "action \<Rightarrow> nat set" where
  "action_indices (Done s) = {}"
| "action_indices (Emit sts s) = all_indices sts"
| "action_indices (Consume s) = {}"
| "action_indices (Enter st cmts s) = set (Includes st)"

lemma check_stmt_files [simp]: "nfiles (check_stmt env ctx stmt tm s) = nfiles s"
  by simp

lemma finish_stmt_indices:
  assumes "finish_stmt env ctx stmt cmts tm s = Inr a" "Includes stmt = []" "Blocks stmt = None"
  shows "nfiles s \<le> nfiles (action_state a) \<and>
    action_indices a \<subseteq> {nfiles s..<nfiles (action_state a)}"
proof (cases "ignored (opts s) (Directive stmt)")
  case True
  with assms show ?thesis by (auto simp: finish_stmt_def split: if_splits)
next
  case False
  let ?stmt = "if Directive stmt = ''if'' then prepareIfArgs stmt else stmt"
  let ?s1 = "check_stmt env ctx ?stmt (tok_text tm) s"
  have st: "Includes ?stmt = []" "Blocks ?stmt = None"
    using assms(2,3) by (simp_all add: prepareIfArgs_def)
  from False assms obtain stmt' s2 where
    r: "(if \<not> single (opts ?s1) \<and> Directive ?stmt = ''include'' then handle_include env ctx ?stmt ?s1
         else Inr (?stmt, ?s1)) = Inr (stmt', s2)"
      "a = (if is_open tm then Enter stmt' cmts s2 else Emit (stmt' # comment_stmts stmt' cmts) s2)"
    unfolding finish_stmt_def Let_def by (auto simp: gbind_eq_Inr simp del: Stmt.sel)
  have "nfiles s \<le> nfiles s2 \<and> Blocks stmt' = None \<and> set (Includes stmt') \<subseteq> {nfiles s..<nfiles s2}"
    using r(1) handle_include_indices [OF _ st, of env ctx ?s1 stmt' s2] st
    by (auto simp del: Stmt.sel split: if_splits)
  moreover from this have "include_indices stmt' = set (Includes stmt')"
    by (simp add: include_indices.simps [of stmt'])
  ultimately show ?thesis using r(2) by auto
qed

lemma parse_step_indices:
  assumes "parse_step env ctx consume s = Inr a"
  shows "nfiles s \<le> nfiles (action_state a) \<and>
    action_indices a \<subseteq> {nfiles s..<nfiles (action_state a)}"
proof (cases "tokens s")
  case Nil
  with assms show ?thesis by (auto simp: parse_step_def)
next
  case (Cons t ts)
  show ?thesis
  proof (cases "is_close t \<or> consume \<and> is_open t \<or> is_comment t")
    case True
    with Cons assms show ?thesis by (auto simp: parse_step_def Let_def split: if_splits)
  next
    case False
    with Cons assms obtain args cmts tm rest where
      "arg_loop ts = Inr (args, cmts, tm, rest)"
      "finish_stmt env ctx (Stmt (tok_text t) (if combine (opts s) then File (parsing s) else [])
         (tok_line t) args [] [] None) cmts tm (s\<lparr>tokens := rest\<rparr>) = Inr a"
      by (auto simp: parse_step_def Let_def gbind_eq_Inr)
    from finish_stmt_indices [OF this(2)] show ?thesis by simp
  qed
qed

subsection \<open>The statement loop\<close>

lemma ivl_widen: "A \<subseteq> {m..<a} \<Longrightarrow> n \<le> m \<Longrightarrow> a \<le> b \<Longrightarrow> A \<subseteq> {n..<b}" for a b m n :: nat
  by fastforce

lemma parse_loop_indices:
  assumes "parse_loop env ctx consume s parsed = Inr (sts, s')" "all_indices parsed \<subseteq> {n..<nfiles s}"
    and "n \<le> nfiles s"
  shows "nfiles s \<le> nfiles s' \<and> all_indices sts \<subseteq> {n..<nfiles s'}"
  using assms
proof (induction env ctx consume s parsed arbitrary: sts s' n rule: parse_loop.induct)
  case (1 env ctx consume s parsed)
  note ret = "1.prems"(1) [unfolded parse_loop.simps [of env ctx consume s] gbind_eq_Inr]
  from ret obtain a where a: "parse_step env ctx consume s = Inr a" by blast
  note idx = parse_step_indices [OF a]
  show ?case
  proof (cases a)
    case (Done s1)
    with ret a idx "1.prems" show ?thesis by auto
  next
    case (Emit sts1 s1)
    with ret a have "parse_loop env ctx consume s1 (parsed @ sts1) = Inr (sts, s')" by simp
    moreover have "all_indices (parsed @ sts1) \<subseteq> {n..<nfiles s1}"
      using idx Emit "1.prems"(2,3) by (auto intro: ivl_widen)
    ultimately show ?thesis
      using "1.IH"(1) [OF a Emit, of sts s' n] idx Emit "1.prems"(3) by fastforce
  next
    case (Consume s1)
    with ret a obtain b s2 where p: "parse_loop env [] True s1 [] = Inr (b, s2)"
        "parse_loop env ctx consume s2 parsed = Inr (sts, s')"
      by (auto simp: gbind_eq_Inr)
    have le: "nfiles s \<le> nfiles s2"
      using "1.IH"(2) [OF a Consume p(1), of "nfiles s1"] idx Consume by simp
    with "1.prems"(2) have "all_indices parsed \<subseteq> {n..<nfiles s2}" by (simp add: ivl_widen)
    with "1.IH"(3) [OF a Consume p(1) refl p(2), of n] le "1.prems"(3) show ?thesis by simp
  next
    case (Enter st cmts s1)
    with ret a obtain b s2 where p: "parse_loop env (enterBlock st ctx) False s1 [] = Inr (b, s2)"
        "parse_loop env ctx consume s2 (parsed @ set_Blocks (Some b) st # comment_stmts st cmts) =
           Inr (sts, s')"
      by (auto simp: gbind_eq_Inr)
    have inner: "nfiles s1 \<le> nfiles s2" "all_indices b \<subseteq> {nfiles s1..<nfiles s2}"
      using "1.IH"(4) [OF a Enter p(1), of "nfiles s1"] by simp_all
    have le: "nfiles s \<le> nfiles s1" "set (Includes st) \<subseteq> {nfiles s..<nfiles s1}"
      using idx Enter by simp_all
    have "all_indices (parsed @ set_Blocks (Some b) st # comment_stmts st cmts) \<subseteq> {n..<nfiles s2}"
      using ivl_widen [OF "1.prems"(2), of n "nfiles s2"] ivl_widen [OF inner(2), of n "nfiles s2"]
        ivl_widen [OF le(2), of n "nfiles s2"] inner(1) le(1) "1.prems"(3)
      by simp
    with "1.IH"(5) [OF a Enter p(1) refl p(2), of n] inner(1) le(1) "1.prems"(3) show ?thesis by simp
  qed
qed

section \<open>The file loop\<close>

text \<open>Every parsed file's include indices point to later files of the list.\<close>

definition linked :: "nat \<Rightarrow> pstate \<Rightarrow> bool" where
  "linked idx s \<longleftrightarrow>
     length (Config (pld s)) = idx \<and> idx \<le> nfiles s \<and>
     (\<forall>k < idx. \<forall>c. Config (pld s) ! k = Some c \<longrightarrow> all_indices (Parsed c) \<subseteq> {Suc k..<nfiles s})"

lemma parse_start_linked: "linked 0 (parse_start filename o0 ds)"
  by (simp add: linked_def parse_start_def)

lemma parseInclude_indices:
  assumes "parseInclude env f s = Some (Inr ((c, e), s'))"
  shows "Config (pld s') = Config (pld s) \<and> nfiles s \<le> nfiles s' \<and>
    (\<forall>ctx. c = Some ctx \<longrightarrow> all_indices (Parsed ctx) \<subseteq> {nfiles s..<nfiles s'})"
proof (cases "c = None \<and> s' = s")
  case True
  then show ?thesis by simp
next
  case False
  with assms obtain s0 parsed where
    p: "parseInternal env (fc_ctx f) False s0 = Inr (parsed, s')" "c = Some ((parsing s')\<lparr>Parsed := parsed\<rparr>)"
    and s0: "nfiles s0 = nfiles s" "Config (pld s0) = Config (pld s)"
    by (fastforce simp: parseInclude_def Let_def gbind_eq_Inr split: sum.splits bind_splits)
  from p(1) parse_loop_indices [of env "fc_ctx f" False s0 "[]" parsed s' "nfiles s0"]
    keeps_files.parseInternal_R [OF p(1)] p(2) s0
  show ?thesis by (simp add: parseInternal_def)
qed

lemma add_config_simps [simp]:
  "opts (add_config c e s) = opts s" "Config (pld (add_config c e s)) = Config (pld s) @ [c]"
  by (simp_all add: add_config_def Let_def split: option.splits)

lemma linked_step:
  assumes "linked idx s" "idx < nfiles s" "parseInclude env f s = Some (Inr ((c, e), s'))"
  shows "linked (Suc idx) (add_config c e s')"
proof -
  from parseInclude_indices [OF assms(3)]
  have i: "Config (pld s') = Config (pld s)" "nfiles s \<le> nfiles s'"
    "\<And>ctx. c = Some ctx \<Longrightarrow> all_indices (Parsed ctx) \<subseteq> {nfiles s..<nfiles s'}" by auto
  have "all_indices (Parsed ctx) \<subseteq> {Suc k..<nfiles s'}"
    if "k < Suc idx" "(Config (pld s) @ [c]) ! k = Some ctx" for k ctx
  proof (cases "k = idx")
    case True
    with that assms(1) have "c = Some ctx" by (auto simp: linked_def nth_append)
    with i(3) assms(2) True show ?thesis by (auto intro: ivl_widen)
  next
    case False
    with that assms(1) have "all_indices (Parsed ctx) \<subseteq> {Suc k..<nfiles s}"
      by (auto simp: linked_def nth_append)
    with i(2) show ?thesis by (simp add: ivl_widen)
  qed
  with i assms(1,2) show ?thesis by (auto simp: linked_def)
qed

text \<open>The files of a finished run: all of them were read, and the links point forward.\<close>

definition finished :: "nat \<Rightarrow> nat \<Rightarrow> pstate \<Rightarrow> pstate go \<Rightarrow> bool" where
  "finished n idx s r \<longleftrightarrow>
     (linked idx s \<and> n \<le> nfiles s \<longrightarrow> (\<forall>s'. r = Inr s' \<longrightarrow> linked (nfiles s') s' \<and> n \<le> nfiles s'))"

lemma include_loop_finished:
  assumes "include_loop env idx s = Some r"
  shows "finished n idx s r"
proof (rule include_loop.raw_induct [where P = "\<lambda>env. finished n", OF _ assms])
  fix f env idx s r
  assume IH: "\<And>env idx s r. f env idx s = Some r \<Longrightarrow> finished n idx s r"
    and eq: "(if idx < nfiles s then do {
        r \<leftarrow> parseInclude env (opt_includes (opts s) ! idx) s;
        (case r of Inl p \<Rightarrow> Some (Inl p)
         | Inr q \<Rightarrow> f env (Suc idx) (add_config (fst (fst q)) (snd (fst q)) (snd q)))
      } else Some (Inr s)) = Some r"
  show "finished n idx s r"
  proof (cases "idx < nfiles s")
    case False
    then have "linked idx s \<Longrightarrow> idx = nfiles s" by (simp add: linked_def)
    with eq False show ?thesis by (auto simp: finished_def)
  next
    case True
    with eq obtain q where q: "parseInclude env (opt_includes (opts s) ! idx) s = Some q"
      by (auto split: bind_splits)
    show ?thesis
    proof (cases q)
      case (Inl p)
      with eq True q show ?thesis by (auto simp: finished_def)
    next
      case (Inr t)
      then obtain c e s1 where t: "q = Inr ((c, e), s1)" by (metis surj_pair)
      with eq True q have "finished n (Suc idx) (add_config c e s1) r" by (intro IH) simp
      with linked_step [OF _ True] parseInclude_indices [of env _ s c e s1] q t
      show ?thesis by (fastforce simp: finished_def)
    qed
  qed
qed

lemma include_loop_linked:
  assumes "include_loop env 0 (parse_start filename o0 ds) = Some (Inr s)"
  shows "linked (nfiles s) s" "0 < nfiles s"
  using include_loop_finished [OF assms, of 1] parse_start_linked [of filename o0 ds]
  by (auto simp: finished_def parse_start_def)

section \<open>Merging ends\<close>

text \<open>Payloads whose files only refer to later files.\<close>

definition forward :: "payload \<Rightarrow> bool" where
  "forward p \<longleftrightarrow>
     (\<forall>k < length (Config p). \<forall>c. Config p ! k = Some c \<longrightarrow>
        all_indices (Parsed c) \<subseteq> {Suc k..<length (Config p)})"

lemma config_at_Inr:
  "config_at p k = Inr c \<longleftrightarrow> k < length (Config p) \<and> Config p ! k = Some c"
  by (auto simp: config_at_def gbind_eq_Inr go_index_def split: option.splits)

lemma go_then_returns: "m \<noteq> None \<Longrightarrow> (\<And>x. m = Some (Inr x) \<Longrightarrow> f x \<noteq> None) \<Longrightarrow> go_then m f \<noteq> None"
  by (auto simp: go_then_def split: bind_splits sum.splits)

lemma perform_todo_returns:
  assumes "\<And>idx c. idx \<in> set todo \<Longrightarrow> config_at p idx = Inr c \<Longrightarrow> perform_loop p [] (Parsed c) \<noteq> None"
    and "perform_loop p [] block \<noteq> None"
  shows "perform_loop p todo block \<noteq> None"
  using assms
proof (induction todo)
  case (Cons idx idxs)
  have "go_then (Some (config_at p idx)) (\<lambda>c. go_then (perform_loop p [] (Parsed c)) (\<lambda>vs.
      go_then (perform_loop p idxs block) (\<lambda>rest. Some (Inr (vs @ rest))))) \<noteq> None"
    using Cons by (intro go_then_returns) auto
  then show ?case by (subst perform_loop.simps) simp
qed simp

lemma perform_block_returns:
  assumes files: "\<And>idx c. m \<le> idx \<Longrightarrow> config_at p idx = Inr c \<Longrightarrow> perform_loop p [] (Parsed c) \<noteq> None"
    and "all_indices block \<subseteq> {m..}"
  shows "perform_loop p [] block \<noteq> None"
  using assms(2)
proof (induction block rule: measure_induct_rule [of "size_list size"])
  case (less block)
  show ?case
  proof (cases block)
    case Nil
    then show ?thesis by (subst perform_loop.simps) simp
  next
    case (Cons st sts)
    have rest: "perform_loop p [] sts \<noteq> None" using less Cons by simp
    have inside: "perform_loop p [] b \<noteq> None" if "Blocks st = Some b" for b
      using that less Cons by (cases st) auto
    have idxs: "set (Includes st) \<subseteq> {m..}" using less.prems Cons include_indices.simps [of st] by auto
    have "perform_loop p (Includes st) sts \<noteq> None"
      by (rule perform_todo_returns [OF files rest]) (use idxs in auto)
    moreover have "\<exists>r. (case Blocks st of None \<Rightarrow> Some (Inr st)
        | Some b \<Rightarrow> go_then (perform_loop p [] b) (\<lambda>o1. Some (Inr (set_Blocks (nil_slice o1) st)))) = Some r \<and>
      (\<forall>st'. r = Inr st' \<longrightarrow> Includes st' = Includes st)"
    proof (cases "Blocks st")
      case (Some b)
      with inside obtain y where "perform_loop p [] b = Some y" by blast
      with Some show ?thesis by (cases y) auto
    qed simp
    ultimately show ?thesis
      using rest Cons by (subst perform_loop.simps) (auto simp: go_then_def split: sum.splits)
  qed
qed

lemma perform_file_returns:
  assumes "forward p" "config_at p idx = Inr c"
  shows "perform_loop p [] (Parsed c) \<noteq> None"
  using assms(2)
proof (induction "length (Config p) - idx" arbitrary: idx c rule: less_induct)
  case less
  from less.prems assms(1) have c: "idx < length (Config p)"
    "all_indices (Parsed c) \<subseteq> {Suc idx..<length (Config p)}"
    by (auto simp: config_at_Inr forward_def)
  show ?case
  proof (rule perform_block_returns [of "Suc idx"])
    fix k d assume "Suc idx \<le> k" "config_at p k = Inr d"
    with c(1) show "perform_loop p [] (Parsed d) \<noteq> None" by (intro less.hyps) auto
  next
    from c(2) show "all_indices (Parsed c) \<subseteq> {Suc idx..}" by force
  qed
qed

text \<open>Merging can only fail on a file that could not be read.\<close>

definition nil_only :: "payload \<Rightarrow> nat list \<Rightarrow> Stmt list \<Rightarrow> Stmt list go \<Rightarrow> bool" where
  "nil_only p todo block r \<longleftrightarrow>
     (forward p \<and> set todo \<union> all_indices block \<subseteq> {..<length (Config p)} \<longrightarrow>
      (\<forall>q. r = Inl q \<longrightarrow> q = NilPointer \<and> None \<in> set (Config p)))"

lemma config_at_panic:
  "k < length (Config p) \<Longrightarrow> config_at p k = Inl q \<Longrightarrow> q = NilPointer \<and> None \<in> set (Config p)"
  by (auto simp: config_at_def gbind_eq_Inl go_index_def split: option.splits if_splits)
     (metis nth_mem)

lemma forward_indices:
  "forward p \<Longrightarrow> config_at p k = Inr c \<Longrightarrow> all_indices (Parsed c) \<subseteq> {..<length (Config p)}"
  by (fastforce simp: config_at_Inr forward_def)

lemma go_then_Inl:
  "go_then m f = Some (Inl q) \<longleftrightarrow> m = Some (Inl q) \<or> (\<exists>x. m = Some (Inr x) \<and> f x = Some (Inl q))"
  by (auto simp: go_then_def split: bind_splits sum.splits)

lemma go_then_Inr: "go_then m f = Some (Inr y) \<longleftrightarrow> (\<exists>x. m = Some (Inr x) \<and> f x = Some (Inr y))"
  by (auto simp: go_then_def split: bind_splits sum.splits)

lemma perform_loop_nil_only:
  assumes "perform_loop p todo block = Some r"
  shows "nil_only p todo block r"
proof (rule perform_loop.raw_induct [where P = nil_only, OF _ assms])
  fix f p todo block r
  assume IH: "\<And>p todo block r. f p todo block = Some r \<Longrightarrow> nil_only p todo block r"
    and eq: "(case todo of
        idx # idxs \<Rightarrow>
          go_then (Some (config_at p idx)) (\<lambda>c.
          go_then (f p [] (Parsed c)) (\<lambda>vs.
          go_then (f p idxs block) (\<lambda>rest. Some (Inr (vs @ rest)))))
      | [] \<Rightarrow>
          (case block of
             [] \<Rightarrow> Some (Inr [])
           | stmt # stmts \<Rightarrow>
               go_then (case Blocks stmt of
                          None \<Rightarrow> Some (Inr stmt)
                        | Some b \<Rightarrow> go_then (f p [] b) (\<lambda>o1.
                            Some (Inr (set_Blocks (nil_slice o1) stmt)))) (\<lambda>stmt'.
               if Includes stmt' \<noteq> [] then f p (Includes stmt') stmts
               else go_then (f p [] stmts) (\<lambda>rest. Some (Inr (stmt' # rest)))))) = Some r"
  show "nil_only p todo block r"
    unfolding nil_only_def
  proof (intro impI allI)
    fix q
    assume pre: "forward p \<and> set todo \<union> all_indices block \<subseteq> {..<length (Config p)}" and r: "r = Inl q"
    have IH': "q = NilPointer \<and> None \<in> set (Config p)"
      if "f p todo' block' = Some (Inl q)" "set todo' \<union> all_indices block' \<subseteq> {..<length (Config p)}"
      for todo' block'
      using IH [OF that(1)] that(2) pre by (auto simp: nil_only_def)
    show "q = NilPointer \<and> None \<in> set (Config p)"
    proof (cases todo)
      case (Cons idx idxs)
      with eq r consider "config_at p idx = Inl q"
        | c where "config_at p idx = Inr c" "f p [] (Parsed c) = Some (Inl q)"
        | "f p idxs block = Some (Inl q)"
        by (auto simp: go_then_Inl)
      then show ?thesis
        using pre Cons IH' [of "[]"] IH' [of idxs block] config_at_panic [of idx p q] forward_indices
        by cases auto
    next
      case Nil
      with eq r obtain st sts where blk: "block = st # sts" by (cases block) auto
      have idx: "set (Includes st) \<subseteq> {..<length (Config p)}"
        "\<And>b. Blocks st = Some b \<Longrightarrow> all_indices b \<subseteq> {..<length (Config p)}"
        using pre blk include_indices.simps [of st] by (auto simp: all_indices_def)
      from eq r Nil blk consider b where "Blocks st = Some b" "f p [] b = Some (Inl q)"
        | "f p (Includes st) sts = Some (Inl q)" | "f p [] sts = Some (Inl q)"
        by (auto simp: go_then_Inl go_then_Inr split: option.splits if_splits)
      then show ?thesis
        using pre blk idx IH' [of "[]"] IH' [of "Includes st" sts] by cases auto
    qed
  qed
qed

section \<open>A file that includes itself\<close>

definition self_include :: "string \<Rightarrow> token list \<Rightarrow> bool" where
  "self_include f ts \<longleftrightarrow> (\<exists>l1 l2 l3. ts = [word_tok ''include'' l1, word_tok f l2, word_tok '';'' l3])"

lemma check_stmt_parsing [simp]: "File (parsing (check_stmt env ctx stmt tm s)) = File (parsing s)"
  by (simp add: check_stmt_def Let_def split: prod.splits option.splits)

text \<open>Parsing such a file adds it to the file list again.\<close>

lemma parse_self_include:
  assumes "fs_Open env f = Inr src" "self_include f (tokens s)" "inDirArgs (word_tok f 0)"
    and "hd f \<noteq> CHR ''#''" "\<not> single (opts s)" "\<not> ignored (opts s) ''include''"
  shows "\<exists>sts s' inc. parseInternal env ctx False s = Inr (sts, s') \<and>
    opts s' = (opts s)\<lparr>included := inc,
                      opt_includes := opt_includes (opts s) @ [\<lparr>fc_name = f, fc_ctx = ctx\<rparr>]\<rparr>"
proof -
  from assms(2) obtain l1 l2 l3 where
    ts: "tokens s = [word_tok ''include'' l1, word_tok f l2, word_tok '';'' l3]"
    by (auto simp: self_include_def)
  from assms(3,4) have tk: "inDirArgs (word_tok f l2)" "\<not> is_comment (word_tok f l2)"
    "\<not> inDirArgs (word_tok '';'' l3)"
    by (cases f; auto simp: inDirArgs_def checkTerminal_def is_comment_def hasPrefix_def)+
  let ?st = "Stmt ''include'' (if combine (opts s) then File (parsing s) else []) l1 [f] [] [] None"
  let ?s1 = "check_stmt env ctx ?st '';'' (s\<lparr>tokens := []\<rparr>)"
  obtain st' s2 where add: "add_include ctx f (?st, ?s1) = (st', s2)" by (meson surj_pair)
  have names: "include_names env ?st f ?s1 = ([f], ?s1)"
    using assms(1) by (simp add: include_names_def)
  have "parse_step env ctx False s = Inr (Emit [st'] s2)"
    using ts tk assms(5,6) names add
    by (simp add: parse_step_def is_close_def is_comment_def [of "word_tok ''include'' l1"]
        hasPrefix_def finish_stmt_def is_open_def handle_include_def add_includes_def comment_stmts_def)
  moreover have "tokens s2 = []" "\<exists>inc. opts s2 =
      (opts s)\<lparr>included := inc, opt_includes := opt_includes (opts s) @ [\<lparr>fc_name = f, fc_ctx = ctx\<rparr>]\<rparr>"
    using add by (auto simp: add_include_def Let_def)
  ultimately show ?thesis
    by (auto simp: parseInternal_def parse_loop_Emit parse_loop_end)
qed

definition reincludes :: "parse_env \<Rightarrow> string \<Rightarrow> nat \<Rightarrow> pstate \<Rightarrow> bool" where
  "reincludes env f idx s \<longleftrightarrow>
     idx < nfiles s \<and> (\<forall>k. idx \<le> k \<and> k < nfiles s \<longrightarrow> fc_name (opt_includes (opts s) ! k) = f) \<and>
     \<not> single (opts s) \<and> \<not> ignored (opts s) ''include''"

lemma ignored_update [simp]:
  "ignored (o1\<lparr>opt_includes := x\<rparr>) = ignored o1" "ignored (o1\<lparr>included := y\<rparr>) = ignored o1"
  by (simp_all add: ignored_def fun_eq_iff)

lemma parseInclude_self:
  assumes "fs_Open env f = Inr src" "lex src f = Some (Inr ts)" "self_include f ts"
    and "inDirArgs (word_tok f 0)" "hd f \<noteq> CHR ''#''" "reincludes env f idx s"
    and "parseInclude env (opt_includes (opts s) ! idx) s = Some r"
  shows "\<exists>q. r = Inr q \<and> reincludes env f (Suc idx) (add_config (fst (fst q)) (snd (fst q)) (snd q))"
proof -
  let ?fc = "opt_includes (opts s) ! idx"
  let ?s0 = "s\<lparr>tokens := ts, parsing := \<lparr>File = f, Status = ''ok'', Errors = [], Parsed = []\<rparr>\<rparr>"
  have name: "fc_name ?fc = f" using assms(6) by (simp add: reincludes_def)
  from parse_self_include [of env f src ?s0 "fc_ctx ?fc"] assms obtain sts s' inc where
    p: "parseInternal env (fc_ctx ?fc) False ?s0 = Inr (sts, s')"
      "opts s' = (opts s)\<lparr>included := inc,
         opt_includes := opt_includes (opts s) @ [\<lparr>fc_name = f, fc_ctx = fc_ctx ?fc\<rparr>]\<rparr>"
    by (auto simp: reincludes_def)
  with assms(1,2,7) name have "r = Inr ((Some ((parsing s')\<lparr>Parsed := sts\<rparr>), None), s')"
    by (simp add: parseInclude_def)
  with p(2) assms(6) show ?thesis by (auto simp: reincludes_def nth_append)
qed

lemma include_loop_self:
  assumes "include_loop env idx s = Some r" "fs_Open env f = Inr src" "lex src f = Some (Inr ts)"
    and "self_include f ts" "inDirArgs (word_tok f 0)" "hd f \<noteq> CHR ''#''"
  shows "\<not> reincludes env f idx s"
proof -
  have "fs_Open env f = Inr src \<longrightarrow> \<not> reincludes env f idx s"
  proof (rule include_loop.raw_induct
      [where P = "\<lambda>env idx s r. fs_Open env f = Inr src \<longrightarrow> \<not> reincludes env f idx s", OF _ assms(1)])
    fix g env idx s r
    assume IH: "\<And>env idx s r. g env idx s = Some r \<Longrightarrow>
          fs_Open env f = Inr src \<longrightarrow> \<not> reincludes env f idx s"
      and eq: "(if idx < nfiles s then do {
          r \<leftarrow> parseInclude env (opt_includes (opts s) ! idx) s;
          (case r of Inl p \<Rightarrow> Some (Inl p)
           | Inr q \<Rightarrow> g env (Suc idx) (add_config (fst (fst q)) (snd (fst q)) (snd q)))
        } else Some (Inr s)) = Some r"
    show "fs_Open env f = Inr src \<longrightarrow> \<not> reincludes env f idx s"
    proof (intro impI notI)
      assume src: "fs_Open env f = Inr src" and re: "reincludes env f idx s"
      then have "idx < nfiles s" by (simp add: reincludes_def)
      with eq obtain q where q: "parseInclude env (opt_includes (opts s) ! idx) s = Some q"
        by (auto split: bind_splits)
      with parseInclude_self [OF src assms(3-6) re] obtain t where
        "q = Inr t" "reincludes env f (Suc idx) (add_config (fst (fst t)) (snd (fst t)) (snd t))" by blast
      with eq q \<open>idx < nfiles s\<close> IH src show False by fastforce
    qed
  qed
  with assms(2) show ?thesis by simp
qed

section \<open>Properties\<close>

lemma forward_pld: "linked (nfiles s) s \<Longrightarrow> forward (pld s)"
  by (simp add: linked_def forward_def)

text \<open>A panic of the merge, and that it ends.\<close>

lemma merge_errors_panic: "merge_errors cs acc = Inl q \<Longrightarrow> q = NilPointer \<and> None \<in> set cs"
  by (induction cs acc rule: merge_errors.induct) auto

text \<open>A run over one readable file without includes.\<close>

lemma include_one_file:
  assumes "fs_Open env f = Inr src" "lex src f = Some (Inr ts)"
    and "grammar (opts (parse_start f o0 ds)) f sts ts" "opt_includes o0 = []"
  shows "\<exists>s1. include_loop env 0 (parse_start f o0 ds) =
      Some (Inr (add_config (Some ((parsing s1)\<lparr>Parsed := sts\<rparr>)) None s1)) \<and>
    advances (list_all (stmt_ok ds (opts (parse_start f o0 ds)) []) sts)
      ((parse_start f o0 ds)\<lparr>parsing := \<lparr>File = f, Status = ''ok'', Errors = [], Parsed = []\<rparr>\<rparr>) s1"
proof -
  let ?init = "parse_start f o0 ds"
  let ?s = "?init\<lparr>tokens := ts, parsing := \<lparr>File = f, Status = ''ok'', Errors = [], Parsed = []\<rparr>\<rparr>"
  have g: "grammar (opts ?init) f sts ts" "opts ?s = opts ?init" "File (parsing ?s) = f" "tokens ?s = ts @ []"
    and ds: "dirs ?s = ds"
    using assms(3) by (simp_all add: parse_start_def)
  from parse_loop_grammar [OF g, of env "[]"] obtain s1 where
    s1: "parse_loop env [] False ?s [] = parse_loop env [] False s1 sts" "tokens s1 = []"
      "advances (list_all (stmt_ok (dirs ?s) (opts ?init) []) sts) ?s s1" by fastforce
  have p: "parseInternal env [] False ?s = Inr (sts, s1)"
    using s1(1) parse_loop_end [OF s1(2)] by (simp add: parseInternal_def)
  have fc: "opt_includes (opts ?init) = [\<lparr>fc_name = f, fc_ctx = []\<rparr>]"
    using assms(4) by (simp add: parse_start_def)
  have "opts s1 = opts ?init" using s1(3) by (simp add: advances_def)
  moreover have "parseInclude env \<lparr>fc_name = f, fc_ctx = []\<rparr> ?init =
      Some (Inr ((Some ((parsing s1)\<lparr>Parsed := sts\<rparr>), None), s1))"
    using assms(1,2) p by (simp add: parseInclude_def)
  ultimately have "include_loop env 0 ?init =
      Some (Inr (add_config (Some ((parsing s1)\<lparr>Parsed := sts\<rparr>)) None s1))"
    using fc by (simp add: include_loop.simps [of env 0] include_loop.simps [of env "Suc 0"])
  moreover have "advances (list_all (stmt_ok ds (opts ?init) []) sts)
      (?init\<lparr>parsing := \<lparr>File = f, Status = ''ok'', Errors = [], Parsed = []\<rparr>\<rparr>) s1"
    using s1(3) ds by (simp add: advances_def)
  ultimately show ?thesis by blast
qed

text \<open>
  Merging (C28). After \<open>parse\<close> has read all files, merging them with \<open>combineParsedConfig\<close> always
  ends, and it panics only with a nil dereference and only when some file could not be read: no
  include index is ever out of range.
\<close>

theorem combine_returns:
  assumes "include_loop env 0 (parse_start filename o0 ds) = Some (Inr s)"
  shows "\<exists>r. combineParsedConfig (pld s) = Some r \<and>
     (case r of Inl q \<Rightarrow> q = NilPointer \<and> None \<in> set (Config (pld s)) | Inr p \<Rightarrow> length (Config p) = 1)"
proof -
  note lk = include_loop_linked [OF assms]
  then have fw: "forward (pld s)" and ne: "0 < length (Config (pld s))"
    by (auto simp: forward_pld) (simp add: linked_def)
  show ?thesis
  proof (cases "config_at (pld s) 0")
    case (Inl q)
    with config_at_panic [OF ne] show ?thesis by (simp add: combineParsedConfig_def)
  next
    case c0: (Inr c0)
    let ?acc = "\<lparr>File = File c0, Status = ''ok'', Errors = [], Parsed = []\<rparr>"
    from perform_file_returns [OF fw c0] obtain r where
      r: "perform_loop (pld s) [] (Parsed c0) = Some r" by blast
    have nil: "q = NilPointer \<and> None \<in> set (Config (pld s))" if "r = Inl q" for q
      using perform_loop_nil_only [OF r] that fw forward_indices [OF fw c0] by (simp add: nil_only_def)
    show ?thesis
    proof (cases "merge_errors (Config (pld s)) ?acc")
      case (Inl q)
      with c0 merge_errors_panic [OF Inl] show ?thesis by (simp add: combineParsedConfig_def)
    next
      case (Inr acc)
      with c0 r nil show ?thesis
        by (cases r) (simp_all add: combineParsedConfig_def performInclude_def)
    qed
  qed
qed

theorem combine_returns_witness:
  "\<exists>s. include_loop \<lparr>fs_Open = \<lambda>_. Inr [], Glob = \<lambda>_. Inr [], env_printable = \<lambda>_. True\<rparr> 0
         (parse_start ''f'' defaultParseOpts directives) = Some (Inr s) \<and>
       (\<exists>r. combineParsedConfig (pld s) = Some r \<and>
          (case r of Inl q \<Rightarrow> q = NilPointer \<and> None \<in> set (Config (pld s)) | Inr p \<Rightarrow> length (Config p) = 1))"
proof -
  let ?env = "\<lparr>fs_Open = \<lambda>_. Inr [], Glob = \<lambda>_. Inr [], env_printable = \<lambda>_. True\<rparr>"
  have "lex [] ''f'' = Some (Inr [])"
    using lex_ascii [of "[]" "[]" "''f''"] by (simp add: balanceBraces_def)
  then have "\<exists>s. include_loop ?env 0 (parse_start ''f'' defaultParseOpts directives) = Some (Inr s)"
    using include_one_file [of ?env "''f''" "[]" "[]" defaultParseOpts directives "[]"]
    by (auto simp: grammar.g_nil defaultParseOpts_def)
  then show ?thesis using combine_returns by blast
qed



text \<open>
  Unreadable file. With merging switched on, a main file that cannot be opened is not
  reported: \<open>parse\<close> dereferences its nil context and panics.
\<close>

theorem parse_missing_file_panics:
  assumes "fs_Open env f = Inl err" "combine o0" "opt_includes o0 = []"
  shows "parse env f o0 ds = Some (Inl NilPointer)"
  using assms
  by (simp add: parse_def include_loop.simps [of env 0] include_loop.simps [of env "Suc 0"]
      parse_start_def parseInclude_def add_config_def combineParsedConfig_def config_at_def)

theorem parse_missing_file_panics_witness:
  "parse empty_env ''f'' (defaultParseOpts\<lparr>combine := True\<rparr>) directives = Some (Inl NilPointer)"
  by (rule parse_missing_file_panics) (simp_all add: empty_env_def defaultParseOpts_def)

text \<open>
  Empty blocks. Merging turns a statement with an empty block into a statement without a
  block, since the empty result slice is nil.
\<close>

theorem performInclude_drops_empty_block:
  "performInclude p [Stmt d f l as c [] (Some [])] = Some (Inr [Stmt d f l as c [] None])"
  by (simp add: performInclude_def perform_loop.simps [of p] nil_slice_def)

lemma parse_one_file:
  assumes "fs_Open env f = Inr src" "lex src f = Some (Inr ts)"
    and "grammar (opts (parse_start f o0 ds)) f sts ts" "opt_includes o0 = []" "\<not> combine o0"
  shows "\<exists>c. parse env f o0 ds =
      Some (Inr \<lparr>PStatus = (if Errors c = [] then ''ok'' else ''failed''), PErrors = Errors c,
                 Config = [Some c]\<rparr>) \<and>
    Parsed c = sts \<and> File c = f \<and>
    (Errors c = []) = list_all (stmt_ok ds (opts (parse_start f o0 ds)) []) sts"
proof -
  let ?init = "parse_start f o0 ds"
  from include_one_file [OF assms(1-4)] obtain s1 where
    s1: "include_loop env 0 ?init = Some (Inr (add_config (Some ((parsing s1)\<lparr>Parsed := sts\<rparr>)) None s1))"
      "advances (list_all (stmt_ok ds (opts ?init) []) sts)
         (?init\<lparr>parsing := \<lparr>File = f, Status = ''ok'', Errors = [], Parsed = []\<rparr>\<rparr>) s1" by blast
  let ?c = "(parsing s1)\<lparr>Parsed := sts\<rparr>"
  from s1(2) have a: "opts s1 = opts ?init" "File ?c = f" "Config (pld s1) = []"
    "PErrors (pld s1) = Errors ?c" "PStatus (pld s1) = (if Errors ?c = [] then ''ok'' else ''failed'')"
    "(Errors ?c = []) = list_all (stmt_ok ds (opts ?init) []) sts"
    by (auto simp: advances_def parse_start_def)
  moreover have "\<not> combine (opts ?init)" using assms(5) by (simp add: parse_start_def)
  ultimately show ?thesis
    using s1(1) by (intro exI [of _ ?c]) (simp add: parse_def add_config_def)
qed

text \<open>
  One file (C8). Parsing a readable file whose tokens follow the grammar, without merging and
  without includes, returns one context with exactly the statements of the grammar. The payload is
  failed exactly when it holds an error, and it holds one exactly when a statement fails the
  directive check.
\<close>

theorem parse_file_exact:
  assumes "fs_Open env f = Inr src" "lex src f = Some (Inr ts)"
    and "grammar (opts (parse_start f o0 ds)) f sts ts" "opt_includes o0 = []" "\<not> combine o0"
  shows "\<exists>c. parse env f o0 ds =
      Some (Inr \<lparr>PStatus = (if Errors c = [] then ''ok'' else ''failed''), PErrors = Errors c,
                 Config = [Some c]\<rparr>) \<and>
    Parsed c = sts \<and> File c = f \<and>
    (Errors c = []) = list_all (stmt_ok ds (opts (parse_start f o0 ds)) []) sts"
  using assms by (rule parse_one_file)

theorem parse_file_exact_witness:
  "\<exists>c. parse \<lparr>fs_Open = \<lambda>_. Inr ''daemon off;'', Glob = \<lambda>_. Inr [], env_printable = \<lambda>_. True\<rparr> ''f''
          defaultParseOpts directives =
        Some (Inr \<lparr>PStatus = (if Errors c = [] then ''ok'' else ''failed''), PErrors = Errors c,
                   Config = [Some c]\<rparr>) \<and>
     Parsed c = [Stmt ''daemon'' [] 1 [''off''] [] [] None]"
proof -
  let ?env = "\<lparr>fs_Open = \<lambda>_. Inr ''daemon off;'', Glob = \<lambda>_. Inr [], env_printable = \<lambda>_. True\<rparr>"
  let ?l = "[word_lexeme ''daemon'', LSpace 32, word_lexeme ''off'', LPunct 59]"
  let ?o = "opts (parse_start ''f'' defaultParseOpts directives)"
  have w: "plain_word ''daemon''" "plain_word ''off''" by (simp_all add: plain_word_defs)
  have lx: "lex ''daemon off;'' ''f'' =
      Some (Inr [word_tok ''daemon'' 1, word_tok ''off'' 1, word_tok '';'' 1])"
    using lex_ascii [of "''daemon off;''" ?l "''f''"] w
    by (simp add: word_lexeme_simps balanceBraces_def ascii_def is_punct_def isSpace_def)
  have "grammar ?o ''f'' (stmt_group ?o ''f'' (word_tok ''daemon'' 1) [word_tok ''off'' 1] None @ [])
      (word_tok ''daemon'' 1 # [word_tok ''off'' 1] @ word_tok '';'' 1 # [])"
    by (rule grammar.g_simple) (simp_all add: token_defs default_opts grammar.g_nil)
  then have g: "grammar ?o ''f'' [Stmt ''daemon'' [] 1 [''off''] [] [] None]
      [word_tok ''daemon'' 1, word_tok ''off'' 1, word_tok '';'' 1]"
    by (simp add: token_defs default_opts)
  have op: "fs_Open ?env ''f'' = Inr ''daemon off;''"
    and o: "opt_includes defaultParseOpts = []" "\<not> combine defaultParseOpts"
    by (simp_all add: defaultParseOpts_def)
  from parse_file_exact [OF op lx g o] show ?thesis by blast
qed

end
