(* ===== verification/Config_Roundtrip.thy ===== *)
theory Config_Roundtrip
  imports Config_Build Config_Include
begin

text \<open>
  The printer against the lexer and the parser: the text that \<open>build\<close> writes for a tree of plain
  statements is lexed and parsed back to the same tree, up to line numbers. Then an input on which
  this fails: a tree that ends with a comment.
\<close>

section \<open>Words\<close>

lemma escape_loop_plain:
  "92 \<notin> set cs \<Longrightarrow> prev \<noteq> 92 \<Longrightarrow>
     escape_loop cs prev prev buf = buf @ (if prev = 36 then [prev] else []) @ cs"
  by (induction cs arbitrary: prev buf) auto

lemma escape_plain: "92 \<notin> set (runes_of_string s) \<Longrightarrow> escape s = runes_of_string s"
  by (simp add: escape_def escape_loop_plain)

lemma quote_check_plain: "\<not> quote_check it e \<Longrightarrow> list_all (\<lambda>ch. \<not> check01 ch) it"
  by (induction it e rule: quote_check.induct) (auto simp: Let_def split: if_splits)

lemma replace_all_none:
  "CHR 0x5C \<notin> set s \<Longrightarrow> replace_all (CHR 0x5C # old) new s = s"
proof (induction s)
  case (Cons c s)
  then show ?case by (auto simp: replace_all.simps [of _ _ "c # s"] hasPrefix_def)
qed (simp add: replace_all.simps)

text \<open>The words the round trip covers: printable ASCII without double quote and backslash, not
  starting with a sharp sign, and no name of a Lua block directive.\<close>

definition plain_text :: "string \<Rightarrow> bool" where
  "plain_text w \<longleftrightarrow>
     list_all plain_char w \<and> \<not> hasPrefix w ''#'' \<and> w \<notin> set lua_directives"

lemma plain_text_chars: "plain_text w \<Longrightarrow> c \<in> set w \<Longrightarrow> plain_char c"
  by (simp add: plain_text_def list_all_iff)

lemma plain_text_ascii: "plain_text w \<Longrightarrow> list_all ascii w"
  by (auto simp: list_all_iff plain_char_ascii dest: plain_text_chars)

lemma plain_text_runes: "plain_text w \<Longrightarrow> escape w = map rune_of w"
proof -
  assume w: "plain_text w"
  then have "92 \<notin> set (map rune_of w)" by (auto simp: plain_char_def dest!: plain_text_chars)
  with escape_plain [of w] w show ?thesis by (simp add: plain_text_ascii)
qed

lemma unquoted_word:
  assumes "plain_text w" "\<not> needsQuote w"
  shows "plain_word w"
proof -
  from assms(2) have ne: "w \<noteq> []" by (auto simp: needsQuote_def)
  then obtain c cs where w: "w = c # cs" by (cases w) auto
  with assms have "\<not> check01 (rune_of c)" "\<not> quote_check (map rune_of cs) False"
    by (auto simp: needsQuote_def plain_text_runes iter_next_def split: if_splits)
  with quote_check_plain have chk: "list_all (\<lambda>c. \<not> check01 (rune_of c)) w"
    by (fastforce simp: w list_all_iff)
  have "word_char d" if "d \<in> set w" for d
    using chk that plain_text_chars [OF assms(1) that] plain_char_ascii
    by (auto simp: list_all_iff word_char_def check01_def plain_char_def)
  moreover have "hd w \<notin> {CHR ''#'', CHR 0x22, CHR 0x27}"
    using w chk assms(1) by (auto simp: check01_def plain_text_def hasPrefix_def)
  ultimately show ?thesis
    using ne assms(1) by (auto simp: plain_word_def plain_text_def list_all_iff)
qed

lemma plain_char_quotable:
  "plain_char c \<Longrightarrow> ascii c \<and> c \<noteq> CHR 0x22 \<and> c \<noteq> CHR 0x5C \<and> c \<noteq> CHR 0x0A"
  by (cases "c = CHR 0x0A") (simp_all add: plain_char_def ascii_def)

lemma plain_text_quotable: "plain_text w \<Longrightarrow> quotable w"
  unfolding quotable_def plain_text_def list_all_iff using plain_char_quotable by blast

lemma plain_text_enquote:
  assumes "plain_text w"
  shows "enquote printable w = (if needsQuote w then CHR 0x22 # w @ [CHR 0x22] else w)"
proof -
  have "CHR 0x5C \<notin> set w" using assms by (auto simp: plain_char_def dest!: plain_text_chars)
  with assms show ?thesis
    by (simp add: enquote_def replace_all_none Quote_plain plain_text_def)
qed

definition text_lexeme :: "string \<Rightarrow> lexeme" where
  "text_lexeme w = (if needsQuote w then quoted_lexeme w else word_lexeme w)"

text \<open>A word has to be followed by white space or by a semicolon.\<close>

fun separated :: "lexeme list \<Rightarrow> bool" where
  "separated (LSpace r # l) = True"
| "separated (LPunct r # l) = (r = 59)"
| "separated l = False"

lemma separated_ends: "separated l \<Longrightarrow> ends_word w l"
  by (induction l rule: separated.induct) auto

lemma text_lexeme:
  assumes "plain_text w"
  shows "map rune_of (enquote printable w) = lexeme_src (text_lexeme w)"
    and "list_all ascii (enquote printable w)"
    and "lexeme_tokens n (text_lexeme w) = [\<lparr>tok_text = w, tok_line = n, tok_quote = needsQuote w\<rparr>]"
    and "lines (lexeme_src (text_lexeme w)) n = n"
    and "separated l \<Longrightarrow> lexemes_ok defaultCustomLexers (text_lexeme w # l) = lexemes_ok defaultCustomLexers l"
proof -
  have q: "quotable w" by (rule plain_text_quotable [OF assms])
  have p: "\<not> needsQuote w \<Longrightarrow> plain_word w" by (rule unquoted_word [OF assms])
  then have ne: "\<not> needsQuote w \<Longrightarrow> w \<noteq> []" by (simp add: plain_word_def)
  note defs = text_lexeme_def plain_text_enquote [OF assms]
  show "map rune_of (enquote printable w) = lexeme_src (text_lexeme w)"
    using ne by (simp add: defs quoted_lexeme_src word_lexeme_src)
  show "list_all ascii (enquote printable w)"
    using plain_text_ascii [OF assms] by (simp add: defs ascii_def)
  show "lexeme_tokens n (text_lexeme w) = [\<lparr>tok_text = w, tok_line = n, tok_quote = needsQuote w\<rparr>]"
    using p q by (simp add: defs word_lexeme_tokens quoted_lexeme_tokens)
  show "lines (lexeme_src (text_lexeme w)) n = n"
    using p q ne quoted_lexeme_lines [OF q, of n] word_lexeme_lines [of w n]
    by (simp add: defs quoted_lexeme_src word_lexeme_src)
  show "lexemes_ok defaultCustomLexers (text_lexeme w # l) = lexemes_ok defaultCustomLexers l"
    if "separated l"
    using p q separated_ends [OF that] by (simp add: defs word_lexeme_ok quoted_lexeme_ok)
qed

section \<open>Statements\<close>

text \<open>The trees the round trip covers, under the parser's options.\<close>

function plain_stmt :: "parseOpts \<Rightarrow> Stmt \<Rightarrow> bool" where
  "plain_stmt o1 st \<longleftrightarrow>
     plain_text (Directive st) \<and> Directive st \<noteq> ''if'' \<and> list_all plain_text (Args st) \<and>
     Comment st = [] \<and> Includes st = [] \<and> \<not> ignored o1 (Directive st) \<and>
     (single o1 \<or> Directive st \<noteq> ''include'') \<and>
     (case Blocks st of None \<Rightarrow> True | Some bs \<Rightarrow> list_all (plain_stmt o1) bs)"
  by pat_completeness auto
termination by (relation "measure (\<lambda>(o1, st). size st)") (simp_all add: size_block)

declare plain_stmt.simps [simp del]

text \<open>Statements without their file and line numbers.\<close>

function erase :: "Stmt \<Rightarrow> Stmt" where
  "erase st =
     Stmt (Directive st) [] 0 (Args st) (Comment st) (Includes st)
       (case Blocks st of None \<Rightarrow> None | Some bs \<Rightarrow> Some (map erase bs))"
  by pat_completeness auto
termination by (relation "measure size") (simp_all add: size_block)

declare erase.simps [simp del]

definition indent_lexemes :: "nat \<Rightarrow> nat \<Rightarrow> lexeme list" where
  "indent_lexemes padding depth = LSpace 10 # replicate (padding * depth) (LSpace 32)"

definition head_lexemes :: "Stmt \<Rightarrow> lexeme list" where
  "head_lexemes st =
     text_lexeme (Directive st) # concat (map (\<lambda>a. [LSpace 32, text_lexeme a]) (Args st))"

function stmt_lexemes :: "nat \<Rightarrow> nat \<Rightarrow> Stmt \<Rightarrow> lexeme list" where
  "stmt_lexemes padding depth st =
     head_lexemes st @
     (case Blocks st of
        None \<Rightarrow> [LPunct 59]
      | Some bs \<Rightarrow>
          [LSpace 32, LPunct 123] @
          concat (map (\<lambda>b. indent_lexemes padding (depth + 1) @ stmt_lexemes padding (depth + 1) b) bs) @
          indent_lexemes padding depth @ [LPunct 125])"
  by pat_completeness auto
termination by (relation "measure (\<lambda>(padding, depth, st). size st)") (simp_all add: size_block)

declare stmt_lexemes.simps [simp del]

definition block_lexemes :: "nat \<Rightarrow> nat \<Rightarrow> Stmt list \<Rightarrow> lexeme list" where
  "block_lexemes padding depth bs =
     concat (map (\<lambda>b. indent_lexemes padding depth @ stmt_lexemes padding depth b) bs)"

lemma block_lexemes_simps [simp]:
  "block_lexemes padding depth [] = []"
  "block_lexemes padding depth (b # bs) =
     indent_lexemes padding depth @ stmt_lexemes padding depth b @ block_lexemes padding depth bs"
  by (simp_all add: block_lexemes_def)

lemma stmt_lexemes_simple:
  "Blocks st = None \<Longrightarrow> stmt_lexemes padding depth st = head_lexemes st @ [LPunct 59]"
  by (simp add: stmt_lexemes.simps)

lemma stmt_lexemes_block:
  "Blocks st = Some bs \<Longrightarrow> stmt_lexemes padding depth st =
     head_lexemes st @ [LSpace 32, LPunct 123] @ block_lexemes padding (Suc depth) bs @
     indent_lexemes padding depth @ [LPunct 125]"
  by (simp add: stmt_lexemes.simps [of _ _ st] block_lexemes_def)

subsection \<open>The printed text\<close>

lemma margin_src: "10 # map rune_of (margin padding depth) = lexemes_src (indent_lexemes padding depth)"
  by (simp add: margin_def indent_lexemes_def lexemes_src_def map_replicate_const)

lemma join_spaces:
  "as \<noteq> [] \<Longrightarrow> '' '' @ join as '' '' = concat (map (\<lambda>a. CHR '' '' # a) as)"
  by (induction as rule: induct_list012) auto

lemma args_src:
  "list_all plain_text as \<Longrightarrow>
     map rune_of (concat (map (\<lambda>a. CHR '' '' # a) (map (enquote printable) as))) =
     lexemes_src (concat (map (\<lambda>a. [LSpace 32, text_lexeme a]) as))"
  by (induction as) (simp_all add: text_lexeme(1))

lemma plain_directive:
  assumes "plain_text d" "d \<noteq> ''if''"
  shows "enquote printable d \<noteq> ''#''" "enquote printable d \<noteq> ''if''"
    "enquote printable d \<notin> set lua_directives"
proof -
  from assms(1) have lua: "d \<notin> set lua_directives" "d \<noteq> ''#''" by (auto simp: plain_text_def hasPrefix_def)
  have "CHR 0x22 # d @ [CHR 0x22] \<notin> set lua_directives" by (simp add: lua_directives_def)
  with lua assms show "enquote printable d \<noteq> ''#''" "enquote printable d \<noteq> ''if''"
    "enquote printable d \<notin> set lua_directives"
    by (simp_all add: plain_text_enquote)
qed

lemma enquote_nonempty: "plain_text w \<Longrightarrow> enquote printable w \<noteq> []"
  by (auto simp: plain_text_enquote needsQuote_def)

lemma build_head_src:
  assumes "plain_stmt o1 st"
  shows "map rune_of (build_head printable st) = lexemes_src (head_lexemes st)"
    and "build_head printable st \<noteq> []"
proof -
  from assms have p: "plain_text (Directive st)" "Directive st \<noteq> ''if''" "list_all plain_text (Args st)"
    by (simp_all add: plain_stmt.simps [of o1 st])
  show "map rune_of (build_head printable st) = lexemes_src (head_lexemes st)"
  proof (cases "Args st = []")
    case True
    with p plain_directive show ?thesis
      by (simp add: build_head_def Let_def head_lexemes_def text_lexeme(1))
  next
    case False
    then have "build_head printable st = enquote printable (Directive st) @
        concat (map (\<lambda>a. CHR '' '' # a) (map (enquote printable) (Args st)))"
      using plain_directive [OF p(1,2), of printable] join_spaces [of "map (enquote printable) (Args st)"]
      by (simp add: build_head_def Let_def)
    with args_src [OF p(3), of printable] show ?thesis
      by (simp add: head_lexemes_def text_lexeme(1) [OF p(1)])
  qed
  show "build_head printable st \<noteq> []"
    using enquote_nonempty [OF p(1)] by (simp add: build_head_def Let_def)
qed

text \<open>What \<open>buildBlock\<close> appends to a non-empty output.\<close>

definition built_stmt :: "(rune \<Rightarrow> bool) \<Rightarrow> nat \<Rightarrow> nat \<Rightarrow> Stmt \<Rightarrow> string" where
  "built_stmt printable padding depth st =
     (case Blocks st of
        None \<Rightarrow> build_head printable st @ '';''
      | Some bs \<Rightarrow>
          buildBlock printable (build_head printable st @ '' {'') bs padding (depth + 1) (Line st) @
          [CHR 0x0A] @ margin padding depth @ ''}'')"

lemma buildBlock_plain_Cons:
  assumes "plain_stmt o1 st"
  shows "buildBlock printable out (st # sts) padding depth lastLine =
    buildBlock printable
      (out @ (if out = [] then [] else [CHR 0x0A]) @ margin padding depth @
       built_stmt printable padding depth st) sts padding depth (Line st)"
proof -
  have "plain_text (Directive st)" "Directive st \<noteq> ''if''"
    using assms by (simp_all add: plain_stmt.simps [of o1 st])
  from plain_directive [OF this, of printable] show ?thesis
    by (simp add: buildBlock.simps(2) built_stmt_def Let_def)
qed

lemma plain_stmt_block:
  "plain_stmt o1 st \<Longrightarrow> Blocks st = Some bs \<Longrightarrow> list_all (plain_stmt o1) bs"
  by (simp add: plain_stmt.simps [of o1 st])

lemma buildBlock_src_step:
  assumes "\<And>st depth. st \<in> set sts \<Longrightarrow>
      map rune_of (built_stmt printable padding depth st) = lexemes_src (stmt_lexemes padding depth st)"
    and "list_all (plain_stmt o1) sts" "out \<noteq> []"
  shows "map rune_of (buildBlock printable out sts padding depth lastLine) =
    map rune_of out @ lexemes_src (block_lexemes padding depth sts)"
  using assms
proof (induction sts arbitrary: out lastLine)
  case (Cons st sts)
  have "10 # map rune_of (margin padding depth) = lexemes_src (indent_lexemes padding depth)"
    by (rule margin_src)
  with Cons show ?case by (simp add: buildBlock_plain_Cons [of o1])
qed simp

lemma built_stmt_src:
  "plain_stmt o1 st \<Longrightarrow>
     map rune_of (built_stmt printable padding depth st) = lexemes_src (stmt_lexemes padding depth st)"
proof (induction "size st" arbitrary: st depth rule: less_induct)
  case less
  note head = build_head_src [OF less.prems]
  show ?case
  proof (cases "Blocks st")
    case None
    with head show ?thesis by (simp add: built_stmt_def stmt_lexemes_simple)
  next
    case (Some bs)
    note bs = plain_stmt_block [OF less.prems Some]
    have "map rune_of (built_stmt printable padding d b) = lexemes_src (stmt_lexemes padding d b)"
      if "b \<in> set bs" for b d
      using less.hyps [OF size_block [OF Some that]] bs that by (simp add: list_all_iff)
    from buildBlock_src_step [OF this bs, of "build_head printable st @ '' {''" "depth + 1" "Line st"]
    show ?thesis
      using head Some margin_src [of padding depth]
      by (simp add: built_stmt_def stmt_lexemes_block lexemes_src_def)
  qed
qed

lemma buildBlock_src:
  assumes "list_all (plain_stmt o1) sts" "out \<noteq> []"
  shows "map rune_of (buildBlock printable out sts padding depth lastLine) =
    map rune_of out @ lexemes_src (block_lexemes padding depth sts)"
  using assms built_stmt_src by (intro buildBlock_src_step) (auto simp: list_all_iff)

lemma lexemes_src_nonempty: "map rune_of s = lexemes_src (stmt_lexemes p d st) \<Longrightarrow> s \<noteq> []"
  by (auto simp: stmt_lexemes.simps [of _ _ st] split: option.splits)

text \<open>The whole file: the first statement starts it, each of the others a line.\<close>

definition file_lexemes :: "nat \<Rightarrow> Stmt list \<Rightarrow> lexeme list" where
  "file_lexemes padding sts =
     (case sts of [] \<Rightarrow> [] | st # r \<Rightarrow> stmt_lexemes padding 0 st @ block_lexemes padding 0 r)"

lemma build_src:
  assumes "list_all (plain_stmt o1) sts"
  shows "map rune_of (build printable sts indent False) = lexemes_src (file_lexemes indent sts)"
proof (cases sts)
  case (Cons st r)
  with assms have st: "plain_stmt o1 st" "list_all (plain_stmt o1) r" by simp_all
  have "margin indent 0 = []" by (simp add: margin_def)
  with Cons built_stmt_src [OF st(1), of printable indent 0]
    buildBlock_src [OF st(2) lexemes_src_nonempty [OF built_stmt_src [OF st(1)]]]
  show ?thesis by (simp add: build_def buildBlock_plain_Cons [OF st(1)] file_lexemes_def)
qed (simp add: build_def file_lexemes_def)

subsection \<open>The printed text lexes and parses\<close>

lemma text_lexeme_ascii:
  assumes "plain_text w"
  shows "list_all (\<lambda>r. r < 0x80) (lexeme_src (text_lexeme w))"
  unfolding text_lexeme(1) [OF assms, of "\<lambda>_. True", symmetric]
  using text_lexeme(2) [OF assms, of "\<lambda>_. True"] by (simp add: list_all_iff ascii_def)

definition text_token :: "nat \<Rightarrow> string \<Rightarrow> token" where
  "text_token n w = \<lparr>tok_text = w, tok_line = n, tok_quote = needsQuote w\<rparr>"

text \<open>Tokens that leave the brace check where it was.\<close>

definition neutral :: "token list \<Rightarrow> bool" where
  "neutral ts \<longleftrightarrow>
     (\<forall>us depth line f. 0 \<le> depth \<longrightarrow>
        (\<exists>line'. balance_loop (ts @ us) depth line f = balance_loop us depth line' f))"

lemma neutral_Nil [simp]: "neutral []"
  by (auto simp: neutral_def)

lemma neutral_append: "neutral ts \<Longrightarrow> neutral us \<Longrightarrow> neutral (ts @ us)"
  unfolding neutral_def append_assoc by metis

lemma neutral_delta: "list_all (\<lambda>t. brace_delta t = 0) ts \<Longrightarrow> neutral ts"
proof (induction ts)
  case (Cons t ts)
  then have "neutral ts" "brace_delta t = 0" by simp_all
  then show ?case
    by (simp add: neutral_def balance_loop_Cons del: balance_loop.simps)
qed simp

lemma neutral_block:
  assumes "neutral ts" "brace_delta t = 1" "brace_delta u = -1"
  shows "neutral (t # ts @ [u])"
  unfolding neutral_def
proof (intro allI impI)
  fix us f and depth :: int and line assume d: "0 \<le> depth"
  with assms(1) obtain l where
    "balance_loop (ts @ u # us) (depth + 1) (tok_line t) f = balance_loop (u # us) (depth + 1) l f"
    unfolding neutral_def by (metis add_nonneg_nonneg zero_le_one)
  with d assms(2,3) show "\<exists>l'. balance_loop ((t # ts @ [u]) @ us) depth line f = balance_loop us depth l' f"
    by (auto simp: balance_loop_Cons simp del: balance_loop.simps)
qed

text \<open>A piece of text that lexes on its own and parses to statements, whatever follows.\<close>

definition prints :: "parseOpts \<Rightarrow> string \<Rightarrow> nat \<Rightarrow> lexeme list \<Rightarrow> nat \<Rightarrow> Stmt list \<Rightarrow> bool" where
  "prints o1 fl n l n' sts \<longleftrightarrow>
     list_all (\<lambda>r. r < 0x80) (lexemes_src l) \<and>
     (\<forall>k. lexemes_ok defaultCustomLexers (l @ k) = lexemes_ok defaultCustomLexers k) \<and>
     (\<exists>ts sts'. (\<forall>k. lexemes_tokens n (l @ k) = ts @ lexemes_tokens n' k) \<and>
        map erase sts' = map erase sts \<and> neutral ts \<and>
        (\<forall>r rts. grammar o1 fl r rts \<longrightarrow> grammar o1 fl (sts' @ r) (ts @ rts)))"

lemma prints_Nil: "prints o1 fl n [] n []"
  unfolding prints_def by (auto intro: exI [of _ "[]"])

lemma prints_append:
  assumes "prints o1 fl n k n1 sts" "prints o1 fl n1 l n2 sts2"
  shows "prints o1 fl n (k @ l) n2 (sts @ sts2)"
proof -
  from assms(1) obtain ts sts' where 1: "\<And>j. lexemes_tokens n (k @ j) = ts @ lexemes_tokens n1 j"
    "map erase sts' = map erase sts" "neutral ts"
    "\<And>r rts. grammar o1 fl r rts \<Longrightarrow> grammar o1 fl (sts' @ r) (ts @ rts)"
    unfolding prints_def by blast
  from assms(2) obtain us sts2' where 2: "\<And>j. lexemes_tokens n1 (l @ j) = us @ lexemes_tokens n2 j"
    "map erase sts2' = map erase sts2" "neutral us"
    "\<And>r rts. grammar o1 fl r rts \<Longrightarrow> grammar o1 fl (sts2' @ r) (us @ rts)"
    unfolding prints_def by blast
  with 1 assms show ?thesis
    unfolding prints_def
    by (auto intro!: exI [of _ "ts @ us"] exI [of _ "sts' @ sts2'"] neutral_append)
qed

lemma prints_indent: "prints o1 fl n (indent_lexemes padding depth) (Suc n) []"
proof -
  have "lexemes_ok defaultCustomLexers (replicate m (LSpace 32) @ k) = lexemes_ok defaultCustomLexers k"
    "lexemes_tokens n (replicate m (LSpace 32) @ k) = lexemes_tokens n k"
    "list_all (\<lambda>r. r < 0x80) (lexemes_src (replicate m (LSpace 32)))" for m n k
    by (induction m) (simp_all add: isSpace_def)
  then show ?thesis
    unfolding prints_def indent_lexemes_def
    by (simp add: exI [of _ "[]"])
qed

lemma prints_block_step:
  assumes "\<And>st n. st \<in> set sts \<Longrightarrow> \<exists>n'. prints o1 fl n (stmt_lexemes padding depth st) n' [st]"
  shows "\<exists>n'. prints o1 fl n (block_lexemes padding depth sts) n' sts"
  using assms
proof (induction sts arbitrary: n)
  case Nil
  then show ?case using prints_Nil by auto
next
  case (Cons st sts)
  from Cons.prems obtain n1 where st: "prints o1 fl (Suc n) (stmt_lexemes padding depth st) n1 [st]"
    by auto
  from Cons.IH [of n1] Cons.prems obtain n2 where
    "prints o1 fl n1 (block_lexemes padding depth sts) n2 sts" by (meson list.set_intros(2))
  from prints_append [OF prints_indent prints_append [OF st this]] show ?case by auto
qed

lemma plain_text_token:
  assumes "plain_text w"
  shows "brace_delta (text_token n w) = 0" "inDirArgs (text_token n w)" "\<not> is_comment (text_token n w)"
    "\<not> is_close (text_token n w)"
proof -
  have "plain_word w" if "\<not> needsQuote w" using unquoted_word [OF assms that] .
  then have "needsQuote w \<or> w \<notin> {''{'', ''}'', '';''}"
    by (auto simp: plain_word_def word_char_def)
  with assms show "brace_delta (text_token n w) = 0" "inDirArgs (text_token n w)"
    "\<not> is_comment (text_token n w)" "\<not> is_close (text_token n w)"
    by (auto simp: text_token_def brace_delta_def token_defs plain_text_def)
qed

lemma args_tokens:
  assumes "list_all plain_text as"
  shows "lexemes_tokens n (concat (map (\<lambda>a. [LSpace 32, text_lexeme a]) as) @ k) =
      map (text_token n) as @ lexemes_tokens n k"
    and "separated k \<Longrightarrow>
      lexemes_ok defaultCustomLexers (concat (map (\<lambda>a. [LSpace 32, text_lexeme a]) as) @ k) =
      lexemes_ok defaultCustomLexers k"
    and "separated k \<Longrightarrow> separated (concat (map (\<lambda>a. [LSpace 32, text_lexeme a]) as) @ k)"
    and "list_all (\<lambda>r. r < 0x80) (lexemes_src (concat (map (\<lambda>a. [LSpace 32, text_lexeme a]) as)))"
proof -
  show sep: "separated k \<Longrightarrow> separated (concat (map (\<lambda>a. [LSpace 32, text_lexeme a]) bs) @ k)" for bs
    by (cases bs) simp_all
  show "lexemes_tokens n (concat (map (\<lambda>a. [LSpace 32, text_lexeme a]) as) @ k) =
      map (text_token n) as @ lexemes_tokens n k"
    using assms by (induction as) (simp_all add: text_lexeme(3,4) text_token_def)
  show "lexemes_ok defaultCustomLexers (concat (map (\<lambda>a. [LSpace 32, text_lexeme a]) as) @ k) =
      lexemes_ok defaultCustomLexers k" if "separated k"
    using assms by (induction as) (simp_all add: text_lexeme(5) sep that isSpace_def)
  show "list_all (\<lambda>r. r < 0x80) (lexemes_src (concat (map (\<lambda>a. [LSpace 32, text_lexeme a]) as)))"
    using assms by (induction as) (simp_all add: text_lexeme_ascii)
qed

lemma head_tokens:
  assumes "plain_stmt o1 st"
  shows "lexemes_tokens n (head_lexemes st @ k) =
      text_token n (Directive st) # map (text_token n) (Args st) @ lexemes_tokens n k"
    and "separated k \<Longrightarrow>
      lexemes_ok defaultCustomLexers (head_lexemes st @ k) = lexemes_ok defaultCustomLexers k"
    and "list_all (\<lambda>r. r < 0x80) (lexemes_src (head_lexemes st))"
proof -
  from assms have p: "plain_text (Directive st)" "list_all plain_text (Args st)"
    by (simp_all add: plain_stmt.simps [of o1 st])
  then show "lexemes_tokens n (head_lexemes st @ k) =
      text_token n (Directive st) # map (text_token n) (Args st) @ lexemes_tokens n k"
    "separated k \<Longrightarrow>
      lexemes_ok defaultCustomLexers (head_lexemes st @ k) = lexemes_ok defaultCustomLexers k"
    "list_all (\<lambda>r. r < 0x80) (lexemes_src (head_lexemes st))"
    by (simp_all add: head_lexemes_def text_lexeme text_lexeme_ascii args_tokens text_token_def)
qed

text \<open>The statement the parser builds from the tokens of a printed one.\<close>

lemma plain_group:
  assumes "plain_stmt o1 st"
  shows "starts_stmt o1 (text_token n (Directive st))"
    and "list_all inDirArgs (map (text_token n) (Args st))"
    and "neutral (text_token n (Directive st) # map (text_token n) (Args st))"
    and "stmt_group o1 fl (text_token n (Directive st)) (map (text_token n) (Args st)) b =
      [Stmt (Directive st) (if combine o1 then fl else []) n (Args st) [] [] b]"
proof -
  from assms have p: "plain_text (Directive st)" "Directive st \<noteq> ''if''" "\<forall>a \<in> set (Args st). plain_text a"
    "\<not> ignored o1 (Directive st)" "single o1 \<or> Directive st \<noteq> ''include''"
    by (simp_all add: plain_stmt.simps [of o1 st] list_all_iff)
  then have "Directive st \<noteq> ''#''" by (auto simp: plain_text_def hasPrefix_def)
  with p show "starts_stmt o1 (text_token n (Directive st))"
    by (simp add: starts_stmt_def plain_text_token) (simp add: text_token_def)
  show "list_all inDirArgs (map (text_token n) (Args st))"
    using p(3) by (simp add: list_all_iff plain_text_token)
  show "neutral (text_token n (Directive st) # map (text_token n) (Args st))"
    using p(1,3) by (intro neutral_delta) (simp add: list_all_iff plain_text_token)
  have "filter is_comment (map (text_token n) (Args st)) = []"
    "filter (\<lambda>t. \<not> is_comment t) (map (text_token n) (Args st)) = map (text_token n) (Args st)"
    using p(3) by (auto simp: filter_empty_conv plain_text_token intro!: filter_True)
  with p(2) show "stmt_group o1 fl (text_token n (Directive st)) (map (text_token n) (Args st)) b =
      [Stmt (Directive st) (if combine o1 then fl else []) n (Args st) [] [] b]"
    by (simp add: stmt_group_def stmt_of_def arg_texts_def arg_comments_def comp_def)
      (simp add: text_token_def comment_stmts_def Let_def)
qed

lemma prints_simple:
  assumes st: "plain_stmt o1 st" and b: "Blocks st = None"
  shows "prints o1 fl n (stmt_lexemes padding depth st) n [st]"
proof -
  let ?t = "text_token n (Directive st)" and ?as = "map (text_token n) (Args st)"
  let ?ts = "?t # ?as @ [word_tok '';'' n]"
  let ?st = "Stmt (Directive st) (if combine o1 then fl else []) n (Args st) [] [] None"
  have "erase ?st = erase st"
    using st b by (simp add: erase.simps [of st] erase.simps [of ?st] plain_stmt.simps [of o1 st])
  moreover have "neutral ((?t # ?as) @ [word_tok '';'' n])"
    by (intro neutral_append plain_group(3) [OF st] neutral_delta) (simp add: brace_delta_def)
  moreover have "grammar o1 fl (?st # r) (?ts @ rts)" if "grammar o1 fl r rts" for r rts
    using grammar.g_simple [OF plain_group(1,2) [OF st, of n] _ that, of "word_tok '';'' n"]
    by (simp add: plain_group(4) [OF st] is_semi_def is_open_def is_close_def)
  moreover have "lexemes_tokens n (stmt_lexemes padding depth st @ k) = ?ts @ lexemes_tokens n k" for k
    by (simp add: stmt_lexemes_simple [OF b] head_tokens(1) [OF st])
  moreover have "lexemes_ok defaultCustomLexers (stmt_lexemes padding depth st @ k) =
      lexemes_ok defaultCustomLexers k" for k
    by (simp add: stmt_lexemes_simple [OF b] head_tokens(2) [OF st] is_punct_def)
  ultimately show ?thesis
    unfolding prints_def using head_tokens(3) [OF st]
    by (intro conjI exI [of _ ?ts] exI [of _ "[?st]"]) (simp_all add: stmt_lexemes_simple [OF b])
qed

lemma prints_block:
  assumes st: "plain_stmt o1 st" and b: "Blocks st = Some bs"
    and bs: "prints o1 fl n (block_lexemes padding (Suc depth) bs) n' bs"
  shows "prints o1 fl n (stmt_lexemes padding depth st) (Suc n') [st]"
proof -
  let ?t = "text_token n (Directive st)" and ?as = "map (text_token n) (Args st)"
  from prints_append [OF bs prints_indent] have
    body: "prints o1 fl n (block_lexemes padding (Suc depth) bs @ indent_lexemes padding depth) (Suc n') bs"
    by simp
  then obtain ts bs' where ts:
    "\<And>k. lexemes_tokens n (block_lexemes padding (Suc depth) bs @ indent_lexemes padding depth @ k) =
       ts @ lexemes_tokens (Suc n') k"
    "map erase bs' = map erase bs" "neutral ts"
    "\<And>r rts. grammar o1 fl r rts \<Longrightarrow> grammar o1 fl (bs' @ r) (ts @ rts)"
    unfolding prints_def by auto
  let ?ts = "?t # ?as @ word_tok ''{'' n # ts @ [word_tok ''}'' (Suc n')]"
  let ?st = "Stmt (Directive st) (if combine o1 then fl else []) n (Args st) [] [] (Some bs')"
  note defs = stmt_lexemes_block [OF b]
  have "erase ?st = erase st"
    using st b ts(2) by (simp add: erase.simps [of st] erase.simps [of ?st] plain_stmt.simps [of o1 st])
  moreover have "neutral ((?t # ?as) @ word_tok ''{'' n # ts @ [word_tok ''}'' (Suc n')])"
    by (intro neutral_append plain_group(3) [OF st] neutral_block ts(3))
       (simp_all add: brace_delta_def)
  moreover have "grammar o1 fl (?st # r) (?ts @ rts)" if "grammar o1 fl r rts" for r rts
    using grammar.g_block [OF plain_group(1,2) [OF st, of n] _ ts(4) [OF grammar.g_nil] _ that,
        of "word_tok ''{'' n" "word_tok ''}'' (Suc n')"]
    by (simp add: plain_group(4) [OF st] is_semi_def is_open_def is_close_def)
  moreover have "lexemes_tokens n (stmt_lexemes padding depth st @ k) = ?ts @ lexemes_tokens (Suc n') k" for k
    by (simp add: defs head_tokens(1) [OF st] ts(1))
  moreover have "lexemes_ok defaultCustomLexers (stmt_lexemes padding depth st @ k) =
      lexemes_ok defaultCustomLexers k" for k
    using body by (simp add: defs head_tokens(2) [OF st] prints_def is_punct_def isSpace_def)
  moreover have "list_all (\<lambda>r. r < 0x80) (lexemes_src (stmt_lexemes padding depth st))"
    using body head_tokens(3) [OF st] by (simp add: defs prints_def)
  ultimately show ?thesis
    unfolding prints_def by (intro conjI exI [of _ ?ts] exI [of _ "[?st]"]) simp_all
qed

lemma prints_stmt: "plain_stmt o1 st \<Longrightarrow> \<exists>n'. prints o1 fl n (stmt_lexemes padding depth st) n' [st]"
proof (induction "size st" arbitrary: st n depth rule: less_induct)
  case less
  show ?case
  proof (cases "Blocks st")
    case None
    then show ?thesis using prints_simple [OF less.prems] by blast
  next
    case (Some bs)
    have "\<exists>n'. prints o1 fl m (stmt_lexemes padding (Suc depth) b) n' [b]" if "b \<in> set bs" for b m
      using less.hyps [OF size_block [OF Some that]] plain_stmt_block [OF less.prems Some] that
      by (simp add: list_all_iff)
    from prints_block_step [OF this, of bs n] obtain n' where
      "prints o1 fl n (block_lexemes padding (Suc depth) bs) n' bs" by blast
    from prints_block [OF less.prems Some this] show ?thesis by blast
  qed
qed

lemma prints_file:
  assumes "list_all (plain_stmt o1) sts"
  shows "\<exists>n'. prints o1 fl 1 (file_lexemes padding sts) n' sts"
proof (cases sts)
  case Nil
  then show ?thesis using prints_Nil by (auto simp: file_lexemes_def)
next
  case (Cons st r)
  with assms prints_stmt obtain n1 where st: "prints o1 fl 1 (stmt_lexemes padding 0 st) n1 [st]"
    by fastforce
  have "\<exists>n'. prints o1 fl n1 (block_lexemes padding 0 r) n' r"
    using assms Cons prints_stmt by (intro prints_block_step) (auto simp: list_all_iff)
  then obtain n2 where "prints o1 fl n1 (block_lexemes padding 0 r) n2 r" by blast
  from prints_append [OF st this] Cons show ?thesis by (auto simp: file_lexemes_def)
qed

section \<open>The round trip\<close>

lemma build_ascii:
  assumes "prints o1 fl n (file_lexemes indent sts) n' sts" "list_all (plain_stmt o1) sts"
  shows "list_all ascii (build printable sts indent False)"
proof -
  from assms(1) have "list_all (\<lambda>r. r < 0x80) (map rune_of (build printable sts indent False))"
    unfolding build_src [OF assms(2)] by (simp add: prints_def)
  then show ?thesis by (simp add: list_all_iff ascii_def)
qed

lemma lex_build:
  assumes "list_all (plain_stmt o1) sts"
  shows "\<exists>ts sts'. lex (build printable sts indent False) f = Some (Inr ts) \<and>
    grammar o1 f sts' ts \<and> map erase sts' = map erase sts"
proof -
  let ?l = "file_lexemes indent sts"
  from prints_file [OF assms] obtain n' where p: "prints o1 f 1 ?l n' sts" by blast
  then obtain ts sts' where ts: "\<And>k. lexemes_tokens 1 (?l @ k) = ts @ lexemes_tokens n' k"
    "map erase sts' = map erase sts" "neutral ts"
    "\<And>r rts. grammar o1 f r rts \<Longrightarrow> grammar o1 f (sts' @ r) (ts @ rts)"
    unfolding prints_def by blast
  from ts(1) [of "[]"] have toks: "lexemes_tokens 1 ?l = ts" by simp
  from p have ok: "lexemes_ok defaultCustomLexers (?l @ [])"
    unfolding prints_def by (metis lexemes_ok.simps(1))
  from ts(3) obtain n where "balance_loop (ts @ []) 0 0 f = balance_loop [] 0 n f"
    unfolding neutral_def by (meson order_refl)
  then have "balanceBraces ts f = None" by (simp add: balanceBraces_def)
  with lex_ascii [OF build_ascii [OF p assms] build_src [OF assms]] ok toks
  have "lex (build printable sts indent False) f = Some (Inr ts)" by simp
  with ts(2) ts(4) [OF grammar.g_nil] show ?thesis by auto
qed

text \<open>
  (C1) Printing a tree and reading the text back gives the tree: for every list of statements whose
  directives and arguments are printable ASCII words (quoted by the printer or not, without double
  quotes and backslashes), nested to any depth and with any indentation, \<open>parse\<close> of a file that
  holds what \<open>build\<close> printed returns one context whose statements are the given ones up to line
  numbers and file names.
\<close>

theorem build_parse_roundtrip:
  assumes "list_all (plain_stmt (opts (parse_start f o0 ds))) sts"
    and "fs_Open env f = Inr (build printable sts indent False)"
    and "opt_includes o0 = []" "\<not> combine o0"
  shows "\<exists>c. parse env f o0 ds =
      Some (Inr \<lparr>PStatus = (if Errors c = [] then ''ok'' else ''failed''), PErrors = Errors c,
                 Config = [Some c]\<rparr>) \<and>
    map erase (Parsed c) = map erase sts"
proof -
  from lex_build [OF assms(1), of printable indent f] obtain ts sts' where
    "lex (build printable sts indent False) f = Some (Inr ts)"
    "grammar (opts (parse_start f o0 ds)) f sts' ts" "map erase sts' = map erase sts" by blast
  with parse_one_file [OF assms(2) _ _ assms(3,4)] show ?thesis by metis
qed

theorem build_parse_roundtrip_witness:
  "let sts = [Stmt ''events'' [] 1 [] [] [] (Some [Stmt ''use'' [] 2 [''a b''] [] [] None])];
       env = \<lparr>fs_Open = \<lambda>_. Inr (build (\<lambda>_. True) sts 4 False), Glob = \<lambda>_. Inr [], env_printable = \<lambda>_. True\<rparr>
   in \<exists>c. parse env ''f'' defaultParseOpts directives =
        Some (Inr \<lparr>PStatus = (if Errors c = [] then ''ok'' else ''failed''), PErrors = Errors c,
                   Config = [Some c]\<rparr>) \<and>
      map erase (Parsed c) = map erase sts"
  unfolding Let_def
  by (rule build_parse_roundtrip)
     (simp_all add: plain_stmt.simps plain_text_def plain_char_def hasPrefix_def lua_directives_def
       parse_start_def defaultParseOpts_def ignored_def)

section \<open>A final comment\<close>

lemma buildBlock_append:
  "\<exists>lastLine'. buildBlock printable out (sts @ sts2) padding depth lastLine =
     buildBlock printable (buildBlock printable out sts padding depth lastLine) sts2 padding depth lastLine'"
proof (induction sts arbitrary: out lastLine)
  case (Cons st sts)
  then show ?case by (simp add: buildBlock.simps(2) Let_def)
qed auto

lemma enquote_sharp: "enquote printable ''#'' = ''#''"
  by (simp add: enquote_def needsQuote_def escape_def ascii_def iter_next_def check01_def isSpace_def)

text \<open>A comment is printed after white space, at the end of the last line or on a line of its own.\<close>

lemma buildBlock_comment:
  "\<exists>ws. list_all isSpace (map rune_of ws) \<and> list_all ascii ws \<and>
     buildBlock printable out [Stmt ''#'' fl n as c is1 b] padding depth lastLine = out @ ws @ ''#'' @ c"
proof (cases "n = lastLine")
  case True
  then show ?thesis
    by (intro exI [of _ "'' ''"]) (simp add: buildBlock.simps(2) enquote_sharp Let_def isSpace_def ascii_def)
next
  case False
  let ?ws = "(if out = [] then [] else [CHR 0x0A]) @ margin padding depth @ '' ''"
  have "list_all isSpace (map rune_of ?ws) \<and> list_all ascii ?ws"
    by (auto simp: margin_def list_all_iff isSpace_def ascii_def)
  with False show ?thesis
    by (intro exI [of _ ?ws]) (simp add: buildBlock.simps(2) enquote_sharp Let_def)
qed

lemma spaces_lexemes:
  "list_all isSpace rs \<Longrightarrow>
     lexemes_src (map LSpace rs) = rs \<and> lexemes_ok defaultCustomLexers (map LSpace rs)"
  by (induction rs) simp_all

text \<open>
  The round trip fails on a tree that ends with a comment: \<open>build\<close> writes no line feed after
  the last line, and on a comment without one the lexer does not return. So \<open>lex\<close> never returns on
  the printed text of any plain statements followed by a comment.
\<close>

theorem build_final_comment_hangs:
  assumes "list_all (plain_stmt o1) sts" "list_all ascii c" "CHR 0x0A \<notin> set c"
  shows "lex (build printable (sts @ [Stmt ''#'' fl n [] c [] None]) indent False) f = None"
proof -
  let ?b = "build printable sts indent False" and ?l = "file_lexemes indent sts"
  from prints_file [OF assms(1)] obtain n' where p: "prints o1 f 1 ?l n' sts" by blast
  then have ok: "lexemes_ok defaultCustomLexers (?l @ k) = lexemes_ok defaultCustomLexers k" for k
    by (simp add: prints_def)
  obtain m where m: "build printable (sts @ [Stmt ''#'' fl n [] c [] None]) indent False =
      buildBlock printable ?b [Stmt ''#'' fl n [] c [] None] indent 0 m"
    unfolding build_def by (metis buildBlock_append)
  obtain ws where ws: "list_all isSpace (map rune_of ws)" "list_all ascii ws"
    "build printable (sts @ [Stmt ''#'' fl n [] c [] None]) indent False = ?b @ ws @ ''#'' @ c"
    unfolding m using buildBlock_comment by blast
  note sp = spaces_lexemes [OF ws(1)]
  have "newIter (?b @ ws @ ''#'' @ c) =
      lexemes_src (?l @ map LSpace (map rune_of ws)) @ 35 # map rune_of c"
    using build_ascii [OF p assms(1), of printable] build_src [OF assms(1), of printable indent] sp ws(2) assms(2)
    by (simp add: newIter_def ascii_def)
  moreover have "lexemes_ok defaultCustomLexers (?l @ map LSpace (map rune_of ws))"
    using ok sp by simp
  moreover have "10 \<notin> set (map rune_of c)" using assms(3) by auto
  ultimately show ?thesis
    unfolding ws(3) by (intro lex_stuck [where rest = "35 # map rune_of c"] lex_tokens_open_comment)
qed

theorem build_final_comment_hangs_witness:
  "lex (build (\<lambda>_. True) ([Stmt ''daemon'' [] 1 [''off''] [] [] None] @
     [Stmt ''#'' [] 1 [] '' done'' [] None]) 4 False) ''f'' = None"
  by (rule build_final_comment_hangs [of defaultParseOpts])
     (simp_all add: plain_stmt.simps plain_text_def plain_char_def hasPrefix_def lua_directives_def
       defaultParseOpts_def ignored_def ascii_def)

end
