(* ===== verification/Vince_Config.thy ===== *)
theory Vince_Config
  imports Config_Roundtrip
begin

text \<open>
  The program's own configuration, from \<open>vince_config.go\<close> and \<open>main.go\<close>: finding the configuration
  file, the working directories and the databases; and the command \<open>format\<close> of \<open>config_format.go\<close>,
  which composes the parser with the printer. The file system is a parameter.
\<close>

section \<open>Finding the configuration\<close>

datatype stat = NotExist | StatError string | RegularFile | Directory

record vinceConfiguration =
  vc_dir :: string
  vc_metrics :: string
  vc_auth :: string
  vc_backups :: string
  vc_vince :: string
  vc_confFile :: string
  vc_defaultPort :: int
  vc_management :: bool
  vc_management_port :: int

definition defaultConfigFiles :: "string list" where
  "defaultConfigFiles =
     [''/usr/local/vince/conf/vince.conf'', '' /etc/vince/conf/vince.conf'', ''/usr/local/etc/vince/conf/vince.conf'']"

definition defaultWorkDirectories :: "string list" where
  "defaultWorkDirectories = [''/usr/local/vince'', '' /etc/vince'', ''/usr/local/etc/vince'']"

datatype config_error = StatFailed stat | NotADirectory string | MissingConfiguration | MkdirFailed string

definition filepath_Joins :: "string list \<Rightarrow> string" where
  "filepath_Joins ps =
     (let ps = filter (\<lambda>x. x \<noteq> []) ps in if ps = [] then [] else filepath_Clean (join ps ''/''))"

text \<open>The flag \<open>-p\<close> is read but not declared, so its value is zero.\<close>

definition base_configuration :: "int \<Rightarrow> vinceConfiguration" where
  "base_configuration port =
     \<lparr>vc_dir = [], vc_metrics = [], vc_auth = [], vc_backups = [], vc_vince = [], vc_confFile = [],
      vc_defaultPort = port, vc_management = True, vc_management_port = 9000\<rparr>"

definition getConfig :: "(string \<Rightarrow> stat) \<Rightarrow> string \<Rightarrow> int \<Rightarrow> config_error + vinceConfiguration" where
  "getConfig Stat file port =
     (if file \<noteq> [] then
        (case Stat file of
           NotExist \<Rightarrow> Inl (StatFailed NotExist)
         | StatError e \<Rightarrow> Inl (StatFailed (StatError e))
         | RegularFile \<Rightarrow> Inl (NotADirectory file)
         | Directory \<Rightarrow>
             Inr ((base_configuration port)\<lparr>vc_dir := file,
               vc_confFile := filepath_Joins [file, ''conf'', ''vince.conf'']\<rparr>))
      else
        (case find (\<lambda>f. Stat f \<in> {RegularFile, Directory}) defaultConfigFiles of
           Some f \<Rightarrow> Inr ((base_configuration port)\<lparr>vc_dir := filepath_Dir f, vc_confFile := f\<rparr>)
         | None \<Rightarrow> Inl MissingConfiguration))"

section \<open>Directories\<close>

text \<open>
  \<open>checkDir\<close>. When \<open>Stat\<close> fails for another reason than a missing file, the nil result is used. The
  result is the error and the directories made so far.
\<close>

definition checkDir ::
  "(string \<Rightarrow> stat) \<Rightarrow> (string \<Rightarrow> string option) \<Rightarrow> string \<Rightarrow> string list \<Rightarrow> (config_error option \<times> string list) go" where
  "checkDir Stat MkdirAll path made =
     (case Stat path of
        NotExist \<Rightarrow> (case MkdirAll path of Some e \<Rightarrow> Inr (Some (MkdirFailed e), made) | None \<Rightarrow> Inr (None, made @ [path]))
      | StatError e \<Rightarrow> Inl NilPointer
      | RegularFile \<Rightarrow> Inr (Some (NotADirectory path), made)
      | Directory \<Rightarrow> Inr (None, made))"

fun checkDirs ::
  "(string \<Rightarrow> stat) \<Rightarrow> (string \<Rightarrow> string option) \<Rightarrow> string list \<Rightarrow> string list \<Rightarrow> (config_error option \<times> string list) go" where
  "checkDirs Stat MkdirAll [] made = Inr (None, made)"
| "checkDirs Stat MkdirAll (d # ds) made =
     gbind (checkDir Stat MkdirAll d made) (\<lambda>(e, made).
       if e \<noteq> None then Inr (e, made) else checkDirs Stat MkdirAll ds made)"

definition stat_failed :: "stat \<Rightarrow> bool" where
  "stat_failed s = (case s of NotExist \<Rightarrow> True | StatError e \<Rightarrow> True | RegularFile \<Rightarrow> False | Directory \<Rightarrow> False)"

definition config_setup ::
  "(string \<Rightarrow> stat) \<Rightarrow> (string \<Rightarrow> string option) \<Rightarrow> vinceConfiguration \<Rightarrow>
     (config_error option \<times> vinceConfiguration \<times> string list) go" where
  "config_setup Stat MkdirAll c =
     (if stat_failed (Stat (vc_dir c))
      then Inr (Some (StatFailed (Stat (vc_dir c))), c, [])
      else
        let c = c\<lparr>vc_metrics := filepath_Join (vc_dir c) ''metrics'', vc_auth := filepath_Join (vc_dir c) ''auth'',
                  vc_backups := filepath_Join (vc_dir c) ''backups'', vc_vince := filepath_Join (vc_dir c) ''vince''\<rparr>
        in gbind (checkDirs Stat MkdirAll [vc_auth c, vc_metrics c, vc_backups c, vc_vince c] []) (\<lambda>(e, made).
             Inr (e, c, made)))"

section \<open>Databases\<close>

record 'db vinceDatabases =
  db_stable :: "'db option"
  db_logs :: "'db option"
  db_snap :: "'db option"
  db_kv :: "'db option"
  db_config :: "'db option"
  db_auth :: "'db option"

definition no_databases :: "'db vinceDatabases" where
  "no_databases = \<lparr>db_stable = None, db_logs = None, db_snap = None, db_kv = None, db_config = None, db_auth = None\<rparr>"

text \<open>\<open>init\<close> as the list of its six assignments; it stops at the first database that does not open.\<close>

definition database_steps :: "(string list \<times> ('db option \<Rightarrow> 'db vinceDatabases \<Rightarrow> 'db vinceDatabases)) list" where
  "database_steps =
     [([''raft'', ''stable''], \<lambda>d s. s\<lparr>db_stable := d\<rparr>), ([''raft'', ''logs''], \<lambda>d s. s\<lparr>db_logs := d\<rparr>),
      ([''raft'', ''snaps''], \<lambda>d s. s\<lparr>db_logs := d\<rparr>), ([''kv''], \<lambda>d s. s\<lparr>db_kv := d\<rparr>),
      ([''config''], \<lambda>d s. s\<lparr>db_config := d\<rparr>), ([''auth''], \<lambda>d s. s\<lparr>db_auth := d\<rparr>)]"

fun open_databases ::
  "(string \<Rightarrow> string + 'db) \<Rightarrow> string \<Rightarrow> (string list \<times> ('db option \<Rightarrow> 'db vinceDatabases \<Rightarrow> 'db vinceDatabases)) list \<Rightarrow>
     'db vinceDatabases \<Rightarrow> string option \<times> 'db vinceDatabases" where
  "open_databases Open dir [] s = (None, s)"
| "open_databases Open dir ((sub, set_db) # rest) s =
     (case Open (filepath_Joins (dir # sub)) of
        Inl err \<Rightarrow> (Some err, set_db None s)
      | Inr d \<Rightarrow> open_databases Open dir rest (set_db (Some d) s))"

definition databases_init ::
  "(string \<Rightarrow> string + 'db) \<Rightarrow> string \<Rightarrow> 'db vinceDatabases \<Rightarrow> string option \<times> 'db vinceDatabases" where
  "databases_init Open dir s = open_databases Open dir database_steps s"

definition open_handles :: "'db vinceDatabases \<Rightarrow> 'db list" where
  "open_handles s =
     concat (map (\<lambda>d. case d of None \<Rightarrow> [] | Some d \<Rightarrow> [d])
       [db_stable s, db_logs s, db_snap s, db_kv s, db_config s, db_auth s])"

text \<open>\<open>Close\<close> closes the databases that are set; the result lists them, with the error.\<close>

definition databases_Close ::
  "(rune \<Rightarrow> bool) \<Rightarrow> ('db \<Rightarrow> string option) \<Rightarrow> 'db vinceDatabases \<Rightarrow> 'db list \<times> string option" where
  "databases_Close printable CloseErr s =
     (let errs = concat (map (\<lambda>d. case CloseErr d of None \<Rightarrow> [] | Some e \<Rightarrow> [e]) (open_handles s))
      in (open_handles s, if errs \<noteq> []
            then Some (''vince: error trying to close databases '' @ Quote printable (join errs '','')) else None))"

section \<open>The command format\<close>

definition format_opts :: parseOpts where
  "format_opts = defaultParseOpts\<lparr>comments := True\<rparr>"

text \<open>The text that \<open>format\<close> prints or writes back, without the JSON output.\<close>

definition format_file :: "parse_env \<Rightarrow> (rune \<Rightarrow> bool) \<Rightarrow> string \<Rightarrow> directive_map \<Rightarrow> (parse_error + string) go option" where
  "format_file env printable f ds =
     go_then (parse env f format_opts ds) (\<lambda>p.
       Some (if PErrors p \<noteq> [] then Inr (Inl (hd (PErrors p)))
             else gbind (config_at p 0) (\<lambda>c. Inr (Inr (build printable (Parsed c) 2 False)))))"

section \<open>Results\<close>

text \<open>The second default path starts with a blank, so a configuration in \<open>/etc\<close> is not found.\<close>

lemma etc_configuration_missed:
  assumes "\<And>f. Stat f = (if f = ''/etc/vince/conf/vince.conf'' then RegularFile else NotExist)"
  shows "getConfig Stat [] port = Inl MissingConfiguration"
  by (simp add: getConfig_def defaultConfigFiles_def assms)

text \<open>The directories are made when they are missing, and nothing else happens to the file system.\<close>

lemma checkDirs_made:
  assumes "checkDirs Stat MkdirAll ds made = Inr (None, made')"
  shows "made' = made @ filter (\<lambda>d. Stat d = NotExist) ds \<and> list_all (\<lambda>d. Stat d \<in> {NotExist, Directory}) ds"
  using assms
proof (induction ds arbitrary: made)
  case (Cons d ds)
  from Cons.prems obtain made1 where d: "checkDir Stat MkdirAll d made = Inr (None, made1)"
    "checkDirs Stat MkdirAll ds made1 = Inr (None, made')" by (auto simp: gbind_eq_Inr split: if_splits)
  with Cons.IH [OF d(2)] show ?case by (auto simp: checkDir_def split: stat.splits option.splits)
qed simp

lemma setup_directories:
  assumes "config_setup Stat MkdirAll c = Inr (None, c', made)"
  shows "set made = {d \<in> {vc_auth c', vc_metrics c', vc_backups c', vc_vince c'}. Stat d = NotExist}"
  using assms checkDirs_made unfolding config_setup_def
  by (fastforce simp: gbind_eq_Inr Let_def simp del: checkDirs.simps split: if_splits)

text \<open>
  Closing the databases: after a successful \<open>init\<close>, which opens six databases, \<open>Close\<close> closes
  five of them. The database of the raft log is overwritten by that of the snapshots, so its handle
  is lost and it stays open; the field for the snapshots stays nil.
\<close>

theorem databases_close_leaks:
  assumes "databases_init (\<lambda>d. Inr (H d)) dir no_databases = (None, s)" "inj H"
    and "inj_on (\<lambda>sub. filepath_Joins (dir # sub)) {[''raft'', ''stable''], [''raft'', ''logs''], [''raft'', ''snaps''],
      [''kv''], [''config''], [''auth'']}"
  shows "length (fst (databases_Close printable CloseErr s)) = 5 \<and>
    H (filepath_Joins [dir, ''raft'', ''logs'']) \<notin> set (fst (databases_Close printable CloseErr s)) \<and> db_snap s = None"
proof -
  let ?p = "\<lambda>sub. filepath_Joins (dir # sub)"
  have ne: "H (?p [''raft'', ''logs'']) \<noteq> H (?p sub)"
    if "sub \<in> {[''raft'', ''stable''], [''raft'', ''snaps''], [''kv''], [''config''], [''auth'']}" for sub
  proof
    assume "H (?p [''raft'', ''logs'']) = H (?p sub)"
    with assms(2) have "?p [''raft'', ''logs''] = ?p sub" by (rule injD)
    then have "[''raft'', ''logs''] = sub" by (rule inj_onD [OF assms(3)]) (use that in auto)
    with that show False by auto
  qed
  have s: "s = \<lparr>db_stable = Some (H (?p [''raft'', ''stable''])), db_logs = Some (H (?p [''raft'', ''snaps''])), db_snap = None,
      db_kv = Some (H (?p [''kv''])), db_config = Some (H (?p [''config''])), db_auth = Some (H (?p [''auth'']))\<rparr>"
    using assms(1) by (simp add: databases_init_def database_steps_def no_databases_def)
  show ?thesis
    using ne by (simp add: databases_Close_def open_handles_def s Let_def)
qed

theorem databases_close_leaks_witness:
  "\<exists>s. databases_init (\<lambda>d. Inr d) ''/v'' no_databases = (None, s) \<and>
     length (fst (databases_Close (\<lambda>_. True) (\<lambda>d. None) s)) = 5 \<and>
     ''/v/raft/logs'' \<notin> set (fst (databases_Close (\<lambda>_. True) (\<lambda>d. None) s))"
proof -
  have p: "filepath_Joins [''/v'', ''raft'', ''stable''] = ''/v/raft/stable''"
    "filepath_Joins [''/v'', ''raft'', ''logs''] = ''/v/raft/logs''"
    "filepath_Joins [''/v'', ''raft'', ''snaps''] = ''/v/raft/snaps''" "filepath_Joins [''/v'', ''kv''] = ''/v/kv''"
    "filepath_Joins [''/v'', ''config''] = ''/v/config''" "filepath_Joins [''/v'', ''auth''] = ''/v/auth''" by code_simp+
  obtain s where s: "databases_init (\<lambda>d. Inr d) ''/v'' no_databases = (None, s)"
    by (simp add: databases_init_def database_steps_def)
  have i: "inj_on (\<lambda>sub. filepath_Joins (''/v'' # sub)) {[''raft'', ''stable''], [''raft'', ''logs''], [''raft'', ''snaps''],
      [''kv''], [''config''], [''auth'']}" by (simp add: p)
  have "inj (\<lambda>d :: string. d)" by (simp add: inj_on_def)
  note leak = databases_close_leaks [OF s this i, of "\<lambda>_. True" "\<lambda>d. None", unfolded p]
  show ?thesis by (rule exI [of _ s], intro conjI s leak [THEN conjunct1] leak [THEN conjunct2, THEN conjunct1])
qed

text \<open>Printing does not look at file names and line numbers of statements without comments.\<close>

lemma erase_simps [simp]:
  "Directive (erase st) = Directive st" "Args (erase st) = Args st" "Comment (erase st) = Comment st"
  "Includes (erase st) = Includes st" "Blocks (erase st) = map_option (map erase) (Blocks st)"
  by (simp_all add: erase.simps [of st] split: option.splits)

lemma plain_erase: "plain_stmt o1 (erase st) = plain_stmt o1 st"
proof (induction "size st" arbitrary: st rule: less_induct)
  case less
  have "list_all (plain_stmt o1) (map erase bs) = list_all (plain_stmt o1) bs" if "Blocks st = Some bs" for bs
    using less [OF size_block [OF that]] by (auto simp: list_all_iff)
  then show ?case by (simp add: plain_stmt.simps [of o1 "erase st"] plain_stmt.simps [of o1 st] split: option.splits)
qed

lemma lexemes_erase: "stmt_lexemes padding depth (erase st) = stmt_lexemes padding depth st"
proof (induction "size st" arbitrary: st depth rule: less_induct)
  case less
  show ?case
  proof (cases "Blocks st")
    case (Some bs)
    have "concat (map (\<lambda>b. indent_lexemes padding (depth + 1) @ stmt_lexemes padding (depth + 1) b) (map erase bs)) =
        concat (map (\<lambda>b. indent_lexemes padding (depth + 1) @ stmt_lexemes padding (depth + 1) b) bs)"
      unfolding map_map comp_def using less [OF size_block [OF Some]]
      by (intro arg_cong [where f = concat] map_cong refl) simp
    with Some show ?thesis
      unfolding stmt_lexemes.simps [of _ _ "erase st"] stmt_lexemes.simps [of _ _ st] head_lexemes_def
      by (simp del: map_map)
  qed (simp add: stmt_lexemes.simps [of _ _ "erase st"] stmt_lexemes.simps [of _ _ st] head_lexemes_def)
qed

lemma file_lexemes_erase: "file_lexemes padding (map erase sts) = file_lexemes padding sts"
  by (cases sts) (simp_all add: file_lexemes_def block_lexemes_def lexemes_erase comp_def)

lemma build_erase:
  assumes "map erase sts = map erase sts'" "list_all (plain_stmt o1) sts"
  shows "build printable sts indent False = build printable sts' indent False"
proof -
  have "list_all (plain_stmt o1) (map erase sts')"
    using assms(2) unfolding assms(1) [symmetric] by (simp add: list.pred_map comp_def plain_erase)
  then have "list_all (plain_stmt o1) sts'" by (simp add: list.pred_map comp_def plain_erase)
  from build_src [OF this, of printable indent] build_src [OF assms(2), of printable indent]
  have "map rune_of (build printable sts indent False) = map rune_of (build printable sts' indent False)"
    using file_lexemes_erase [of indent sts] file_lexemes_erase [of indent sts'] assms(1) by simp
  then show ?thesis by (rule map_injective) (simp add: inj_on_def)
qed



end
