(* ===== verification/Main_Program.thy ===== *)
theory Main_Program
  imports Startup Vince_Config
begin

text \<open>
  The action of the command line, \<open>start\<close> of \<open>ngx_startup.go\<close>, which composes the search for the
  configuration, the directories it needs and the start of all servers. The flag \<open>-p\<close> that
  \<open>getConfig\<close> reads is not among the flags of \<open>main.go\<close>, so its value is zero.
\<close>

datatype program_error = ConfigErr config_error | StartFailed start_error

definition start ::
  "parse_env \<Rightarrow> directive_map \<Rightarrow> (string \<Rightarrow> stat) \<Rightarrow> (string \<Rightarrow> string option) \<Rightarrow> ('tpl, 'l, 'cert) start_env \<Rightarrow>
     string \<Rightarrow> string list \<Rightarrow> string list \<Rightarrow> string list \<Rightarrow>
     (program_error + vinceConfiguration \<times> string list \<times> rule list \<times> 'l serverCtx \<times> (string \<times> 'l) list) go option" where
  "start P ds Stat MkdirAll E flag keys1 keys2 keys3 =
     (case getConfig Stat flag 0 of
        Inl e \<Rightarrow> Some (Inr (Inl (ConfigErr e)))
      | Inr c \<Rightarrow>
          go_then (Some (config_setup Stat MkdirAll c)) (\<lambda>(e, c, made).
            case e of
              Some e \<Rightarrow> Some (Inr (Inl (ConfigErr e)))
            | None \<Rightarrow>
                go_then (startEverything P (vc_confFile c) ds E (vc_defaultPort c)
                           (if vc_management c then Some (vc_management_port c) else None) keys1 keys2 keys3) (\<lambda>r.
                  Some (Inr (case r of Inl e \<Rightarrow> Inl (StartFailed e) | Inr x \<Rightarrow> Inr (c, made, x))))))"

section \<open>What each step keeps\<close>

lemma Itoa_9000: "Itoa 9000 = ''9000''"
proof -
  have "digit_of 9 = CHR ''9''" "digit_of 0 = CHR ''0''" by code_simp+
  then show ?thesis by (simp add: Itoa_def utoa.simps)
qed

lemma getConfig_fields:
  "getConfig Stat flag port = Inr c \<Longrightarrow> vc_defaultPort c = port \<and> vc_management c \<and> vc_management_port c = 9000"
  by (auto simp: getConfig_def base_configuration_def split: if_splits stat.splits option.splits)

lemma setup_fields:
  "config_setup Stat MkdirAll c = Inr (None, c', made) \<Longrightarrow>
     vc_dir c' = vc_dir c \<and> vc_confFile c' = vc_confFile c \<and> vc_defaultPort c' = vc_defaultPort c \<and>
     vc_management c' = vc_management c \<and> vc_management_port c' = vc_management_port c"
  by (auto simp: config_setup_def Let_def gbind_eq_Inr split: if_splits)

lemma listen_loop_keeps:
  "listen_loop E ks s = Inr s' \<Longrightarrow> sc_servers s' = sc_servers s \<and> dom (sc_listeners s) \<subseteq> dom (sc_listeners s')"
  by (induction E ks s rule: listen_loop.induct) (fastforce simp: Let_def split: sum.splits)+

lemma server_loop_keeps:
  "server_loop E st ks s = Inr s' \<Longrightarrow> sc_listeners s' = sc_listeners s \<and> dom (sc_servers s) \<subseteq> dom (sc_servers s')"
  by (induction E st ks s rule: server_loop.induct) (fastforce simp: Let_def gbind_eq_Inr)+

lemma process_steps:
  assumes "process E st port keys1 keys2 keys3 s = Inr (Inr (s', started))"
  obtains t :: server_table and s1 where "listen_loop E keys1 (s\<lparr>sc_address := address t, sc_serverRules := serverRules t\<rparr>) = Inr s1"
    "server_loop E st keys2 s1 = Inr s'"
proof -
  from assms obtain t where t: "server_groups (st_core E) st (sc_core s) port = Inr t"
    by (cases "server_groups (st_core E) st (sc_core s) port") (auto simp: process_def)
  let ?s = "s\<lparr>sc_address := address t, sc_serverRules := serverRules t\<rparr>"
  from assms t obtain s1 where l: "listen_loop E keys1 ?s = Inr s1"
    by (cases "listen_loop E keys1 ?s") (auto simp: process_def)
  with assms t have "server_loop E st keys2 s1 = Inr s'" by (auto simp: process_def gbind_eq_Inr)
  with l show thesis by (rule that)
qed

lemma process_keeps:
  assumes "process E st port keys1 keys2 keys3 s = Inr (Inr (s', started))"
  shows "dom (sc_listeners s) \<subseteq> dom (sc_listeners s') \<and> dom (sc_servers s) \<subseteq> dom (sc_servers s')"
  using assms
proof (rule process_steps)
  fix t :: server_table and s1 assume "listen_loop E keys1 (s\<lparr>sc_address := address t, sc_serverRules := serverRules t\<rparr>) = Inr s1"
    "server_loop E st keys2 s1 = Inr s'"
  from listen_loop_keeps [OF this(1)] server_loop_keeps [OF this(2)] show ?thesis by auto
qed

lemma start_management_opens:
  "start_management E (Some n) s = Inr s' \<Longrightarrow>
     '':'' @ Itoa n \<in> dom (sc_listeners s') \<and> '':'' @ Itoa n \<in> dom (sc_servers s')"
  by (auto simp: start_management_def Let_def split: sum.splits)

lemma listen_loop_core: "listen_loop E ks s = Inr s' \<Longrightarrow> sc_core s' = sc_core s"
  by (induction E ks s rule: listen_loop.induct) (auto simp: Let_def split: sum.split_asm)

lemma server_loop_core: "server_loop E st ks s = Inr s' \<Longrightarrow> sc_core s' = sc_core s"
  by (induction E st ks s rule: server_loop.induct) (fastforce simp: Let_def gbind_eq_Inr)+

lemma process_core: "process E st port keys1 keys2 keys3 s = Inr (Inr (s', started)) \<Longrightarrow> sc_core s' = sc_core s"
  by (erule process_steps) (auto dest!: listen_loop_core server_loop_core)

text \<open>The steps of a successful start.\<close>

lemma startEverything_steps:
  assumes "startEverything P f ds E port mgmt keys1 keys2 keys3 = Some (Inr (Inr (st, s, started)))"
  obtains p d core s1 where "parse P f defaultParseOpts ds = Some (Inr p)" "main_stmt p = Inr (Inr d)"
    "ruleFromStmt [] d None = (st, core)" "start_management E mgmt (serverCtx_init core) = Inr s1"
    "process E st port keys1 keys2 keys3 s1 = Inr (Inr (s, started))" "sc_core s = core"
proof -
  from assms obtain p where p: "parse P f defaultParseOpts ds = Some (Inr p)"
    unfolding startEverything_def go_then_Inr by blast
  with assms obtain x where x: "main_stmt p = Inr x" by (auto simp: startEverything_def gbind_eq_Inr)
  with assms p obtain d where d: "main_stmt p = Inr (Inr d)" by (cases x) (auto simp: startEverything_def)
  obtain st1 core where r: "ruleFromStmt [] d None = (st1, core)" by (cases "ruleFromStmt [] d None")
  with assms p d obtain s1 where m: "start_management E mgmt (serverCtx_init core) = Inr s1"
    by (cases "start_management E mgmt (serverCtx_init core)") (auto simp: startEverything_def)
  with assms p d r obtain y where y: "process E st1 port keys1 keys2 keys3 s1 = Inr y"
    by (auto simp: startEverything_def gbind_eq_Inr)
  with assms p d r m have st: "process E st port keys1 keys2 keys3 s1 = Inr (Inr (s, started))" "st1 = st"
    by (auto simp: startEverything_def split: sum.split_asm prod.split_asm)
  from m have "sc_core s1 = core"
    by (auto simp: start_management_def serverCtx_init_def Let_def split: option.split_asm sum.split_asm)
  with process_core [OF st(1)] p d r m st that show thesis by metis
qed

lemma startEverything_management:
  assumes "startEverything P f ds E port (Some n) keys1 keys2 keys3 = Some (Inr (Inr (st, s, started)))"
  shows "'':'' @ Itoa n \<in> dom (sc_listeners s) \<and> '':'' @ Itoa n \<in> dom (sc_servers s)"
  using assms
proof (rule startEverything_steps)
  fix core s1 assume "start_management E (Some n) (serverCtx_init core) = Inr s1"
    "process E st port keys1 keys2 keys3 s1 = Inr (Inr (s, started))"
  from start_management_opens [OF this(1)] process_keeps [OF this(2)] show ?thesis by blast
qed

text \<open>The steps of a successful run of the program.\<close>

lemma start_steps:
  assumes "start P ds Stat MkdirAll E flag keys1 keys2 keys3 = Some (Inr (Inr (c, made, st, s, started)))"
  obtains c0 where "getConfig Stat flag 0 = Inr c0" "config_setup Stat MkdirAll c0 = Inr (None, c, made)"
    "startEverything P (vc_confFile c) ds E (vc_defaultPort c)
       (if vc_management c then Some (vc_management_port c) else None) keys1 keys2 keys3 = Some (Inr (Inr (st, s, started)))"
proof -
  from assms obtain c0 where c0: "getConfig Stat flag 0 = Inr c0"
    by (auto simp: start_def split: sum.splits)
  with assms obtain c1 made1 where u: "config_setup Stat MkdirAll c0 = Inr (None, c1, made1)"
    by (auto simp: start_def go_then_Inr split: option.splits)
  with assms c0 obtain x where x: "startEverything P (vc_confFile c1) ds E (vc_defaultPort c1)
       (if vc_management c1 then Some (vc_management_port c1) else None) keys1 keys2 keys3 = Some (Inr x)"
    by (auto simp: start_def go_then_Inr)
  with assms c0 u have "x = Inr (st, s, started)" "c1 = c" "made1 = made"
    by (auto simp: start_def split: sum.split_asm)
  then show thesis using c0 u x by (intro that) (simp_all only:)
qed

text \<open>Server blocks of trees that agree up to lines and file names.\<close>

lemma server_blocks_erase: "map erase (server_blocks sts) = server_blocks (map erase sts)"
  by (induction sts)
     (simp_all add: server_blocks_def blocks_of_def filter_map comp_def split: option.splits)

lemma same_rule_erase: "same_rule st r (erase b) = same_rule st r b"
  by (simp add: same_rule_def)

lemma same_servers_erase:
  assumes "map erase bs = map erase bs'"
  shows "list_all2 (same_rule st) rs bs = list_all2 (same_rule st) rs bs'"
proof -
  have "list_all2 (same_rule st) rs (map erase bs) = list_all2 (same_rule st) rs (map erase bs')"
    by (simp only: assms)
  then show ?thesis by (simp add: list_all2_map2 same_rule_erase)
qed

section \<open>A small run\<close>

text \<open>An empty configuration file in a fresh directory.\<close>

definition empty_env :: parse_env where
  "empty_env = \<lparr>fs_Open = \<lambda>_. Inr [], Glob = \<lambda>_. Inr [], env_printable = \<lambda>_. True\<rparr>"

definition fresh_dir :: "string \<Rightarrow> stat" where
  "fresh_dir p = (if p = ''/c'' then Directory else NotExist)"

lemma empty_parse:
  "\<exists>c. parse empty_env f defaultParseOpts directives =
     Some (Inr \<lparr>PStatus = ''ok'', PErrors = [], Config = [Some c]\<rparr>) \<and> Parsed c = []"
proof -
  have lx: "lex [] f = Some (Inr [])"
    using lex_ascii [of "[]" "[]" f] by (simp add: balanceBraces_def)
  have op: "fs_Open empty_env f = Inr []" "opt_includes defaultParseOpts = []" "\<not> combine defaultParseOpts"
    by (simp_all add: empty_env_def defaultParseOpts_def)
  from parse_one_file [OF op(1) lx grammar.g_nil op(2,3), of directives] show ?thesis by auto
qed

lemma empty_start:
  "\<exists>st s started. startEverything empty_env f directives socket_env 0 (Some 9000) [] [] ['':9000''] =
     Some (Inr (Inr (st, s, started)))"
proof -
  from empty_parse [of f] obtain c where c: "parse empty_env f defaultParseOpts directives =
      Some (Inr \<lparr>PStatus = ''ok'', PErrors = [], Config = [Some c]\<rparr>)" "Parsed c = []" by blast
  let ?d = "Stmt ''main'' [] 0 [] [] [] (Some [])"
  obtain st core where r: "ruleFromStmt [] ?d None = (st, core)" by force
  from all_servers_represents [OF r] have "all_servers st core = []"
    by (simp add: server_blocks_def blocks_of_def)
  then have "server_groups sample_env st core 0 = Inr \<lparr>address = Map.empty, serverRules = Map.empty\<rparr>"
    by (simp add: server_groups_def)
  then show ?thesis
    by (simp add: startEverything_def c main_stmt_def config_at_def r start_management_def socket_env_def Itoa_9000
        serverCtx_init_def process_def Let_def)
qed

end
