(* ===== verification/Variable_Types.thy ===== *)
theory Variable_Types
  imports Pipeline
begin

text \<open>
  A typing of the variables. The map of a listener holds values of any Go type, and its readers
  assert the type they expect: the proxy expects a match under the key \<open>request_match_kind\<close>. The
  typing says which type each name has; every operation on the map keeps it, so no assertion of a
  reader fails, whatever names a client puts into its query, its cookies and its header.
\<close>

section \<open>The typing\<close>

datatype var_type = StringType | IntType | URLType | MatchType

fun type_of :: "variable_value \<Rightarrow> var_type" where
  "type_of (VString _) = StringType"
| "type_of (VInt _) = IntType"
| "type_of (VURL _) = URLType"
| "type_of (VMatch _) = MatchType"

definition variable_type :: "string \<Rightarrow> var_type" where
  "variable_type name =
     (if name = vRequestMatchKind then MatchType
      else if name = ''$document_uri'' \<or> name = ''$uri'' then URLType
      else if name = ''$request_time'' \<or> name = ''$request_id'' then IntType
      else StringType)"

definition well_typed :: "variables \<Rightarrow> bool" where
  "well_typed m \<longleftrightarrow> (\<forall>name v. m name = Some v \<longrightarrow> type_of v = variable_type name)"

lemma well_typed_empty: "well_typed baseCtx_variables"
  by (simp add: well_typed_def baseCtx_variables_def)

lemma well_typed_upd: "well_typed m \<Longrightarrow> type_of v = variable_type name \<Longrightarrow> well_typed (m(name \<mapsto> v))"
  by (simp add: well_typed_def)

lemma type_of_Match [simp]: "type_of v = MatchType \<longleftrightarrow> (\<exists>l. v = VMatch l)"
  by (cases v) simp_all

section \<open>Operations keep the typing\<close>

text \<open>Names that start with a prefix of client data are strings.\<close>

lemma prefixed_type [simp]:
  "variable_type (''$arg_'' @ k) = StringType" "variable_type (''$http_'' @ k) = StringType"
  "variable_type (''$cookie_'' @ k) = StringType"
  by (simp_all add: variable_type_def vRequestMatchKind_def)

lemma well_typed_fold:
  "well_typed m \<Longrightarrow> \<forall>x \<in> set xs. type_of (v x) = variable_type (name x) \<Longrightarrow>
     well_typed (fold (\<lambda>x m. m(name x \<mapsto> v x)) xs m)"
  by (induction xs arbitrary: m) (simp_all add: well_typed_upd)

lemma set_query_typed: "well_typed m \<Longrightarrow> well_typed (set_query r m)"
  unfolding set_query_def case_prod_beta using prefixed_type(1) by (intro well_typed_fold) simp_all

lemma set_cookies_typed: "well_typed m \<Longrightarrow> well_typed (set_cookies r m)"
  unfolding set_cookies_def case_prod_beta using prefixed_type(3) by (intro well_typed_fold) simp_all

lemma set_headers_typed: "well_typed m \<Longrightarrow> well_typed (set_headers r m)"
  unfolding set_headers_def case_prod_beta using prefixed_type(2) by (intro well_typed_fold) simp_all

lemma setRequestVariables_typed: "well_typed m \<Longrightarrow> well_typed (setRequestVariables hostname m r)"
  unfolding setRequestVariables_def Let_def
  by (intro well_typed_upd set_query_typed set_cookies_typed set_headers_typed)
     (simp_all add: variable_type_def vRequestMatchKind_def)

text \<open>The number of a connection, which the connection manager stores.\<close>

lemma setVariable_typed:
  "setVariable (Some m) (var ''vRequestID'') (VInt n) = Some m' \<Longrightarrow> well_typed m \<Longrightarrow> well_typed m'"
  by (auto simp: setVariable_def variable_type_def vRequestMatchKind_def intro: well_typed_upd)

definition typed_state :: "'tpl hstate \<Rightarrow> bool" where
  "typed_state s \<longleftrightarrow> (\<exists>m. hs_vars s = Some m \<and> well_typed m)"

lemma matched_typed:
  assumes "well_typed m"
  shows "\<exists>l. matched m = Inr l"
proof (cases "m vRequestMatchKind")
  case (Some v)
  with assms have "type_of v = variable_type vRequestMatchKind" by (simp add: well_typed_def)
  then obtain l where "v = VMatch l" by (auto simp: variable_type_def)
  with Some show ?thesis by (simp add: matched_def)
qed (simp add: matched_def)

definition keeps_types :: "'tpl handler \<Rightarrow> bool" where
  "keeps_types h \<longleftrightarrow> (\<forall>s r. typed_state s \<longrightarrow> typed_state (fst (h s r)))"

lemma typed_state_frame [simp]:
  "typed_state (s\<lparr>hs_out := out\<rparr>) = typed_state s" "typed_state (s\<lparr>hs_log := lg\<rparr>) = typed_state s"
  "typed_state (s\<lparr>hs_tpls := tpls\<rparr>) = typed_state s"
  by (simp_all add: typed_state_def)

lemma http_Error_typed [simp]: "typed_state (fst (http_Error code s)) = typed_state s"
  by (simp add: http_Error_def)

lemma log_line_typed:
  assumes "typed_state s"
  shows "typed_state (fst (log_line Parse Execute elapsed dest level ctx s))"
proof -
  from assms obtain m where m: "hs_vars s = Some m" "well_typed m" by (auto simp: typed_state_def)
  have "typed_state (s\<lparr>hs_vars := Some (m(''$request_time'' \<mapsto> VInt elapsed))\<rparr>)"
    using well_typed_upd [OF m(2), of "VInt elapsed" "''$request_time''"]
    by (simp add: typed_state_def variable_type_def vRequestMatchKind_def)
  with m(1) show ?thesis by (auto simp: log_line_def Let_def gbind_eq_Inr split: option.splits sum.splits)
qed

lemma logging_keeps_types:
  "keeps_types next \<Longrightarrow> keeps_types (accessLogMiddlewareFunc Parse Execute elapsed next)"
  by (auto simp: keeps_types_def accessLogMiddlewareFunc_def Let_def split: option.splits sum.splits prod.splits)
     (metis fst_conv log_line_typed)+

interpretation typing: handler_property E st keeps_types for E :: "'tpl http_env" and st
proof
  show "keeps_types notFoundHandler" by (simp add: keeps_types_def notFoundHandler_def)
  show "keeps_types (wrap_handler (proxy_handler E st p) True next)"
    for E :: "'tpl http_env" and st p and "next" :: "'tpl handler"
    by (auto simp: keeps_types_def wrap_handler_def proxy_handler_def split: sum.splits)
  show "keeps_types (access_handle (env_net E) a next)" if "keeps_types next"
    for E :: "'tpl http_env" and a and "next" :: "'tpl handler"
    using that by (auto simp: keeps_types_def access_handle_def split: sum.splits)
qed (rule logging_keeps_types)

section \<open>The handler of a listener\<close>

lemma store_match_typed: "typed_state s \<Longrightarrow> typed_state (store_match l s)"
  by (auto simp: typed_state_def store_match_def variable_type_def intro!: well_typed_upd)

lemma serve_location_typed:
  assumes "serve_location E st l s r = Some res" "typed_state s"
  shows "typed_state (fst res)"
proof -
  from assms(1) obtain c a where a: "chain E st (overide c) = Some a"
    "res = (case a of Inl p \<Rightarrow> (store_match l s, Some p) | Inr a \<Rightarrow> alice_then a None (store_match l s) r)"
    by (auto simp: serve_location_def Let_def bind_eq_Some_conv)
  then show ?thesis
    using typing.chain_has [of E st "overide c"] store_match_typed [OF assms(2), of l]
    by (cases a) (auto simp: keeps_types_def)
qed

lemma vinceHandler_typed:
  assumes "vinceHandler E st h s r = Some (h', s', p)" "typed_state s"
  shows "typed_state s'"
proof -
  from assms(2) obtain m where m: "hs_vars s = Some m" "well_typed m" by (auto simp: typed_state_def)
  let ?s = "s\<lparr>hs_vars := Some (setRequestVariables (env_hostname E) m r)\<rparr>"
  have t: "typed_state ?s" using setRequestVariables_typed [OF m(2)] by (simp add: typed_state_def)
  have "serve_server E st loc ?s r = Some res \<Longrightarrow> typed_state (fst res)" for loc res
    using t serve_location_typed [OF _ t, of E st _ r]
    by (auto simp: serve_server_def split: sum.splits option.splits)
  with assms(1) m(1) t show ?thesis
    by (fastforce simp: vinceHandler_def Let_def split: sum.splits)
qed

text \<open>
  (C9) The variables are typed: after any sequence of requests on a listener, whatever their queries,
  cookies and header fields are named, every variable has the type that its name stands for. So the
  type assertion of the proxy on the stored match never fails, and no request data takes its place.
\<close>

theorem variables_type_safe:
  assumes "serve_all E st h s rs = Some (s', ps)" "hs_vars s = Some baseCtx_variables"
  shows "\<exists>m. hs_vars s' = Some m \<and> well_typed m \<and> (\<forall>r. \<exists>q. proxy_request_of (hs_vars s') r = Inr q)"
proof -
  have "typed_state s" using assms(2) well_typed_empty by (simp add: typed_state_def)
  with assms(1) have "typed_state s'"
  proof (induction rs arbitrary: h s ps)
    case (Cons r rs)
    then show ?case by (auto simp: bind_eq_Some_conv dest: vinceHandler_typed)
  qed simp
  then obtain m where "hs_vars s' = Some m" "well_typed m" by (auto simp: typed_state_def)
  with matched_typed [of m] show ?thesis by (auto simp: proxy_request_of_def)
qed

theorem variables_type_safe_witness:
  "\<exists>s' ps m. serve_all plain_env plain_rules plain_handler plain_state
       [sample_request\<lparr>rq_query := [(''request_match_kind'', [''x''])]\<rparr>] = Some (s', ps) \<and>
     hs_vars s' = Some m \<and> well_typed m"
proof -
  obtain h' s' where "vinceHandler plain_env plain_rules plain_handler plain_state
      (sample_request\<lparr>rq_query := [(''request_match_kind'', [''x''])]\<rparr>) = Some (h', s', None)"
    using plain_serve_query by blast
  then have s: "serve_all plain_env plain_rules plain_handler plain_state
      [sample_request\<lparr>rq_query := [(''request_match_kind'', [''x''])]\<rparr>] = Some (s', [None])" by simp
  have "hs_vars plain_state = Some baseCtx_variables" by (simp add: plain_state_def)
  from variables_type_safe [OF s this] s show ?thesis by blast
qed

end
