(* ===== verification/Rate_Limit.thy ===== *)
theory Rate_Limit
  imports Go_Conv
begin

text \<open>
  The request limiter of \<open>ngx_http_rate_limit.go\<close>: the leaky bucket, the manager that hands out one
  bucket per zone and key, and the parser of rates. Time is in nanoseconds; a call that reads the
  clock takes what it reads as arguments. Buckets are shared by pointer, so the manager's zones
  hold numbers into a store of buckets.
\<close>

section \<open>The bucket\<close>

record leaky =
  capacity :: int
  remaining :: int
  reset_at :: int
  rate :: int
  amount :: int

text \<open>\<open>take\<close> reads the clock once for the test and once more when it opens a new window.\<close>

definition leaky_take :: "leaky \<Rightarrow> int \<Rightarrow> int \<Rightarrow> leaky \<times> bool" where
  "leaky_take l now now' =
     (let l = (if now > reset_at l then l\<lparr>reset_at := now' + rate l, remaining := capacity l\<rparr> else l)
      in if amount l > remaining l then (l, False)
         else (l\<lparr>remaining := remaining l - amount l\<rparr>, True))"

definition one_second :: int where
  "one_second = 1000000000"

definition zero_leaky :: leaky where
  "zero_leaky = \<lparr>capacity = 0, remaining = 0, reset_at = 0, rate = 0, amount = 0\<rparr>"

text \<open>The bucket of a new key in a known zone; \<open>amount\<close> is left zero.\<close>

definition new_leaky :: "int \<Rightarrow> int \<Rightarrow> leaky" where
  "new_leaky r now =
     zero_leaky\<lparr>capacity := r, remaining := r, reset_at := now + one_second, rate := one_second\<rparr>"

section \<open>The manager\<close>

record rateLimiterManager =
  zones :: "string \<rightharpoonup> (string \<rightharpoonup> nat)"
  buckets :: "nat \<rightharpoonup> leaky"
  next_bucket :: nat

definition newRateManager :: rateLimiterManager where
  "newRateManager = \<lparr>zones = Map.empty, buckets = Map.empty, next_bucket = 0\<rparr>"

definition add_bucket :: "rateLimiterManager \<Rightarrow> leaky \<Rightarrow> rateLimiterManager \<times> nat" where
  "add_bucket r l =
     (r\<lparr>buckets := (buckets r)(next_bucket r \<mapsto> l), next_bucket := next_bucket r + 1\<rparr>, next_bucket r)"

definition manager_setup :: "rateLimiterManager \<Rightarrow> string \<Rightarrow> string \<Rightarrow> int \<Rightarrow> int \<Rightarrow> rateLimiterManager \<times> nat" where
  "manager_setup r key zone rt now =
     (case zones r zone of
        Some z \<Rightarrow>
          (case z key of
             Some b \<Rightarrow> (r, b)
           | None \<Rightarrow>
               (case add_bucket r (new_leaky rt now) of
                  (r, b) \<Rightarrow> (r\<lparr>zones := (zones r)(zone \<mapsto> z(key \<mapsto> b))\<rparr>, b)))
      | None \<Rightarrow>
          (case add_bucket r zero_leaky of
             (r, b) \<Rightarrow> (r\<lparr>zones := (zones r)(zone \<mapsto> [key \<mapsto> b])\<rparr>, b)))"

text \<open>A request asks its bucket.\<close>

definition ask :: "rateLimiterManager \<Rightarrow> nat \<Rightarrow> int \<Rightarrow> int \<Rightarrow> (rateLimiterManager \<times> bool) go" where
  "ask r b now now' =
     (case buckets r b of
        None \<Rightarrow> Inl NilPointer
      | Some l \<Rightarrow>
          (case leaky_take l now now' of (l, ok) \<Rightarrow> Inr (r\<lparr>buckets := (buckets r)(b \<mapsto> l)\<rparr>, ok)))"

section \<open>Rates\<close>

datatype rate_error = InvalidRate | RateNumber num_error | RateDuration duration_error

text \<open>\<open>parseRate\<close>; \<open>seconds\<close> is the conversion \<open>int(duration.Seconds())\<close> through a floating-point
  number.\<close>

definition parseRate ::
  "(int \<Rightarrow> int \<Rightarrow> nat \<Rightarrow> int) \<Rightarrow> (int \<Rightarrow> int) \<Rightarrow> string \<Rightarrow> (rate_error + int) go" where
  "parseRate frac seconds s =
     (let parts = split s ''/''
      in if length parts \<noteq> 2 then Inr (Inl InvalidRate)
         else
           let r = trimSuffix (parts ! 0) ''r''
           in if parts ! 1 = ''s''
              then (case Atoi r of Inl e \<Rightarrow> Inr (Inl (RateNumber e)) | Inr v \<Rightarrow> Inr (Inr v))
              else
                (case ParseDuration frac (''1'' @ parts ! 1) of
                   Inl e \<Rightarrow> Inr (Inl (RateDuration e))
                 | Inr d \<Rightarrow>
                     (case Atoi r of
                        Inl e \<Rightarrow> Inr (Inl (RateNumber e))
                      | Inr v \<Rightarrow>
                          if seconds d = 0 then Inl DivideByZero else Inr (Inr (v sdiv seconds d)))))"

section \<open>Properties\<close>

text \<open>A sequence of calls on one bucket, given the two clock readings of each.\<close>

fun take_all :: "leaky \<Rightarrow> (int \<times> int) list \<Rightarrow> leaky \<times> bool list" where
  "take_all l [] = (l, [])"
| "take_all l ((now, now') # ts) =
     (case leaky_take l now now' of (l, ok) \<Rightarrow> case take_all l ts of (l, oks) \<Rightarrow> (l, ok # oks))"

definition leaky_ok :: "leaky \<Rightarrow> bool" where
  "leaky_ok l \<longleftrightarrow> 0 \<le> remaining l \<and> remaining l \<le> capacity l \<and> 0 \<le> amount l"

lemma leaky_take_ok: "leaky_ok l \<Longrightarrow> leaky_take l now now' = (l', ok) \<Longrightarrow> leaky_ok l'"
  by (auto simp: leaky_ok_def leaky_take_def Let_def split: if_splits)

lemma window_spent:
  "list_all (\<lambda>(now, now'). now \<le> reset_at l) ts \<Longrightarrow> leaky_ok l \<Longrightarrow> take_all l ts = (l', oks) \<Longrightarrow>
     remaining l' = remaining l - int (length (filter id oks)) * amount l \<and> leaky_ok l'"
proof (induction l ts arbitrary: l' oks rule: take_all.induct)
  case (2 l now now' ts)
  obtain l1 ok where t: "leaky_take l now now' = (l1, ok)" by (metis surj_pair)
  obtain l2 oks2 where r: "take_all l1 ts = (l2, oks2)" by (metis surj_pair)
  have "l1 = (if ok then l\<lparr>remaining := remaining l - amount l\<rparr> else l)"
    using t "2.prems"(1) by (auto simp: leaky_take_def split: if_splits)
  moreover have "leaky_ok l1" using leaky_take_ok [OF "2.prems"(2) t] .
  ultimately show ?case
    using "2.IH" [OF t [symmetric] _ _ r] "2.prems" t r by (cases ok) (auto simp: algebra_simps)
qed simp



text \<open>Any use of the manager: setting up buckets and asking them.\<close>

datatype limit_op = Setup string string int int | Ask nat int int

fun limit_step :: "limit_op \<Rightarrow> rateLimiterManager \<Rightarrow> (rateLimiterManager \<times> bool option) go" where
  "limit_step (Setup key zone rt now) r = Inr (fst (manager_setup r key zone rt now), None)"
| "limit_step (Ask b now now') r = gbind (ask r b now now') (\<lambda>(r, ok). Inr (r, Some ok))"

fun limit_run :: "limit_op list \<Rightarrow> rateLimiterManager \<Rightarrow> (rateLimiterManager \<times> bool list) go" where
  "limit_run [] r = Inr (r, [])"
| "limit_run (op # ops) r =
     gbind (limit_step op r) (\<lambda>(r, res).
       gbind (limit_run ops r) (\<lambda>(r, oks). Inr (r, (case res of None \<Rightarrow> oks | Some ok \<Rightarrow> ok # oks))))"

fun rate_ok :: "limit_op \<Rightarrow> bool" where
  "rate_ok (Setup key zone rt now) = (0 \<le> rt)"
| "rate_ok (Ask b now now') = True"

definition unlimited :: "leaky \<Rightarrow> bool" where
  "unlimited l \<longleftrightarrow> amount l = 0 \<and> 0 \<le> remaining l \<and> 0 \<le> capacity l"

definition never_empty :: "(nat \<rightharpoonup> leaky) \<Rightarrow> bool" where
  "never_empty m \<longleftrightarrow> (\<forall>l \<in> ran m. unlimited l)"

lemma never_empty_upd: "never_empty m \<Longrightarrow> unlimited l \<Longrightarrow> never_empty (m(b \<mapsto> l))"
  by (auto simp: never_empty_def ran_def split: if_splits)

lemma setup_never_empty:
  "never_empty (buckets r) \<Longrightarrow> 0 \<le> rt \<Longrightarrow> never_empty (buckets (fst (manager_setup r key zone rt now)))"
  by (auto simp: manager_setup_def add_bucket_def new_leaky_def zero_leaky_def unlimited_def
      split: option.splits intro!: never_empty_upd)

lemma ask_never_empty:
  assumes "never_empty (buckets r)" "ask r b now now' = Inr (r', ok)"
  shows "ok \<and> never_empty (buckets r')"
proof -
  from assms(2) obtain l where l: "buckets r b = Some l" by (auto simp: ask_def split: option.splits)
  with assms(1) have "unlimited l" by (auto simp: never_empty_def ran_def)
  with assms l show ?thesis
    by (auto simp: ask_def leaky_take_def Let_def unlimited_def split: if_splits intro!: never_empty_upd)
qed

lemma limit_run_never_empty:
  "limit_run ops r = Inr (r', oks) \<Longrightarrow> never_empty (buckets r) \<Longrightarrow> list_all rate_ok ops \<Longrightarrow> list_all id oks"
proof (induction ops arbitrary: r oks)
  case (Cons op ops)
  from Cons.prems(1) obtain r1 res oks1 where step: "limit_step op r = Inr (r1, res)"
    "limit_run ops r1 = Inr (r', oks1)" "oks = (case res of None \<Rightarrow> oks1 | Some ok \<Rightarrow> ok # oks1)"
    by (auto simp: gbind_eq_Inr)
  from step(1) Cons.prems have "never_empty (buckets r1) \<and> (\<forall>ok. res = Some ok \<longrightarrow> ok)"
    by (cases op) (auto simp: gbind_eq_Inr setup_never_empty dest: ask_never_empty)
  with Cons.IH [OF step(2)] Cons.prems(3) step(3) show ?case by (auto split: option.splits)
qed simp

text \<open>
  The manager's limiters never limit: \<open>setup\<close> leaves the amount of a request at zero, so in
  every sequence of set-ups with non-negative rates and of requests, on any keys, zones and times,
  each request that is asked is granted.
\<close>

theorem setup_never_limits:
  assumes "list_all rate_ok ops" "limit_run ops newRateManager = Inr (r, oks)"
  shows "list_all id oks"
  using limit_run_never_empty [OF assms(2) _ assms(1)] by (simp add: never_empty_def newRateManager_def)

theorem setup_never_limits_witness:
  "\<exists>r oks. limit_run [Setup ''k'' ''z'' 1 0, Setup ''j'' ''z'' 1 0, Ask 1 1 1, Ask 1 2 2] newRateManager =
     Inr (r, oks) \<and> length oks = 2 \<and> list_all id oks"
proof -
  let ?ops = "[Setup ''k'' ''z'' 1 0, Setup ''j'' ''z'' 1 0, Ask 1 1 1, Ask 1 2 2]"
  obtain r oks where r: "limit_run ?ops newRateManager = Inr (r, oks)" "length oks = 2"
    by (simp add: newRateManager_def manager_setup_def add_bucket_def ask_def leaky_take_def new_leaky_def
        zero_leaky_def Let_def one_second_def)
  have "list_all rate_ok ?ops" by simp
  from setup_never_limits [OF this r(1)] r show ?thesis by blast
qed

subsection \<open>Rates\<close>

text \<open>What the conversion of a duration to whole seconds has to satisfy: it is exact on the units.\<close>

definition whole_seconds :: "(int \<Rightarrow> int) \<Rightarrow> bool" where
  "whole_seconds seconds \<longleftrightarrow>
     (\<forall>k. 0 \<le> k \<and> k \<le> 3600 \<longrightarrow> seconds (k * one_second) = k) \<and>
     (\<forall>d. 0 \<le> d \<and> d \<le> 1000000 \<longrightarrow> seconds d = 0)"

lemma unit_seconds:
  assumes "unitMap u = Some k" "whole_seconds seconds" "u \<noteq> ''s''"
  shows "seconds k = k div one_second"
proof -
  have "k \<in> {1, 1000, 1000000} \<or> k = 60 * one_second \<or> k = 3600 * one_second"
    using assms(1,3) by (auto simp: unitMap_def one_second_def split: if_splits)
  moreover have "seconds (60 * one_second) = 60" "seconds (3600 * one_second) = 3600" "seconds 1 = 0"
    "seconds 1000 = 0" "seconds 1000000 = 0" using assms(2) by (simp_all add: whole_seconds_def)
  moreover have "one_second > 1000000" by (simp add: one_second_def)
  ultimately show ?thesis by auto
qed

lemma utoa_plain: "c \<in> set (utoa n) \<Longrightarrow> digit c"
  using utoa_digits [of n] by (simp add: list_all_iff)

text \<open>
  \<open>parseRate\<close> of a whole number of requests per unit of time: per second it is the number, per
  minute and per hour the number divided by 60 and 3600, rounded down, so rates below one request
  per second become zero. For the units below a second the code divides by zero and panics.
\<close>

theorem parseRate_units:
  assumes "whole_seconds seconds" "unitMap u = Some k" "0 \<le> n" "n < 2 ^ 63"
  shows "parseRate frac seconds (Itoa n @ ''r/'' @ u) =
    (if u = ''s'' then Inr (Inr n)
     else if k < one_second then Inl DivideByZero
     else Inr (Inr (n div (k div one_second))))"
proof -
  have "CHR ''/'' \<notin> set (Itoa n @ ''r'')" "CHR ''/'' \<notin> set u"
    using assms(2,3) utoa_plain [of "CHR ''/''" "nat n"]
    by (auto simp: Itoa_def digit_def less_eq_char_def unitMap_def split: if_splits)
  then have sp: "split (Itoa n @ ''r/'' @ u) ''/'' = [Itoa n @ ''r'', u]"
    using split_append [of "CHR ''/''" "Itoa n @ ''r''" u] by (simp add: split_single)
  have at: "Atoi (Itoa n) = Inr n" using assms(3,4) by (intro Atoi_Itoa) simp_all
  have "seconds k = 0 \<longleftrightarrow> k < one_second" if "u \<noteq> ''s''"
    using unit_seconds [OF assms(2,1) that] unitMap_bounds [OF assms(2)]
    by (auto simp: one_second_def zdiv_eq_0_iff)
  moreover have "n sdiv seconds k = n div (k div one_second)" if "u \<noteq> ''s''"
    using unit_seconds [OF assms(2,1) that] unitMap_bounds [OF assms(2)] assms(3)
    by (simp add: sdiv_nonneg one_second_def pos_imp_zdiv_nonneg_iff)
  ultimately show ?thesis
    unfolding parseRate_def sp Let_def by (simp add: at ParseDuration_unit [OF assms(2)])
qed

theorem parseRate_units_witness:
  "parseRate (\<lambda>_ _ _. 0) (\<lambda>d. d div one_second) (Itoa 300 @ ''r/'' @ ''m'') = Inr (Inr 5) \<and>
   parseRate (\<lambda>_ _ _. 0) (\<lambda>d. d div one_second) (Itoa 5 @ ''r/'' @ ''ms'') = Inl DivideByZero"
proof -
  have w: "whole_seconds (\<lambda>d. d div one_second)" by (auto simp: whole_seconds_def one_second_def)
  show ?thesis
    using parseRate_units [OF w, of "''m''" _ 300 "\<lambda>_ _ _. 0"] parseRate_units [OF w, of "''ms''" _ 5 "\<lambda>_ _ _. 0"]
    by (simp add: unitMap_def one_second_def)
qed

end
