(* ===== verification/Raft_Store.thy ===== *)
theory Raft_Store
  imports Badger "HOL-Library.Word"
begin

text \<open>
  The log and state store of \<open>raft_badger_store.go\<close> on top of the key-value database Badger. The
  database of the theory \<open>Badger\<close> and the JSON encoding of log entries are parameters, the records
  \<open>badger\<close> and \<open>log_codec\<close>; what the store relies on is the predicate \<open>badger_laws\<close>. The keys, the index
  arithmetic on 64-bit words and the cache of the first index are the store's own.
\<close>

section \<open>Big-endian numbers\<close>

text \<open>\<open>binary.BigEndian\<close>: the bytes of a word, most significant first; reading needs eight bytes.\<close>

fun be_bytes :: "nat \<Rightarrow> nat \<Rightarrow> nat list" where
  "be_bytes 0 n = []"
| "be_bytes (Suc k) n = be_bytes k (n div 256) @ [n mod 256]"

definition PutUint64 :: "64 word \<Rightarrow> string" where
  "PutUint64 v = map char_of (be_bytes 8 (unat v))"

definition be_value :: "nat list \<Rightarrow> nat" where
  "be_value bs = foldl (\<lambda>a b. 256 * a + b) 0 bs"

definition Uint64 :: "string \<Rightarrow> 64 word go" where
  "Uint64 b =
     (if length b < 8 then Inl IndexOutOfRange
      else Inr (word_of_nat (be_value (map of_char (take 8 b)))))"

lemma length_be_bytes [simp]: "length (be_bytes k n) = k"
  by (induction k n rule: be_bytes.induct) simp_all

lemma be_bytes_small: "b \<in> set (be_bytes k n) \<Longrightarrow> b < 256"
  by (induction k n rule: be_bytes.induct) auto

lemma be_value_append: "be_value (bs @ [b]) = 256 * be_value bs + b"
  by (simp add: be_value_def)

lemma be_value_bytes: "be_value (be_bytes k n) = n mod 256 ^ k"
proof (induction k n rule: be_bytes.induct)
  case (2 k n)
  then show ?case by (simp add: be_value_append mod_mult2_eq)
qed (simp add: be_value_def)

lemma of_char_bytes: "map (of_char \<circ> char_of) (be_bytes k n) = be_bytes k n"
  by (rule map_idI) (simp add: be_bytes_small)

lemma length_PutUint64 [simp]: "length (PutUint64 v) = 8"
  by (simp add: PutUint64_def)

lemma unat64: "unat (v :: 64 word) < 256 ^ 8"
  using unsigned_less [of v, where ?'a = nat] by simp

lemma Uint64_PutUint64: "Uint64 (PutUint64 v @ rest) = Inr v"
proof -
  have "map of_char (take 8 (PutUint64 v @ rest)) = be_bytes 8 (unat v)"
    by (simp add: PutUint64_def of_char_bytes)
  moreover have "be_value (be_bytes 8 (unat v)) = unat v"
    using unat64 [of v] by (simp add: be_value_bytes)
  ultimately show ?thesis by (simp add: Uint64_def del: map_map)
qed

text \<open>The bytewise order of the encodings is the order of the numbers.\<close>

lemma less_snoc:
  fixes xs ys :: "'a :: linorder list"
  assumes "length xs = length ys"
  shows "xs @ [a] < ys @ [b] \<longleftrightarrow> xs < ys \<or> xs = ys \<and> a < b"
  using assms by (induction xs ys rule: list_induct2) auto

lemma map_char_less:
  "list_all (\<lambda>b. b < 256) xs \<Longrightarrow> list_all (\<lambda>b. b < 256) ys \<Longrightarrow> length xs = length ys \<Longrightarrow>
     map char_of xs < (map char_of ys :: string) \<longleftrightarrow> xs < (ys :: nat list)"
proof (induction xs arbitrary: ys)
  case (Cons x xs)
  then obtain y ys' where ys: "ys = y # ys'" by (cases ys) auto
  with Cons have "x < 256" "y < 256" by simp_all
  then have "char_of x < (char_of y :: char) \<longleftrightarrow> x < y" "char_of x = (char_of y :: char) \<longleftrightarrow> x = y"
    by (simp_all add: less_char_def)
  with Cons ys show ?case by auto
qed simp

lemma be_bytes_less:
  "m < 256 ^ k \<Longrightarrow> n < 256 ^ k \<Longrightarrow> be_bytes k m < be_bytes k n \<longleftrightarrow> m < n"
proof (induction k arbitrary: m n)
  case (Suc k)
  then have "m div 256 < 256 ^ k" "n div 256 < 256 ^ k" by (simp_all add: less_mult_imp_div_less mult.commute)
  with Suc.IH have IH: "be_bytes k (m div 256) < be_bytes k (n div 256) \<longleftrightarrow> m div 256 < n div 256"
    "be_bytes k (n div 256) < be_bytes k (m div 256) \<longleftrightarrow> n div 256 < m div 256" by blast+
  then have "be_bytes k (m div 256) = be_bytes k (n div 256) \<longleftrightarrow> m div 256 = n div 256"
    by (metis linorder_neq_iff)
  moreover have "m < n \<longleftrightarrow> m div 256 < n div 256 \<or> m div 256 = n div 256 \<and> m mod 256 < n mod 256"
    using div_mod_decomp [of m 256] div_mod_decomp [of n 256] mod_less_divisor [of 256 m]
      mod_less_divisor [of 256 n]
    by (cases "m div 256" "n div 256" rule: linorder_cases) linarith+
  ultimately show ?case using IH by (simp add: less_snoc)
qed simp

lemma PutUint64_less: "PutUint64 v < PutUint64 w \<longleftrightarrow> v < w"
  unfolding PutUint64_def
  by (subst map_char_less)
     (simp_all add: list_all_iff be_bytes_small be_bytes_less [OF unat64 unat64] word_less_nat_alt del: be_bytes.simps)

lemma PutUint64_inj [simp]: "PutUint64 v = PutUint64 w \<longleftrightarrow> v = w"
  by (metis Uint64_PutUint64 sum.inject(2))

section \<open>The encoding of log entries\<close>

record 'log log_codec =
  log_index :: "'log \<Rightarrow> 64 word"
  marshal :: "'log \<Rightarrow> string + string"
  unmarshal :: "string \<Rightarrow> string + 'log"

datatype store_error = StoreDb db_error | ErrLogNotFound | StoreJson string

section \<open>The store\<close>

definition stablePrefix :: string where
  "stablePrefix = ''/stable''"

definition entryPrefix :: string where
  "entryPrefix = ''/entry''"

definition entryKey :: "64 word \<Rightarrow> string" where
  "entryKey key = joinSlice entryPrefix (PutUint64 key)"

definition stateKey :: "64 word \<Rightarrow> string" where
  "stateKey key = joinSlice stablePrefix (PutUint64 key)"

definition parseEntryIndex :: "string \<Rightarrow> 64 word go" where
  "parseEntryIndex key = Uint64 (drop (length entryPrefix) key)"

definition parseStateIndex :: "string \<Rightarrow> 64 word go" where
  "parseStateIndex key = Uint64 (drop (length entryPrefix) key)"

text \<open>The store: the database and the cached answer of \<open>FirstIndex\<close>.\<close>

record 'db store =
  db :: 'db
  first_cache :: "64 word option"

definition store_Set :: "'db badger \<Rightarrow> 'db store \<Rightarrow> string \<Rightarrow> string \<Rightarrow> 'db store \<times> db_error option" where
  "store_Set B s key v =
     (case txn_set B (db s) (joinSlice stablePrefix key) v of
        Inl e \<Rightarrow> (s, Some e)
      | Inr d \<Rightarrow> (s\<lparr>db := d\<rparr>, None))"

definition store_Get :: "'db badger \<Rightarrow> 'db store \<Rightarrow> string \<Rightarrow> db_error + string" where
  "store_Get B s key = txn_get B (db s) (joinSlice stablePrefix key)"

definition SetUint64 :: "'db badger \<Rightarrow> 'db store \<Rightarrow> string \<Rightarrow> 64 word \<Rightarrow> 'db store \<times> db_error option" where
  "SetUint64 B s key v = store_Set B s key (PutUint64 v)"

definition GetUint64 :: "'db badger \<Rightarrow> 'db store \<Rightarrow> string \<Rightarrow> (db_error + 64 word) go" where
  "GetUint64 B s key =
     (case txn_get B (db s) (joinSlice stablePrefix key) of
        Inl e \<Rightarrow> Inr (if e = ErrKeyNotFound then Inr 0 else Inl e)
      | Inr v \<Rightarrow> gbind (Uint64 v) (\<lambda>w. Inr (Inr w)))"

text \<open>\<open>seekEntry\<close> without a log to fill, the only way it is called.\<close>

definition seekEntry :: "'db badger \<Rightarrow> 'db store \<Rightarrow> 64 word \<Rightarrow> bool \<Rightarrow> (64 word \<times> store_error option) go" where
  "seekEntry B s seekTo reverse =
     (case keys_from B (db s) entryPrefix reverse (entryKey seekTo) of
        [] \<Rightarrow> Inr (0, Some ErrLogNotFound)
      | k # ks \<Rightarrow> gbind (parseEntryIndex k) (\<lambda>index. Inr (index, None)))"

definition FirstIndex :: "'db badger \<Rightarrow> 'db store \<Rightarrow> ('db store \<times> 64 word \<times> store_error option) go" where
  "FirstIndex B s =
     (case first_cache s of
        Some v \<Rightarrow> Inr (s, v, None)
      | None \<Rightarrow>
          gbind (seekEntry B s 0 False) (\<lambda>(index, err).
            Inr (if err = None then s\<lparr>first_cache := Some (index + 1)\<rparr> else s, index + 1, err)))"

definition LastIndex :: "'db badger \<Rightarrow> 'db store \<Rightarrow> (64 word \<times> store_error option) go" where
  "LastIndex B s = seekEntry B s (- 1) True"

definition GetLog :: "'db badger \<Rightarrow> 'log log_codec \<Rightarrow> 'db store \<Rightarrow> 64 word \<Rightarrow> store_error + 'log" where
  "GetLog B C s index =
     (case txn_get B (db s) (entryKey index) of
        Inl e \<Rightarrow> Inl (if e = ErrKeyNotFound then ErrLogNotFound else StoreDb e)
      | Inr v \<Rightarrow> (case unmarshal C v of Inl e \<Rightarrow> Inl (StoreJson e) | Inr l \<Rightarrow> Inr l))"

definition StoreLog :: "'db badger \<Rightarrow> 'log log_codec \<Rightarrow> 'db store \<Rightarrow> 'log \<Rightarrow> 'db store \<times> store_error option" where
  "StoreLog B C s e =
     (case marshal C e of
        Inl err \<Rightarrow> (s, Some (StoreJson err))
      | Inr b \<Rightarrow>
          (case txn_set B (db s) (entryKey (log_index C e)) b of
             Inl err \<Rightarrow> (s, Some (StoreDb err))
           | Inr d \<Rightarrow> (s\<lparr>db := d\<rparr>, None)))"

fun logs_batch :: "'log log_codec \<Rightarrow> 'log list \<Rightarrow> string + (string \<times> string option) list" where
  "logs_batch C [] = Inr []"
| "logs_batch C (e # logs) =
     (case marshal C e of
        Inl err \<Rightarrow> Inl err
      | Inr b \<Rightarrow>
          (case logs_batch C logs of
             Inl err \<Rightarrow> Inl err
           | Inr ws \<Rightarrow> Inr ((entryKey (log_index C e), Some b) # ws)))"

definition flush_store :: "'db badger \<Rightarrow> 'db store \<Rightarrow> (string \<times> string option) list \<Rightarrow> 'db store \<times> store_error option" where
  "flush_store B s ws =
     (case flush B (db s) ws of Inl e \<Rightarrow> (s, Some (StoreDb e)) | Inr d \<Rightarrow> (s\<lparr>db := d\<rparr>, None))"

definition StoreLogs :: "'db badger \<Rightarrow> 'log log_codec \<Rightarrow> 'db store \<Rightarrow> 'log list \<Rightarrow> 'db store \<times> store_error option" where
  "StoreLogs B C s logs =
     (case logs_batch C logs of Inl err \<Rightarrow> (s, Some (StoreJson err)) | Inr ws \<Rightarrow> flush_store B s ws)"

text \<open>The loop of \<open>deleteRage\<close>: the keys from the start up to the index \<open>to\<close>.\<close>

fun range_keys :: "64 word \<Rightarrow> string list \<Rightarrow> string list go" where
  "range_keys hi [] = Inr []"
| "range_keys hi (key # ks) =
     gbind (parseEntryIndex key) (\<lambda>idx.
       if idx > hi then Inr [] else gbind (range_keys hi ks) (\<lambda>r. Inr (key # r)))"

definition DeleteRange :: "'db badger \<Rightarrow> 'db store \<Rightarrow> 64 word \<Rightarrow> 64 word \<Rightarrow> ('db store \<times> store_error option) go" where
  "DeleteRange B s lo hi =
     gbind (range_keys hi (keys_from B (db s) entryPrefix False (entryKey lo))) (\<lambda>ks.
       Inr (flush_store B s (map (\<lambda>k. (k, None)) ks)))"

text \<open>The state machine applies the commands of committed entries to the database itself.\<close>

record command =
  Op :: string
  Key :: string
  Value :: string

datatype apply_result = ApplyNil | ApplyError store_error | UnknownCommand | ApplyValue string

definition fsm_Apply :: "'db badger \<Rightarrow> (string \<Rightarrow> string + command) \<Rightarrow> 'db \<Rightarrow> string \<Rightarrow> 'db \<times> apply_result" where
  "fsm_Apply B decode d data =
     (case decode data of
        Inl err \<Rightarrow> (d, ApplyError (StoreJson err))
      | Inr c \<Rightarrow>
          if Op c = ''set'' then
            (case txn_set B d (Key c) (Value c) of
               Inl e \<Rightarrow> (d, ApplyError (StoreDb e))
             | Inr d' \<Rightarrow> (d', ApplyNil))
          else if Op c = ''get'' then
            (case txn_get B d (Key c) of
               Inl e \<Rightarrow> (d, ApplyError (StoreDb e))
             | Inr v \<Rightarrow> (d, ApplyValue v))
          else (d, UnknownCommand))"

section \<open>Properties\<close>

lemma entryKey_less: "entryKey i < entryKey j \<longleftrightarrow> i < j"
  by (simp add: entryKey_def joinSlice_def entryPrefix_def PutUint64_less)

lemma entryKey_le: "entryKey i \<le> entryKey j \<longleftrightarrow> i \<le> j"
  using entryKey_less [of j i] by (simp flip: not_less)

lemma entryKey_inj [simp]: "entryKey i = entryKey j \<longleftrightarrow> i = j"
  by (simp add: entryKey_def joinSlice_def)

lemma entryKey_prefix [simp]: "hasPrefix (entryKey i) entryPrefix"
  by (simp add: entryKey_def joinSlice_def hasPrefix_def)

lemma parse_entryKey [simp]: "parseEntryIndex (entryKey i) = Inr i"
  using Uint64_PutUint64 [of i "[]"] by (simp add: parseEntryIndex_def entryKey_def joinSlice_def)

text \<open>The indices of the log, and that the key space of the log holds nothing else.\<close>

definition log_indices :: "(string \<rightharpoonup> string) \<Rightarrow> 64 word set" where
  "log_indices m = {i. entryKey i \<in> dom m}"

definition only_entries :: "(string \<rightharpoonup> string) \<Rightarrow> bool" where
  "only_entries m \<longleftrightarrow> (\<forall>k. k \<in> dom m \<longrightarrow> hasPrefix k entryPrefix \<longrightarrow> k \<in> range entryKey)"

lemma sorted_keys:
  assumes "set ks = entryKey ` I" "ks = k # r"
  shows "sorted ks \<Longrightarrow> k = entryKey (Min I)" and "sorted (rev ks) \<Longrightarrow> k = entryKey (Max I)"
proof -
  from assms obtain i where i: "k = entryKey i" "i \<in> I" by (metis imageE list.set_intros(1))
  have fin: "finite I" by simp
  have le: "k \<le> entryKey j" if "sorted ks" "j \<in> I" for j
    using that assms by (metis image_eqI order_refl set_ConsD sorted_wrt.simps(2))
  have ge: "entryKey j \<le> k" if "sorted (rev ks)" "j \<in> I" for j
    using that assms by (auto simp: sorted_append)
  show "k = entryKey (Min I)" if "sorted ks"
    using le [OF that] i Min_eqI [OF fin, of i] by (auto simp: entryKey_le)
  show "k = entryKey (Max I)" if "sorted (rev ks)"
    using ge [OF that] i Max_eqI [OF fin, of i] by (auto simp: entryKey_le)
qed

lemma seekEntry_index:
  assumes "badger_laws B content" "only_entries (content (db s))"
    and "\<forall>i \<in> log_indices (content (db s)). if reverse then i \<le> seekTo else seekTo \<le> i"
  shows "seekEntry B s seekTo reverse =
    (if log_indices (content (db s)) = {} then Inr (0, Some ErrLogNotFound)
     else Inr (if reverse then Max (log_indices (content (db s))) else Min (log_indices (content (db s))), None))"
proof -
  let ?m = "content (db s)" and ?ks = "keys_from B (db s) entryPrefix reverse (entryKey seekTo)"
  have ks: "set ?ks = {x \<in> dom ?m. hasPrefix x entryPrefix \<and>
      (if reverse then x \<le> entryKey seekTo else entryKey seekTo \<le> x)}"
    "if reverse then sorted (rev ?ks) else sorted ?ks"
    using assms(1) by (cases reverse; simp add: badger_laws_def)+
  have set: "set ?ks = entryKey ` log_indices ?m"
  proof (intro equalityI subsetI)
    fix x assume "x \<in> set ?ks"
    with ks(1) have x: "x \<in> dom ?m" "hasPrefix x entryPrefix" by blast+
    with assms(2) obtain i where "x = entryKey i" unfolding only_entries_def by blast
    with x(1) show "x \<in> entryKey ` log_indices ?m" by (simp add: log_indices_def)
  next
    fix x assume "x \<in> entryKey ` log_indices ?m"
    with ks(1) assms(3) show "x \<in> set ?ks" by (auto simp: log_indices_def entryKey_le)
  qed
  show ?thesis
  proof (cases ?ks)
    case Nil
    with set have "log_indices ?m = {}" by simp
    with Nil show ?thesis by (simp add: seekEntry_def)
  next
    case (Cons k r)
    then have "log_indices ?m \<noteq> {}" using set by auto
    with sorted_keys [OF set Cons] ks(2) Cons show ?thesis by (auto simp: seekEntry_def split: if_splits)
  qed
qed

text \<open>
  The index bounds of the log: on a store that holds at least one entry, \<open>LastIndex\<close> is the
  greatest index of the stored entries, and \<open>FirstIndex\<close>, when not cached, is the least index plus
  one, so it names the entry after the first one.
\<close>

theorem index_bounds:
  assumes "badger_laws B content" "only_entries (content (db s))" "log_indices (content (db s)) \<noteq> {}"
    and "first_cache s = None"
  shows "LastIndex B s = Inr (Max (log_indices (content (db s))), None) \<and>
    FirstIndex B s =
      Inr (s\<lparr>first_cache := Some (Min (log_indices (content (db s))) + 1)\<rparr>,
           Min (log_indices (content (db s))) + 1, None)"
  using seekEntry_index [OF assms(1,2), of False 0] seekEntry_index [OF assms(1,2), of True "- 1"] assms(3,4)
  by (simp add: LastIndex_def FirstIndex_def)

theorem index_bounds_witness:
  "LastIndex list_badger \<lparr>db = [(entryKey 3, []), (entryKey 7, [])], first_cache = None\<rparr> = Inr (7, None) \<and>
   FirstIndex list_badger \<lparr>db = [(entryKey 3, []), (entryKey 7, [])], first_cache = None\<rparr> =
     Inr (\<lparr>db = [(entryKey 3, []), (entryKey 7, [])], first_cache = Some 4\<rparr>, 4, None)"
proof -
  let ?s = "\<lparr>db = [(entryKey 3, []), (entryKey 7, [])], first_cache = None\<rparr>"
  have i: "log_indices (map_of (db ?s)) = {3, 7}" by (auto simp: log_indices_def split: if_splits)
  have "only_entries (map_of (db ?s))" by (auto simp: only_entries_def split: if_splits)
  from index_bounds [OF list_badger_laws this, unfolded i] show ?thesis by simp
qed

subsection \<open>Deleting a range\<close>

lemma apply_deletes:
  "apply_writes (map (\<lambda>k. (k, None)) ks) m = (\<lambda>k. if k \<in> set ks then None else m k)"
  by (induction ks arbitrary: m) (auto simp: apply_writes_def)

lemma range_keys_entries:
  "sorted (map entryKey is1) \<Longrightarrow>
     range_keys hi (map entryKey is1) = Inr (map entryKey (filter (\<lambda>i. i \<le> hi) is1))"
proof (induction is1)
  case (Cons i is1)
  then have le: "\<forall>j \<in> set is1. i \<le> j" by (auto simp: entryKey_le)
  show ?case
  proof (cases "i \<le> hi")
    case False
    with le have "filter (\<lambda>j. j \<le> hi) is1 = []" by (auto simp: filter_empty_conv)
    with False show ?thesis by (simp add: not_le)
  qed (use Cons in auto)
qed simp

text \<open>
  (C26) \<open>DeleteRange\<close> removes exactly the entries whose index lies in the range, both ends included,
  and no other key of the database. It does not touch the cached first index, so \<open>FirstIndex\<close> still
  gives its old answer when the first entries were deleted.
\<close>

theorem DeleteRange_exact:
  assumes "badger_laws B content" "only_entries (content (db s))"
    and "\<forall>ws. \<exists>d. flush B (db s) ws = Inr d"
  shows "\<exists>s'. DeleteRange B s lo hi = Inr (s', None) \<and>
    (\<forall>k. content (db s') k =
       (if k \<in> entryKey ` {lo..hi} then None else content (db s) k)) \<and>
    first_cache s' = first_cache s"
proof -
  let ?m = "content (db s)" and ?ks = "keys_from B (db s) entryPrefix False (entryKey lo)"
  have ks: "set ?ks = {x \<in> dom ?m. hasPrefix x entryPrefix \<and> entryKey lo \<le> x}" "sorted ?ks"
    using assms(1) by (simp_all add: badger_laws_def)
  with assms(2) have "set ?ks \<subseteq> range entryKey" by (auto simp: only_entries_def)
  then have "\<exists>is1. ?ks = map entryKey is1" unfolding ex_map_conv by blast
  then obtain is1 where is1: "?ks = map entryKey is1" ..
  let ?del = "map entryKey (filter (\<lambda>i. i \<le> hi) is1)"
  obtain d where d: "flush B (db s) (map (\<lambda>k. (k, None)) ?del) = Inr d" using assms(3) by blast
  let ?s = "s\<lparr>db := d\<rparr>"
  have run: "DeleteRange B s lo hi = Inr (?s, None)"
    using range_keys_entries [of is1 hi] ks(2) d
    by (simp add: DeleteRange_def is1 flush_store_def)
  have m': "content (db ?s) = (\<lambda>k. if k \<in> set ?del then None else ?m k)"
    using assms(1) d apply_deletes [of ?del ?m] by (simp add: badger_laws_def)
  have mem: "entryKey i \<in> dom ?m \<and> lo \<le> i \<longleftrightarrow> i \<in> set is1" for i
  proof -
    have "i \<in> set is1 \<longleftrightarrow> entryKey i \<in> set ?ks" unfolding is1 by auto
    then show ?thesis unfolding ks(1) by (auto simp: entryKey_le)
  qed
  have "content (db ?s) k = (if k \<in> entryKey ` {lo..hi} then None else ?m k)" for k
  proof (cases "k \<in> range entryKey")
    case True
    then obtain i where k: "k = entryKey i" by blast
    then have "k \<in> set ?del \<longleftrightarrow> i \<in> set is1 \<and> i \<le> hi" "k \<in> entryKey ` {lo..hi} \<longleftrightarrow> lo \<le> i \<and> i \<le> hi"
      by auto
    with mem [of i] k show ?thesis unfolding m' by auto
  next
    case False
    then show ?thesis unfolding m' by auto
  qed
  with run show ?thesis by auto
qed

theorem DeleteRange_exact_witness:
  "\<exists>s'. DeleteRange list_badger \<lparr>db = [(entryKey 3, []), (entryKey 7, [])], first_cache = Some 4\<rparr> 1 5 = Inr (s', None) \<and>
     map_of (db s') (entryKey 3) = None \<and> map_of (db s') (entryKey 7) = Some [] \<and> first_cache s' = Some 4"
proof -
  let ?s = "\<lparr>db = [(entryKey 3, []), (entryKey 7, [])], first_cache = Some 4\<rparr>"
  have e: "only_entries (map_of (db ?s))" by (auto simp: only_entries_def split: if_splits)
  have f: "\<forall>ws. \<exists>d. flush list_badger (db ?s) ws = Inr d" by (simp add: list_badger_def)
  from DeleteRange_exact [OF list_badger_laws e f, of 1 5] obtain s' where
    "DeleteRange list_badger ?s 1 5 = Inr (s', None)" "first_cache s' = Some 4"
    "\<And>k. map_of (db s') k = (if k \<in> entryKey ` {1..5} then None else map_of (db ?s) k)"
    by auto
  then show ?thesis by (intro exI [of _ s']) auto
qed

subsection \<open>Round trips\<close>

lemma logs_batch_ok:
  "logs_batch C logs = Inr ws \<Longrightarrow>
     length ws = length logs \<and>
     (\<forall>i < length logs. \<exists>b. marshal C (logs ! i) = Inr b \<and> ws ! i = (entryKey (log_index C (logs ! i)), Some b))"
  by (induction logs arbitrary: ws) (auto simp: nth_Cons split: sum.splits nat.splits)

lemma apply_writes_last:
  "distinct (map fst ws) \<Longrightarrow> (k, v) \<in> set ws \<Longrightarrow> apply_writes ws m k = v"
proof (induction ws arbitrary: m)
  case (Cons w ws)
  have other: "k \<notin> fst ` set us \<Longrightarrow> apply_writes us m' k = m' k" for us m'
    by (induction us arbitrary: m') (auto simp: apply_writes_def)
  show ?case
  proof (cases "w = (k, v)")
    case True
    with Cons.prems(1) other [of ws "m(k := v)"] show ?thesis by (simp add: apply_writes_def)
  next
    case False
    with Cons.prems Cons.IH [of "m(fst w := snd w)"] show ?thesis
      by (auto simp: apply_writes_def case_prod_beta fun_upd_def)
  qed
qed simp

text \<open>
  (C21) Round trip of the log: after \<open>StoreLogs\<close> of entries with distinct indices succeeds, \<open>GetLog\<close>
  of the index of each of them returns that entry, whatever was stored before, provided that the
  JSON encoding can be read back.
\<close>

theorem StoreLogs_GetLog:
  assumes "badger_laws B content" "\<forall>e b. marshal C e = Inr b \<longrightarrow> unmarshal C b = Inr e"
    and "distinct (map (log_index C) logs)" "StoreLogs B C s logs = (s', None)" "e \<in> set logs"
  shows "GetLog B C s' (log_index C e) = Inr e"
proof -
  from assms(4) obtain ws d where ws: "logs_batch C logs = Inr ws" "flush B (db s) ws = Inr d" "s' = s\<lparr>db := d\<rparr>"
    by (auto simp: StoreLogs_def flush_store_def split: sum.splits)
  note w = logs_batch_ok [OF ws(1)]
  from assms(5) obtain i where i: "i < length logs" "logs ! i = e" by (metis in_set_conv_nth)
  with w obtain b where b: "marshal C e = Inr b" "(entryKey (log_index C e), Some b) \<in> set ws"
    by (metis in_set_conv_nth)
  have "map fst ws = map (\<lambda>e. entryKey (log_index C e)) logs"
    using w by (intro nth_equalityI) (auto simp: fst_def)
  with assms(3) have "distinct (map fst ws)" by (simp add: distinct_map inj_on_def)
  with apply_writes_last b(2) assms(1) ws(2) have "content d (entryKey (log_index C e)) = Some b"
    by (auto simp: badger_laws_def)
  with assms(1,2) b(1) ws(3) show ?thesis by (simp add: GetLog_def badger_laws_def)
qed

theorem StoreLogs_GetLog_witness:
  "\<exists>s'. StoreLogs list_badger \<lparr>log_index = id, marshal = \<lambda>e. Inr (PutUint64 e), unmarshal = \<lambda>b. case Uint64 b of Inl p \<Rightarrow> Inl [] | Inr v \<Rightarrow> Inr v\<rparr>
      \<lparr>db = [], first_cache = None\<rparr> [1, 2] = (s', None) \<and>
    GetLog list_badger \<lparr>log_index = id, marshal = \<lambda>e. Inr (PutUint64 e), unmarshal = \<lambda>b. case Uint64 b of Inl p \<Rightarrow> Inl [] | Inr v \<Rightarrow> Inr v\<rparr>
      s' 2 = Inr 2"
proof -
  let ?C = "\<lparr>log_index = id, marshal = \<lambda>e. Inr (PutUint64 e),
    unmarshal = \<lambda>b. case Uint64 b of Inl p \<Rightarrow> Inl [] | Inr v \<Rightarrow> Inr v\<rparr>"
  have c: "\<forall>e b. marshal ?C e = Inr b \<longrightarrow> unmarshal ?C b = Inr e"
    using Uint64_PutUint64 [of _ "[]"] by simp
  have d: "distinct (map (log_index ?C) [1, 2])" by simp
  obtain s' where s': "StoreLogs list_badger ?C \<lparr>db = [], first_cache = None\<rparr> [1, 2] = (s', None)"
    by (simp add: StoreLogs_def flush_store_def list_badger_def)
  from StoreLogs_GetLog [OF list_badger_laws c d s', of 2] s' show ?thesis by auto
qed

text \<open>The stable store keeps 64-bit values under its own keys; a key that was never set reads as zero.\<close>

lemma SetUint64_GetUint64:
  assumes "badger_laws B content" "SetUint64 B s key v = (s', None)"
  shows "GetUint64 B s' key' =
    (if key' = key then Inr (Inr v) else GetUint64 B s key')"
proof -
  from assms(2) obtain d where d: "txn_set B (db s) (stablePrefix @ key) (PutUint64 v) = Inr d" "s' = s\<lparr>db := d\<rparr>"
    by (auto simp: SetUint64_def store_Set_def joinSlice_def split: sum.splits)
  with assms(1) have "content d = (content (db s))(stablePrefix @ key \<mapsto> PutUint64 v)"
    by (simp add: badger_laws_def)
  with assms(1) d(2) Uint64_PutUint64 [of v "[]"] show ?thesis
    by (simp add: GetUint64_def badger_laws_def joinSlice_def)
qed

text \<open>
  State keys use the prefix of the stable store, one byte longer than the prefix that
  \<open>parseStateIndex\<close> skips, so an index is not read back: the result starts with the byte \<open>e\<close> and
  has lost the last byte of the index.
\<close>

lemma be_value_Cons: "be_value (b # bs) = b * 256 ^ length bs + be_value bs"
proof (induction bs rule: rev_induct)
  case (snoc c bs)
  then show ?case
    using be_value_append [of "b # bs" c] be_value_append [of bs c] by simp
qed (simp add: be_value_def)

lemma parse_stateKey:
  "parseStateIndex (stateKey k) = Inr (word_of_nat (0x65 * 256 ^ 7 + unat k div 256))"
proof -
  have b: "be_bytes 8 (unat k) = be_bytes 7 (unat k div 256) @ [unat k mod 256]"
    using be_bytes.simps(2) [of 7 "unat k"] by (simp del: be_bytes.simps)
  have "parseStateIndex (stateKey k) = Uint64 (CHR ''e'' # PutUint64 k)"
    by (simp add: parseStateIndex_def stateKey_def joinSlice_def stablePrefix_def entryPrefix_def)
  also have "map of_char (take 8 (CHR ''e'' # PutUint64 k)) = 0x65 # be_bytes 7 (unat k div 256)"
    using of_char_bytes [of 7 "unat k div 256"] by (simp add: PutUint64_def b comp_def)
  then have "Uint64 (CHR ''e'' # PutUint64 k) = Inr (word_of_nat (0x65 * 256 ^ 7 + unat k div 256))"
    using unat64 [of k] by (simp add: Uint64_def be_value_Cons be_value_bytes)
  finally show ?thesis .
qed

end
