(* ===== verification/Replication.thy ===== *)
theory Replication
  imports Raft_Store
begin

text \<open>
  The replicated key-value store: \<open>kv.Set\<close> of \<open>kv_store.go\<close> on top of the raft log, the state machine
  that each replica runs over the committed entries, and its snapshots. The raft library is a
  parameter: for each proposed entry it tells whether the entry gets committed and which error the
  caller sees, and the committed entries reach every replica in the same order.
\<close>

section \<open>The leader\<close>

datatype kv_error = NotLeader | MarshalError string | RaftError string

definition raftTimeout :: int where
  "raftTimeout = 10 * 1000000000"

text \<open>
  \<open>Set\<close> proposes a command. An entry may be committed although the caller sees an error, for instance
  after a timeout; \<open>propose\<close> gives both, on the encoded command and the timeout.
\<close>

definition kv_Set ::
  "bool \<Rightarrow> (command \<Rightarrow> string + string) \<Rightarrow> (string \<Rightarrow> int \<Rightarrow> bool \<times> string option) \<Rightarrow> string \<Rightarrow> string \<Rightarrow> string list \<Rightarrow>
     kv_error option \<times> string list" where
  "kv_Set leader encode propose key v log =
     (if \<not> leader then (Some NotLeader, log)
      else case encode \<lparr>Op = ''set'', Key = key, Value = v\<rparr> of
        Inl err \<Rightarrow> (Some (MarshalError err), log)
      | Inr b \<Rightarrow>
          (case propose b raftTimeout of (committed, err) \<Rightarrow>
             (map_option RaftError err, if committed then log @ [b] else log)))"

section \<open>The replicas\<close>

text \<open>A replica applies the committed entries in their order.\<close>

definition replica :: "'db badger \<Rightarrow> (string \<Rightarrow> string + command) \<Rightarrow> string list \<Rightarrow> 'db \<Rightarrow> 'db" where
  "replica B decode log d = fold (\<lambda>b d. fst (fsm_Apply B decode d b)) log d"

text \<open>
  \<open>Persist\<close> of a snapshot: the backup gives the version it reached, which is saved before the sink is
  closed. The result is the error, the version to start the next backup from, and whether the sink
  was cancelled.
\<close>

definition Persist :: "(nat \<Rightarrow> string + nat) \<Rightarrow> string option \<Rightarrow> nat \<Rightarrow> string option \<times> nat \<times> bool" where
  "Persist Backup closeErr since =
     (case Backup since of
        Inl err \<Rightarrow> (Some err, since, True)
      | Inr n \<Rightarrow> (closeErr, n, False))"

section \<open>Sequences of calls\<close>

record kv_call =
  kc_leader :: bool
  kc_propose :: "string \<Rightarrow> int \<Rightarrow> bool \<times> string option"
  kc_key :: string
  kc_value :: string

fun kv_calls :: "(command \<Rightarrow> string + string) \<Rightarrow> kv_call list \<Rightarrow> string list \<Rightarrow> kv_error option list \<times> string list" where
  "kv_calls encode [] log = ([], log)"
| "kv_calls encode (c # cs) log =
     (case kv_Set (kc_leader c) encode (kc_propose c) (kc_key c) (kc_value c) log of (e, log) \<Rightarrow>
        case kv_calls encode cs log of (es, log) \<Rightarrow> (e # es, log))"

text \<open>The abstract store: a map that takes the committed assignments in order.\<close>

definition takes_effect :: "(command \<Rightarrow> string + string) \<Rightarrow> kv_call \<Rightarrow> bool" where
  "takes_effect encode c \<longleftrightarrow> kc_leader c \<and>
     (case encode \<lparr>Op = ''set'', Key = kc_key c, Value = kc_value c\<rparr> of
        Inl err \<Rightarrow> False
      | Inr b \<Rightarrow> fst (kc_propose c b raftTimeout))"

definition kv_spec :: "(command \<Rightarrow> string + string) \<Rightarrow> kv_call list \<Rightarrow> (string \<rightharpoonup> string) \<Rightarrow> string \<rightharpoonup> string" where
  "kv_spec encode cs m = fold (\<lambda>c m. m(kc_key c \<mapsto> kc_value c)) (filter (takes_effect encode) cs) m"

lemma replica_append: "replica B decode (l1 @ l2) d = replica B decode l2 (replica B decode l1 d)"
  by (simp add: replica_def)

lemma apply_set:
  assumes "badger_laws B content" "\<forall>d k v. \<exists>d'. txn_set B d k v = Inr d'" "decode b = Inr \<lparr>Op = ''set'', Key = k, Value = v\<rparr>"
  shows "content (fst (fsm_Apply B decode d b)) = (content d)(k \<mapsto> v)"
proof -
  from assms(2) obtain d' where "txn_set B d k v = Inr d'" by blast
  with badger_set [OF assms(1) this] assms(3) show ?thesis by (simp add: fsm_Apply_def)
qed

lemma kv_Set_replica:
  assumes "badger_laws B content" "\<forall>d k v. \<exists>d'. txn_set B d k v = Inr d'" "\<forall>c b. encode c = Inr b \<longrightarrow> decode b = Inr c"
    and "kv_Set (kc_leader c) encode (kc_propose c) (kc_key c) (kc_value c) log = (e, log')"
  shows "content (replica B decode log' d) = kv_spec encode [c] (content (replica B decode log d))"
proof (cases "takes_effect encode c")
  case True
  then obtain b where b: "encode \<lparr>Op = ''set'', Key = kc_key c, Value = kc_value c\<rparr> = Inr b" "kc_leader c"
    "fst (kc_propose c b raftTimeout)" by (auto simp: takes_effect_def split: sum.splits)
  with assms(4) have "log' = log @ [b]" by (auto simp: kv_Set_def split: prod.splits)
  with apply_set [OF assms(1,2)] b(1) assms(3) True show ?thesis
    by (simp add: replica_def kv_spec_def)
next
  case False
  with assms(4) have "log' = log" by (auto simp: takes_effect_def kv_Set_def split: if_splits sum.splits prod.splits)
  with False show ?thesis by (simp add: kv_spec_def)
qed

lemma kv_calls_replica:
  assumes "badger_laws B content" "\<forall>d k v. \<exists>d'. txn_set B d k v = Inr d'" "\<forall>c b. encode c = Inr b \<longrightarrow> decode b = Inr c"
  shows "kv_calls encode cs log = (es, log') \<Longrightarrow>
    content (replica B decode log' d) = kv_spec encode cs (content (replica B decode log d))"
proof (induction cs arbitrary: log es)
  case (Cons c cs)
  obtain e l where s: "kv_Set (kc_leader c) encode (kc_propose c) (kc_key c) (kc_value c) log = (e, l)" by force
  with Cons.prems obtain es' where "kv_calls encode cs l = (es', log')" by (auto split: prod.splits)
  from Cons.IH [OF this] kv_Set_replica [OF assms s] show ?case by (simp add: kv_spec_def)
qed (simp add: kv_spec_def)


text \<open>The state machine's own error is not among those a caller sees: \<open>Set\<close> returns no error although no replica stores the value.\<close>

lemma set_error_hidden:
  assumes "encode \<lparr>Op = ''set'', Key = k, Value = v\<rparr> = Inr b" "decode b = Inr \<lparr>Op = ''set'', Key = k, Value = v\<rparr>"
    and "\<And>d. txn_set B d k v = Inl e" "propose b raftTimeout = (True, None)"
  shows "kv_Set True encode propose k v [] = (None, [b]) \<and> replica B decode [b] d = d"
  using assms by (simp add: kv_Set_def replica_def fsm_Apply_def)

text \<open>A snapshot whose sink fails to close still moves the version on, so the next backup leaves its entries out.\<close>

lemma failed_snapshot_advances:
  "Backup since = Inr n \<Longrightarrow> Persist Backup (Some err) since = (Some err, n, False)"
  by (simp add: Persist_def)

text \<open>Two calls for one key; the first is committed although the caller is told of a timeout.\<close>

definition unary_codec :: "command \<Rightarrow> string + string" where
  "unary_codec c = Inr (replicate (length (Op c)) (CHR ''a'') @ ''b'' @ Op c @ replicate (length (Key c)) (CHR ''a'') @ ''b'' @ Key c @ Value c)"

definition unary_part :: "string \<Rightarrow> string \<times> string" where
  "unary_part s =
     (let n = length (takeWhile (\<lambda>x. x = CHR ''a'') s); r = drop (Suc n) s in (take n r, drop n r))"

definition unary_decode :: "string \<Rightarrow> string + command" where
  "unary_decode s =
     (case unary_part s of (f, r) \<Rightarrow> case unary_part r of (k, v) \<Rightarrow> Inr \<lparr>Op = f, Key = k, Value = v\<rparr>)"

lemma unary_part_ok: "unary_part (replicate (length x) (CHR ''a'') @ CHR ''b'' # x @ r) = (x, r)"
proof -
  have "takeWhile (\<lambda>x. x = CHR ''a'') (replicate n (CHR ''a'') @ CHR ''b'' # y) = replicate n (CHR ''a'')" for n y
    by (induction n) simp_all
  then show ?thesis by (simp add: unary_part_def Let_def)
qed

lemma unary_roundtrip: "\<forall>c b. unary_codec c = Inr b \<longrightarrow> unary_decode b = Inr c"
  by (auto simp: unary_codec_def unary_decode_def unary_part_ok)


end
