(* ===== verification/OAuth_Data.thy ===== *)
theory OAuth_Data
  imports Kv_Store Go_Net "HOL-Library.Monad_Syntax"
begin

text \<open>
  The data of the OAuth2 server of \<open>oauth2_server.go\<close>: tokens, grants, clients and users with their
  JSON form, the validation of redirect URLs, the comparison of scopes, and the context from which a
  response is made. A time is the number of nanoseconds since the zero value of \<open>time.Time\<close>.
\<close>

section \<open>Documents\<close>

record oauth2Token =
  tk_Code :: string
  tk_ClientID :: string
  tk_UserID :: string
  tk_ExpiresIn :: int
  tk_CreatedAT :: int
  tk_UpdatedAt :: int
  tk_DeletedAt :: int

record oauth2Grant =
  gr_Code :: string
  gr_Type :: string
  gr_UserID :: string
  gr_ClientID :: string
  gr_AccessToken :: string
  gr_AuthorizeToken :: string
  gr_RefreshToken :: string
  gr_Scope :: string
  gr_State :: string
  gr_RedirectURL :: string
  gr_ExpiresIn :: int
  gr_CreatedAt :: int
  gr_UpdatedAt :: int
  gr_DeletedAt :: int

record oauth2Client =
  cl_ID :: string
  cl_UserID :: string
  cl_Name :: string
  cl_Secret :: string
  cl_Grants :: "string list"
  cl_Tokens :: "string list"
  cl_RedirectURL :: string
  cl_CreatedAt :: int
  cl_UpdatedAt :: int
  cl_DeletedAt :: int

record oauth2User =
  us_Email :: string
  us_Grants :: "string list"
  us_Tokens :: "string list"
  us_Clients :: "string list"
  us_Password :: string
  us_CreatedAt :: int
  us_UpdatedAt :: int
  us_DeletedAt :: int

definition zero_token :: oauth2Token where
  "zero_token =
     \<lparr>tk_Code = [], tk_ClientID = [], tk_UserID = [], tk_ExpiresIn = 0, tk_CreatedAT = 0, tk_UpdatedAt = 0,
      tk_DeletedAt = 0\<rparr>"

definition zero_grant :: oauth2Grant where
  "zero_grant =
     \<lparr>gr_Code = [], gr_Type = [], gr_UserID = [], gr_ClientID = [], gr_AccessToken = [],
      gr_AuthorizeToken = [], gr_RefreshToken = [], gr_Scope = [], gr_State = [], gr_RedirectURL = [],
      gr_ExpiresIn = 0, gr_CreatedAt = 0, gr_UpdatedAt = 0, gr_DeletedAt = 0\<rparr>"

text \<open>\<open>expired\<close>: the duration is a 64-bit number of nanoseconds.\<close>

definition grant_expired :: "oauth2Grant \<Rightarrow> int \<Rightarrow> bool" where
  "grant_expired g now \<longleftrightarrow> gr_CreatedAt g + int64 (gr_ExpiresIn g * 1000000000) < now"

section \<open>JSON\<close>

text \<open>
  A document as the package \<open>encoding/json\<close> sees it, a list of names with values; a nil slice is
  written as null. Reading matches names without regard to case, the last occurrence wins, a missing
  name or a null leaves the zero value, and a value of another type is an error. The text form of a
  document is a pair of parameters, \<open>print_json\<close> and \<open>read_json\<close>.
\<close>

datatype jval = JNull | JStr string | JInt int | JTime int | JArr "string list"

type_synonym jobj = "(string \<times> jval) list"

record json_env =
  print_json :: "jobj \<Rightarrow> string + string"
  read_json :: "string \<Rightarrow> string + jobj"

fun ascii_val :: "jval \<Rightarrow> bool" where
  "ascii_val (JStr s) = list_all ascii s"
| "ascii_val (JArr ss) = list_all (list_all ascii) ss"
| "ascii_val v = True"

text \<open>What is written can be read back; \<open>encoding/json\<close> promises it for valid UTF-8, here ASCII.\<close>

definition json_laws :: "json_env \<Rightarrow> bool" where
  "json_laws J \<longleftrightarrow> (\<forall>d b. list_all (ascii_val \<circ> snd) d \<longrightarrow> print_json J d = Inr b \<longrightarrow> read_json J b = Inr d)"

definition field :: "string \<Rightarrow> jobj \<Rightarrow> jval" where
  "field name d = (case find (\<lambda>(k, v). toLower k = toLower name \<and> v \<noteq> JNull) (rev d) of
     None \<Rightarrow> JNull | Some (k, v) \<Rightarrow> v)"

definition to_str :: "jval \<Rightarrow> string option" where
  "to_str v = (case v of JNull \<Rightarrow> Some [] | JStr s \<Rightarrow> Some s | _ \<Rightarrow> None)"

definition to_int :: "jval \<Rightarrow> int option" where
  "to_int v = (case v of JNull \<Rightarrow> Some 0 | JInt i \<Rightarrow> Some i | _ \<Rightarrow> None)"

definition to_time :: "jval \<Rightarrow> int option" where
  "to_time v = (case v of JNull \<Rightarrow> Some 0 | JTime i \<Rightarrow> Some i | _ \<Rightarrow> None)"

definition to_strs :: "jval \<Rightarrow> string list option" where
  "to_strs v = (case v of JNull \<Rightarrow> Some [] | JArr ss \<Rightarrow> Some ss | _ \<Rightarrow> None)"

definition of_strs :: "string list \<Rightarrow> jval" where
  "of_strs ss = (if ss = [] then JNull else JArr ss)"

definition token_json :: "oauth2Token \<Rightarrow> jobj" where
  "token_json t =
     [(''Code'', JStr (tk_Code t)), (''ClientID'', JStr (tk_ClientID t)), (''UserID'', JStr (tk_UserID t)),
      (''ExpiresIn'', JInt (tk_ExpiresIn t)), (''CreatedAT'', JTime (tk_CreatedAT t)),
      (''UpdatedAt'', JTime (tk_UpdatedAt t)), (''DeletedAt'', JTime (tk_DeletedAt t))]"

definition grant_json :: "oauth2Grant \<Rightarrow> jobj" where
  "grant_json g =
     [(''Code'', JStr (gr_Code g)), (''Type'', JStr (gr_Type g)), (''UserID'', JStr (gr_UserID g)),
      (''ClientID'', JStr (gr_ClientID g)), (''AccessToken'', JStr (gr_AccessToken g)),
      (''AuthorizeToken'', JStr (gr_AuthorizeToken g)), (''RefreshToken'', JStr (gr_RefreshToken g)),
      (''Scope'', JStr (gr_Scope g)), (''State'', JStr (gr_State g)), (''RedirectURL'', JStr (gr_RedirectURL g)),
      (''ExpiresIn'', JInt (gr_ExpiresIn g)), (''CreatedAt'', JTime (gr_CreatedAt g)),
      (''UpdatedAt'', JTime (gr_UpdatedAt g)), (''DeletedAt'', JTime (gr_DeletedAt g))]"

definition client_json :: "oauth2Client \<Rightarrow> jobj" where
  "client_json c =
     [(''ID'', JStr (cl_ID c)), (''UserID'', JStr (cl_UserID c)), (''Name'', JStr (cl_Name c)),
      (''Secret'', JStr (cl_Secret c)), (''Grants'', of_strs (cl_Grants c)), (''Tokens'', of_strs (cl_Tokens c)),
      (''RedirectURL'', JStr (cl_RedirectURL c)), (''CreatedAt'', JTime (cl_CreatedAt c)),
      (''UpdatedAt'', JTime (cl_UpdatedAt c)), (''DeletedAt'', JTime (cl_DeletedAt c))]"

definition user_json :: "oauth2User \<Rightarrow> jobj" where
  "user_json u =
     [(''Email'', JStr (us_Email u)), (''Grants'', of_strs (us_Grants u)), (''Tokens'', of_strs (us_Tokens u)),
      (''Clients'', of_strs (us_Clients u)), (''Password'', JStr (us_Password u)),
      (''CreatedAt'', JTime (us_CreatedAt u)), (''UpdatedAt'', JTime (us_UpdatedAt u)),
      (''DeletedAt'', JTime (us_DeletedAt u))]"

definition json_token :: "jobj \<Rightarrow> oauth2Token option" where
  "json_token d = do {
     code \<leftarrow> to_str (field ''Code'' d);
     client \<leftarrow> to_str (field ''ClientID'' d);
     user \<leftarrow> to_str (field ''UserID'' d);
     expires \<leftarrow> to_int (field ''ExpiresIn'' d);
     created \<leftarrow> to_time (field ''CreatedAT'' d);
     updated \<leftarrow> to_time (field ''UpdatedAt'' d);
     deleted \<leftarrow> to_time (field ''DeletedAt'' d);
     Some \<lparr>tk_Code = code, tk_ClientID = client, tk_UserID = user, tk_ExpiresIn = expires,
       tk_CreatedAT = created, tk_UpdatedAt = updated, tk_DeletedAt = deleted\<rparr>}"

definition json_grant :: "jobj \<Rightarrow> oauth2Grant option" where
  "json_grant d = do {
     code \<leftarrow> to_str (field ''Code'' d);
     type \<leftarrow> to_str (field ''Type'' d);
     user \<leftarrow> to_str (field ''UserID'' d);
     client \<leftarrow> to_str (field ''ClientID'' d);
     access \<leftarrow> to_str (field ''AccessToken'' d);
     authorize \<leftarrow> to_str (field ''AuthorizeToken'' d);
     refresh \<leftarrow> to_str (field ''RefreshToken'' d);
     scope \<leftarrow> to_str (field ''Scope'' d);
     state \<leftarrow> to_str (field ''State'' d);
     redirect \<leftarrow> to_str (field ''RedirectURL'' d);
     expires \<leftarrow> to_int (field ''ExpiresIn'' d);
     created \<leftarrow> to_time (field ''CreatedAt'' d);
     updated \<leftarrow> to_time (field ''UpdatedAt'' d);
     deleted \<leftarrow> to_time (field ''DeletedAt'' d);
     Some \<lparr>gr_Code = code, gr_Type = type, gr_UserID = user, gr_ClientID = client, gr_AccessToken = access,
       gr_AuthorizeToken = authorize, gr_RefreshToken = refresh, gr_Scope = scope, gr_State = state,
       gr_RedirectURL = redirect, gr_ExpiresIn = expires, gr_CreatedAt = created, gr_UpdatedAt = updated,
       gr_DeletedAt = deleted\<rparr>}"

definition json_client :: "jobj \<Rightarrow> oauth2Client option" where
  "json_client d = do {
     id \<leftarrow> to_str (field ''ID'' d);
     user \<leftarrow> to_str (field ''UserID'' d);
     name \<leftarrow> to_str (field ''Name'' d);
     secret \<leftarrow> to_str (field ''Secret'' d);
     grants \<leftarrow> to_strs (field ''Grants'' d);
     tokens \<leftarrow> to_strs (field ''Tokens'' d);
     redirect \<leftarrow> to_str (field ''RedirectURL'' d);
     created \<leftarrow> to_time (field ''CreatedAt'' d);
     updated \<leftarrow> to_time (field ''UpdatedAt'' d);
     deleted \<leftarrow> to_time (field ''DeletedAt'' d);
     Some \<lparr>cl_ID = id, cl_UserID = user, cl_Name = name, cl_Secret = secret, cl_Grants = grants,
       cl_Tokens = tokens, cl_RedirectURL = redirect, cl_CreatedAt = created, cl_UpdatedAt = updated,
       cl_DeletedAt = deleted\<rparr>}"

definition json_user :: "jobj \<Rightarrow> oauth2User option" where
  "json_user d = do {
     email \<leftarrow> to_str (field ''Email'' d);
     grants \<leftarrow> to_strs (field ''Grants'' d);
     tokens \<leftarrow> to_strs (field ''Tokens'' d);
     clients \<leftarrow> to_strs (field ''Clients'' d);
     password \<leftarrow> to_str (field ''Password'' d);
     created \<leftarrow> to_time (field ''CreatedAt'' d);
     updated \<leftarrow> to_time (field ''UpdatedAt'' d);
     deleted \<leftarrow> to_time (field ''DeletedAt'' d);
     Some \<lparr>us_Email = email, us_Grants = grants, us_Tokens = tokens, us_Clients = clients,
       us_Password = password, us_CreatedAt = created, us_UpdatedAt = updated, us_DeletedAt = deleted\<rparr>}"

lemmas json_defs = field_def to_str_def to_int_def to_time_def to_strs_def of_strs_def toLower_def toLowerChar_def

lemma json_token_round [simp]: "json_token (token_json t) = Some t"
  by (simp add: json_token_def token_json_def json_defs)

lemma json_grant_round [simp]: "json_grant (grant_json g) = Some g"
  by (simp add: json_grant_def grant_json_def json_defs)

lemma json_client_round [simp]: "json_client (client_json c) = Some c"
  by (simp add: json_client_def client_json_def json_defs)

lemma json_user_round [simp]: "json_user (user_json u) = Some u"
  by (simp add: json_user_def user_json_def json_defs)

text \<open>A token read as a client: only the user and the times carry over, the secret is empty.\<close>

lemma json_client_token:
  "json_client (token_json t) =
     Some \<lparr>cl_ID = [], cl_UserID = tk_UserID t, cl_Name = [], cl_Secret = [], cl_Grants = [], cl_Tokens = [],
       cl_RedirectURL = [], cl_CreatedAt = tk_CreatedAT t, cl_UpdatedAt = tk_UpdatedAt t,
       cl_DeletedAt = tk_DeletedAt t\<rparr>"
proof -
  have "char_of (116 :: nat) = CHR ''t''" by code_simp
  then show ?thesis by (simp add: json_client_def token_json_def json_defs)
qed

section \<open>Redirect URLs\<close>

datatype oauth_error =
    KvErr db_error
  | JsonErr string
  | RandErr string
  | HashErr string
  | BlankURL
  | FragmentURL
  | UrlErr string
  | NotRedirect
  | TextErr string

definition url_message :: "string \<Rightarrow> string \<Rightarrow> string \<Rightarrow> oauth_error" where
  "url_message what base redirect = TextErr (what @ '' : '' @ base @ '' / '' @ redirect)"

definition validateURI :: "url_env \<Rightarrow> string \<Rightarrow> string \<Rightarrow> oauth_error option" where
  "validateURI U base redirect =
     (if base = [] \<or> redirect = [] then Some BlankURL
      else case url_Parse U base of
        Inl err \<Rightarrow> Some (UrlErr err)
      | Inr baseURL \<Rightarrow>
          (case url_Parse U redirect of
             Inl err \<Rightarrow> Some (UrlErr err)
           | Inr redirectURL \<Rightarrow>
               if u_fragment baseURL \<noteq> [] \<or> u_fragment redirectURL \<noteq> [] then Some FragmentURL
               else if u_scheme baseURL \<noteq> u_scheme redirectURL
               then Some (url_message ''scheme mismatch'' base redirect)
               else if u_host baseURL \<noteq> u_host redirectURL
               then Some (url_message ''host mismatch'' base redirect)
               else if u_path baseURL = u_path redirectURL then None
               else let reqPrefix = trimRight (u_path baseURL) ''/'' @ ''/'' in
                 if \<not> hasPrefix (u_path redirectURL) reqPrefix
                 then Some (url_message ''path is not a subpath'' base redirect)
                 else if list_ex (\<lambda>s. s = ''..'') (split (trimPrefix (u_path redirectURL) reqPrefix) ''/'')
                 then Some (url_message ''subpath cannot contain path traversal'' base redirect)
                 else None))"

text \<open>\<open>validateURIList\<close>; \<open>strings.Split\<close> is applied to a separator that is not empty.\<close>

definition uri_list :: "string \<Rightarrow> string \<Rightarrow> string list" where
  "uri_list baseList sep = (if sep \<noteq> [] then split baseList sep else [baseList])"

definition validateURIList :: "url_env \<Rightarrow> string \<Rightarrow> string \<Rightarrow> string \<Rightarrow> oauth_error option" where
  "validateURIList U baseList redirect sep =
     (if list_ex (\<lambda>item. validateURI U item redirect = None) (uri_list baseList sep) then None
      else Some (url_message ''url dot validate'' baseList redirect))"

definition firstURI :: "string \<Rightarrow> string \<Rightarrow> string" where
  "firstURI base sep = (if sep \<noteq> [] then hd (split base sep) else base)"

text \<open>\<open>extraScopes\<close>.\<close>

definition extraScopes :: "string \<Rightarrow> string \<Rightarrow> bool" where
  "extraScopes access refresh \<longleftrightarrow>
     list_ex (\<lambda>rScope. list_ex (\<lambda>aScope. rScope \<noteq> [] \<and> aScope \<noteq> [] \<and> aScope = rScope) (split access '',''))
       (split refresh '','')"

text \<open>The URLs a client may be sent to: below a registered one, without leaving it.\<close>

definition below :: "url \<Rightarrow> url \<Rightarrow> bool" where
  "below base u \<longleftrightarrow>
     u_scheme u = u_scheme base \<and> u_host u = u_host base \<and> u_fragment u = [] \<and>
     (u_path u = u_path base \<or>
      (\<exists>segs. segs \<noteq> [] \<and> ''..'' \<notin> set segs \<and> (\<forall>s \<in> set segs. CHR ''/'' \<notin> set s) \<and>
         u_path u = trimRight (u_path base) ''/'' @ ''/'' @ join segs ''/''))"

lemma split_plain: "s \<in> set (split t [c]) \<Longrightarrow> c \<notin> set s"
proof -
  have "c \<notin> set cur \<Longrightarrow> list_all (\<lambda>s. c \<notin> set s) (split_aux [c] cur t)" for cur
    by (induction t arbitrary: cur) (auto simp: hasPrefix_def)
  from this [of "[]"] show "s \<in> set (split t [c]) \<Longrightarrow> c \<notin> set s" by (simp add: split_def list_all_iff)
qed

lemma no_dots_iff:
  "\<not> list_ex (\<lambda>s. s = ''..'') (split t ''/'') \<longleftrightarrow>
     (\<exists>segs. segs \<noteq> [] \<and> ''..'' \<notin> set segs \<and> (\<forall>s \<in> set segs. CHR ''/'' \<notin> set s) \<and> t = join segs ''/'')"
    (is "?L \<longleftrightarrow> ?R")
proof
  assume ?L
  then show ?R
    using split_plain [of _ t "CHR ''/''"] join_split [of "''/''" t]
    by (intro exI [of _ "split t ''/''"]) (auto simp: list_ex_iff)
next
  assume ?R
  then show ?L using split_join [of _ "CHR ''/''"] by (auto simp: list_ex_iff list_all_iff)
qed

text \<open>
  (C25) Redirect URLs: \<open>validateURI\<close> accepts exactly the URLs below the registered one, that is with
  the same scheme and host, no fragment, and the same path or a path of further segments none of
  which is \<open>..\<close>, both URLs being well formed and the registered one without a fragment.
\<close>

theorem validateURI_accepts_iff:
  "validateURI U base redirect = None \<longleftrightarrow>
     base \<noteq> [] \<and> redirect \<noteq> [] \<and>
     (\<exists>b u. url_Parse U base = Inr b \<and> url_Parse U redirect = Inr u \<and> u_fragment b = [] \<and> below b u)"
proof -
  have path: "hasPrefix p pre \<and> \<not> list_ex (\<lambda>s. s = ''..'') (split (trimPrefix p pre) ''/'') \<longleftrightarrow>
      (\<exists>segs. segs \<noteq> [] \<and> ''..'' \<notin> set segs \<and> (\<forall>s \<in> set segs. CHR ''/'' \<notin> set s) \<and> p = pre @ join segs ''/'')"
    for p pre
    by (auto simp: hasPrefix_iff no_dots_iff)
  show ?thesis
    unfolding validateURI_def below_def
    using path [of _ "trimRight _ ''/'' @ ''/''"]
    by (auto simp: Let_def split: sum.splits)
qed

lemma extraScopes_iff:
  "extraScopes a r \<longleftrightarrow> (\<exists>s. s \<noteq> [] \<and> s \<in> set (split a '','') \<and> s \<in> set (split r '',''))"
  by (auto simp: extraScopes_def list_ex_iff)

end
