(* ===== verification/OAuth_Server.thy ===== *)
theory OAuth_Server
  imports OAuth_Data
begin

text \<open>
  The handlers of the OAuth2 server of \<open>oauth2_server.go\<close> and the registration of users of
  \<open>accounts.go\<close>. A handler runs on a state with the key-value store and a counter of the readings of
  the clock and of the random source; its result is a value or a panic together with the state, so
  what was written before a panic stays written. Errors of the store, of JSON, of the random source
  and of password hashes are values of \<open>oauth_error\<close>. The theory \<open>OAuth_Safety\<close> proves what they do.
\<close>

section \<open>Constants\<close>

definition clientPrefix :: string where
  "clientPrefix = ''/client/''"

definition userPrefix :: string where
  "userPrefix = ''/user/''"

definition grantPrefix :: string where
  "grantPrefix = ''/grant/token/''"

definition grantAccessPrefix :: string where
  "grantAccessPrefix = ''/grant/access_token/''"

definition grantRefreshPrefix :: string where
  "grantRefreshPrefix = ''/grant/refresh_token/''"

definition tokenPrefix :: string where
  "tokenPrefix = ''/token/''"

definition csrfPrefix :: string where
  "csrfPrefix = ''/csrf/''"

text \<open>The errors a response names, with their descriptions.\<close>

datatype oauth2Errkey =
    InvalidRequest | UnauthorizedClient | AccessDenied | UnsupportedResponseType | InvalidScope
  | ServerError | TemporarilyUnavailable | UnsupportedGrantType | InvalidGrant | InvalidClient

fun errkey_String :: "oauth2Errkey \<Rightarrow> string" where
  "errkey_String InvalidRequest = ''invalid_request''"
| "errkey_String UnauthorizedClient = ''unauthorized_client''"
| "errkey_String AccessDenied = ''access_denied''"
| "errkey_String UnsupportedResponseType = ''unsupported_response_type''"
| "errkey_String InvalidScope = ''invalid_scope''"
| "errkey_String ServerError = ''server_error''"
| "errkey_String TemporarilyUnavailable = ''temporarily_unavailable''"
| "errkey_String UnsupportedGrantType = ''unsupported_grant_type''"
| "errkey_String InvalidGrant = ''invalid_grant''"
| "errkey_String InvalidClient = ''invalid_client''"

fun getOauth2Err :: "oauth2Errkey \<Rightarrow> string" where
  "getOauth2Err InvalidRequest =
     ''The request is missing a required parameter, includes an invalid parameter value, includes a parameter more than once, or is otherwise malformed.''"
| "getOauth2Err UnauthorizedClient =
     ''The client is not authorized to request a token using this method.''"
| "getOauth2Err AccessDenied =
     ''The resource owner or authorization server denied the request.''"
| "getOauth2Err UnsupportedResponseType =
     ''The authorization server does not support obtaining a token using this method.''"
| "getOauth2Err InvalidScope =
     ''The requested scope is invalid, unknown, or malformed.''"
| "getOauth2Err ServerError =
     ''The authorization server encountered an unexpected condition that prevented it from fulfilling the request.''"
| "getOauth2Err TemporarilyUnavailable =
     ''The authorization server is currently unable to handle the request due to a temporary overloading or maintenance of the server.''"
| "getOauth2Err UnsupportedGrantType =
     ''The authorization grant type is not supported by the authorization server.''"
| "getOauth2Err InvalidGrant =
     ''The provided authorization grant (e.g., authorization code, resource owner credentials) or refresh token is invalid, expired, revoked, does not match the redirection URI used in the authorization request, or was issued to another client.''"
| "getOauth2Err InvalidClient =
     ''Client authentication failed (e.g., unknown client, no client authentication included, or unsupported authentication method).''"

section \<open>The server and its state\<close>

record oauth2Session =
  Session_Path :: string
  Session_MaxAge :: int
  Session_Domain :: string
  Session_Secure :: bool
  Session_HTTPOnly :: bool
  Session_Name :: string
  Session_SameSite :: int

record oauth2Option =
  RedirectSeparator :: string
  AuthorizationExpire :: int
  AccessExpire :: int
  AllowGetAccess :: bool
  AllowedAccessType :: "string list"
  TokenType :: string
  ProviderName :: string
  AuthEndpoint :: string
  TokenEndpoint :: string
  InfoEndpoint :: string
  Session :: oauth2Session
  CsrfSecret :: "string option"

definition oauth2Option_init :: "oauth2Option \<Rightarrow> oauth2Option" where
  "oauth2Option_init p =
     p\<lparr>AllowedAccessType :=
         [''authorization_code'', ''refresh_token'', ''password'', ''client_credentials'', ''assertion''],
       TokenType := ''Bearer'', AuthorizationExpire := 200, AccessExpire := 200,
       AuthEndpoint := ''/authorize'', TokenEndpoint := ''/tokens'', InfoEndpoint := ''/info''\<rparr>"

definition accessAllowed :: "oauth2Option \<Rightarrow> string \<Rightarrow> bool" where
  "accessAllowed p grantType \<longleftrightarrow> list_ex (\<lambda>v. v = grantType) (AllowedAccessType p)"

text \<open>
  The environment: the random bytes and the time at each reading, the password hash \<open>bcrypt\<close>, the
  text form of JSON and the URL functions.
\<close>

record oauth_env =
  Rand :: "nat \<Rightarrow> nat \<Rightarrow> string + string"
  Clock :: "nat \<Rightarrow> int"
  CompareHash :: "string \<Rightarrow> string \<Rightarrow> string option"
  GenerateHash :: "string \<Rightarrow> string + string"
  json :: json_env
  urls :: url_env

record 'kv oauth2 =
  kvs :: "'kv kvStore"
  redirectSeparator :: string
  oopts :: oauth2Option

record 'kv ostate =
  kv :: 'kv
  events :: nat

type_synonym ('kv, 'a) act = "'kv ostate \<Rightarrow> 'a go \<times> 'kv ostate"

definition ret :: "'a \<Rightarrow> ('kv, 'a) act" where
  "ret a s = (Inr a, s)"

definition throw :: "panic \<Rightarrow> ('kv, 'a) act" where
  "throw p s = (Inl p, s)"

definition abind :: "('kv, 'a) act \<Rightarrow> ('a \<Rightarrow> ('kv, 'b) act) \<Rightarrow> ('kv, 'b) act" where
  "abind m f s = (case m s of (Inl p, s') \<Rightarrow> (Inl p, s') | (Inr a, s') \<Rightarrow> f a s')"

text \<open>Sequencing of calls that return an error or a value: \<open>if err != nil { return err }\<close>.\<close>

definition ebind :: "('kv, 'e + 'a) act \<Rightarrow> ('a \<Rightarrow> ('kv, 'e + 'b) act) \<Rightarrow> ('kv, 'e + 'b) act" where
  "ebind m f = abind m (\<lambda>r. case r of Inl e \<Rightarrow> ret (Inl e) | Inr a \<Rightarrow> f a)"

text \<open>The same with a handler for the error.\<close>

definition on_err ::
  "('kv, 'e + 'a) act \<Rightarrow> ('e \<Rightarrow> ('kv, 'b) act) \<Rightarrow> ('a \<Rightarrow> ('kv, 'b) act) \<Rightarrow> ('kv, 'b) act" where
  "on_err m h f = abind m (\<lambda>r. case r of Inl e \<Rightarrow> h e | Inr a \<Rightarrow> f a)"

definition tnow :: "oauth_env \<Rightarrow> ('kv, int) act" where
  "tnow E s = (Inr (Clock E (events s)), s\<lparr>events := events s + 1\<rparr>)"

definition rand_Read :: "oauth_env \<Rightarrow> nat \<Rightarrow> ('kv, oauth_error + string) act" where
  "rand_Read E n s = (Inr (map_sum RandErr id (Rand E (events s) n)), s\<lparr>events := events s + 1\<rparr>)"

definition get_key :: "'kv oauth2 \<Rightarrow> string \<Rightarrow> ('kv, oauth_error + string) act" where
  "get_key srv k s = (Inr (map_sum KvErr id (store_get (kvs srv) (kv s) k)), s)"

definition set_key :: "'kv oauth2 \<Rightarrow> string \<Rightarrow> string \<Rightarrow> ('kv, oauth_error + unit) act" where
  "set_key srv k v s =
     (case store_set (kvs srv) (kv s) k v of
        (m, e) \<Rightarrow> (Inr (case e of None \<Rightarrow> Inr () | Some e \<Rightarrow> Inl (KvErr e)), s\<lparr>kv := m\<rparr>))"

definition remove_key :: "'kv oauth2 \<Rightarrow> string \<Rightarrow> ('kv, oauth_error + unit) act" where
  "remove_key srv k s =
     (case store_remove (kvs srv) (kv s) k of
        (m, e) \<Rightarrow> (Inr (case e of None \<Rightarrow> Inr () | Some e \<Rightarrow> Inl (KvErr e)), s\<lparr>kv := m\<rparr>))"

text \<open>\<open>encoding/hex\<close>.\<close>

definition hex_digit :: "nat \<Rightarrow> char" where
  "hex_digit n = (if n < 10 then char_of (48 + n) else char_of (87 + n))"

definition EncodeToString :: "string \<Rightarrow> string" where
  "EncodeToString b = concat (map (\<lambda>c. [hex_digit (of_char c div 16), hex_digit (of_char c mod 16)]) b)"

definition generate :: "oauth_env \<Rightarrow> ('kv, oauth_error + string) act" where
  "generate E = ebind (rand_Read E 256) (\<lambda>b. ret (Inr (EncodeToString b)))"

definition generateCSRFToken :: "oauth_env \<Rightarrow> ('kv, oauth_error + string) act" where
  "generateCSRFToken E = ebind (rand_Read E 32) (\<lambda>b. ret (Inr (EncodeToString b)))"

definition createClientID :: "oauth_env \<Rightarrow> ('kv, string) act" where
  "createClientID E =
     on_err (rand_Read E 256) (\<lambda>e. throw (Explicit (case e of RandErr m \<Rightarrow> m | _ \<Rightarrow> []))) (\<lambda>b. ret (EncodeToString b))"

text \<open>\<open>init\<close>: the secret against request forgery.\<close>

definition oauth2_init :: "oauth_env \<Rightarrow> 'kv oauth2 \<Rightarrow> oauth2Option \<Rightarrow> ('kv, oauth_error + 'kv oauth2) act" where
  "oauth2_init E srv p =
     abind (get_key srv csrfPrefix) (\<lambda>r.
       case r of
         Inl e \<Rightarrow>
           if e \<noteq> KvErr ErrKeyNotFound then ret (Inl e)
           else (case CsrfSecret p of
                   Some c \<Rightarrow> ret (Inr (srv\<lparr>oopts := p\<rparr>))
                 | None \<Rightarrow>
                     ebind (rand_Read E 32) (\<lambda>b.
                       ebind (set_key srv csrfPrefix b) (\<lambda>_.
                         ret (Inr (srv\<lparr>oopts := p\<lparr>CsrfSecret := Some b\<rparr>\<rparr>)))))
       | Inr csrf \<Rightarrow>
           (case CsrfSecret p of
              Some c \<Rightarrow>
                if csrf \<noteq> c
                then ebind (set_key srv csrfPrefix c) (\<lambda>_. ret (Inr (srv\<lparr>oopts := p\<rparr>)))
                else ret (Inr (srv\<lparr>oopts := p\<rparr>))
            | None \<Rightarrow> ret (Inr (srv\<lparr>oopts := p\<lparr>CsrfSecret := Some csrf\<rparr>\<rparr>))))"

section \<open>Responses\<close>

datatype dval = DStr string | DInt int

text \<open>The context of a response; its headers are those that \<open>init\<close> adds.\<close>

record oauth2Context =
  ctx_redirect :: bool
  ctx_statusCode :: int
  ctx_statusText :: string
  ctx_url :: string
  ctx_data :: "string \<rightharpoonup> dval"
  ctx_headers :: "(string \<times> string) list"
  ctx_hasError :: bool
  ctx_errID :: string
  ctx_internalErr :: "oauth_error option"
  ctx_inFragment :: bool

definition ctx_init :: oauth2Context where
  "ctx_init =
     \<lparr>ctx_redirect = False, ctx_statusCode = 200, ctx_statusText = [], ctx_url = [], ctx_data = Map.empty,
      ctx_headers =
        [(''Cache-Control'', ''no-cache, no-store, max-age=0, must-revalidate''), (''Pragma'', ''no-cache''),
         (''Expires'', ''Fri, 01 Jan 1990 00:00:00 GMT'')],
      ctx_hasError = False, ctx_errID = [], ctx_internalErr = None, ctx_inFragment = False\<rparr>"

definition clearData :: "oauth2Context \<Rightarrow> oauth2Context" where
  "clearData ctx = ctx\<lparr>ctx_data := Map.empty\<rparr>"

definition setErrURI :: "oauth2Errkey \<Rightarrow> string \<Rightarrow> string \<Rightarrow> string \<Rightarrow> oauth2Context \<Rightarrow> oauth2Context" where
  "setErrURI key desc uri state ctx =
     (let desc = (if desc = [] then getOauth2Err key else desc);
          ctx = ctx\<lparr>ctx_hasError := True, ctx_errID := errkey_String key\<rparr>;
          ctx = (if ctx_statusCode ctx \<noteq> 200 then ctx\<lparr>ctx_statusText := desc\<rparr> else ctx);
          ctx = clearData ctx;
          ctx = ctx\<lparr>ctx_data := (ctx_data ctx)(''error'' \<mapsto> DStr (errkey_String key),
                  ''error_description'' \<mapsto> DStr desc, ''error_uri'' \<mapsto> DStr uri)\<rparr>
      in if state \<noteq> [] then ctx\<lparr>ctx_data := (ctx_data ctx)(''state'' \<mapsto> DStr state)\<rparr> else ctx)"

definition setErrState :: "oauth2Errkey \<Rightarrow> string \<Rightarrow> string \<Rightarrow> oauth2Context \<Rightarrow> oauth2Context" where
  "setErrState key uri state ctx = setErrURI key [] uri state ctx"

definition setRedirect :: "string \<Rightarrow> oauth2Context \<Rightarrow> oauth2Context" where
  "setRedirect uri ctx = ctx\<lparr>ctx_redirect := True, ctx_url := uri\<rparr>"

text \<open>\<open>fmt.Sprint\<close> of a value of the response.\<close>

fun Sprint :: "dval \<Rightarrow> string" where
  "Sprint (DStr s) = s"
| "Sprint (DInt i) = Itoa i"

definition getRedirectURL :: "url_env \<Rightarrow> oauth2Context \<Rightarrow> oauth_error + string" where
  "getRedirectURL U ctx =
     (if \<not> ctx_redirect ctx then Inl NotRedirect
      else case url_Parse U (ctx_url ctx) of
        Inl err \<Rightarrow> Inl (UrlErr err)
      | Inr link \<Rightarrow>
          let q = (\<lambda>k. case ctx_data ctx k of Some v \<Rightarrow> [Sprint v] | None \<Rightarrow> ParseQuery U (u_query link) k) in
          if ctx_inFragment ctx then
            (case QueryUnescape U (Encode U q) of
               Inl err \<Rightarrow> Inl (UrlErr err)
             | Inr f \<Rightarrow> Inr (url_String U (link\<lparr>u_query := [], u_fragment := f\<rparr>)))
          else Inr (url_String U (link\<lparr>u_query := Encode U q\<rparr>)))"

text \<open>What reaches the client: status 0 when the handler returned without writing one.\<close>

datatype body = NoBody | JsonBody "string \<rightharpoonup> dval" | Page string string

record response =
  status :: int
  headers :: "(string \<times> string) list"
  rbody :: body

type_synonym reply = "response \<times> oauth_error option"

definition commit :: "oauth_env \<Rightarrow> oauth2Context \<Rightarrow> reply" where
  "commit E ctx =
     (if ctx_redirect ctx then
        (case getRedirectURL (urls E) ctx of
           Inl err \<Rightarrow> (\<lparr>status = 0, headers = ctx_headers ctx, rbody = NoBody\<rparr>, Some err)
         | Inr link \<Rightarrow>
             (\<lparr>status = 302, headers = ctx_headers ctx @ [(''Location'', link)], rbody = NoBody\<rparr>, None))
      else
        (\<lparr>status = ctx_statusCode ctx, headers = ctx_headers ctx @ [(''Content-Type'', ''application/json'')],
          rbody = JsonBody (ctx_data ctx)\<rparr>, None))"

text \<open>The early return of the handlers: an error response with the cause kept in the context.\<close>

definition reject ::
  "oauth_env \<Rightarrow> oauth2Context \<Rightarrow> oauth2Errkey \<Rightarrow> string \<Rightarrow> oauth_error option \<Rightarrow> ('kv, reply) act" where
  "reject E ctx key state err = ret (commit E ((setErrState key [] state ctx)\<lparr>ctx_internalErr := err\<rparr>))"

section \<open>Documents in the store\<close>

definition marshalSet :: "oauth_env \<Rightarrow> 'kv oauth2 \<Rightarrow> string \<Rightarrow> jobj \<Rightarrow> ('kv, oauth_error + unit) act" where
  "marshalSet E srv key v =
     (case print_json (json E) v of Inl err \<Rightarrow> ret (Inl (JsonErr err)) | Inr b \<Rightarrow> set_key srv key b)"

definition unmarshal_as :: "oauth_env \<Rightarrow> (jobj \<Rightarrow> 'a option) \<Rightarrow> string \<Rightarrow> oauth_error + 'a" where
  "unmarshal_as E dec b =
     (case read_json (json E) b of
        Inl err \<Rightarrow> Inl (JsonErr err)
      | Inr d \<Rightarrow> (case dec d of None \<Rightarrow> Inl (JsonErr ''cannot unmarshal'') | Some x \<Rightarrow> Inr x))"

text \<open>Reading a document: one that is marked deleted counts as absent.\<close>

definition get_doc ::
  "oauth_env \<Rightarrow> 'kv oauth2 \<Rightarrow> (jobj \<Rightarrow> 'a option) \<Rightarrow> ('a \<Rightarrow> int) \<Rightarrow> string \<Rightarrow> ('kv, oauth_error + 'a) act" where
  "get_doc E srv dec deletedAt key =
     ebind (get_key srv key) (\<lambda>b.
       ebind (ret (unmarshal_as E dec b)) (\<lambda>c.
         if deletedAt c \<noteq> 0 then ret (Inl (KvErr ErrKeyNotFound)) else ret (Inr c)))"

definition get_client :: "oauth_env \<Rightarrow> 'kv oauth2 \<Rightarrow> string \<Rightarrow> ('kv, oauth_error + oauth2Client) act" where
  "get_client E srv key = get_doc E srv json_client cl_DeletedAt (joinSlice clientPrefix key)"

definition grantBy :: "oauth_env \<Rightarrow> 'kv oauth2 \<Rightarrow> string \<Rightarrow> string \<Rightarrow> ('kv, oauth_error + oauth2Grant) act" where
  "grantBy E srv pre key = get_doc E srv json_grant gr_DeletedAt (joinSlice pre key)"

definition get_grant :: "oauth_env \<Rightarrow> 'kv oauth2 \<Rightarrow> string \<Rightarrow> ('kv, oauth_error + oauth2Grant) act" where
  "get_grant E srv key = grantBy E srv grantPrefix key"

definition grantByAccess :: "oauth_env \<Rightarrow> 'kv oauth2 \<Rightarrow> string \<Rightarrow> ('kv, oauth_error + oauth2Grant) act" where
  "grantByAccess E srv accessToken = grantBy E srv grantRefreshPrefix accessToken"

definition grantByRefresh :: "oauth_env \<Rightarrow> 'kv oauth2 \<Rightarrow> string \<Rightarrow> ('kv, oauth_error + oauth2Grant) act" where
  "grantByRefresh E srv refreshToken = grantBy E srv grantRefreshPrefix refreshToken"

definition get_token :: "oauth_env \<Rightarrow> 'kv oauth2 \<Rightarrow> string \<Rightarrow> ('kv, oauth_error + oauth2Token) act" where
  "get_token E srv key = get_doc E srv json_token tk_DeletedAt (joinSlice tokenPrefix key)"

text \<open>\<open>user\<close> returns a nil user and no error for a user it has found.\<close>

definition get_user :: "oauth_env \<Rightarrow> 'kv oauth2 \<Rightarrow> string \<Rightarrow> ('kv, oauth_error + oauth2User option) act" where
  "get_user E srv email =
     ebind (get_doc E srv json_user us_DeletedAt (joinSlice userPrefix email)) (\<lambda>u. ret (Inr None))"

definition compareHashedString :: "oauth_env \<Rightarrow> string \<Rightarrow> string \<Rightarrow> oauth_error + unit" where
  "compareHashedString E hashed str =
     (case CompareHash E hashed str of None \<Rightarrow> Inr () | Some e \<Rightarrow> Inl (HashErr e))"

definition valid :: "oauth_env \<Rightarrow> 'kv oauth2 \<Rightarrow> string \<Rightarrow> string \<Rightarrow> ('kv, oauth_error + oauth2User) act" where
  "valid E srv username password =
     ebind (get_user E srv username) (\<lambda>u.
       case u of
         None \<Rightarrow> throw NilPointer
       | Some usr \<Rightarrow>
           ebind (ret (compareHashedString E (us_Password usr) password)) (\<lambda>_. ret (Inr usr)))"

definition saveUser :: "oauth_env \<Rightarrow> 'kv oauth2 \<Rightarrow> oauth2User \<Rightarrow> ('kv, oauth_error + unit) act" where
  "saveUser E srv usr =
     abind (tnow E) (\<lambda>now.
       marshalSet E srv (joinSlice userPrefix (us_Email usr)) (user_json (usr\<lparr>us_UpdatedAt := now\<rparr>)))"

definition saveClient :: "oauth_env \<Rightarrow> 'kv oauth2 \<Rightarrow> oauth2Client \<Rightarrow> ('kv, oauth_error + unit) act" where
  "saveClient E srv c =
     abind (if cl_ID c = [] then createClientID E else ret (cl_ID c)) (\<lambda>i.
       abind (tnow E) (\<lambda>now.
         marshalSet E srv (joinSlice clientPrefix i) (client_json (c\<lparr>cl_ID := i, cl_UpdatedAt := now\<rparr>))))"

text \<open>\<open>saveToken\<close> writes under the prefix of clients.\<close>

definition saveToken :: "oauth_env \<Rightarrow> 'kv oauth2 \<Rightarrow> oauth2Token \<Rightarrow> ('kv, oauth_error + unit) act" where
  "saveToken E srv c =
     abind (tnow E) (\<lambda>now.
       marshalSet E srv (joinSlice clientPrefix (tk_Code c)) (token_json (c\<lparr>tk_UpdatedAt := now\<rparr>)))"

definition saveGrant :: "oauth_env \<Rightarrow> 'kv oauth2 \<Rightarrow> oauth2Grant \<Rightarrow> ('kv, oauth_error + unit) act" where
  "saveGrant E srv c =
     abind (tnow E) (\<lambda>now.
       case print_json (json E) (grant_json (c\<lparr>gr_UpdatedAt := now\<rparr>)) of
         Inl err \<Rightarrow> ret (Inl (JsonErr err))
       | Inr b \<Rightarrow>
           ebind (if gr_AccessToken c \<noteq> [] then set_key srv (joinSlice grantAccessPrefix (gr_AccessToken c)) b
                  else ret (Inr ())) (\<lambda>_.
             ebind (if gr_RefreshToken c \<noteq> [] then set_key srv (joinSlice grantRefreshPrefix (gr_RefreshToken c)) b
                    else ret (Inr ())) (\<lambda>_.
               set_key srv (joinSlice grantPrefix (gr_Code c)) b)))"

definition removeToken :: "oauth_env \<Rightarrow> 'kv oauth2 \<Rightarrow> string \<Rightarrow> ('kv, oauth_error + unit) act" where
  "removeToken E srv key =
     ebind (get_token E srv key) (\<lambda>tok.
       if tk_DeletedAt tok \<noteq> 0 then ret (Inr ())
       else abind (tnow E) (\<lambda>now.
              marshalSet E srv (joinSlice tokenPrefix key) (token_json (tok\<lparr>tk_DeletedAt := now\<rparr>))))"

text \<open>One of the two tokens of a grant that is removed.\<close>

definition drop_token :: "oauth_env \<Rightarrow> 'kv oauth2 \<Rightarrow> string \<Rightarrow> string \<Rightarrow> ('kv, oauth_error + unit) act" where
  "drop_token E srv pre tok =
     (if tok \<noteq> [] then ebind (remove_key srv (joinSlice pre tok)) (\<lambda>_. removeToken E srv tok) else ret (Inr ()))"

definition removeGrant :: "oauth_env \<Rightarrow> 'kv oauth2 \<Rightarrow> string \<Rightarrow> ('kv, oauth_error + unit) act" where
  "removeGrant E srv key =
     ebind (get_grant E srv key) (\<lambda>g.
       if gr_DeletedAt g \<noteq> 0 then ret (Inr ())
       else abind (tnow E) (\<lambda>now.
         let g = g\<lparr>gr_DeletedAt := now\<rparr> in
         ebind (drop_token E srv grantAccessPrefix (gr_AccessToken g)) (\<lambda>_.
           ebind (drop_token E srv grantRefreshPrefix (gr_RefreshToken g)) (\<lambda>_.
             marshalSet E srv (joinSlice grantPrefix key) (grant_json g)))))"

section \<open>Issuing tokens\<close>

definition clientWithSecret :: "oauth_env \<Rightarrow> 'kv oauth2 \<Rightarrow> string \<times> string \<Rightarrow> ('kv, oauth_error + oauth2Client) act" where
  "clientWithSecret E srv basic =
     ebind (get_client E srv (fst basic)) (\<lambda>c.
       ebind (ret (compareHashedString E (cl_Secret c) (snd basic))) (\<lambda>_. ret (Inr c)))"

definition grantByClient :: "oauth_env \<Rightarrow> 'kv oauth2 \<Rightarrow> oauth2Client \<Rightarrow> string \<Rightarrow> ('kv, oauth_error + oauth2Grant) act" where
  "grantByClient E srv c code =
     (if list_ex (\<lambda>v. v = code) (cl_Grants c) then get_grant E srv code else ret (Inl (KvErr ErrKeyNotFound)))"

definition clientWithCode :: "oauth_env \<Rightarrow> 'kv oauth2 \<Rightarrow> string \<Rightarrow> ('kv, oauth_error + oauth2Client) act" where
  "clientWithCode E srv code = ebind (get_token E srv code) (\<lambda>c. get_client E srv (tk_ClientID c))"

text \<open>The documents that \<open>finalize\<close> makes from a grant, and what it puts into the response.\<close>

definition issued_token :: "oauth2Grant \<Rightarrow> string \<Rightarrow> oauth2Token" where
  "issued_token g code = zero_token\<lparr>tk_Code := code, tk_ClientID := gr_ClientID g, tk_UserID := gr_UserID g\<rparr>"

definition issued_grant :: "'kv oauth2 \<Rightarrow> oauth2Grant \<Rightarrow> string \<Rightarrow> string \<Rightarrow> oauth2Grant" where
  "issued_grant srv g access refresh =
     zero_grant\<lparr>gr_ClientID := gr_ClientID g, gr_UserID := gr_UserID g, gr_RedirectURL := gr_RedirectURL g,
       gr_Scope := gr_Scope g, gr_State := gr_State g, gr_ExpiresIn := AccessExpire (oopts srv),
       gr_AccessToken := access, gr_RefreshToken := refresh\<rparr>"

definition issued_data :: "'kv oauth2 \<Rightarrow> oauth2Grant \<Rightarrow> oauth2Context \<Rightarrow> oauth2Context" where
  "issued_data srv access ctx =
     (let d = (ctx_data ctx)(''access_token'' \<mapsto> DStr (gr_AccessToken access),
                ''token_type'' \<mapsto> DStr (TokenType (oopts srv)), ''expires_in'' \<mapsto> DInt (gr_ExpiresIn access),
                ''refresh_token'' \<mapsto> DStr (gr_RefreshToken access))
      in ctx\<lparr>ctx_data := (if gr_Scope access \<noteq> [] then d(''scope'' \<mapsto> DStr (gr_Scope access)) else d)\<rparr>)"

definition finalize ::
  "oauth_env \<Rightarrow> 'kv oauth2 \<Rightarrow> oauth2Grant \<Rightarrow> oauth2Context \<Rightarrow> ('kv, oauth2Context \<times> oauth_error option) act" where
  "finalize E srv g ctx =
     (let failed = (\<lambda>e. ret (ctx, Some e)) in
      on_err (generate E) failed (\<lambda>code.
        on_err (saveToken E srv (issued_token g code)) failed (\<lambda>_.
          on_err (generate E) failed (\<lambda>code2.
            on_err (saveToken E srv (issued_token g code2)) failed (\<lambda>_.
              let access = issued_grant srv g code code2 in
              on_err (saveGrant E srv access) failed (\<lambda>_.
                let ctx = issued_data srv access ctx in
                if gr_Code g \<noteq> []
                then abind (removeGrant E srv (gr_Code g)) (\<lambda>r.
                       ret (ctx, case r of Inl e \<Rightarrow> Some e | Inr _ \<Rightarrow> None))
                else ret (ctx, None)))))))"

text \<open>The end of every branch that issues tokens.\<close>

definition finish ::
  "oauth_env \<Rightarrow> 'kv oauth2 \<Rightarrow> oauth2Grant \<Rightarrow> oauth2Context \<Rightarrow> string \<Rightarrow> ('kv, reply) act" where
  "finish E srv g ctx state =
     abind (finalize E srv g ctx) (\<lambda>(ctx, err).
       case err of
         Some e \<Rightarrow> reject E ctx ServerError state (Some e)
       | None \<Rightarrow> ret (commit E (if state \<noteq> [] then ctx\<lparr>ctx_data := (ctx_data ctx)(''state'' \<mapsto> DStr state)\<rparr> else ctx)))"

section \<open>Handlers\<close>

text \<open>A request: its method, form values (empty when absent), the error of parsing the form, the
  credentials of \<open>BasicAuth\<close>, the Authorization header and the URL.\<close>

record request =
  r_Method :: string
  r_Form :: "string \<Rightarrow> string"
  r_FormErr :: "string option"
  r_BasicAuth :: "(string \<times> string) option"
  r_Authorization :: string
  r_URL :: string

definition basicAuth_init :: "request \<Rightarrow> (string \<times> string) option" where
  "basicAuth_init r =
     (if r_Form r ''client_secret'' \<noteq> [] \<and> r_Form r ''client_id'' \<noteq> []
      then Some (r_Form r ''client_id'', r_Form r ''client_secret'') else r_BasicAuth r)"

text \<open>\<open>strings.SplitN(s, " ", 2)\<close>.\<close>

definition split_space :: "string \<Rightarrow> string list" where
  "split_space s =
     (if CHR '' '' \<in> set s
      then [takeWhile (\<lambda>c. c \<noteq> CHR '' '') s, tl (dropWhile (\<lambda>c. c \<noteq> CHR '' '') s)] else [s])"

definition bearerAuth_init :: "request \<Rightarrow> string option go" where
  "bearerAuth_init r =
     (let authHeader = r_Authorization r; authCode = r_Form r ''code'' in
      if authHeader = [] \<and> authCode = [] then Inr None
      else if authHeader \<noteq> [] then
        (let components = split_space authHeader in
         if (length components \<noteq> 2 \<or> components ! 0 \<noteq> ''Bearer'') \<and> authCode = [] then Inr None
         else gbind (go_index components 1) (\<lambda>c. Inr (Some c)))
      else Inr (Some authCode))"

text \<open>The branch for response type \<open>code\<close>, and that for \<open>token\<close>, of \<open>authorize\<close>.\<close>

definition authorize_code ::
  "oauth_env \<Rightarrow> 'kv oauth2 \<Rightarrow> oauth2Context \<Rightarrow> oauth2Client \<Rightarrow> oauth2User \<Rightarrow> string \<Rightarrow> string \<Rightarrow> ('kv, reply) act" where
  "authorize_code E srv ctx client usr scope state =
     (let failed = (\<lambda>e. reject E ctx ServerError state (Some e)) in
      on_err (generate E) failed (\<lambda>code.
        let g = zero_grant\<lparr>gr_Code := code, gr_Scope := scope, gr_State := state, gr_ClientID := cl_ID client,
                  gr_UserID := us_Email usr\<rparr> in
        on_err (saveGrant E srv g) failed (\<lambda>_.
          on_err (saveUser E srv (usr\<lparr>us_Grants := us_Grants usr @ [gr_Code g]\<rparr>)) failed (\<lambda>_.
            on_err (saveClient E srv (client\<lparr>cl_Grants := cl_Grants client @ [gr_Code g]\<rparr>)) failed (\<lambda>_.
              ret (commit E (ctx\<lparr>ctx_data := (ctx_data ctx)(''code'' \<mapsto> DStr (gr_Code g), ''state'' \<mapsto> DStr state)\<rparr>)))))))"

definition authorize_token ::
  "oauth_env \<Rightarrow> 'kv oauth2 \<Rightarrow> oauth2Context \<Rightarrow> oauth2Client \<Rightarrow> oauth2User \<Rightarrow> string \<Rightarrow> string \<Rightarrow> string \<Rightarrow>
     ('kv, reply) act" where
  "authorize_token E srv ctx client usr scope state redirectURI =
     on_err (generate E) (\<lambda>e. reject E ctx ServerError state (Some e)) (\<lambda>code.
       finish E srv
         (zero_grant\<lparr>gr_Code := code, gr_Type := ''__implicit'', gr_Scope := scope, gr_State := state,
            gr_RedirectURL := redirectURI, gr_ClientID := cl_ID client, gr_UserID := us_Email usr\<rparr>)
         (ctx\<lparr>ctx_inFragment := True\<rparr>) state)"

text \<open>\<open>authorize\<close> from the login on; \<open>ctx\<close> already redirects.\<close>

definition authorize_login ::
  "oauth_env \<Rightarrow> 'kv oauth2 \<Rightarrow> request \<Rightarrow> oauth2Context \<Rightarrow> oauth2Client \<Rightarrow> string \<Rightarrow> ('kv, reply) act" where
  "authorize_login E srv r ctx client redirectURI =
     abind (if r_Method r = ''POST''
            then abind (valid E srv (r_Form r ''login_username'') (r_Form r ''login_password'')) (\<lambda>u.
                   ret (case u of Inl e \<Rightarrow> None | Inr usr \<Rightarrow> Some usr))
            else ret None) (\<lambda>u.
       case u of
         None \<Rightarrow> ret (\<lparr>status = 200, headers = [], rbody = Page ''oauth/login.html'' (r_URL r)\<rparr>, None)
       | Some usr \<Rightarrow>
           let reqTyp = r_Form r ''response_type''; scope = r_Form r ''scope''; state = r_Form r ''state'' in
           if reqTyp = ''code'' then authorize_code E srv ctx client usr scope state
           else if reqTyp = ''token'' then authorize_token E srv ctx client usr scope state redirectURI
           else reject E ctx UnsupportedResponseType state None)"

definition authorize :: "oauth_env \<Rightarrow> 'kv oauth2 \<Rightarrow> request \<Rightarrow> ('kv, reply) act" where
  "authorize E srv r =
     (case QueryUnescape (urls E) (r_Form r ''redirect_url'') of
        Inl err \<Rightarrow> reject E ctx_init InvalidRequest [] (Some (UrlErr err))
      | Inr redirectURI \<Rightarrow>
          let state = r_Form r ''state'' in
          on_err (get_client E srv (r_Form r ''client_id''))
            (\<lambda>e. reject E ctx_init (if e = KvErr ErrKeyNotFound then UnauthorizedClient else ServerError) state (Some e))
            (\<lambda>client.
              if cl_RedirectURL client = [] then reject E ctx_init UnauthorizedClient state None
              else
                let redirectURI =
                  (if redirectURI = [] \<and> firstURI (cl_RedirectURL client) (redirectSeparator srv) = cl_RedirectURL client
                   then firstURI (cl_RedirectURL client) (redirectSeparator srv) else redirectURI) in
                case validateURIList (urls E) (cl_RedirectURL client) redirectURI (redirectSeparator srv) of
                  Some e \<Rightarrow> reject E ctx_init InvalidRequest state (Some e)
                | None \<Rightarrow> authorize_login E srv r (setRedirect redirectURI ctx_init) client redirectURI))"

text \<open>The grant types of \<open>access\<close>, one definition each, after the client's credentials were read.\<close>

definition access_code ::
  "oauth_env \<Rightarrow> 'kv oauth2 \<Rightarrow> request \<Rightarrow> string \<times> string \<Rightarrow> ('kv, reply) act" where
  "access_code E srv r basic =
     (let code = r_Form r ''code'' in
      if code = [] then reject E ctx_init UnsupportedGrantType [] None
      else
        on_err (clientWithSecret E srv basic) (\<lambda>e. reject E ctx_init UnauthorizedClient [] (Some e)) (\<lambda>client.
          on_err (grantByClient E srv client code) (\<lambda>e. reject E ctx_init InvalidGrant [] (Some e)) (\<lambda>g.
            abind (tnow E) (\<lambda>now.
              if grant_expired g now then reject E ctx_init InvalidGrant [] None
              else
                let redirectURI =
                  (if r_Form r ''redirect_url'' = []
                   then firstURI (cl_RedirectURL client) (RedirectSeparator (oopts srv)) else r_Form r ''redirect_url'') in
                case validateURIList (urls E) (cl_RedirectURL client) redirectURI (RedirectSeparator (oopts srv)) of
                  Some e \<Rightarrow> reject E ctx_init InvalidRequest [] (Some e)
                | None \<Rightarrow> finish E srv g ctx_init []))))"

definition access_refresh ::
  "oauth_env \<Rightarrow> 'kv oauth2 \<Rightarrow> request \<Rightarrow> string \<times> string \<Rightarrow> ('kv, reply) act" where
  "access_refresh E srv r basic =
     (let refreshToken = r_Form r ''refresh_token'' in
      if refreshToken = [] then reject E ctx_init InvalidGrant [] None
      else
        on_err (clientWithSecret E srv basic) (\<lambda>e. reject E ctx_init UnauthorizedClient [] (Some e)) (\<lambda>client.
          on_err (get_grant E srv refreshToken) (\<lambda>e. reject E ctx_init InvalidGrant [] (Some e)) (\<lambda>g.
            if gr_ClientID g \<noteq> cl_ID client then reject E ctx_init UnauthorizedClient [] None
            else
              let scope = (if r_Form r ''scope'' = [] then gr_Scope g else r_Form r ''scope'') in
              if extraScopes (gr_Scope g) scope then reject E ctx_init AccessDenied [] None
              else finish E srv g ctx_init [])))"

definition access_password ::
  "oauth_env \<Rightarrow> 'kv oauth2 \<Rightarrow> request \<Rightarrow> string \<times> string \<Rightarrow> ('kv, reply) act" where
  "access_password E srv r basic =
     (let username = r_Form r ''username''; password = r_Form r ''password'' in
      if username = [] \<or> password = [] then reject E ctx_init InvalidGrant [] None
      else
        on_err (valid E srv username password) (\<lambda>e. reject E ctx_init InvalidGrant [] (Some e)) (\<lambda>usr.
          on_err (clientWithSecret E srv basic) (\<lambda>e. reject E ctx_init UnauthorizedClient [] (Some e)) (\<lambda>client.
            finish E srv
              (zero_grant\<lparr>gr_Scope := r_Form r ''scope'', gr_UserID := us_Email usr, gr_ClientID := cl_ID client\<rparr>)
              ctx_init [])))"

definition access_credentials ::
  "oauth_env \<Rightarrow> 'kv oauth2 \<Rightarrow> request \<Rightarrow> string \<times> string \<Rightarrow> ('kv, reply) act" where
  "access_credentials E srv r basic =
     on_err (clientWithSecret E srv basic) (\<lambda>e. reject E ctx_init UnauthorizedClient [] (Some e)) (\<lambda>client.
       finish E srv
         (zero_grant\<lparr>gr_Scope := r_Form r ''scope'', gr_ClientID := cl_ID client, gr_UserID := cl_UserID client\<rparr>)
         ctx_init [])"

definition access_assertion ::
  "oauth_env \<Rightarrow> 'kv oauth2 \<Rightarrow> request \<Rightarrow> string \<times> string \<Rightarrow> ('kv, reply) act" where
  "access_assertion E srv r basic =
     (if r_Form r ''assertion_type'' = [] \<or> r_Form r ''assertion'' = [] then reject E ctx_init InvalidGrant [] None
      else
        on_err (clientWithSecret E srv basic) (\<lambda>e. reject E ctx_init UnauthorizedClient [] (Some e)) (\<lambda>client.
          finish E srv
            (zero_grant\<lparr>gr_Scope := r_Form r ''scope'',
               gr_RedirectURL := firstURI (cl_RedirectURL client) (RedirectSeparator (oopts srv))\<rparr>)
            ctx_init []))"

definition access :: "oauth_env \<Rightarrow> 'kv oauth2 \<Rightarrow> request \<Rightarrow> ('kv, reply) act" where
  "access E srv r =
     (if r_Method r = ''GET'' \<and> \<not> AllowGetAccess (oopts srv) then
        reject E ctx_init InvalidRequest [] (Some (TextErr ''GET access not allowed''))
      else if r_Method r \<noteq> ''POST'' then
        reject E ctx_init InvalidRequest [] (Some (TextErr ''only POST methods are allowedallowed''))
      else
        case basicAuth_init r of
          None \<Rightarrow> reject E ctx_init InvalidClient [] None
        | Some basic \<Rightarrow>
            let typ = r_Form r ''grant_type'' in
            if \<not> accessAllowed (oopts srv) typ then reject E ctx_init UnsupportedGrantType [] None
            else if typ = ''authorization_code'' then access_code E srv r basic
            else if typ = ''refresh_token'' then access_refresh E srv r basic
            else if typ = ''password'' then access_password E srv r basic
            else if typ = ''client_credentials'' then access_credentials E srv r basic
            else if typ = ''assertion'' then access_assertion E srv r basic
            else reject E ctx_init UnsupportedGrantType [] None)"

definition info :: "oauth_env \<Rightarrow> 'kv oauth2 \<Rightarrow> request \<Rightarrow> ('kv, reply) act" where
  "info E srv r =
     (case r_FormErr r of
        Some err \<Rightarrow> reject E ctx_init InvalidRequest [] (Some (TextErr err))
      | None \<Rightarrow>
          (case bearerAuth_init r of
             Inl p \<Rightarrow> throw p
           | Inr None \<Rightarrow> reject E ctx_init InvalidRequest [] None
           | Inr (Some code) \<Rightarrow>
               if code = [] then reject E ctx_init InvalidRequest [] None
               else
                 on_err (clientWithCode E srv code) (\<lambda>e. reject E ctx_init UnauthorizedClient [] (Some e)) (\<lambda>client.
                   on_err (grantByAccess E srv code) (\<lambda>e. reject E ctx_init InvalidGrant [] (Some e)) (\<lambda>g.
                     if \<not> list_ex (\<lambda>h. h = gr_Code g) (cl_Grants client) then reject E ctx_init InvalidGrant [] None
                     else abind (tnow E) (\<lambda>now.
                       if grant_expired g now then reject E ctx_init InvalidGrant [] None
                       else
                         on_err (get_user E srv (gr_UserID g)) (\<lambda>e. reject E ctx_init InvalidGrant [] (Some e)) (\<lambda>u.
                           if gr_Scope g = ''email'' then
                             (case u of
                                None \<Rightarrow> throw NilPointer
                              | Some usr \<Rightarrow>
                                  ret (commit E (ctx_init\<lparr>ctx_data := [''email'' \<mapsto> DStr (us_Email usr)]\<rparr>)))
                           else reject E ctx_init InvalidGrant [] None))))))"

text \<open>\<open>register\<close> of \<open>accounts.go\<close>. Logging and the rendering of pages are left out: a page is its name.\<close>

definition e500 :: reply where
  "e500 = (\<lparr>status = 500, headers = [], rbody = Page ''errors/error.html'' ''500''\<rparr>, None)"

definition invalid_reply :: reply where
  "invalid_reply = (\<lparr>status = 200, headers = [], rbody = NoBody\<rparr>, None)"

definition register :: "oauth_env \<Rightarrow> 'kv oauth2 \<Rightarrow> request \<Rightarrow> ('kv, reply) act" where
  "register E srv r =
     (let email = r_Form r ''email''; password = r_Form r ''password''; again = r_Form r ''confirm_password'' in
      if r_FormErr r \<noteq> None then ret invalid_reply
      else if password = [] \<or> again = [] \<or> email = [] then ret invalid_reply
      else if password \<noteq> again then ret invalid_reply
      else
        case GenerateHash E password of
          Inl err \<Rightarrow> ret e500
        | Inr hash \<Rightarrow>
            abind (tnow E) (\<lambda>now.
              on_err
                (saveUser E srv
                   \<lparr>us_Email = email, us_Grants = [], us_Tokens = [], us_Clients = [], us_Password = hash,
                    us_CreatedAt = now, us_UpdatedAt = 0, us_DeletedAt = 0\<rparr>)
                (\<lambda>e. ret e500)
                (\<lambda>_. ret (\<lparr>status = 200, headers = [], rbody = Page ''oauth/register.html'' []\<rparr>, None))))"

end
