(* ===== verification/OAuth_Safety.thy ===== *)
theory OAuth_Safety
  imports OAuth_Server
begin

text \<open>
  What the OAuth2 server does over all requests: who can get a token, what a token is good for, that
  no authorization request is ever granted, and that an issued grant can be found again by its
  refresh token. The rules \<open>keeps\<close> carry a property of the state through the structure of a handler.
\<close>

section \<open>Which states an action reaches\<close>

text \<open>
  \<open>keeps P m\<close>: a property of states is kept by an action, whether it returns or panics. The rules
  follow the structure of the handlers.
\<close>

definition keeps :: "('kv ostate \<Rightarrow> bool) \<Rightarrow> ('kv, 'a) act \<Rightarrow> bool" where
  "keeps P m \<longleftrightarrow> (\<forall>s. P s \<longrightarrow> P (snd (m s)))"

named_theorems keeps \<open>rules for properties kept by an action\<close>

lemma keeps_ret [keeps]: "keeps P (ret a)"
  by (simp add: keeps_def ret_def)

lemma keeps_throw [keeps]: "keeps P (throw p)"
  by (simp add: keeps_def throw_def)

lemma keeps_abind [keeps]: "keeps P m \<Longrightarrow> (\<And>a. keeps P (f a)) \<Longrightarrow> keeps P (abind m f)"
  by (auto simp: keeps_def abind_def split: prod.splits sum.splits)

lemma keeps_branches [keeps]:
  "keeps P a \<Longrightarrow> keeps P b \<Longrightarrow> keeps P (if c then a else b)"
  "keeps P a \<Longrightarrow> (\<And>y. keeps P (f y)) \<Longrightarrow> keeps P (case x of None \<Rightarrow> a | Some y \<Rightarrow> f y)"
  "(\<And>e. keeps P (h e)) \<Longrightarrow> (\<And>y. keeps P (g y)) \<Longrightarrow> keeps P (case z of Inl e \<Rightarrow> h e | Inr y \<Rightarrow> g y)"
  "(\<And>u v. keeps P (k u v)) \<Longrightarrow> keeps P (case w of (u, v) \<Rightarrow> k u v)"
  "keeps P (l v) \<Longrightarrow> keeps P (let y = v in l y)"
  by (simp_all split: option.splits sum.splits prod.splits)

lemma keeps_ebind [keeps]: "keeps P m \<Longrightarrow> (\<And>a. keeps P (f a)) \<Longrightarrow> keeps P (ebind m f)"
  unfolding ebind_def by (intro keeps)

lemma keeps_on_err [keeps]:
  "keeps P m \<Longrightarrow> (\<And>e. keeps P (h e)) \<Longrightarrow> (\<And>a. keeps P (f a)) \<Longrightarrow> keeps P (on_err m h f)"
  unfolding on_err_def by (intro keeps)

lemma keeps_reject [keeps]: "keeps P (reject E ctx key state err)"
  by (simp add: reject_def keeps_ret)

lemma keeps_get [keeps]: "keeps P (get_key srv k)"
  by (simp add: keeps_def get_key_def)

lemma keeps_doc [keeps]: "keeps P (get_doc E srv dec del k)"
  unfolding get_doc_def by (intro keeps)

lemma keeps_reads [keeps]:
  "keeps P (get_client E srv i)" "keeps P (grantBy E srv pre i)" "keeps P (get_grant E srv i)"
  "keeps P (grantByAccess E srv i)" "keeps P (get_token E srv i)" "keeps P (get_user E srv i)"
  "keeps P (clientWithSecret E srv b)" "keeps P (clientWithCode E srv i)" "keeps P (grantByClient E srv c i)"
  by (simp_all add: get_client_def grantBy_def get_grant_def grantByAccess_def get_token_def get_user_def
      clientWithSecret_def clientWithCode_def grantByClient_def keeps)

lemmas action_defs = ret_def throw_def abind_def ebind_def on_err_def

text \<open>Reading a document as a function of the store: it neither changes the state nor panics.\<close>

definition read_doc ::
  "oauth_env \<Rightarrow> 'kv oauth2 \<Rightarrow> (jobj \<Rightarrow> 'a option) \<Rightarrow> ('a \<Rightarrow> int) \<Rightarrow> string \<Rightarrow> 'kv \<Rightarrow> oauth_error + 'a" where
  "read_doc E srv dec deletedAt key m =
     (case store_get (kvs srv) m key of
        Inl e \<Rightarrow> Inl (KvErr e)
      | Inr b \<Rightarrow>
          (case unmarshal_as E dec b of
             Inl e \<Rightarrow> Inl e
           | Inr c \<Rightarrow> if deletedAt c \<noteq> 0 then Inl (KvErr ErrKeyNotFound) else Inr c))"

lemma get_doc_read: "get_doc E srv dec del k s = (Inr (read_doc E srv dec del k (kv s)), s)"
  by (simp add: get_doc_def get_key_def read_doc_def action_defs split: sum.splits)

lemmas reads = get_doc_read get_client_def grantBy_def get_grant_def grantByAccess_def grantByRefresh_def get_token_def

lemma clientWithSecret_read:
  "clientWithSecret E srv b s =
     (Inr (case read_doc E srv json_client cl_DeletedAt (joinSlice clientPrefix (fst b)) (kv s) of
             Inl e \<Rightarrow> Inl e
           | Inr c \<Rightarrow> (case CompareHash E (cl_Secret c) (snd b) of None \<Rightarrow> Inr c | Some e \<Rightarrow> Inl (HashErr e))), s)"
  by (simp add: clientWithSecret_def reads action_defs compareHashedString_def split: sum.splits option.splits)

section \<open>Authorization requests\<close>

text \<open>A user who is found is nil, so no login succeeds.\<close>

lemma valid_fails: "valid E srv u p s = (Inl NilPointer, s) \<or> (\<exists>e. valid E srv u p s = (Inr (Inl e), s))"
  by (auto simp: valid_def get_user_def reads action_defs split: sum.splits)

definition error_reply :: "oauth_env \<Rightarrow> reply \<Rightarrow> bool" where
  "error_reply E rep \<longleftrightarrow>
     (\<exists>key state err. rep = commit E ((setErrState key [] state ctx_init)\<lparr>ctx_internalErr := err\<rparr>))"

definition login_page :: "request \<Rightarrow> reply" where
  "login_page r = (\<lparr>status = 200, headers = [], rbody = Page ''oauth/login.html'' (r_URL r)\<rparr>, None)"

lemma reject_error: "\<exists>rep. reject E ctx_init key state err s = (Inr rep, s) \<and> error_reply E rep"
  by (auto simp: reject_def ret_def error_reply_def)

lemma authorize_login_nothing:
  "authorize_login E srv r ctx c u s = (Inr (login_page r), s) \<or>
   r_Method r = ''POST'' \<and> authorize_login E srv r ctx c u s = (Inl NilPointer, s)"
  using valid_fails [of E srv "r_Form r ''login_username''" "r_Form r ''login_password''" s]
  by (auto simp: authorize_login_def action_defs login_page_def)

lemma authorize_answer:
  "\<exists>res. authorize E srv r s = (res, s) \<and>
     (case res of
        Inl p \<Rightarrow> p = NilPointer \<and> r_Method r = ''POST''
      | Inr rep \<Rightarrow> rep = login_page r \<or> error_reply E rep)"
proof -
  let ?Q = "\<lambda>m. \<exists>res. m s = (res, s) \<and>
    (case res of Inl p \<Rightarrow> p = NilPointer \<and> r_Method r = ''POST''
     | Inr rep \<Rightarrow> rep = login_page r \<or> error_reply E rep)"
  have rej: "?Q (reject E ctx_init key state err)" for key state err
    using reject_error [of E key state err s] by (elim exE conjE) simp
  have login: "?Q (authorize_login E srv r ctx c u)" for ctx c u
    using authorize_login_nothing [of E srv r ctx c u s] by (elim disjE conjE) simp_all
  have found: "?Q (case validateURIList (urls E) v u (redirectSeparator srv) of
      Some e \<Rightarrow> reject E ctx_init InvalidRequest state (Some e)
    | None \<Rightarrow> authorize_login E srv r (setRedirect u ctx_init) c u)" for v u state c
    using rej login by (cases "validateURIList (urls E) v u (redirectSeparator srv)") (simp_all only: option.case)
  note run = authorize_def Let_def on_err_def abind_def reads sum.case prod.case
  show ?thesis
  proof (cases "QueryUnescape (urls E) (r_Form r ''redirect_url'')")
    case Inl
    with rej show ?thesis by (simp only: run)
  next
    case q: (Inr u)
    show ?thesis
    proof (cases "read_doc E srv json_client cl_DeletedAt (joinSlice clientPrefix (r_Form r ''client_id'')) (kv s)")
      case Inl
      with q rej show ?thesis by (simp only: run)
    next
      case (Inr c)
      with q rej found show ?thesis
        by (cases "cl_RedirectURL c = []") (simp_all only: run if_True if_False simp_thms)
    qed
  qed
qed

text \<open>
  No authorization request is ever granted: whatever the request and the store, \<open>authorize\<close>
  leaves the state as it is, and it answers with the login page or with an error, or, for a POST
  request, dereferences a nil user. So no authorization code and no implicit token is ever issued.
\<close>

theorem authorize_grants_nothing:
  "\<exists>res. authorize E srv r s = (res, s) \<and>
     (case res of
        Inl p \<Rightarrow> p = NilPointer \<and> r_Method r = ''POST''
      | Inr rep \<Rightarrow> rep = login_page r \<or> error_reply E rep)"
  by (rule authorize_answer)

section \<open>Token requests\<close>

definition authenticated :: "oauth_env \<Rightarrow> 'kv oauth2 \<Rightarrow> request \<Rightarrow> 'kv \<Rightarrow> bool" where
  "authenticated E srv r m \<longleftrightarrow>
     (\<exists>basic c. basicAuth_init r = Some basic \<and>
        read_doc E srv json_client cl_DeletedAt (joinSlice clientPrefix (fst basic)) m = Inr c \<and>
        CompareHash E (cl_Secret c) (snd basic) = None)"

text \<open>An action that answers with an error, or dereferences a nil user, and leaves the state alone.\<close>

definition refuses :: "oauth_env \<Rightarrow> 'kv ostate \<Rightarrow> ('kv, reply) act \<Rightarrow> bool" where
  "refuses E s m \<longleftrightarrow>
     (\<exists>res. m s = (res, s) \<and> (case res of Inl p \<Rightarrow> p = NilPointer | Inr rep \<Rightarrow> error_reply E rep))"

lemma refuses_reject [simp]: "refuses E s (reject E ctx_init key state err)"
  using reject_error [of E key state err s] unfolding refuses_def by (elim exE conjE) simp

lemma refuses_on_err:
  "m s = (Inr (Inl e), s) \<Longrightarrow> refuses E s (h e) \<Longrightarrow> refuses E s (on_err m h f)"
  by (simp add: refuses_def on_err_def abind_def)

lemma refuses_valid:
  "(\<And>e. refuses E s (h e)) \<Longrightarrow> refuses E s (on_err (valid E srv u p) h f)"
  using valid_fails [of E srv u p s] by (auto simp: refuses_def on_err_def abind_def)

lemma refuses_secret:
  assumes "basicAuth_init r = Some basic" "\<not> authenticated E srv r (kv s)"
  shows "refuses E s (on_err (clientWithSecret E srv basic) (\<lambda>e. reject E ctx_init key state (Some e)) f)"
proof -
  from assms obtain e where "clientWithSecret E srv basic s = (Inr (Inl e), s)"
    by (force simp: authenticated_def clientWithSecret_read split: sum.splits option.splits)
  then show ?thesis by (rule refuses_on_err) simp
qed

lemma access_branches_refuse:
  assumes "basicAuth_init r = Some basic" "\<not> authenticated E srv r (kv s)"
  shows "refuses E s (access_code E srv r basic)" "refuses E s (access_refresh E srv r basic)"
    "refuses E s (access_password E srv r basic)" "refuses E s (access_credentials E srv r basic)"
    "refuses E s (access_assertion E srv r basic)"
  by (simp_all add: access_code_def access_refresh_def access_password_def access_credentials_def
      access_assertion_def Let_def refuses_secret [OF assms] refuses_valid)

text \<open>
  (C16) Only an authenticated client gets a token: unless the request is a POST for an allowed grant
  type whose client credentials name a stored client with a matching secret, \<open>access\<close> leaves the
  state as it is, writes no token or grant, and answers with an error or panics.
\<close>

theorem access_authenticated:
  "authenticated E srv r (kv s) \<and> r_Method r = ''POST'' \<and> accessAllowed (oopts srv) (r_Form r ''grant_type'') \<or>
   refuses E s (access E srv r)"
proof (cases "basicAuth_init r")
  case None
  then show ?thesis by (simp add: access_def)
next
  case (Some basic)
  show ?thesis
  proof (cases "authenticated E srv r (kv s)")
    case True
    with Some show ?thesis by (simp add: access_def Let_def)
  next
    case False
    with access_branches_refuse [OF Some False] Some show ?thesis by (simp add: access_def Let_def)
  qed
qed

section \<open>A concrete environment\<close>

text \<open>
  A text form of documents for which the round-trip law holds: pairs of characters, a tag and a
  payload, read from the right. A name or a value is a run of characters behind a tag that says
  what they are; numbers are written in unary.
\<close>

definition chars :: "string \<Rightarrow> (char \<times> char) list" where
  "chars s = map (\<lambda>c. (CHR ''c'', c)) s"

definition tag :: "char \<Rightarrow> (char \<times> char) list" where
  "tag c = [(c, c)]"

definition unary :: "char \<Rightarrow> char \<Rightarrow> int \<Rightarrow> (char \<times> char) list" where
  "unary p n i = (if 0 \<le> i then tag p else tag n) @ chars (replicate (nat \<bar>i\<bar>) CHR ''1'')"

fun enc_val :: "jval \<Rightarrow> (char \<times> char) list" where
  "enc_val JNull = tag CHR ''N''"
| "enc_val (JStr s) = tag CHR ''S'' @ chars s"
| "enc_val (JInt i) = unary CHR ''I'' CHR ''J'' i"
| "enc_val (JTime i) = unary CHR ''T'' CHR ''U'' i"
| "enc_val (JArr ss) = tag CHR ''A'' @ concat (map (\<lambda>s. tag CHR ''E'' @ chars s) ss)"

definition enc_doc :: "jobj \<Rightarrow> (char \<times> char) list" where
  "enc_doc d = concat (map (\<lambda>(k, v). tag CHR ''K'' @ chars k @ enc_val v) d)"

type_synonym dec_state = "string \<times> string list \<times> jval \<times> jobj"

fun dec_step :: "char \<times> char \<Rightarrow> dec_state \<Rightarrow> dec_state" where
  "dec_step (t, c) (acc, items, v, d) =
     (if t = CHR ''c'' then (c # acc, items, v, d)
      else if t = CHR ''E'' then ([], acc # items, v, d)
      else if t = CHR ''K'' then ([], [], JNull, (acc, v) # d)
      else ([], [],
        (if t = CHR ''S'' then JStr acc
         else if t = CHR ''I'' then JInt (int (length acc))
         else if t = CHR ''J'' then JInt (- int (length acc))
         else if t = CHR ''T'' then JTime (int (length acc))
         else if t = CHR ''U'' then JTime (- int (length acc))
         else if t = CHR ''A'' then JArr items
         else JNull), d))"

lemma dec_chars [simp]: "foldr dec_step (chars s) (acc, items, v, d) = (s @ acc, items, v, d)"
  by (induction s) (simp_all add: chars_def)

lemma dec_tag [simp]: "foldr dec_step (tag c) = dec_step (c, c)"
  by (simp add: tag_def fun_eq_iff)

lemma dec_val: "foldr dec_step (enc_val v) ([], [], JNull, d) = ([], [], v, d)"
proof (cases v)
  case (JArr ss)
  have "foldr dec_step (concat (map (\<lambda>s. tag CHR ''E'' @ chars s) ss)) ([], items, w, d) = ([], ss @ items, w, d)" for items w
    by (induction ss) simp_all
  with JArr show ?thesis by simp
qed (simp_all add: unary_def)

lemma dec_doc: "foldr dec_step (enc_doc d) ([], [], JNull, []) = ([], [], JNull, d)"
proof (induction d)
  case (Cons e d)
  then show ?case using dec_val by (cases e) (simp add: enc_doc_def)
qed (simp add: enc_doc_def)

fun unpair :: "string \<Rightarrow> (char \<times> char) list" where
  "unpair (a # b # s) = (a, b) # unpair s"
| "unpair s = []"

definition sample_json :: json_env where
  "sample_json =
     \<lparr>print_json = (\<lambda>d. Inr (concat (map (\<lambda>(a, b). [a, b]) (enc_doc d)))),
      read_json = (\<lambda>b. case foldr dec_step (unpair b) ([], [], JNull, []) of (acc, items, v, d) \<Rightarrow> Inr d)\<rparr>"

lemma unpair_concat: "unpair (concat (map (\<lambda>(a, b). [a, b]) ps)) = ps"
  by (induction ps) auto

lemma sample_json_laws: "json_laws sample_json"
  by (simp add: json_laws_def sample_json_def unpair_concat dec_doc)

definition sample_oauth_env :: oauth_env where
  "sample_oauth_env =
     \<lparr>Rand = (\<lambda>n k. Inr (replicate k CHR ''r'')), Clock = int,
      CompareHash = (\<lambda>h p. if h = p then None else Some ''mismatch''), GenerateHash = Inr, json = sample_json,
      urls = \<lparr>url_Parse = (\<lambda>s. Inl s), QueryUnescape = Inr, ParseQuery = (\<lambda>q k. []), Encode = (\<lambda>q. []),
        url_String = u_path\<rparr>\<rparr>"

definition sample_srv :: "((string \<times> string) list, unit) kvStoreDB oauth2" where
  "sample_srv =
     \<lparr>kvs = kvStoreDB_ops list_badger, redirectSeparator = [],
      oopts = oauth2Option_init
        \<lparr>RedirectSeparator = [], AuthorizationExpire = 0, AccessExpire = 0, AllowGetAccess = False,
         AllowedAccessType = [], TokenType = [], ProviderName = [], AuthEndpoint = [], TokenEndpoint = [], InfoEndpoint = [],
         Session = \<lparr>Session_Path = [], Session_MaxAge = 0, Session_Domain = [], Session_Secure = False,
           Session_HTTPOnly = False, Session_Name = [], Session_SameSite = 0\<rparr>, CsrfSecret = None\<rparr>\<rparr>"

definition sample_ostate :: "((string \<times> string) list, unit) kvStoreDB ostate" where
  "sample_ostate = \<lparr>kv = \<lparr>kv_db = [], setCallbacks = [], removeCallbacks = []\<rparr>, events = 1\<rparr>"

definition sample_request :: request where
  "sample_request =
     \<lparr>r_Method = ''GET'', r_Form = (\<lambda>k. []), r_FormErr = None, r_BasicAuth = None,
      r_Authorization = ''Bearer abc'', r_URL = ''/info''\<rparr>"

section \<open>Tokens are stored where nobody looks for them\<close>

datatype call = Authorize request | Access request | Info request | Register request

fun serve :: "oauth_env \<Rightarrow> 'kv oauth2 \<Rightarrow> call \<Rightarrow> ('kv, reply) act" where
  "serve E srv (Authorize r) = authorize E srv r"
| "serve E srv (Access r) = access E srv r"
| "serve E srv (Info r) = info E srv r"
| "serve E srv (Register r) = register E srv r"

definition serve_all :: "oauth_env \<Rightarrow> 'kv oauth2 \<Rightarrow> call list \<Rightarrow> 'kv ostate \<Rightarrow> 'kv ostate" where
  "serve_all E srv calls s = fold (\<lambda>c s. snd (serve E srv c s)) calls s"

definition token_keys :: "string set" where
  "token_keys = {k. hasPrefix k tokenPrefix}"

lemma other_keys [simp]:
  "joinSlice clientPrefix x \<notin> token_keys" "joinSlice userPrefix x \<notin> token_keys"
  "joinSlice grantPrefix x \<notin> token_keys" "joinSlice grantAccessPrefix x \<notin> token_keys"
  "joinSlice grantRefreshPrefix x \<notin> token_keys"
  by (simp_all add: token_keys_def hasPrefix_def joinSlice_def clientPrefix_def userPrefix_def grantPrefix_def
      grantAccessPrefix_def grantRefreshPrefix_def tokenPrefix_def)

lemma token_key [simp]: "joinSlice tokenPrefix x \<in> token_keys"
  by (simp add: token_keys_def hasPrefix_def joinSlice_def)

lemma keeps_kv [keeps]: "keeps (\<lambda>s. Q (kv s)) (tnow E)" "keeps (\<lambda>s. Q (kv s)) (rand_Read E n)"
  by (simp_all add: keeps_def tnow_def rand_Read_def)

lemma keeps_generate [keeps]: "keeps (\<lambda>s. Q (kv s)) (generate E)" "keeps (\<lambda>s. Q (kv s)) (createClientID E)"
  unfolding generate_def createClientID_def by (intro keeps)+

context kv_store
begin

definition no_tokens :: "'kv ostate \<Rightarrow> bool" where
  "no_tokens s \<longleftrightarrow> dom (content (kv s)) \<inter> token_keys = {}"

lemma no_tokens_write:
  assumes "kvs srv = S"
  shows "k \<notin> token_keys \<Longrightarrow> keeps no_tokens (set_key srv k v)" "keeps no_tokens (remove_key srv k)"
proof -
  show "keeps no_tokens (set_key srv k v)" if "k \<notin> token_keys"
    unfolding keeps_def no_tokens_def set_key_def assms
    using set_absent [OF _ that] by (auto split: prod.splits)
  show "keeps no_tokens (remove_key srv k)"
    unfolding keeps_def no_tokens_def remove_key_def assms
    using remove_absent by (auto split: prod.splits)
qed

lemma no_token_found:
  assumes "kvs srv = S" "no_tokens s"
  shows "get_token E srv i s = (Inr (Inl (KvErr ErrKeyNotFound)), s)"
proof -
  have "content (kv s) (joinSlice tokenPrefix i) = None"
    using assms(2) token_key [of i] unfolding no_tokens_def by blast
  then show ?thesis using assms(1) by (simp add: reads read_doc_def get_content)
qed

lemma no_tokens_fresh [keeps]: "keeps no_tokens (tnow E)" "keeps no_tokens (generate E)" "keeps no_tokens (createClientID E)"
  using keeps_kv(1) keeps_generate [of "\<lambda>m. dom (content m) \<inter> token_keys = {}"]
  unfolding no_tokens_def by simp_all

lemma no_tokens_save:
  assumes "kvs srv = S"
  shows "k \<notin> token_keys \<Longrightarrow> keeps no_tokens (marshalSet E srv k d)" "keeps no_tokens (saveUser E srv u)"
    "keeps no_tokens (saveClient E srv c)" "keeps no_tokens (saveToken E srv t)" "keeps no_tokens (saveGrant E srv g)"
    "keeps no_tokens (removeToken E srv i)" "keeps no_tokens (drop_token E srv pre i)" "keeps no_tokens (removeGrant E srv i)"
proof -
  note w = no_tokens_write [OF assms] other_keys
  show 1: "keeps no_tokens (marshalSet E srv k d)" if "k \<notin> token_keys" for k d
    using w(1) [OF that] unfolding marshalSet_def by (intro keeps)
  show "keeps no_tokens (saveUser E srv u)" "keeps no_tokens (saveClient E srv c)" "keeps no_tokens (saveToken E srv t)"
    unfolding saveUser_def saveClient_def saveToken_def by (intro keeps 1 w)+
  show "keeps no_tokens (saveGrant E srv g)"
    unfolding saveGrant_def by (intro keeps w)
  show 2: "keeps no_tokens (removeToken E srv i)" for i
    using no_token_found [OF assms] by (simp add: keeps_def removeToken_def ebind_def abind_def ret_def)
  show 3: "keeps no_tokens (drop_token E srv pre i)" for pre i
    unfolding drop_token_def by (intro keeps w 2)
  show "keeps no_tokens (removeGrant E srv i)"
    unfolding removeGrant_def by (intro keeps 1 3 w)
qed

lemma no_tokens_finish: "kvs srv = S \<Longrightarrow> keeps no_tokens (finish E srv g ctx state)"
  unfolding finish_def finalize_def by (intro keeps no_tokens_save)

lemma no_tokens_serve: "kvs srv = S \<Longrightarrow> keeps no_tokens (serve E srv c)"
proof (cases c)
  case (Authorize r)
  then show ?thesis using authorize_answer [of E srv r] unfolding keeps_def by (metis serve.simps(1) snd_conv)
next
  case (Access r)
  assume "kvs srv = S"
  note f = no_tokens_finish [OF this]
  show ?thesis
    unfolding Access serve.simps access_def access_code_def access_refresh_def access_password_def
      access_credentials_def access_assertion_def valid_def
    by (intro keeps f)
next
  case (Info r)
  then show ?thesis unfolding Info serve.simps info_def by (intro keeps)
next
  case (Register r)
  assume "kvs srv = S"
  then show ?thesis unfolding Register serve.simps register_def by (intro keeps no_tokens_save)
qed

lemma info_refuses:
  assumes "kvs srv = S" "no_tokens s"
  shows "\<exists>res. info E srv r s = (res, s) \<and>
    (case res of Inl p \<Rightarrow> p = IndexOutOfRange | Inr rep \<Rightarrow> error_reply E rep)"
proof -
  have code: "on_err (clientWithCode E srv code) h f s = h (KvErr ErrKeyNotFound) s" for code h and f :: "_ \<Rightarrow> ('kv, reply) act"
    using no_token_found [OF assms, of E code]
    by (simp add: clientWithCode_def ebind_def on_err_def abind_def ret_def)
  have rej: "\<exists>res. reject E ctx_init key state err s = (res, s) \<and>
      (case res of Inl p \<Rightarrow> p = IndexOutOfRange | Inr rep \<Rightarrow> error_reply E rep)" for key state err
    using reject_error [of E key state err s] by (elim exE conjE) simp
  have panic: "bearerAuth_init r = Inl p \<Longrightarrow> p = IndexOutOfRange" for p
    by (auto simp: bearerAuth_init_def Let_def gbind_eq_Inl go_index_def split: if_splits)
  show ?thesis
  proof (cases "r_FormErr r")
    case Some
    with rej show ?thesis by (simp add: info_def)
  next
    case None
    show ?thesis
    proof (cases "bearerAuth_init r")
      case (Inl p)
      with None panic show ?thesis by (simp add: info_def throw_def)
    next
      case (Inr c)
      consider "c = None" | "c = Some []" | x where "c = Some x" "x \<noteq> []" by (cases c) auto
      then show ?thesis using None Inr rej by cases (simp_all add: info_def code)
    qed
  qed
qed

lemma serve_all_no_tokens: "kvs srv = S \<Longrightarrow> no_tokens s \<Longrightarrow> no_tokens (serve_all E srv calls s)"
  unfolding serve_all_def using no_tokens_serve [of srv E] by (induction calls arbitrary: s) (simp_all add: keeps_def)

end

text \<open>
  (C24) The tokens are good for nothing: from a store without documents under the prefix of tokens,
  whatever sequence of requests the server has answered, \<open>info\<close> answers every request with an error,
  or panics on a malformed header, and leaves the state as it is. \<open>saveToken\<close> writes the tokens under
  the prefix of clients, where \<open>token\<close> does not look.
\<close>

theorem tokens_unusable:
  assumes "badger_laws B content" "kvs srv = kvStoreDB_ops B" "dom (content (kv_db (kv s))) \<inter> token_keys = {}"
  shows "\<exists>res. info E srv r (serve_all E srv calls s) = (res, serve_all E srv calls s) \<and>
    (case res of Inl p \<Rightarrow> p = IndexOutOfRange | Inr rep \<Rightarrow> error_reply E rep)"
proof -
  note k = kvStoreDB_contract [OF assms(1)]
  from assms(3) have "kv_store.no_tokens (\<lambda>kv. content (kv_db kv)) s"
    by (simp add: kv_store.no_tokens_def [OF k])
  from kv_store.info_refuses [OF k assms(2) kv_store.serve_all_no_tokens [OF k assms(2) this]]
  show ?thesis .
qed

theorem tokens_unusable_witness:
  "\<exists>res. info sample_oauth_env sample_srv sample_request
      (serve_all sample_oauth_env sample_srv [Access sample_request, Info sample_request] sample_ostate) =
      (res, serve_all sample_oauth_env sample_srv [Access sample_request, Info sample_request] sample_ostate) \<and>
    (case res of Inl p \<Rightarrow> p = IndexOutOfRange | Inr rep \<Rightarrow> error_reply sample_oauth_env rep)"
  by (rule tokens_unusable [OF list_badger_laws]) (simp_all add: sample_srv_def sample_ostate_def)

section \<open>Issued grants\<close>

text \<open>\<open>rand.Read\<close> fills the slice it is given.\<close>

definition rand_laws :: "oauth_env \<Rightarrow> bool" where
  "rand_laws E \<longleftrightarrow> (\<forall>n k b. Rand E n k = Inr b \<longrightarrow> length b = k)"

definition ascii_grant :: "oauth2Grant \<Rightarrow> bool" where
  "ascii_grant g \<longleftrightarrow> list_all (ascii_val \<circ> snd) (grant_json g)"

lemma hex_digit_ascii: "n < 16 \<Longrightarrow> ascii (hex_digit n)"
  by (simp add: hex_digit_def ascii_def)

lemma EncodeToString_ascii: "list_all ascii (EncodeToString b)"
proof (induction b)
  case (Cons c b)
  have "(of_char c :: nat) < 16 * 16" by simp
  then have "(of_char c :: nat) div 16 < 16" by (rule less_mult_imp_div_less)
  with Cons show ?case by (simp add: EncodeToString_def hex_digit_ascii)
qed (simp add: EncodeToString_def)

lemma EncodeToString_length: "length (EncodeToString b) = 2 * length b"
  by (induction b) (simp_all add: EncodeToString_def)

lemma generate_ok:
  assumes "generate E s = (Inr (Inr code), s')" "rand_laws E"
  shows "kv s' = kv s \<and> list_all ascii code \<and> code \<noteq> []"
proof -
  from assms(1) obtain b where b: "Rand E (events s) 256 = Inr b" "code = EncodeToString b" "kv s' = kv s"
    by (cases "Rand E (events s) 256") (auto simp: generate_def rand_Read_def action_defs)
  then have "length code = 512" using assms(2) by (simp add: rand_laws_def EncodeToString_length)
  with b EncodeToString_ascii show ?thesis by auto
qed

lemma on_err_ok:
  "on_err m (\<lambda>e. ret (ctx, Some e)) f s = (Inr (ctx', None), s') \<longleftrightarrow>
     (\<exists>a s1. m s = (Inr (Inr a), s1) \<and> f a s1 = (Inr (ctx', None), s'))"
  by (auto simp: on_err_def abind_def ret_def split: prod.splits sum.splits)

lemma ebind_ok:
  "ebind m f s = (Inr (Inr b), s') \<longleftrightarrow> (\<exists>a s1. m s = (Inr (Inr a), s1) \<and> f a s1 = (Inr (Inr b), s'))"
  by (auto simp: ebind_def abind_def ret_def split: prod.splits sum.splits)

context kv_store
begin

lemma set_key_ok:
  "kvs srv = S \<Longrightarrow> set_key srv k v s = (Inr (Inr u), s') \<Longrightarrow> content (kv s') = (content (kv s))(k \<mapsto> v)"
  using set_content [of "kv s" k v _ None] by (auto simp: set_key_def split: prod.splits option.splits)

text \<open>After \<open>saveGrant\<close> the grant is what its refresh token finds.\<close>

lemma saveGrant_found:
  assumes "kvs srv = S" "json_laws (json E)" "ascii_grant g" "gr_AccessToken g \<noteq> []" "gr_RefreshToken g \<noteq> []"
    "gr_DeletedAt g = 0" and ok: "saveGrant E srv g s = (Inr (Inr u), s')"
  shows "\<exists>now. grantByRefresh E srv (gr_RefreshToken g) s' = (Inr (Inr (g\<lparr>gr_UpdatedAt := now\<rparr>)), s')"
proof -
  let ?now = "Clock E (events s)" and ?k = "joinSlice grantRefreshPrefix (gr_RefreshToken g)"
  from ok obtain b where b: "print_json (json E) (grant_json (g\<lparr>gr_UpdatedAt := ?now\<rparr>)) = Inr b"
    by (auto simp: saveGrant_def abind_def tnow_def ret_def split: sum.splits)
  with ok assms(4,5) obtain s1 s2 where
    "set_key srv ?k b s1 = (Inr (Inr ()), s2)" "set_key srv (joinSlice grantPrefix (gr_Code g)) b s2 = (Inr (Inr u), s')"
    by (auto simp: saveGrant_def abind_def tnow_def ebind_ok)
  from set_key_ok [OF assms(1) this(1)] set_key_ok [OF assms(1) this(2)] have "content (kv s') ?k = Some b"
    by (simp add: joinSlice_def grantPrefix_def grantRefreshPrefix_def)
  moreover have "ascii_grant (g\<lparr>gr_UpdatedAt := ?now\<rparr>)" using assms(3) by (simp add: ascii_grant_def grant_json_def)
  with b assms(2) have "read_json (json E) b = Inr (grant_json (g\<lparr>gr_UpdatedAt := ?now\<rparr>))"
    by (simp add: json_laws_def ascii_grant_def)
  ultimately show ?thesis
    using assms(1,6) by (auto simp: reads read_doc_def get_content unmarshal_as_def)
qed

end

text \<open>
  (C20) Round trip of a grant: when \<open>finalize\<close> succeeds on a request grant without a code, as the
  password, client-credentials and assertion grants build it, the response carries an access token
  and a refresh token, and looking the refresh token up in the store gives a grant with that access
  token and the client, user, scope and redirect URL of the request.
\<close>

theorem finalize_grant_found:
  assumes "badger_laws B content" "kvs srv = kvStoreDB_ops B" "json_laws (json E)" "rand_laws E"
    and "ascii_grant g" "gr_Code g = []" "finalize E srv g ctx s = (Inr (ctx', None), s')"
  shows "\<exists>a t h. ctx_data ctx' ''access_token'' = Some (DStr a) \<and> ctx_data ctx' ''refresh_token'' = Some (DStr t) \<and>
    grantByRefresh E srv t s' = (Inr (Inr h), s') \<and> gr_AccessToken h = a \<and> gr_ClientID h = gr_ClientID g \<and>
    gr_UserID h = gr_UserID g \<and> gr_Scope h = gr_Scope g \<and> gr_RedirectURL h = gr_RedirectURL g"
proof -
  from assms(6,7) obtain a t s1 s2 s3 s4 u where ok: "generate E s = (Inr (Inr a), s1)"
    "saveToken E srv (issued_token g a) s1 = (Inr (Inr ()), s2)" "generate E s2 = (Inr (Inr t), s3)" "saveGrant E srv (issued_grant srv g a t) s4 = (Inr (Inr u), s')"
    "ctx' = issued_data srv (issued_grant srv g a t) ctx"
    by (auto simp: finalize_def Let_def on_err_ok ret_def)
  note new = generate_ok [OF ok(1) assms(4)] generate_ok [OF ok(3) assms(4)]
  let ?h = "issued_grant srv g a t"
  from new assms(5) have "ascii_grant ?h"
    by (simp add: ascii_grant_def grant_json_def issued_grant_def zero_grant_def)
  moreover have "gr_AccessToken ?h = a" "gr_RefreshToken ?h = t" "gr_DeletedAt ?h = 0"
    by (simp_all add: issued_grant_def zero_grant_def)
  ultimately obtain now where
    "grantByRefresh E srv t s' = (Inr (Inr (?h\<lparr>gr_UpdatedAt := now\<rparr>)), s')"
    using kv_store.saveGrant_found [OF kvStoreDB_contract [OF assms(1)] assms(2,3) _ _ _ _ ok(4)] new by auto
  then show ?thesis
    by (auto simp: ok(5) issued_data_def issued_grant_def zero_grant_def Let_def)
qed

lemma sample_finalize:
  "\<exists>c s'. finalize sample_oauth_env sample_srv (zero_grant\<lparr>gr_ClientID := ''app''\<rparr>) ctx_init sample_ostate =
     (Inr (c, None), s')"
  by (simp add: finalize_def generate_def rand_Read_def saveToken_def saveGrant_def tnow_def marshalSet_def
      set_key_def action_defs Let_def sample_oauth_env_def sample_json_def sample_srv_def kvStoreDB_ops_def
      kv_set_def list_badger_def zero_grant_def issued_grant_def)

theorem finalize_grant_found_witness:
  "\<exists>c s' t h. finalize sample_oauth_env sample_srv (zero_grant\<lparr>gr_ClientID := ''app''\<rparr>) ctx_init sample_ostate =
      (Inr (c, None), s') \<and> grantByRefresh sample_oauth_env sample_srv t s' = (Inr (Inr h), s') \<and>
      gr_ClientID h = ''app''"
proof -
  have "ascii_grant (zero_grant\<lparr>gr_ClientID := ''app''\<rparr>)"
    by (simp add: ascii_grant_def grant_json_def zero_grant_def ascii_def)
  moreover have "rand_laws sample_oauth_env" "json_laws (json sample_oauth_env)"
    by (simp_all add: rand_laws_def sample_oauth_env_def sample_json_laws)
  moreover have "kvs sample_srv = kvStoreDB_ops list_badger" "gr_Code (zero_grant\<lparr>gr_ClientID := ''app''\<rparr>) = []"
    by (simp_all add: sample_srv_def zero_grant_def)
  ultimately show ?thesis
    using sample_finalize finalize_grant_found [OF list_badger_laws, of sample_srv sample_oauth_env] by fastforce
qed

end
