(* ===== verification/Git_Ops.thy ===== *)
theory Git_Ops
  imports OAuth_Server Config_Parse
begin

text \<open>
  The git service of \<open>gitops.go\<close>, which the management server offers for the configuration: the loader
  of repositories, the endpoint of a request and the three handlers. The file system and the git
  library are parameters; a session is the name of the service and the directory it works on.
\<close>

section \<open>Repositories\<close>

text \<open>Directories that do not fail the test for existence, and the errors of making, initialising and opening one.\<close>

record git_env =
  g_exists :: "string \<Rightarrow> bool"
  g_Mkdir :: "string \<Rightarrow> string option"
  g_PlainInit :: "string \<Rightarrow> string option"
  g_PlainOpen :: "string \<Rightarrow> string option"

record endpoint =
  ep_User :: string
  ep_Password :: string
  ep_Path :: string

record repoLoader =
  rl_allowed :: "string list"
  rl_dir :: string
  rl_auth :: "(string \<Rightarrow> string \<Rightarrow> bool) option"

datatype git_error = ErrAuthenticationRequired | ErrAuthorizationFailed | ErrRepositoryNotFound | GitErr string

definition repoLoader_init :: "git_env \<Rightarrow> string \<Rightarrow> (string \<Rightarrow> string \<Rightarrow> bool) option \<Rightarrow> repoLoader go" where
  "repoLoader_init G dir auth =
     (case (if g_exists G dir then None else g_Mkdir G dir) of
        Some err \<Rightarrow> Inl (Explicit err)
      | None \<Rightarrow> Inr \<lparr>rl_allowed = [''vince'', ''project'', ''project.git''], rl_dir = dir, rl_auth = auth\<rparr>)"

definition open_repository :: "git_env \<Rightarrow> string \<Rightarrow> git_error + string" where
  "open_repository G e =
     (case (if \<not> g_exists G e
            then (case g_Mkdir G e of Some err \<Rightarrow> Some err | None \<Rightarrow> g_PlainInit G e)
            else g_PlainOpen G e) of
        Some err \<Rightarrow> Inl (GitErr err)
      | None \<Rightarrow> Inr e)"

definition repoLoader_auth :: "repoLoader \<Rightarrow> endpoint \<Rightarrow> git_error option" where
  "repoLoader_auth r ep =
     (case rl_auth r of
        Some auth \<Rightarrow>
          if ep_User ep = [] \<or> ep_Password ep = [] then Some ErrAuthenticationRequired
          else if \<not> auth (ep_User ep) (ep_Password ep) then Some ErrAuthorizationFailed
          else None
      | None \<Rightarrow> None)"

definition repoLoader_load :: "git_env \<Rightarrow> repoLoader \<Rightarrow> endpoint \<Rightarrow> git_error + string" where
  "repoLoader_load G r ep =
     (case repoLoader_auth r ep of
        Some err \<Rightarrow> Inl err
      | None \<Rightarrow>
          (case find (\<lambda>a. filepath_Join (rl_dir r) a = ep_Path ep) (rl_allowed r) of
             Some a \<Rightarrow> open_repository G (ep_Path ep)
           | None \<Rightarrow> Inl ErrRepositoryNotFound))"

definition gitOps_init :: "git_env \<Rightarrow> string \<Rightarrow> repoLoader go" where
  "gitOps_init G dir = repoLoader_init G dir None"

section \<open>Requests\<close>

text \<open>A request of the git service: the OAuth request extended by its path, query and encoding.\<close>

record git_request = request +
  gr_Path :: string
  gr_service :: string
  gr_gzip :: bool

definition gitOps_endpoint :: "string \<Rightarrow> git_request \<Rightarrow> string \<Rightarrow> endpoint" where
  "gitOps_endpoint dir r service =
     (let (user, password) = (case r_BasicAuth r of Some c \<Rightarrow> c | None \<Rightarrow> ([], []));
          p = trimPrefix (trimSuffix (gr_Path r) service) ''/git'';
          p = filepath_Join dir p
      in \<lparr>ep_User = user, ep_Password = password, ep_Path = filepath_Clean p\<rparr>)"

definition gitOps_setup :: "git_request \<Rightarrow> bool" where
  "gitOps_setup r \<longleftrightarrow> r_Authorization r \<noteq> []"

text \<open>
  What a handler does: the status it answers with, and the session it has run. The protocol of the
  packs is the library's; its error is a parameter.
\<close>

datatype git_session = UploadPack string | ReceivePack string

record pack_env =
  pk_gzip :: "string option"
  pk_decode :: "string option"
  pk_run :: "git_session \<Rightarrow> string option"
  pk_encode :: "string option"

datatype git_reply = GitStatus nat | GitAdvertise string | GitNoReply

definition up_pack :: "git_env \<Rightarrow> pack_env \<Rightarrow> repoLoader \<Rightarrow> git_request \<Rightarrow> git_reply \<times> git_session list" where
  "up_pack G K rl r =
     (if \<not> gitOps_setup r then (GitStatus 401, [])
      else case repoLoader_load G rl (gitOps_endpoint (rl_dir rl) r ''/git-upload-pack'') of
             Inl err \<Rightarrow> (GitStatus 500, [])
           | Inr dir \<Rightarrow>
               if gr_gzip r \<and> pk_gzip K \<noteq> None then (GitStatus 500, [])
               else if pk_decode K \<noteq> None then (GitStatus 500, [])
               else if pk_run K (UploadPack dir) \<noteq> None then (GitStatus 500, [UploadPack dir])
               else if pk_encode K \<noteq> None then (GitNoReply, [UploadPack dir])
               else (GitStatus 200, [UploadPack dir]))"

definition down_pack :: "git_env \<Rightarrow> pack_env \<Rightarrow> repoLoader \<Rightarrow> git_request \<Rightarrow> git_reply \<times> git_session list" where
  "down_pack G K rl r =
     (if \<not> gitOps_setup r then (GitStatus 401, [])
      else case repoLoader_load G rl (gitOps_endpoint (rl_dir rl) r ''/git-receive-pack'') of
             Inl err \<Rightarrow> (GitNoReply, [])
           | Inr dir \<Rightarrow>
               if gr_gzip r \<and> pk_gzip K \<noteq> None then (GitStatus 500, [])
               else if pk_decode K \<noteq> None then (GitStatus 500, [])
               else if pk_run K (ReceivePack dir) \<noteq> None then (GitStatus 500, [ReceivePack dir])
               else if pk_encode K \<noteq> None then (GitStatus 500, [ReceivePack dir])
               else (GitStatus 200, [ReceivePack dir]))"

definition refs_pack :: "git_env \<Rightarrow> repoLoader \<Rightarrow> git_request \<Rightarrow> git_reply \<times> (git_error + string) list" where
  "refs_pack G rl r =
     (if \<not> gitOps_setup r then (GitStatus 401, [])
      else
        let ep = gitOps_endpoint (rl_dir rl) r ''/info/refs'' in
        if gr_service r \<in> {''git-upload-pack'', ''git-receive-pack''}
        then (GitAdvertise (gr_service r), [repoLoader_load G rl ep])
        else (GitStatus 404, []))"

section \<open>Results\<close>

lemma load_allowed:
  assumes "repoLoader_load G r ep = Inr dir"
  shows "\<exists>a \<in> set (rl_allowed r). dir = filepath_Join (rl_dir r) a"
proof -
  from assms obtain a where a: "find (\<lambda>a. filepath_Join (rl_dir r) a = ep_Path ep) (rl_allowed r) = Some a"
    "open_repository G (ep_Path ep) = Inr dir" by (auto simp: repoLoader_load_def split: option.splits)
  from a(1) have "a \<in> set (rl_allowed r)" "filepath_Join (rl_dir r) a = ep_Path ep"
    by (auto simp: find_Some_iff)
  moreover from a(2) have "dir = ep_Path ep" by (auto simp: open_repository_def split: option.splits)
  ultimately show ?thesis by metis
qed


text \<open>
  The git service checks no credentials: the loader has no authentication function, so any
  request with a non-empty Authorization header that names an allowed repository gets a session on
  it, for pushing as well as for fetching, whatever user and password it carries.
\<close>

theorem git_unauthenticated_push:
  assumes "gitOps_init G dir = Inr rl" "r_Authorization r \<noteq> []" "g_exists G p" "g_PlainOpen G p = None"
    and "a \<in> {''vince'', ''project'', ''project.git''}" "filepath_Join dir a = p"
    and "ep_Path (gitOps_endpoint dir r ''/git-receive-pack'') = p"
    and "\<not> gr_gzip r" "pk_decode K = None" "pk_run K (ReceivePack p) = None" "pk_encode K = None"
  shows "down_pack G K rl r = (GitStatus 200, [ReceivePack p])"
proof -
  have rl: "rl_dir rl = dir" "rl_allowed rl = [''vince'', ''project'', ''project.git'']" "rl_auth rl = None"
    using assms(1) by (auto simp: gitOps_init_def repoLoader_init_def split: option.splits if_splits)
  have "find (\<lambda>a. filepath_Join dir a = p) [''vince'', ''project'', ''project.git''] \<noteq> None"
    using assms(5,6) by (auto simp: find_None_iff)
  then have "repoLoader_load G rl (gitOps_endpoint dir r ''/git-receive-pack'') = Inr p"
    using assms(3,4,7) rl by (auto simp: repoLoader_load_def repoLoader_auth_def open_repository_def simp del: find.simps)
  then show ?thesis using assms(2,8-11) rl(1) by (simp add: down_pack_def gitOps_setup_def)
qed

text \<open>A push to the configuration repository with made-up credentials.\<close>

definition any_repository :: git_env where
  "any_repository = \<lparr>g_exists = (\<lambda>d. True), g_Mkdir = (\<lambda>d. None), g_PlainInit = (\<lambda>d. None), g_PlainOpen = (\<lambda>d. None)\<rparr>"

definition push_request :: git_request where
  "push_request = \<lparr>r_Method = ''POST'', r_Form = (\<lambda>k. []), r_FormErr = None, r_BasicAuth = None, r_Authorization = ''x'',
     r_URL = [], gr_Path = ''/git/vince/git-receive-pack'', gr_service = [], gr_gzip = False\<rparr>"

definition quiet_pack :: pack_env where
  "quiet_pack = \<lparr>pk_gzip = None, pk_decode = None, pk_run = (\<lambda>s. None), pk_encode = None\<rparr>"

lemma any_loader:
  "gitOps_init any_repository ''/c'' =
     Inr \<lparr>rl_allowed = [''vince'', ''project'', ''project.git''], rl_dir = ''/c'', rl_auth = None\<rparr>"
  by (simp add: gitOps_init_def repoLoader_init_def any_repository_def)

theorem git_unauthenticated_push_witness:
  "\<exists>rl. gitOps_init any_repository ''/c'' = Inr rl \<and>
     down_pack any_repository quiet_pack rl push_request = (GitStatus 200, [ReceivePack ''/c/vince''])"
proof -
  have "filepath_Join ''/c'' ''vince'' = ''/c/vince''"
    "ep_Path (gitOps_endpoint ''/c'' push_request ''/git-receive-pack'') = ''/c/vince''" by code_simp+
  then show ?thesis
    using git_unauthenticated_push [OF any_loader, of push_request "''/c/vince''" "''vince''" quiet_pack] any_loader
    by (simp add: push_request_def any_repository_def quiet_pack_def)
qed


end
