(* ===== verification/Metrics.thy ===== *)
theory Metrics
  imports Http_Core "HOL-Library.List_Lexorder" "HOL-Library.Char_ord"
begin

text \<open>
  Metrics of \<open>metrics.go\<close>: the vectors of counters and histograms with their labels, the instrumented
  handlers, and the conversion of gathered metric families into samples of a time series store. A
  64-bit float is a type parameter with the conversions that the code uses; the packages of
  Prometheus are modelled as far as their results are used: a vector checks the number of label
  values, and the label builder sorts by name.
\<close>

section \<open>Vectors\<close>

definition http_labels :: "string list" where
  "http_labels = [''server'', ''code'', ''method'', ''handler'']"

definition stream_labels :: "string list" where
  "stream_labels = [''local_local'', ''local_remote'', ''remote_local'', ''remote_remote'']"

text \<open>The vectors by the name they are registered with, and their labels.\<close>

definition metric_vectors :: "(string \<times> string list) list" where
  "metric_vectors =
     [(''vince_http_total_requests'', http_labels), (''vince_http_request_duration'', http_labels),
      (''vince_http_request_size'', http_labels), (''vince_http_response_size'', http_labels),
      (''vince_stream_local_bytes_read'', stream_labels), (''vince_stream_local_bytes_written'', stream_labels),
      (''vince_stream_remote_bytes_read'', stream_labels), (''vince_stream_remote_bytes_written'', stream_labels),
      (''vince_stream_stream_duration'', stream_labels),
      (''vince_stream_accepted_connections'', [''local_local'', ''local_remote''])]"

text \<open>\<open>init\<close> registers all but the last two.\<close>

definition registered :: "string list" where
  "registered = map fst (take 8 metric_vectors)"

text \<open>An observation is the vector, the label values and the value; \<open>WithLabelValues\<close> checks their number.\<close>

definition observe ::
  "string \<Rightarrow> string list \<Rightarrow> 'f \<Rightarrow> (string \<times> string list \<times> 'f) list \<Rightarrow> (string \<times> string list \<times> 'f) list go" where
  "observe vec vals v obs =
     (case map_of metric_vectors vec of
        None \<Rightarrow> Inl NilPointer
      | Some ls \<Rightarrow>
          if length vals = length ls then Inr (obs @ [(vec, vals, v)])
          else Inl (Explicit ''inconsistent label cardinality''))"

section \<open>Instrumented handlers\<close>

text \<open>The size of a request, in 64-bit arithmetic.\<close>

record sized_request =
  sz_url :: "string option"
  sz_method :: string
  sz_proto :: string
  sz_header :: "(string \<times> string list) list"
  sz_host :: string
  sz_length :: int
  sz_path :: string

definition header_size :: "(string \<times> string list) list \<Rightarrow> int" where
  "header_size h = sum_list (map (\<lambda>(name, values). int (length name) + sum_list (map (int \<circ> length) values)) h)"

definition computeApproximateRequestSize :: "sized_request \<Rightarrow> int" where
  "computeApproximateRequestSize r =
     int64 ((case sz_url r of None \<Rightarrow> 0 | Some u \<Rightarrow> int (length u)) + int (length (sz_method r)) +
            int (length (sz_proto r)) + header_size (sz_header r) + int (length (sz_host r)) +
            (if sz_length r \<noteq> -1 then sz_length r else 0))"

text \<open>The writer that remembers status and size.\<close>

record wrapResponseWriter =
  w_code :: int
  w_size :: int

definition wrap_WriteHeader :: "int \<Rightarrow> wrapResponseWriter \<Rightarrow> wrapResponseWriter" where
  "wrap_WriteHeader code w = w\<lparr>w_code := code\<rparr>"

definition wrap_Write :: "int \<Rightarrow> wrapResponseWriter \<Rightarrow> wrapResponseWriter" where
  "wrap_Write n w = w\<lparr>w_size := int64 (w_size w + n)\<rparr>"

text \<open>
  \<open>instrumentHandler\<close>: the handler runs first and leaves the writer; then four vectors are observed.
  The result is the observations and the panic.
\<close>

definition instrumentHandler ::
  "(int \<Rightarrow> 'f) \<Rightarrow> httpListenOpts \<Rightarrow> int \<Rightarrow> sized_request \<Rightarrow> wrapResponseWriter \<Rightarrow>
     (string \<times> string list \<times> 'f) list \<Rightarrow> (string \<times> string list \<times> 'f) list go" where
  "instrumentHandler F lo duration r d obs =
     (let code = Itoa (if w_code d = 0 then 200 else w_code d);
          size = computeApproximateRequestSize r
      in gbind (observe ''vince_http_request_duration'' [code, sz_method r, sz_path r] (F duration) obs) (\<lambda>obs.
         gbind (observe ''vince_http_request_size'' [addrPort lo, code, sz_method r, sz_path r] (F size) obs) (\<lambda>obs.
         gbind (observe ''vince_http_response_size'' [addrPort lo, code, sz_method r, sz_path r] (F (w_size d)) obs) (\<lambda>obs.
         observe ''vince_http_total_requests'' [addrPort lo, code, sz_method r, sz_path r] (F 1) obs))))"

text \<open>
  \<open>instrumentEcho\<close>: the response after the handler, the error it returned, and the response after the
  error was rendered; the status label is read before that, the size after.
\<close>

definition instrumentEcho ::
  "(int \<Rightarrow> 'f) \<Rightarrow> (string \<Rightarrow> wrapResponseWriter \<Rightarrow> wrapResponseWriter) \<Rightarrow> httpListenOpts \<Rightarrow> int \<Rightarrow> sized_request \<Rightarrow> string \<Rightarrow>
     wrapResponseWriter \<Rightarrow> string option \<Rightarrow> (string \<times> string list \<times> 'f) list \<Rightarrow>
     (string option \<times> (string \<times> string list \<times> 'f) list) go" where
  "instrumentEcho F OnError lo duration r route d err obs =
     (let code = Itoa (w_code d);
          d = (case err of None \<Rightarrow> d | Some e \<Rightarrow> OnError e d);
          size = computeApproximateRequestSize r;
          vals = [addrPort lo, code, sz_method r, route]
      in gbind (observe ''vince_http_request_duration'' vals (F duration) obs) (\<lambda>obs.
         gbind (observe ''vince_http_request_size'' vals (F size) obs) (\<lambda>obs.
         gbind (observe ''vince_http_response_size'' vals (F (w_size d)) obs) (\<lambda>obs.
         gbind (observe ''vince_http_total_requests'' vals (F 1) obs) (\<lambda>obs. Inr (err, obs))))))"

section \<open>Samples\<close>

datatype metric_type = COUNTER | GAUGE | SUMMARY | UNTYPED | HISTOGRAM

record 'f distribution =
  SampleSum :: 'f
  SampleCount :: nat
  Parts :: "('f \<times> 'f) list"

record 'f metric =
  m_label :: "(string \<times> string) list"
  m_TimestampMs :: "int option"
  m_Gauge :: "'f option"
  m_Counter :: "'f option"
  m_Untyped :: "'f option"
  m_Summary :: "'f distribution option"
  m_Histogram :: "'f distribution option"

record 'f MetricFamily =
  f_Name :: string
  f_Type :: metric_type
  f_Metric :: "'f metric list"

record 'f metricEntry =
  e_labels :: "(string \<times> string) list"
  e_ts :: int
  e_value :: 'f

text \<open>The label builder: the last value set for a name, sorted by name.\<close>

definition builder_Set :: "string \<Rightarrow> string \<Rightarrow> (string \<times> string) list \<Rightarrow> (string \<times> string) list" where
  "builder_Set n v b = (if n \<in> fst ` set b then map (\<lambda>(m, w). if m = n then (m, v) else (m, w)) b else b @ [(n, v)])"

definition base_labels :: "'f metric \<Rightarrow> (string \<times> string) list" where
  "base_labels m = sort_key fst (fold (\<lambda>(n, v). builder_Set n v) (m_label m) [])"

definition GetTimestampMs :: "'f metric \<Rightarrow> int" where
  "GetTimestampMs m = (case m_TimestampMs m of Some t \<Rightarrow> t | None \<Rightarrow> 0)"

definition metricEntryFor :: "string \<Rightarrow> (string \<times> string) list \<Rightarrow> int \<Rightarrow> 'f \<Rightarrow> 'f metricEntry" where
  "metricEntryFor name base ts v = \<lparr>e_labels = (''__name__'', name) # base, e_ts = ts, e_value = v\<rparr>"

text \<open>The two kinds of distributions; \<open>C\<close> converts a count and \<open>P\<close> prints a float.\<close>

definition distribution_entries ::
  "(nat \<Rightarrow> 'f) \<Rightarrow> ('f \<Rightarrow> string) \<Rightarrow> string \<Rightarrow> string \<Rightarrow> string \<Rightarrow> 'f metric \<Rightarrow> 'f distribution option \<Rightarrow> 'f metricEntry list" where
  "distribution_entries C P name part_name part_label m s =
     (case s of
        None \<Rightarrow> []
      | Some s \<Rightarrow>
          metricEntryFor (name @ ''_sum'') (base_labels m) (GetTimestampMs m) (SampleSum s) #
          metricEntryFor (name @ ''_count'') (base_labels m) (GetTimestampMs m) (C (SampleCount s)) #
          map (\<lambda>(b, v). metricEntryFor part_name (base_labels m @ [(part_label, P b)]) (GetTimestampMs m) v) (Parts s))"

definition summaryMetrics :: "(nat \<Rightarrow> 'f) \<Rightarrow> ('f \<Rightarrow> string) \<Rightarrow> 'f MetricFamily \<Rightarrow> 'f metricEntry list" where
  "summaryMetrics C P f =
     concat (map (\<lambda>m. distribution_entries C P (f_Name f) (f_Name f) ''quantile'' m (m_Summary m)) (f_Metric f))"

definition histogramMetrics :: "(nat \<Rightarrow> 'f) \<Rightarrow> ('f \<Rightarrow> string) \<Rightarrow> 'f MetricFamily \<Rightarrow> 'f metricEntry list" where
  "histogramMetrics C P f =
     concat (map (\<lambda>m. distribution_entries C P (f_Name f) (f_Name f @ ''_size_bucket'') ''le'' m (m_Histogram m)) (f_Metric f))"

definition digestBasicMetric :: "'f \<Rightarrow> string \<Rightarrow> 'f metric \<Rightarrow> 'f metricEntry" where
  "digestBasicMetric zero name m =
     (let v = (case m_Gauge m of Some v \<Rightarrow> v | None \<Rightarrow> zero);
          v = (case m_Counter m of Some v \<Rightarrow> v | None \<Rightarrow> v);
          v = (case m_Untyped m of Some v \<Rightarrow> v | None \<Rightarrow> v)
      in \<lparr>e_labels = (''__name__'', name) # m_label m, e_ts = GetTimestampMs m, e_value = v\<rparr>)"

definition basicMetrics :: "'f \<Rightarrow> 'f MetricFamily \<Rightarrow> 'f metricEntry list" where
  "basicMetrics zero f = map (digestBasicMetric zero (f_Name f)) (f_Metric f)"

text \<open>The samples in the order in which they are added to the store.\<close>

definition storeMertics ::
  "'f \<Rightarrow> (nat \<Rightarrow> 'f) \<Rightarrow> ('f \<Rightarrow> string) \<Rightarrow> 'f MetricFamily \<Rightarrow> int \<Rightarrow> ((string \<times> string) list \<times> int \<times> 'f) list" where
  "storeMertics zero C P f defTime =
     map (\<lambda>e. (e_labels e, if e_ts e \<noteq> 0 then e_ts e else defTime, e_value e))
       (if f_Type f = HISTOGRAM then histogramMetrics C P f
        else if f_Type f = SUMMARY then summaryMetrics C P f
        else basicMetrics zero f)"

section \<open>Results\<close>

text \<open>The instrumented handler always panics, after the response: one vector gets three values for four labels.\<close>

lemma instrumentHandler_panics:
  "instrumentHandler F lo duration r d obs = Inl (Explicit ''inconsistent label cardinality'')"
  by (simp add: instrumentHandler_def observe_def metric_vectors_def http_labels_def)

text \<open>The instrumented \<open>echo\<close> handler records each request once in each of four vectors.\<close>

lemma instrumentEcho_records:
  "\<exists>new. instrumentEcho F OnError lo duration r route d err obs = Inr (err, obs @ new) \<and>
     map fst new = [''vince_http_request_duration'', ''vince_http_request_size'', ''vince_http_response_size'',
       ''vince_http_total_requests''] \<and>
     (\<forall>(vec, vals, v) \<in> set new. vals = [addrPort lo, Itoa (w_code d), sz_method r, route])"
  by (simp add: instrumentEcho_def observe_def metric_vectors_def http_labels_def Let_def)

text \<open>The size is exact as long as it fits; a declared length near the limit makes it negative.\<close>

lemma int64_id: "0 \<le> x \<Longrightarrow> x < 2 ^ 63 \<Longrightarrow> int64 x = x"
  by (simp add: int64_def)

lemma int64_wrap: "2 ^ 63 \<le> x \<Longrightarrow> x < 2 ^ 64 \<Longrightarrow> int64 x = x - 2 ^ 64"
proof -
  assume x: "2 ^ 63 \<le> x" "x < 2 ^ 64"
  have "(x + 2 ^ 63) mod 2 ^ 64 = (x + 2 ^ 63 - 2 ^ 64) mod 2 ^ 64" by (simp only: minus_mod_self2)
  also have "\<dots> = x + 2 ^ 63 - 2 ^ 64" using x by (intro mod_pos_pos_trivial) simp_all
  finally show ?thesis by (simp add: int64_def)
qed

definition plain_size :: "sized_request \<Rightarrow> int" where
  "plain_size r =
     (case sz_url r of None \<Rightarrow> 0 | Some u \<Rightarrow> int (length u)) + int (length (sz_method r)) + int (length (sz_proto r)) +
     header_size (sz_header r) + int (length (sz_host r))"

lemma header_size_nonneg: "0 \<le> header_size h"
  unfolding header_size_def by (induction h) (auto intro!: add_nonneg_nonneg sum_list_nonneg)

lemma plain_size_nonneg: "0 \<le> plain_size r"
  using header_size_nonneg [of "sz_header r"] by (simp add: plain_size_def split: option.splits)

text \<open>
  (C33) The size of a request: it is the length of its parts plus the declared body length when that
  fits into 63 bits; when the client declares a length so large that the sum does not fit, the size
  that is recorded is negative. An unknown length, -1, counts as none.
\<close>

theorem request_size_bounds:
  assumes "plain_size r < 2 ^ 63" "-1 \<le> sz_length r" "sz_length r < 2 ^ 63"
  shows "computeApproximateRequestSize r =
      (let n = plain_size r + (if sz_length r = -1 then 0 else sz_length r) in if n < 2 ^ 63 then n else n - 2 ^ 64) \<and>
    (computeApproximateRequestSize r < 0 \<longleftrightarrow> 2 ^ 63 \<le> plain_size r + sz_length r)"
proof -
  let ?n = "plain_size r + (if sz_length r = -1 then 0 else sz_length r)"
  have s: "computeApproximateRequestSize r = int64 ?n"
    by (simp add: computeApproximateRequestSize_def plain_size_def)
  have n: "0 \<le> ?n" "?n < 2 ^ 64" using assms plain_size_nonneg [of r] by auto
  show ?thesis
  proof (cases "?n < 2 ^ 63")
    case True
    with n int64_id have "int64 ?n = ?n" by blast
    with True n s assms show ?thesis by (auto simp: Let_def)
  next
    case False
    with n int64_wrap have "int64 ?n = ?n - 2 ^ 64" by simp
    with False n s assms show ?thesis by (auto simp: Let_def split: if_splits)
  qed
qed

theorem request_size_bounds_witness:
  "let r = \<lparr>sz_url = Some ''/'', sz_method = ''POST'', sz_proto = ''HTTP/1.1'', sz_header = [], sz_host = ''a'',
            sz_length = 2 ^ 63 - 1, sz_path = ''/''\<rparr>
   in computeApproximateRequestSize r < 0"
  unfolding Let_def
  by (subst request_size_bounds [THEN conjunct2]) (simp_all add: plain_size_def header_size_def)

text \<open>Labels are built by name; the names set are those of the metric.\<close>

lemma builder_names: "fst ` set (fold (\<lambda>(n, v). builder_Set n v) ls b) = fst ` set b \<union> fst ` set ls"
proof (induction ls arbitrary: b)
  case (Cons l ls)
  have "fst ` set (builder_Set n v b) = insert n (fst ` set b)" for n v
    by (force simp: builder_Set_def image_iff split: if_splits)
  with Cons show ?case by (cases l) auto
qed simp

lemma base_labels_names: "fst ` set (base_labels m) = fst ` set (m_label m)"
  by (simp add: base_labels_def builder_names)

text \<open>
  Buckets of a histogram: the label \<open>le\<close> is appended after the sorted labels of the metric, so
  the labels of a bucket's sample are out of order whenever the metric has a label whose name comes
  after \<open>le\<close>, as all HTTP vectors have; and the sample is named with \<open>_size_bucket\<close>.
\<close>

theorem bucket_labels_unsorted:
  assumes "f_Type f = HISTOGRAM" "m \<in> set (f_Metric f)" "m_Histogram m = Some h" "(b, v) \<in> set (Parts h)"
    and "(n, w) \<in> set (m_label m)" "''le'' < n"
  shows "\<exists>ls t. (ls, t, v) \<in> set (storeMertics zero C P f defTime) \<and>
    map_of ls ''__name__'' = Some (f_Name f @ ''_size_bucket'') \<and> \<not> sorted (map fst ls)"
proof -
  let ?e = "metricEntryFor (f_Name f @ ''_size_bucket'') (base_labels m @ [(''le'', P b)]) (GetTimestampMs m) v"
  have "?e \<in> set (histogramMetrics C P f)"
    using assms(2-4) by (force simp: histogramMetrics_def distribution_entries_def)
  then have "(e_labels ?e, if e_ts ?e \<noteq> 0 then e_ts ?e else defTime, e_value ?e) \<in> set (storeMertics zero C P f defTime)"
    unfolding storeMertics_def using assms(1) by force
  moreover have "n \<in> set (map fst (base_labels m))" using assms(5) base_labels_names [of m] by force
  then have "\<not> sorted (map fst (e_labels ?e))"
    using assms(6) by (fastforce simp: metricEntryFor_def sorted_append dest: leD)
  moreover have "e_value ?e = v" "map_of (e_labels ?e) ''__name__'' = Some (f_Name f @ ''_size_bucket'')"
    by (simp_all add: metricEntryFor_def)
  ultimately show ?thesis by metis
qed

theorem bucket_labels_unsorted_witness:
  "let h = \<lparr>SampleSum = 3, SampleCount = 1, Parts = [(5, 1)]\<rparr>;
       m = \<lparr>m_label = [(''method'', ''GET'')], m_TimestampMs = None, m_Gauge = None, m_Counter = None, m_Untyped = None,
            m_Summary = None, m_Histogram = Some h\<rparr>
   in \<exists>ls t. (ls, t, 1) \<in> set (storeMertics (0 :: int) int (\<lambda>x. ''5'')
        \<lparr>f_Name = ''d'', f_Type = HISTOGRAM, f_Metric = [m]\<rparr> 9) \<and>
        map_of ls ''__name__'' = Some ''d_size_bucket'' \<and> \<not> sorted (map fst ls)"
  unfolding Let_def
  using bucket_labels_unsorted [of "\<lparr>f_Name = ''d'', f_Type = HISTOGRAM,
      f_Metric = [\<lparr>m_label = [(''method'', ''GET'')], m_TimestampMs = None, m_Gauge = None, m_Counter = None,
        m_Untyped = None, m_Summary = None, m_Histogram = Some \<lparr>SampleSum = 3, SampleCount = 1, Parts = [(5, 1)]\<rparr>\<rparr>]\<rparr>"
      _ _ 5 1 "''method''" "''GET''" 0 int "\<lambda>x. ''5''" 9] by simp

end
