(* ===== verification/Upstream.thy ===== *)
theory Upstream
  imports Rules Values Go_Conv
begin

text \<open>
  Upstream groups of \<open>upstream.go\<close>: the directives of a group and of its servers, and the round-robin
  balancer behind \<open>next\<close>. The weighted scheduler is a third-party type, here a parameter; the field
  that should point to one is a pointer that may be nil. A mutex is a flag, and locking a mutex that
  is held never returns.
\<close>

section \<open>Servers\<close>

record upstreamServer =
  us_url :: string
  us_weight :: intValue
  us_maxConn :: intValue
  us_maxFails :: intValue
  us_failTimeout :: durationValue
  us_backup :: boolValue
  us_down :: boolValue
  us_resolve :: boolValue
  us_route :: stringValue
  us_service :: stringValue
  us_slowStart :: durationValue
  us_drain :: boolValue

definition zero_server :: upstreamServer where
  "zero_server =
     \<lparr>us_url = [], us_weight = unset_cell 0, us_maxConn = unset_cell 0, us_maxFails = unset_cell 0,
      us_failTimeout = unset_cell 0, us_backup = unset_cell False, us_down = unset_cell False,
      us_resolve = unset_cell False, us_route = unset_cell [], us_service = unset_cell [],
      us_slowStart = unset_cell 0, us_drain = unset_cell False\<rparr>"

datatype upstream_error = NumberErr num_error | DurationErr duration_error | NotUpstream

text \<open>A number or a duration after the equals sign, and the server without it on an error.\<close>

definition set_number ::
  "string list \<Rightarrow> (int \<Rightarrow> upstreamServer) \<Rightarrow> upstreamServer \<Rightarrow> (upstream_error option \<times> upstreamServer) go" where
  "set_number parts upd s =
     gbind (go_index parts 1) (\<lambda>v.
       case Atoi v of Inl e \<Rightarrow> Inr (Some (NumberErr e), s) | Inr n \<Rightarrow> Inr (None, upd n))"

definition set_duration ::
  "(int \<Rightarrow> int \<Rightarrow> nat \<Rightarrow> int) \<Rightarrow> string list \<Rightarrow> (int \<Rightarrow> upstreamServer) \<Rightarrow> upstreamServer \<Rightarrow>
     (upstream_error option \<times> upstreamServer) go" where
  "set_duration frac parts upd s =
     gbind (go_index parts 1) (\<lambda>v.
       case ParseDuration frac v of Inl e \<Rightarrow> Inr (Some (DurationErr e), s) | Inr n \<Rightarrow> Inr (None, upd n))"

definition server_param ::
  "(int \<Rightarrow> int \<Rightarrow> nat \<Rightarrow> int) \<Rightarrow> string \<Rightarrow> upstreamServer \<Rightarrow> (upstream_error option \<times> upstreamServer) go" where
  "server_param frac param s =
     (if param = ''backup'' then Inr (None, s\<lparr>us_backup := boolValue_store (us_backup s) True\<rparr>)
      else if param = ''down'' then Inr (None, s\<lparr>us_down := boolValue_store (us_down s) True\<rparr>)
      else if param = ''resolve'' then Inr (None, s\<lparr>us_resolve := boolValue_store (us_resolve s) True\<rparr>)
      else if param = ''drain'' then Inr (None, s\<lparr>us_drain := boolValue_store (us_drain s) True\<rparr>)
      else
        let parts = split param ''='' in
        if parts ! 0 = ''weight'' then
          set_number parts (\<lambda>n. s\<lparr>us_weight := intValue_store (us_weight s) n\<rparr>) s
        else if parts ! 0 = ''max_conns'' then
          set_number parts (\<lambda>n. s\<lparr>us_maxConn := intValue_store (us_maxConn s) n\<rparr>) s
        else if parts ! 0 = ''max_fails'' then
          set_number parts (\<lambda>n. s\<lparr>us_maxConn := intValue_store (us_maxConn s) n\<rparr>) s
        else if parts ! 0 = ''fail_timeout'' then
          set_duration frac parts (\<lambda>n. s\<lparr>us_failTimeout := durationValue_store (us_failTimeout s) n\<rparr>) s
        else if parts ! 0 = ''route'' then
          gbind (go_index parts 1) (\<lambda>v. Inr (None, s\<lparr>us_route := stringValue_store (us_route s) v\<rparr>))
        else if parts ! 0 = ''service'' then
          gbind (go_index parts 1) (\<lambda>v. Inr (None, s\<lparr>us_service := stringValue_store (us_service s) v\<rparr>))
        else if parts ! 0 = ''slow_start'' then
          set_duration frac parts (\<lambda>n. s\<lparr>us_slowStart := durationValue_store (us_slowStart s) n\<rparr>) s
        else Inr (None, s))"

fun server_params ::
  "(int \<Rightarrow> int \<Rightarrow> nat \<Rightarrow> int) \<Rightarrow> string list \<Rightarrow> upstreamServer \<Rightarrow> (upstream_error option \<times> upstreamServer) go" where
  "server_params frac [] s = Inr (None, s)"
| "server_params frac (p # ps) s =
     gbind (server_param frac p s) (\<lambda>(e, s). if e \<noteq> None then Inr (e, s) else server_params frac ps s)"

definition upstreamServer_init ::
  "(int \<Rightarrow> int \<Rightarrow> nat \<Rightarrow> int) \<Rightarrow> rule \<Rightarrow> (upstream_error option \<times> upstreamServer) go" where
  "upstreamServer_init frac r =
     gbind (go_index (rule_args r) 0) (\<lambda>u. server_params frac (drop 1 (rule_args r)) (zero_server\<lparr>us_url := u\<rparr>))"

section \<open>Groups\<close>

text \<open>What the scheduler holds: whatever was added, a server record or a string.\<close>

datatype item = ServerItem upstreamServer | StringItem string

record 'w roundRobin =
  rr_locked :: bool
  rr_rw :: "'w option"

record 'w upstreamConfig =
  up_name :: string
  up_servers :: "upstreamServer list"
  up_state :: stringValue
  up_hash_set :: bool
  up_consistent :: boolValue
  up_hash_key :: string
  up_balancer :: "'w roundRobin option"
  up_once :: bool

definition zero_upstream :: "'w upstreamConfig" where
  "zero_upstream =
     \<lparr>up_name = [], up_servers = [], up_state = unset_cell [], up_hash_set = False, up_consistent = unset_cell False,
      up_hash_key = [], up_balancer = None, up_once = False\<rparr>"

text \<open>The guard of \<open>consistent\<close> tests for one argument and then reads the second.\<close>

definition load_child ::
  "(int \<Rightarrow> int \<Rightarrow> nat \<Rightarrow> int) \<Rightarrow> rule \<Rightarrow> 'w upstreamConfig \<Rightarrow> (upstream_error option \<times> 'w upstreamConfig) go" where
  "load_child frac c u =
     (if rule_name c = ''server'' then
        gbind (upstreamServer_init frac c) (\<lambda>(e, s).
          if e \<noteq> None then Inr (e, u) else Inr (None, u\<lparr>up_servers := up_servers u @ [s]\<rparr>))
      else if rule_name c = ''state'' then
        gbind (go_index (rule_args c) 0) (\<lambda>a. Inr (None, u\<lparr>up_state := stringValue_store (up_state u) a\<rparr>))
      else if rule_name c = ''hash'' then
        gbind (go_index (rule_args c) 0) (\<lambda>k.
          let u = u\<lparr>up_hash_set := True, up_hash_key := k\<rparr> in
          if length (rule_args c) > 0 then
            gbind (go_index (rule_args c) 1) (\<lambda>a.
              Inr (None, if a = ''consistent'' then u\<lparr>up_consistent := boolValue_store (up_consistent u) True\<rparr> else u))
          else Inr (None, u))
      else Inr (None, u))"

fun load_children ::
  "(int \<Rightarrow> int \<Rightarrow> nat \<Rightarrow> int) \<Rightarrow> rule list \<Rightarrow> 'w upstreamConfig \<Rightarrow> (upstream_error option \<times> 'w upstreamConfig) go" where
  "load_children frac [] u = Inr (None, u)"
| "load_children frac (c # cs) u =
     gbind (load_child frac c u) (\<lambda>(e, u). if e \<noteq> None then Inr (e, u) else load_children frac cs u)"

definition upstreamConfig_load ::
  "(int \<Rightarrow> int \<Rightarrow> nat \<Rightarrow> int) \<Rightarrow> rule list \<Rightarrow> nat \<Rightarrow> 'w upstreamConfig \<Rightarrow>
     (upstream_error option \<times> 'w upstreamConfig) go" where
  "upstreamConfig_load frac st r u =
     (if rule_name (deref st r) \<noteq> ''upstream'' then Inr (Some NotUpstream, u)
      else gbind (go_index (rule_args (deref st r)) 0) (\<lambda>n.
        load_children frac (map (deref st) (children (deref st r))) (u\<lparr>up_name := n\<rparr>)))"

section \<open>The balancer\<close>

text \<open>The scheduler; \<open>Next\<close> gives nil when it has nothing to choose from.\<close>

record 'w rrw =
  rrw_Add :: "item \<Rightarrow> int \<Rightarrow> 'w \<Rightarrow> 'w"
  rrw_Next :: "'w \<Rightarrow> item option \<times> 'w"

text \<open>\<open>add\<close> locks the mutex and does not unlock it; a method call on the nil scheduler panics.\<close>

definition roundRobinWeighted_add ::
  "'w rrw \<Rightarrow> item \<Rightarrow> int \<Rightarrow> 'w roundRobin \<Rightarrow> ('w roundRobin \<times> panic option) option" where
  "roundRobinWeighted_add W s w r =
     (if rr_locked r then None
      else Some (case rr_rw r of
                   None \<Rightarrow> (r\<lparr>rr_locked := True\<rparr>, Some NilPointer)
                 | Some x \<Rightarrow> (r\<lparr>rr_locked := True, rr_rw := Some (rrw_Add W s w x)\<rparr>, None)))"

definition roundRobinWeighted_next :: "'w rrw \<Rightarrow> 'w roundRobin \<Rightarrow> ('w roundRobin \<times> string go) option" where
  "roundRobinWeighted_next W r =
     (if rr_locked r then None
      else Some (case rr_rw r of
                   None \<Rightarrow> (r\<lparr>rr_locked := True\<rparr>, Inl NilPointer)
                 | Some x \<Rightarrow>
                     (case rrw_Next W x of (nxt, x) \<Rightarrow>
                        (r\<lparr>rr_rw := Some x\<rparr>,
                         case nxt of Some (StringItem s) \<Rightarrow> Inr s | _ \<Rightarrow> Inl TypeAssertion))))"

text \<open>The smooth variant differs in what it adds: the address.\<close>

definition roundRobinSmooth_add ::
  "'w rrw \<Rightarrow> string \<Rightarrow> int \<Rightarrow> 'w roundRobin \<Rightarrow> ('w roundRobin \<times> panic option) option" where
  "roundRobinSmooth_add W s w r = roundRobinWeighted_add W (StringItem s) w r"

definition roundRobinSmooth_next :: "'w rrw \<Rightarrow> 'w roundRobin \<Rightarrow> ('w roundRobin \<times> string go) option" where
  "roundRobinSmooth_next W r = roundRobinWeighted_next W r"

fun add_servers_rr ::
  "'w rrw \<Rightarrow> upstreamServer list \<Rightarrow> 'w roundRobin \<Rightarrow> ('w roundRobin \<times> panic option) option" where
  "add_servers_rr W [] w = Some (w, None)"
| "add_servers_rr W (s # ss) w =
     (if val (us_down s) \<or> val (us_backup s) then add_servers_rr W ss w
      else case roundRobinWeighted_add W (ServerItem s) (val (us_weight s)) w of
             None \<Rightarrow> None
           | Some (w, Some p) \<Rightarrow> Some (w, Some p)
           | Some (w, None) \<Rightarrow> add_servers_rr W ss w)"

definition upstreamConfig_init :: "'w rrw \<Rightarrow> 'w upstreamConfig \<Rightarrow> ('w upstreamConfig \<times> panic option) option" where
  "upstreamConfig_init W u =
     (case add_servers_rr W (up_servers u) \<lparr>rr_locked = False, rr_rw = None\<rparr> of
        None \<Rightarrow> None
      | Some (w, Some p) \<Rightarrow> Some (u, Some p)
      | Some (w, None) \<Rightarrow> Some (u\<lparr>up_balancer := Some w\<rparr>, None))"

text \<open>\<open>sync.Once\<close> counts a call as done also when it panics.\<close>

definition balancer_next :: "'w rrw \<Rightarrow> 'w upstreamConfig \<Rightarrow> ('w upstreamConfig \<times> string go) option" where
  "balancer_next W u =
     (case up_balancer u of
        None \<Rightarrow> Some (u, Inl NilPointer)
      | Some b \<Rightarrow> map_option (\<lambda>(b, res). (u\<lparr>up_balancer := Some b\<rparr>, res)) (roundRobinWeighted_next W b))"

definition upstreamConfig_next :: "'w rrw \<Rightarrow> 'w upstreamConfig \<Rightarrow> ('w upstreamConfig \<times> string go) option" where
  "upstreamConfig_next W u =
     (if up_once u then balancer_next W u
      else case upstreamConfig_init W (u\<lparr>up_once := True\<rparr>) of
             None \<Rightarrow> None
           | Some (u, Some p) \<Rightarrow> Some (u, Inl p)
           | Some (u, None) \<Rightarrow> balancer_next W u)"

section \<open>Results\<close>

text \<open>No code makes a scheduler.\<close>

definition no_scheduler :: "'w upstreamConfig \<Rightarrow> bool" where
  "no_scheduler u \<longleftrightarrow> (\<forall>b. up_balancer u = Some b \<longrightarrow> rr_rw b = None)"

lemma add_keeps_nil:
  "roundRobinWeighted_add W s w r = Some (r', p) \<Longrightarrow> rr_rw r = None \<Longrightarrow> rr_rw r' = None \<and> p = Some NilPointer"
  by (auto simp: roundRobinWeighted_add_def split: if_splits)

lemma add_servers_keep_nil: "add_servers_rr W ss w = Some (w', p) \<Longrightarrow> rr_rw w = None \<Longrightarrow> rr_rw w' = None"
proof (induction ss arbitrary: w)
  case (Cons s ss)
  then show ?case by (auto split: if_splits option.splits dest: add_keeps_nil)
qed simp

lemma init_no_scheduler:
  "upstreamConfig_init W u = Some (u', p) \<Longrightarrow> no_scheduler u \<Longrightarrow> no_scheduler u'"
  using add_servers_keep_nil [of W "up_servers u" "\<lparr>rr_locked = False, rr_rw = None\<rparr>"]
  by (auto simp: upstreamConfig_init_def no_scheduler_def split: option.splits)

lemma balancer_no_scheduler:
  "balancer_next W u = Some (u', res) \<Longrightarrow> no_scheduler u \<Longrightarrow> no_scheduler u' \<and> (\<exists>p. res = Inl p)"
  by (auto simp: balancer_next_def no_scheduler_def roundRobinWeighted_next_def split: option.splits if_splits)

lemma next_no_scheduler:
  assumes "upstreamConfig_next W u = Some (u', res)" "no_scheduler u"
  shows "no_scheduler u' \<and> (\<exists>p. res = Inl p)"
proof (cases "up_once u")
  case True
  with assms balancer_no_scheduler show ?thesis by (simp add: upstreamConfig_next_def)
next
  case False
  have "no_scheduler (u\<lparr>up_once := True\<rparr>)" using assms(2) by (simp add: no_scheduler_def)
  with False assms(1) init_no_scheduler [of W "u\<lparr>up_once := True\<rparr>"] balancer_no_scheduler show ?thesis
    by (fastforce simp: upstreamConfig_next_def split: option.splits)
qed

lemma load_child_balancer: "load_child frac c u = Inr (e, u') \<Longrightarrow> up_balancer u' = up_balancer u"
  by (auto simp: load_child_def gbind_eq_Inr Let_def split: if_splits)

lemma load_children_balancer: "load_children frac cs u = Inr (e, u') \<Longrightarrow> up_balancer u' = up_balancer u"
  by (induction cs arbitrary: u) (auto simp: gbind_eq_Inr split: if_splits dest: load_child_balancer)

text \<open>The outcomes of a number of calls of \<open>next\<close>; a call that blocks is the last.\<close>

fun next_calls :: "'w rrw \<Rightarrow> nat \<Rightarrow> 'w upstreamConfig \<Rightarrow> string go option list" where
  "next_calls W 0 u = []"
| "next_calls W (Suc n) u =
     (case upstreamConfig_next W u of None \<Rightarrow> [None] | Some (u, res) \<Rightarrow> Some res # next_calls W n u)"

lemma next_calls_panic: "no_scheduler u \<Longrightarrow> res \<in> set (next_calls W n u) \<Longrightarrow> res = None \<or> (\<exists>p. res = Some (Inl p))"
proof (induction n arbitrary: u)
  case (Suc n)
  then show ?case by (auto split: option.splits dest: next_no_scheduler)
qed simp

text \<open>
  (C40) An upstream group never selects a server: whatever the configuration and however many calls
  of \<open>next\<close> are made on the group that was loaded from it, each call panics or blocks for ever,
  because the pointer to the scheduler is never set.
\<close>

theorem upstream_never_selects:
  assumes "upstreamConfig_load frac st r zero_upstream = Inr (e, u)"
  shows "\<forall>s. Some (Inr s) \<notin> set (next_calls W n u)"
proof -
  have "up_balancer u = None"
    using assms load_children_balancer
    by (fastforce simp: upstreamConfig_load_def gbind_eq_Inr zero_upstream_def split: if_splits)
  then have "no_scheduler u" by (simp add: no_scheduler_def)
  from next_calls_panic [OF this] show ?thesis by fastforce
qed

theorem upstream_never_selects_witness:
  "let st = [\<lparr>parent = None, rule_name = ''upstream'', rule_args = [''app''], children = [1]\<rparr>,
             \<lparr>parent = Some 0, rule_name = ''server'', rule_args = [''10.0.0.1'', ''backup''], children = []\<rparr>];
       W = \<lparr>rrw_Add = (\<lambda>i w x. i # x), rrw_Next = (\<lambda>x. (None, x))\<rparr>
   in \<exists>u. upstreamConfig_load (\<lambda>a b c. 0) st 0 zero_upstream = Inr (None, u) \<and>
        (\<forall>s. Some (Inr s) \<notin> set (next_calls W 2 u))"
proof -
  let ?st = "[\<lparr>parent = None, rule_name = ''upstream'', rule_args = [''app''], children = [1]\<rparr>,
    \<lparr>parent = Some 0, rule_name = ''server'', rule_args = [''10.0.0.1'', ''backup''], children = []\<rparr>]"
  have "\<exists>u. upstreamConfig_load (\<lambda>a b c. 0) ?st 0 zero_upstream = Inr (None, u)"
    by (simp add: upstreamConfig_load_def load_child_def upstreamServer_init_def server_param_def)
  then show ?thesis unfolding Let_def using upstream_never_selects by blast
qed

text \<open>The directive \<open>hash\<close> with one argument panics: the guard is off by one.\<close>

lemma hash_one_argument: "rule_name c = ''hash'' \<Longrightarrow> rule_args c = [k] \<Longrightarrow> load_child frac c u = Inl IndexOutOfRange"
  by (simp add: load_child_def)

text \<open>The limit on failures replaces the limit on connections.\<close>

lemma max_fails_overwrites:
  assumes "Atoi v = Inr n" "split param ''='' = [''max_fails'', v]"
  shows "server_param frac param s = Inr (None, s\<lparr>us_maxConn := intValue_store (us_maxConn s) n\<rparr>)"
proof -
  have "param \<noteq> ''backup''" "param \<noteq> ''down''" "param \<noteq> ''resolve''" "param \<noteq> ''drain''"
    using assms(2) split_single [of "CHR ''=''" param] by auto
  with assms show ?thesis by (simp add: server_param_def set_number_def)
qed

end
