(* ===== verification/Streams.thy ===== *)
theory Streams
  imports Go_Conv Prelude
begin

text \<open>
  Buffers, pooled connections and the TCP relay: \<open>buffers.go\<close>, \<open>conn_pool.go\<close> and \<open>conn_stream.go\<close>. A
  connection is the bytes that wait to be read and the bytes written; which item a \<open>sync.Pool\<close> hands
  out, and what arrives while a caller waits, are arguments. A channel operation that blocks is
  \<open>None\<close>.
\<close>

section \<open>Buffer pools\<close>

datatype pooled = BytesBuffer string | StringsBuilder string | ByteSlice nat

record buffer_pools =
  bytesBuf :: "pooled list"
  stringsBuf :: "pooled list"
  sliceBuffer :: "pooled list"

text \<open>A pool gives the item at the chosen position, or a new one when it has none there.\<close>

definition pool_Get :: "pooled \<Rightarrow> nat \<Rightarrow> pooled list \<Rightarrow> pooled \<times> pooled list" where
  "pool_Get new i xs = (if i < length xs then (xs ! i, take i xs @ drop (Suc i) xs) else (new, xs))"

definition GetBytes :: "nat \<Rightarrow> buffer_pools \<Rightarrow> (string \<times> buffer_pools) go" where
  "GetBytes i p =
     (case pool_Get (BytesBuffer []) i (bytesBuf p) of (x, xs) \<Rightarrow>
        case x of BytesBuffer b \<Rightarrow> Inr (b, p\<lparr>bytesBuf := xs\<rparr>) | _ \<Rightarrow> Inl TypeAssertion)"

definition PutBytes :: "string \<Rightarrow> buffer_pools \<Rightarrow> buffer_pools" where
  "PutBytes b p = p\<lparr>bytesBuf := bytesBuf p @ [BytesBuffer []]\<rparr>"

definition GetString :: "nat \<Rightarrow> buffer_pools \<Rightarrow> (string \<times> buffer_pools) go" where
  "GetString i p =
     (case pool_Get (StringsBuilder []) i (stringsBuf p) of (x, xs) \<Rightarrow>
        case x of StringsBuilder b \<Rightarrow> Inr (b, p\<lparr>stringsBuf := xs\<rparr>) | _ \<Rightarrow> Inl TypeAssertion)"

definition PutString :: "string \<Rightarrow> buffer_pools \<Rightarrow> buffer_pools" where
  "PutString b p = p\<lparr>stringsBuf := stringsBuf p @ [StringsBuilder []]\<rparr>"

definition GetSlice :: "nat \<Rightarrow> buffer_pools \<Rightarrow> (nat \<times> buffer_pools) go" where
  "GetSlice i p =
     (case pool_Get (ByteSlice 1024) i (sliceBuffer p) of (x, xs) \<Rightarrow>
        case x of ByteSlice n \<Rightarrow> Inr (n, p\<lparr>sliceBuffer := xs\<rparr>) | _ \<Rightarrow> Inl TypeAssertion)"

text \<open>\<open>PutSlice\<close> uses the pool of string builders.\<close>

definition PutSlice :: "nat \<Rightarrow> buffer_pools \<Rightarrow> buffer_pools" where
  "PutSlice n p = p\<lparr>stringsBuf := stringsBuf p @ [ByteSlice 0]\<rparr>"

section \<open>Pooled connections\<close>

record 'c conn_pool =
  cp_size :: nat
  cp_cap :: nat
  cp_conns :: "'c list"
  cp_created :: nat
  cp_duration :: int

definition pool_init :: "nat \<Rightarrow> int \<Rightarrow> 'c conn_pool" where
  "pool_init n duration = \<lparr>cp_size = 0, cp_cap = n, cp_conns = [], cp_created = 0, cp_duration = duration\<rparr>"

text \<open>\<open>wait\<close>: a connection that is put back before the timer fires, if any.\<close>

definition pool_wait :: "'c option \<Rightarrow> string + 'c" where
  "pool_wait arrival = (case arrival of None \<Rightarrow> Inl ''Timeout'' | Some c \<Rightarrow> Inr c)"

text \<open>\<open>take\<close> also tells whether it dialled.\<close>

definition pool_take ::
  "(unit \<Rightarrow> string + 'c) \<Rightarrow> 'c option \<Rightarrow> 'c conn_pool \<Rightarrow> (string + 'c) \<times> bool \<times> 'c conn_pool" where
  "pool_take dial arrival p =
     (case cp_conns p of
        c # cs \<Rightarrow> (Inr c, False, p\<lparr>cp_conns := cs\<rparr>)
      | [] \<Rightarrow>
          if cp_created p < cp_size p then (dial (), True, p\<lparr>cp_created := cp_created p + 1\<rparr>)
          else (pool_wait arrival, False, p))"

definition pool_put :: "'c \<Rightarrow> 'c conn_pool \<Rightarrow> 'c conn_pool option" where
  "pool_put c p = (if length (cp_conns p) < cp_cap p then Some (p\<lparr>cp_conns := cp_conns p @ [c]\<rparr>) else None)"

section \<open>The relay\<close>

record net_conn =
  c_in :: string
  c_out :: string
  c_err :: "string option"

text \<open>A read of a working connection fills at most the length of the buffer it is given.\<close>

definition conn_Read :: "nat \<Rightarrow> net_conn \<Rightarrow> string + string \<times> net_conn" where
  "conn_Read n c = (case c_err c of Some e \<Rightarrow> Inl e | None \<Rightarrow> Inr (take n (c_in c), c\<lparr>c_in := drop n (c_in c)\<rparr>))"

definition conn_Write :: "string \<Rightarrow> net_conn \<Rightarrow> string + int \<times> net_conn" where
  "conn_Write b c = (case c_err c of Some e \<Rightarrow> Inl e | None \<Rightarrow> Inr (int (length b), c\<lparr>c_out := c_out c @ b\<rparr>))"

text \<open>
  The variables of \<open>proxyConn\<close>: both connections, the four counters, the error that the two loops
  share, whether the goroutine still runs, what the function has returned, and whether the context
  has ended.
\<close>

record relay =
  rl_local :: net_conn
  rl_remote :: net_conn
  localRead :: int
  localWrite :: int
  remoteRead :: int
  remoteWrite :: int
  rl_err :: "string option"
  rl_goroutine :: bool
  rl_result :: "string option option"
  rl_cancelled :: bool

definition relay_start :: "net_conn \<Rightarrow> net_conn \<Rightarrow> relay" where
  "relay_start l r =
     \<lparr>rl_local = l, rl_remote = r, localRead = 0, localWrite = 0, remoteRead = 0, remoteWrite = 0,
      rl_err = None, rl_goroutine = True, rl_result = None, rl_cancelled = False\<rparr>"

text \<open>
  One round of the goroutine, from local to remote. The buffer has been cut to \<open>buf[:0]\<close>. The end
  of the context is only shown, the loop goes on.
\<close>

definition local_round :: "string \<Rightarrow> relay \<Rightarrow> relay" where
  "local_round buf s =
     (if \<not> rl_goroutine s then s
      else case conn_Read (length (take 0 buf)) (rl_local s) of
        Inl e \<Rightarrow> s\<lparr>rl_err := Some e, rl_goroutine := False\<rparr>
      | Inr (b, l) \<Rightarrow>
          let s = s\<lparr>rl_local := l, rl_err := None, localRead := localRead s + int (length b)\<rparr>
          in (case conn_Write b (rl_remote s) of
                Inl e \<Rightarrow> s\<lparr>rl_err := Some e, rl_goroutine := False\<rparr>
              | Inr (n, r) \<Rightarrow> s\<lparr>rl_remote := r, remoteWrite := remoteWrite s + n\<rparr>))"

text \<open>One round of the main loop, from remote to local.\<close>

definition remote_round :: "string \<Rightarrow> relay \<Rightarrow> relay" where
  "remote_round buf s =
     (if rl_result s \<noteq> None then s
      else if rl_cancelled s then s\<lparr>rl_result := Some (rl_err s)\<rparr>
      else case conn_Read (length (take 0 buf)) (rl_remote s) of
        Inl e \<Rightarrow> s\<lparr>rl_err := Some e, rl_result := Some (Some e)\<rparr>
      | Inr (b, r) \<Rightarrow>
          let s = s\<lparr>rl_remote := r, rl_err := None, remoteRead := remoteRead s + int (length b)\<rparr>
          in (case conn_Write b (rl_local s) of
                Inl e \<Rightarrow> s\<lparr>rl_err := Some e, rl_result := Some (Some e)\<rparr>
              | Inr (n, l) \<Rightarrow> s\<lparr>rl_local := l, localWrite := localWrite s + n\<rparr>))"

text \<open>
  An interleaving of the two loops by rounds with what happens outside: bytes that arrive, a
  connection that fails or passes its deadline, and the end of the context.
\<close>

datatype relay_event =
    LocalRound | RemoteRound | FromClient string | FromServer string | FailLocal string | FailRemote string | Cancel

fun relay_step :: "string \<Rightarrow> relay_event \<Rightarrow> relay \<Rightarrow> relay" where
  "relay_step buf LocalRound s = local_round buf s"
| "relay_step buf RemoteRound s = remote_round buf s"
| "relay_step buf (FromClient b) s = s\<lparr>rl_local := (rl_local s)\<lparr>c_in := c_in (rl_local s) @ b\<rparr>\<rparr>"
| "relay_step buf (FromServer b) s = s\<lparr>rl_remote := (rl_remote s)\<lparr>c_in := c_in (rl_remote s) @ b\<rparr>\<rparr>"
| "relay_step buf (FailLocal e) s = s\<lparr>rl_local := (rl_local s)\<lparr>c_err := Some e\<rparr>\<rparr>"
| "relay_step buf (FailRemote e) s = s\<lparr>rl_remote := (rl_remote s)\<lparr>c_err := Some e\<rparr>\<rparr>"
| "relay_step buf Cancel s = s\<lparr>rl_cancelled := True\<rparr>"

section \<open>Results\<close>

text \<open>A slice that is put back makes a later \<open>GetString\<close> panic.\<close>

lemma PutSlice_poisons:
  "GetString (length (stringsBuf p)) (PutSlice n p) = Inl TypeAssertion"
  by (simp add: GetString_def PutSlice_def pool_Get_def)

text \<open>Slices never come back to their own pool.\<close>

lemma PutSlice_leaks: "sliceBuffer (PutSlice n p) = sliceBuffer p"
  by (simp add: PutSlice_def)

text \<open>The field for the size is never set, so the pool never dials.\<close>

lemma pool_never_dials:
  assumes "cp_size p = 0"
  shows "fst (snd (pool_take dial arrival p)) = False \<and> cp_size (snd (snd (pool_take dial arrival p))) = 0"
  using assms by (simp add: pool_take_def split: list.splits)

lemma pool_put_size: "pool_put c p = Some p' \<Longrightarrow> cp_size p' = cp_size p"
  by (auto simp: pool_put_def split: if_splits)

text \<open>A fresh pool gives nothing out but what was put into it.\<close>

lemma pool_init_take: "pool_take dial None (pool_init n duration) = (Inl ''Timeout'', False, pool_init n duration)"
  by (simp add: pool_take_def pool_init_def pool_wait_def)

text \<open>What the relay has moved: the bytes written to each side and the counters.\<close>

definition moved :: "relay \<Rightarrow> string \<times> string \<times> int list" where
  "moved s = (c_out (rl_local s), c_out (rl_remote s), [localRead s, localWrite s, remoteRead s, remoteWrite s])"

lemma moved_step: "moved (relay_step buf e s) = moved s"
  by (cases e)
     (auto simp: moved_def local_round_def remote_round_def conn_Read_def conn_Write_def Let_def split: option.splits)

text \<open>The main loop returns at its next round once the context has ended, with the last error seen.\<close>

lemma relay_cancelled:
  "rl_result s = None \<Longrightarrow> rl_result (remote_round buf (relay_step buf Cancel s)) = Some (rl_err s)"
  by (simp add: remote_round_def)

text \<open>The goroutine outlives the context: only a connection that fails stops it.\<close>

lemma goroutine_outlives_cancel:
  assumes "rl_goroutine s" "c_err (rl_local s) = None" "c_err (rl_remote s) = None"
  shows "rl_goroutine (local_round buf (relay_step buf Cancel s))"
  using assms by (simp add: local_round_def conn_Read_def conn_Write_def)


end
