(* ===== verification/Web_Pages.thy ===== *)
theory Web_Pages
  imports Config_Parse Metrics Streams
begin

text \<open>
  Pages and files: \<open>error.go\<close>, \<open>templates/tpl.go\<close>, \<open>templates/fs.go\<close> and the routes of \<open>management.go\<close>. The
  embedded file system and the template engine are parameters. A Go map is visited in the order of
  the list that stands for it.
\<close>

section \<open>Status texts\<close>

definition statusNoResponse :: int where "statusNoResponse = 444"
definition statusRequestHeaderTooLarge :: int where "statusRequestHeaderTooLarge = 494"
definition statusSSLCertificateError :: int where "statusSSLCertificateError = 495"
definition statusSSLCertificateRequired :: int where "statusSSLCertificateRequired = 496"
definition statusHTTPToHTTPSPort :: int where "statusHTTPToHTTPSPort = 497"
definition statusClientClosedRequest :: int where "statusClientClosedRequest = 499"

definition statusTextMap :: "int \<rightharpoonup> string" where
  "statusTextMap = map_of
     [(statusNoResponse, ''No Response''),
      (statusRequestHeaderTooLarge, ''Request header too large''),
      (statusSSLCertificateError, ''SSL Certificate Error''),
      (statusSSLCertificateRequired, ''SSL Certificate Required''),
      (statusHTTPToHTTPSPort, ''HTTP Request Sent to HTTPS Port''),
      (statusClientClosedRequest, ''Client Closed Request'')]"

text \<open>\<open>http.StatusText\<close> of the standard library.\<close>

definition http_StatusText :: "int \<Rightarrow> string" where
  "http_StatusText code = (case map_of
     [(100, ''Continue''), (101, ''Switching Protocols''), (102, ''Processing''), (103, ''Early Hints''),
      (200, ''OK''), (201, ''Created''), (202, ''Accepted''), (203, ''Non-Authoritative Information''),
      (204, ''No Content''), (205, ''Reset Content''), (206, ''Partial Content''), (207, ''Multi-Status''),
      (208, ''Already Reported''), (226, ''IM Used''),
      (300, ''Multiple Choices''), (301, ''Moved Permanently''), (302, ''Found''), (303, ''See Other''),
      (304, ''Not Modified''), (305, ''Use Proxy''), (307, ''Temporary Redirect''), (308, ''Permanent Redirect''),
      (400, ''Bad Request''), (401, ''Unauthorized''), (402, ''Payment Required''), (403, ''Forbidden''),
      (404, ''Not Found''), (405, ''Method Not Allowed''), (406, ''Not Acceptable''),
      (407, ''Proxy Authentication Required''), (408, ''Request Timeout''), (409, ''Conflict''), (410, ''Gone''),
      (411, ''Length Required''), (412, ''Precondition Failed''), (413, ''Request Entity Too Large''),
      (414, ''Request URI Too Long''), (415, ''Unsupported Media Type''),
      (416, ''Requested Range Not Satisfiable''), (417, ''Expectation Failed''),
      (418, ''I'' @ [CHR 0x27] @ ''m a teapot''),
      (421, ''Misdirected Request''), (422, ''Unprocessable Entity''), (423, ''Locked''),
      (424, ''Failed Dependency''), (425, ''Too Early''), (426, ''Upgrade Required''),
      (428, ''Precondition Required''), (429, ''Too Many Requests''),
      (431, ''Request Header Fields Too Large''), (451, ''Unavailable For Legal Reasons''),
      (500, ''Internal Server Error''), (501, ''Not Implemented''), (502, ''Bad Gateway''),
      (503, ''Service Unavailable''), (504, ''Gateway Timeout''), (505, ''HTTP Version Not Supported''),
      (506, ''Variant Also Negotiates''), (507, ''Insufficient Storage''), (508, ''Loop Detected''),
      (510, ''Not Extended''), (511, ''Network Authentication Required'')] code of
     None \<Rightarrow> [] | Some t \<Rightarrow> t)"

definition statusText :: "int \<Rightarrow> string" where
  "statusText code =
     (if code \<ge> 444 \<and> code \<le> 499 then
        (case statusTextMap code of Some txt \<Rightarrow> txt | None \<Rightarrow> http_StatusText code)
      else http_StatusText code)"

section \<open>Error pages\<close>

text \<open>
  What reaches the client: the status of the first \<open>WriteHeader\<close> and the pages written, each with its
  data. Executing a template is a parameter that gives an error or the text.
\<close>

datatype page_write = Header int | Page string

type_synonym exec_html = "string \<Rightarrow> (string \<times> string) list \<Rightarrow> string + string"

definition eRender :: "exec_html \<Rightarrow> int \<Rightarrow> page_write list \<times> string option" where
  "eRender ExecHTML code =
     (case ExecHTML ''errors/error.html'' [(''code'', Itoa code), (''text'', statusText code)] of
        Inl e \<Rightarrow> ([Header code], Some e)
      | Inr html \<Rightarrow> ([Header code, Page html], None))"

definition e500_page :: "exec_html \<Rightarrow> page_write list" where
  "e500_page ExecHTML = fst (eRender ExecHTML 500)"

definition e404 :: "exec_html \<Rightarrow> page_write list \<times> string option" where
  "e404 ExecHTML = eRender ExecHTML 404"

section \<open>Elements\<close>

text \<open>\<open>template.HTMLEscapeString\<close> on bytes; a NUL becomes the replacement character.\<close>

definition escape_byte :: "char \<Rightarrow> string" where
  "escape_byte c =
     (if c = CHR 0x22 then ''&#34;''
      else if c = CHR 0x27 then ''&#39;''
      else if c = CHR ''&'' then ''&amp;''
      else if c = CHR ''<'' then ''&lt;''
      else if c = CHR ''>'' then ''&gt;''
      else if c = CHR 0x00 then [CHR 0xEF, CHR 0xBF, CHR 0xBD]
      else [c])"

definition HTMLEscapeString :: "string \<Rightarrow> string" where
  "HTMLEscapeString s = concat (map escape_byte s)"

fun attribute_html :: "(string \<times> string) list \<Rightarrow> string \<Rightarrow> string" where
  "attribute_html [] s = s"
| "attribute_html ((k, v) # m) s =
     (let s = (if s \<noteq> [] then s @ '' '' else s);
          s = s @ k;
          s = (if v \<noteq> [] then s @ ''='' @ [CHR 0x22] @ HTMLEscapeString v @ [CHR 0x22] else s)
      in attribute_html m s)"

text \<open>\<open>Meta.HTML\<close> writes into a pooled builder, which \<open>PutString\<close> empties.\<close>

definition Meta_HTML :: "nat \<Rightarrow> (string \<times> string) list \<Rightarrow> buffer_pools \<Rightarrow> (string \<times> buffer_pools) go" where
  "Meta_HTML i m p =
     gbind (GetString i p) (\<lambda>(s, p).
       let s = attribute_html m (s @ ''<meta '') @ ''>'' in Inr (s, PutString s p))"

section \<open>File systems\<close>

datatype open_error = ErrNotExist | ErrOther string

definition PrefixFS_Open :: "(string \<Rightarrow> open_error + 'f) \<Rightarrow> string \<Rightarrow> string \<Rightarrow> open_error + 'f" where
  "PrefixFS_Open embedded f name = embedded (filepath_Join f name)"

definition PrefixFallbackFS_Open ::
  "(string \<Rightarrow> open_error + 'f) \<Rightarrow> (string \<Rightarrow> open_error + 'f) \<Rightarrow> string \<Rightarrow> string \<Rightarrow> open_error + 'f" where
  "PrefixFallbackFS_Open embedded os_Open f name =
     (case embedded (filepath_Join f name) of
        Inl ErrNotExist \<Rightarrow> os_Open name
      | Inl (ErrOther e) \<Rightarrow> Inl (ErrOther e)
      | Inr file \<Rightarrow> Inr file)"

definition IncludeFS :: string where "IncludeFS = ''/confs/includes''"
definition WebFS :: string where "WebFS = ''/web''"

section \<open>The management server\<close>

datatype route_handler = IndexPage | StaticFile | MetricsPage | GitRefs | GitUp | GitDown

text \<open>The routes of \<open>init\<close>, with those that the git service adds.\<close>

definition management_routes :: "(string \<times> string \<times> route_handler) list" where
  "management_routes =
     [(''GET'', ''/'', IndexPage), (''GET'', ''/assets/*'', StaticFile), (''GET'', ''/metrics'', MetricsPage),
      (''GET'', ''/git/:project/info/refs'', GitRefs), (''POST'', ''/git/:project/git-upload-pack'', GitUp),
      (''POST'', ''/git/:project/git-receive-pack'', GitDown)]"

datatype echo_error = HTTPError int | OtherError string

definition echoErrorHandler :: "exec_html \<Rightarrow> echo_error \<Rightarrow> page_write list" where
  "echoErrorHandler ExecHTML err =
     (case err of HTTPError code \<Rightarrow> fst (eRender ExecHTML code) | OtherError _ \<Rightarrow> e500_page ExecHTML)"

definition management_index :: "exec_html \<Rightarrow> page_write list \<times> string option" where
  "management_index ExecHTML =
     (case ExecHTML ''management/index.html'' [] of
        Inl e \<Rightarrow> ([], Some e)
      | Inr html \<Rightarrow> ([Header 200, Page html], None))"

section \<open>Results\<close>

text \<open>Every error is answered with one status, that of the error or 500, before any page.\<close>

lemma echoErrorHandler_status:
  "\<exists>ps. echoErrorHandler ExecHTML err = Header (case err of HTTPError code \<Rightarrow> code | OtherError _ \<Rightarrow> 500) # ps \<and>
     (\<forall>p \<in> set ps. \<exists>html. p = Page html)"
  by (auto simp: echoErrorHandler_def e500_page_def eRender_def split: echo_error.splits sum.splits)

text \<open>The codes of nginx have a text of their own; all others keep that of the standard library.\<close>

lemma statusText_standard: "statusTextMap code = None \<Longrightarrow> statusText code = http_StatusText code"
  by (simp add: statusText_def)

lemma statusText_nginx: "statusTextMap code = Some txt \<Longrightarrow> statusText code = txt"
  by (auto simp: statusText_def statusTextMap_def statusNoResponse_def statusRequestHeaderTooLarge_def
      statusSSLCertificateError_def statusSSLCertificateRequired_def statusHTTPToHTTPSPort_def
      statusClientClosedRequest_def split: if_splits)

text \<open>An include is read from the embedded files first, so a file of the system never replaces one.\<close>

lemma embedded_first:
  "embedded (filepath_Join f name) = Inr file \<Longrightarrow> PrefixFallbackFS_Open embedded os_Open f name = Inr file"
  by (simp add: PrefixFallbackFS_Open_def)

subsection \<open>Escaping\<close>

text \<open>The characters that end an attribute or a tag.\<close>

definition markup :: "char \<Rightarrow> bool" where
  "markup c \<longleftrightarrow> c = CHR ''<'' \<or> c = CHR ''>'' \<or> c = CHR 0x22"

lemma markup_simps [simp]:
  "markup (CHR ''<'')" "markup (CHR ''>'')" "markup (CHR 0x22)" "\<not> markup (CHR ''='')" "\<not> markup (CHR '' '')"
  by (simp_all add: markup_def)

lemma escape_byte_clean: "filter markup (escape_byte c) = []"
  by (simp add: escape_byte_def markup_def)

lemma HTMLEscapeString_clean: "filter markup (HTMLEscapeString s) = []"
  by (induction s) (simp_all add: HTMLEscapeString_def escape_byte_clean)

lemma attribute_markup:
  assumes "list_all (\<lambda>(k, v). filter markup k = []) m" "s \<noteq> []"
  shows "filter markup (attribute_html m s) =
    filter markup s @ concat (map (\<lambda>(k, v). if v = [] then [] else [CHR 0x22, CHR 0x22]) m)"
  using assms
proof (induction m s rule: attribute_html.induct)
  case (2 k v m s)
  then show ?case by (simp add: Let_def HTMLEscapeString_clean)
qed simp

text \<open>
  (C34) A meta element cannot be left: when the attribute names hold no markup, the only angle brackets
  of the element are its first and its last character, and the only quotes are the two around each
  value, whatever the values are. The builder goes back to the pool empty.
\<close>

theorem meta_element_closed:
  assumes "GetString i p = Inr ([], p')" "list_all (\<lambda>(k, v). filter markup k = []) m"
  shows "\<exists>html. Meta_HTML i m p = Inr (html, PutString html p') \<and>
    filter markup html = ''<'' @ concat (map (\<lambda>(k, v). if v = [] then [] else [CHR 0x22, CHR 0x22]) m) @ ''>'' \<and>
    hd html = CHR ''<'' \<and> last html = CHR ''>''"
proof -
  let ?s = "attribute_html m ''<meta ''"
  have pre: "s \<noteq> [] \<Longrightarrow> attribute_html m s \<noteq> [] \<and> hd (attribute_html m s) = hd s" for s
    by (induction m s rule: attribute_html.induct) (simp_all add: Let_def)
  have "filter markup ?s = ''<'' @ concat (map (\<lambda>(k, v). if v = [] then [] else [CHR 0x22, CHR 0x22]) m)"
    using attribute_markup [OF assms(2), of "''<meta ''"] by (simp add: markup_def)
  moreover have "?s \<noteq> []" "hd ?s = CHR ''<''" using pre [of "''<meta ''"] by simp_all
  ultimately show ?thesis using assms(1)
    by (intro exI [of _ "?s @ ''>''"]) (simp add: Meta_HTML_def Let_def markup_def)
qed

theorem meta_element_closed_witness:
  "\<exists>html. Meta_HTML 0 [(''name'', [CHR 0x22] @ ''><script>'')] \<lparr>bytesBuf = [], stringsBuf = [], sliceBuffer = []\<rparr> =
       Inr (html, PutString html \<lparr>bytesBuf = [], stringsBuf = [], sliceBuffer = []\<rparr>) \<and>
     filter markup html = ''<'' @ [CHR 0x22, CHR 0x22] @ ''>''"
proof -
  have g: "GetString 0 \<lparr>bytesBuf = [], stringsBuf = [], sliceBuffer = []\<rparr> =
      Inr ([], \<lparr>bytesBuf = [], stringsBuf = [], sliceBuffer = []\<rparr>)"
    by (simp add: GetString_def pool_Get_def)
  have k: "list_all (\<lambda>(k, v). filter markup k = []) [(''name'', [CHR 0x22] @ ''><script>'')]"
    by (simp add: markup_def)
  from meta_element_closed [OF g k] show ?thesis by auto
qed

end
