(* ===== verification/Processes.thy ===== *)
theory Processes
  imports Prelude
begin

text \<open>
  Child processes: \<open>process_manager.go\<close> and \<open>process_child.go\<close>. Starting, killing and signalling a
  process are parameters that give the error; the table of children is visited in an order given as
  an argument. A child that was not started has nil pipes and a nil process.
\<close>

section \<open>Children\<close>

record 'p child_process =
  ch_inPipe :: bool
  ch_outPipe :: bool
  ch_process :: "'p option"

definition new_child :: "'p child_process" where
  "new_child = \<lparr>ch_inPipe = False, ch_outPipe = False, ch_process = None\<rparr>"

text \<open>\<open>Start\<close>; the errors of the context, of the two pipes and the result of starting.\<close>

definition child_Start ::
  "string option \<Rightarrow> string option \<Rightarrow> string option \<Rightarrow> string + 'p \<Rightarrow> 'p child_process \<Rightarrow> string option \<times> 'p child_process" where
  "child_Start ctxErr inErr outErr started ch =
     (if ctxErr \<noteq> None then (ctxErr, ch)
      else if inErr \<noteq> None then (inErr, ch)
      else if outErr \<noteq> None then (outErr, ch\<lparr>ch_inPipe := True\<rparr>)
      else
        let ch = ch\<lparr>ch_inPipe := True, ch_outPipe := True\<rparr>
        in (case started of Inl e \<Rightarrow> (Some e, ch) | Inr p \<Rightarrow> (None, ch\<lparr>ch_process := Some p\<rparr>)))"

definition join_errors :: "string option list \<Rightarrow> string option" where
  "join_errors es =
     (let errs = concat (map (\<lambda>e. case e of None \<Rightarrow> [] | Some e \<Rightarrow> [e]) es)
      in if errs \<noteq> [] then Some (join errs '','') else None)"

definition child_Close :: "string option \<Rightarrow> string option \<Rightarrow> 'p child_process \<Rightarrow> string option go" where
  "child_Close inErr outErr ch = (if \<not> ch_inPipe ch \<or> \<not> ch_outPipe ch then Inl NilPointer else Inr (join_errors [inErr, outErr]))"

definition child_Kill :: "('p \<Rightarrow> string option) \<Rightarrow> 'p child_process \<Rightarrow> string option go" where
  "child_Kill KillErr ch = (case ch_process ch of None \<Rightarrow> Inl NilPointer | Some p \<Rightarrow> Inr (KillErr p))"

definition child_Signal :: "('p \<Rightarrow> string option) \<Rightarrow> 'p child_process \<Rightarrow> string option go" where
  "child_Signal SignalErr ch = (case ch_process ch of None \<Rightarrow> Inl NilPointer | Some p \<Rightarrow> Inr (SignalErr p))"

section \<open>The manager\<close>

definition newProcessManager :: "int \<Rightarrow> int \<Rightarrow> int" where
  "newProcessManager numCPU count = (if count = 0 then numCPU else count)"

text \<open>\<open>start\<close>: the results of creating one child after the other; it stops at the first error.\<close>

fun start_children :: "(string + 'c) list \<Rightarrow> string option \<times> 'c list" where
  "start_children [] = (None, [])"
| "start_children (Inl err # rs) = (Some err, [])"
| "start_children (Inr ch # rs) = (case start_children rs of (e, chs) \<Rightarrow> (e, ch # chs))"

definition manager_start :: "int \<Rightarrow> (nat \<Rightarrow> string + 'c) \<Rightarrow> string option \<times> 'c list" where
  "manager_start childCount Create = start_children (map Create [0..<nat childCount])"

definition manager_kill :: "('c \<Rightarrow> string option) \<Rightarrow> ('c \<Rightarrow> string option) \<Rightarrow> 'c list \<Rightarrow> string option" where
  "manager_kill CloseErr KillErr order = join_errors (concat (map (\<lambda>v. [CloseErr v, KillErr v]) order))"

definition manager_Signal :: "('c \<Rightarrow> string option) \<Rightarrow> string option option \<Rightarrow> 'c list \<Rightarrow> string option" where
  "manager_Signal SignalErr onSignal order =
     join_errors (map SignalErr order @ (case onSignal of None \<Rightarrow> [] | Some e \<Rightarrow> [e]))"

section \<open>Results\<close>

lemma join_errors_None: "join_errors es = None \<longleftrightarrow> (\<forall>e \<in> set es. e = None)"
  by (auto simp: join_errors_def Let_def split: option.splits)

text \<open>Killing reports no error exactly when every connection was closed and every child killed.\<close>

lemma manager_kill_ok:
  "manager_kill CloseErr KillErr order = None \<longleftrightarrow> (\<forall>v \<in> set order. CloseErr v = None \<and> KillErr v = None)"
  by (auto simp: manager_kill_def join_errors_None)

lemma start_children_all: "start_children rs = (None, chs) \<Longrightarrow> rs = map Inr chs"
  by (induction rs arbitrary: chs rule: start_children.induct) (auto split: prod.splits)

text \<open>A start without error has as many children as were asked for.\<close>

lemma manager_start_count:
  assumes "manager_start childCount Create = (None, chs)"
  shows "length chs = nat childCount"
proof -
  from assms have "map Create [0..<nat childCount] = map Inr chs" by (simp add: manager_start_def start_children_all del: map_eq_conv)
  then have "length (map Create [0..<nat childCount]) = length (map (Inr :: 'a \<Rightarrow> string + 'a) chs)" by simp
  then show ?thesis by simp
qed

text \<open>A child that was not started cannot be killed or closed.\<close>

lemma child_not_started:
  "child_Kill KillErr new_child = Inl NilPointer" "child_Close inErr outErr new_child = Inl NilPointer"
  by (simp_all add: child_Kill_def child_Close_def new_child_def)

end
