(* ===== verification/Policy_Store.thy ===== *)
theory Policy_Store
  imports Badger
begin

text \<open>
  The transactions of \<open>opa_backend_store.go\<close>. A goroutine holds a Badger transaction and serves events
  from a channel, answering on another; a caller sends an event and waits for the answer. A call
  that waits for ever is \<open>None\<close>. In a transaction for reading every write fails.
\<close>

section \<open>The goroutine\<close>

datatype txn_event = ReadEvent string | WriteEvent string string | IdEvent | AbortEvent | CommitEvent | OtherEvent

datatype txn_answer = ErrorAnswer db_error | ValueAnswer string | WrittenAnswer | IdAnswer nat

record 'db opaStoreTxn =
  ot_id :: nat
  ot_Write :: bool
  ot_db :: 'db
  ot_readTs :: nat
  ot_closed :: bool

text \<open>\<open>newTxn\<close> does not keep the parameters, so the transaction is one for reading.\<close>

definition newTxn :: "'db \<Rightarrow> nat \<Rightarrow> bool \<Rightarrow> 'db opaStoreTxn" where
  "newTxn db readTs write_param = \<lparr>ot_id = 0, ot_Write = False, ot_db = db, ot_readTs = readTs, ot_closed = False\<rparr>"

text \<open>One event of \<open>manage\<close>: the answer, if it gives one.\<close>

definition ErrReadOnlyTxn :: db_error where
  "ErrReadOnlyTxn = DbError ''No sets or deletes are allowed in a read-only transaction''"

fun manage_event :: "'db badger \<Rightarrow> txn_event \<Rightarrow> 'db opaStoreTxn \<Rightarrow> txn_answer option \<times> 'db opaStoreTxn" where
  "manage_event B (ReadEvent k) t =
     (case txn_get B (ot_db t) k of
        Inl e \<Rightarrow> (Some (ErrorAnswer e), t)
      | Inr v \<Rightarrow> (Some (ValueAnswer v), t))"
| "manage_event B (WriteEvent k v) t =
     (if \<not> ot_Write t then (Some (ErrorAnswer ErrReadOnlyTxn), t)
      else case txn_set B (ot_db t) k v of
             Inl e \<Rightarrow> (Some (ErrorAnswer e), t)
           | Inr d \<Rightarrow> (Some WrittenAnswer, t\<lparr>ot_db := d\<rparr>))"
| "manage_event B IdEvent t =
     (let t = (if ot_id t = 0 then t\<lparr>ot_id := ot_readTs t\<rparr> else t) in (Some (IdAnswer (ot_id t)), t))"
| "manage_event B AbortEvent t = (None, t\<lparr>ot_closed := True\<rparr>)"
| "manage_event B CommitEvent t = (None, t\<lparr>ot_closed := True\<rparr>)"
| "manage_event B OtherEvent t = (None, t)"

section \<open>The caller\<close>

text \<open>\<open>send\<close> needs the goroutine to take the event and to answer it.\<close>

definition txn_send :: "'db badger \<Rightarrow> txn_event \<Rightarrow> 'db opaStoreTxn \<Rightarrow> (txn_answer \<times> 'db opaStoreTxn) option" where
  "txn_send B e t =
     (if ot_closed t then None
      else case manage_event B e t of (None, t) \<Rightarrow> None | (Some a, t) \<Rightarrow> Some (a, t))"

definition txn_getID :: "'db badger \<Rightarrow> 'db opaStoreTxn \<Rightarrow> (nat go \<times> 'db opaStoreTxn) option" where
  "txn_getID B t =
     (case txn_send B IdEvent t of
        None \<Rightarrow> None
      | Some (IdAnswer n, t) \<Rightarrow> Some (Inr n, t\<lparr>ot_id := n\<rparr>)
      | Some (_, t) \<Rightarrow> Some (Inl TypeAssertion, t))"

text \<open>\<open>NewTransaction\<close> stores the transaction under its identifier.\<close>

definition NewTransaction ::
  "'db badger \<Rightarrow> 'db \<Rightarrow> nat \<Rightarrow> bool \<Rightarrow> (nat \<rightharpoonup> 'db opaStoreTxn) \<Rightarrow> (nat go \<times> (nat \<rightharpoonup> 'db opaStoreTxn)) option" where
  "NewTransaction B db readTs write_param txns =
     (case txn_getID B (newTxn db readTs write_param) of
        None \<Rightarrow> None
      | Some (Inl p, t) \<Rightarrow> Some (Inl p, txns)
      | Some (Inr n, t) \<Rightarrow> Some (Inr n, txns(n \<mapsto> t)))"

fun txn_run :: "'db badger \<Rightarrow> txn_event list \<Rightarrow> 'db opaStoreTxn \<Rightarrow> (txn_answer list \<times> 'db opaStoreTxn) option" where
  "txn_run B [] t = Some ([], t)"
| "txn_run B (e # es) t =
     Option.bind (txn_send B e t) (\<lambda>(a, t). Option.bind (txn_run B es t) (\<lambda>(as, t). Some (a # as, t)))"

section \<open>Results\<close>

lemma NewTransaction_returns:
  "\<exists>t. NewTransaction B db ts w txns = Some (Inr ts, txns(ts \<mapsto> t)) \<and> \<not> ot_Write t \<and> ot_db t = db \<and> \<not> ot_closed t"
  by (rule exI [of _ "\<lparr>ot_id = ts, ot_Write = False, ot_db = db, ot_readTs = ts, ot_closed = False\<rparr>"])
     (simp add: NewTransaction_def txn_getID_def txn_send_def newTxn_def Let_def)

text \<open>Ending a transaction never returns: the goroutine stops without an answer.\<close>

lemma txn_end_blocks: "txn_send B CommitEvent t = None" "txn_send B AbortEvent t = None"
  by (simp_all add: txn_send_def)

lemma readonly_step:
  assumes "txn_send B e t = Some (a, t')" "\<not> ot_Write t"
  shows "\<not> ot_Write t' \<and> ot_db t' = ot_db t \<and> a \<noteq> WrittenAnswer"
  using assms by (cases e) (auto simp: txn_send_def Let_def split: if_splits sum.splits)

lemma readonly_run:
  "txn_run B es t = Some (as, t') \<Longrightarrow> \<not> ot_Write t \<Longrightarrow> ot_db t' = ot_db t \<and> WrittenAnswer \<notin> set as"
proof (induction es arbitrary: t as)
  case (Cons e es)
  then obtain a t1 as' where r: "txn_send B e t = Some (a, t1)" "txn_run B es t1 = Some (as', t')" "as = a # as'"
    by (auto simp: bind_eq_Some_conv)
  from readonly_step [OF r(1) Cons.prems(2)] Cons.IH [OF r(2)] r(3) show ?case by auto
qed simp

text \<open>
  Policy transactions cannot write: a transaction that was asked for with permission to write
  still answers every write with an error and leaves the database as it was, whatever events are
  sent; the parameters are dropped when it is made. A commit or an abort never returns.
\<close>

theorem policy_store_readonly:
  assumes "NewTransaction B db ts True Map.empty = Some (Inr n, txns)" "txns n = Some t"
    and "txn_run B es t = Some (as, t')"
  shows "ot_db t' = db \<and> WrittenAnswer \<notin> set as \<and> CommitEvent \<notin> set es"
proof -
  obtain t0 where "NewTransaction B db ts True Map.empty = Some (Inr ts, [ts \<mapsto> t0])" "\<not> ot_Write t0" "ot_db t0 = db"
    using NewTransaction_returns [of B db ts True Map.empty] by auto
  with assms(1,2) have t: "\<not> ot_Write t" "ot_db t = db" by auto
  have "CommitEvent \<notin> set es"
    using assms(3)
  proof (induction es arbitrary: t as)
    case (Cons e es)
    then show ?case by (auto simp: bind_eq_Some_conv txn_end_blocks)
  qed simp
  with readonly_run [OF assms(3) t(1)] t(2) show ?thesis by simp
qed

theorem policy_store_readonly_witness:
  "\<exists>txns t as t'. NewTransaction list_badger [] 3 True Map.empty = Some (Inr 3, txns) \<and> txns 3 = Some t \<and>
     txn_run list_badger [WriteEvent ''k'' ''v''] t = Some (as, t') \<and> ot_db t' = [] \<and> WrittenAnswer \<notin> set as"
proof -
  obtain t where n: "NewTransaction list_badger [] 3 True Map.empty = Some (Inr 3, [3 \<mapsto> t])" "\<not> ot_Write t" "\<not> ot_closed t"
    using NewTransaction_returns [of list_badger "[]" 3 True Map.empty] by auto
  then have r: "txn_run list_badger [WriteEvent ''k'' ''v''] t = Some ([ErrorAnswer ErrReadOnlyTxn], t)"
    by (simp add: txn_send_def)
  have "[3 \<mapsto> t] 3 = Some t" by simp
  from policy_store_readonly [OF n(1) this r] n(1) r this show ?thesis by blast
qed

end
