(* ===== verification/Key_Gen.thy ===== *)
theory Key_Gen
  imports Go_Conv Config_Lex "HOL-Library.List_Lexorder" "HOL-Library.Char_ord" "HOL-Library.Multiset"
begin

text \<open>
  The generator of context keys, \<open>scripts/nginx_configuration.go\<close>, and the file it generates,
  \<open>ngx_ctx_keys.go\<close>. The generator lists the fields of five structs, sorts them by name and writes one
  key type per name with the \<open>nginx\<close> tag as a comment; \<open>gofmt\<close>, which only changes white space, is left
  out. \<open>sort.Slice\<close> is a parameter, because its order on equal names is not specified. The addresses
  of the \<open>Connection\<close> type are printed here too.
\<close>

section \<open>Struct fields\<close>

text \<open>A field has a name and a tag, which is its list of keys and values.\<close>

record struct_field =
  sf_name :: string
  sf_tag :: "(string \<times> string) list"

definition tag_Get :: "(string \<times> string) list \<Rightarrow> string \<Rightarrow> string" where
  "tag_Get t k = (case map_of t k of None \<Rightarrow> [] | Some v \<Rightarrow> v)"

text \<open>A field with an \<open>nginx\<close> tag, or an embedded struct without a tag.\<close>

definition field_of :: "string \<times> string option \<Rightarrow> struct_field" where
  "field_of p = \<lparr>sf_name = fst p, sf_tag = (case snd p of None \<Rightarrow> [] | Some v \<Rightarrow> [(''nginx'', v)])\<rparr>"

definition Core_fields :: "struct_field list" where
  "Core_fields = map field_of [
    (''Daemon'', Some ''daemon,off''), (''DebugPoints'', Some ''debug_points''), (''Env'', Some ''env''),
    (''ErrorLog'', Some ''error_log''), (''LockFile'', Some ''lock_file''),
    (''MasterProcess'', Some ''master_process''), (''PCREJit'', Some ''pcre_jit''), (''PID'', Some ''pid''),
    (''SSLEngine'', Some ''ssl_engine''), (''ThreadPool'', Some ''thread_pool''),
    (''TimerResolution'', Some ''timer_resolution''), (''User'', Some ''user''), (''Events'', Some ''events''),
    (''WorkerCPUAffinity'', Some ''worker_cpu_affinity''), (''WorkerPriority'', Some ''worker_priority''),
    (''WorkerProcess'', Some ''worker_processes''), (''WorkerRLimitNoFile'', Some ''worker_rlimit_nofile''),
    (''WorkerShutdownTimeout'', Some ''worker_shutdown_timeout''),
    (''WorkingDirectory'', Some ''working_directory''), (''LogSubrequests'', Some ''log_subrequest'')]"

definition Events_fields :: "struct_field list" where
  "Events_fields = map field_of [
    (''AcceptMutex'', Some ''accept_mutex,off''), (''AcceptMutextDelay'', Some ''accept_mutex_delay,500ms''),
    (''DebugConnection'', Some ''debug_connection''), (''MultiAccept'', Some ''master_process''),
    (''Use'', Some ''use''), (''WorkerAIORequests'', Some ''worker_aio_requests''),
    (''WorkerConnections'', Some ''worker_connections'')]"

definition SharedHTTP_fields :: "struct_field list" where
  "SharedHTTP_fields = map field_of [
    (''ErrorLog'', Some ''error_log''), (''Alias'', Some ''alias''),
    (''AbsoluteRedirect'', Some ''absolute_redirect''), (''AIO'', Some ''aio''),
    (''AIOWrite'', Some ''aio_write''), (''ChunkedTransferEncoding'', Some ''chunked_transfer_encoding''),
    (''ClientBodyBufferSize'', Some ''client_body_buffer_size''),
    (''ClientBodyInFileOnly'', Some ''client_body_in_file_only''),
    (''ClientBodyInSingleBuffer'', Some ''client_body_in_single_buffer''),
    (''ClientBodyTempPath'', Some ''client_body_temp_path''),
    (''ClientBodyTimeout'', Some ''client_body_timeout''),
    (''ClientHeaderBufferSize'', Some ''client_header_buffer_size''),
    (''ClientHeaderTimeout'', Some ''client_header_timeout''),
    (''ClientMaxBodySize'', Some ''client_max_body_size''),
    (''ConnectionPoolSize'', Some ''connection_pool_size''), (''DefaultType'', Some ''default_type''),
    (''DirectIO'', Some ''directio''), (''DirectIOAlignment'', Some ''directio_alignment''),
    (''DisableSymlink'', Some ''disable_symlinks''), (''ErrorPage'', Some ''error_page''),
    (''Etag'', Some ''etag''), (''IfModifiedSince'', Some ''if_modified_since''),
    (''IgnoreInvalidHeaders'', Some ''ignore_invalid_headers''),
    (''DisableKeepAlive'', Some ''keepalive_disable''), (''KeepAliveRequests'', Some ''keepalive_requests''),
    (''KeepAliveTimeout'', Some ''keepalive_timeout''),
    (''LargeClientHeaderBuffers'', Some ''large_client_header_buffers''), (''LimitRate'', Some ''limit_rate''),
    (''LimitRateAfter'', Some ''limit_rate_after''), (''LingeringClose'', Some ''lingering_close''),
    (''LingeringTime'', Some ''lingering_time''), (''LingeringTimeout'', Some ''lingering_timeout''),
    (''LogNotFound'', Some ''log_not_found''), (''LogSubrequests'', Some ''log_subrequest''),
    (''MaxRanges'', Some ''max_ranges''), (''MergeSlashes'', Some ''merge_slashes''),
    (''MSEPadding'', Some ''msie_padding''), (''MSERefresh'', Some ''msie_refresh''),
    (''OpenFileCache'', Some ''open_file_cache''), (''OpenFileCacheErrors'', Some ''open_file_cache_errors''),
    (''OpenFileCacheMinUses'', Some ''open_file_cache_min_uses''),
    (''OpenFileCacheValid'', Some ''open_file_cache_valid''), (''OutputBuffer'', Some ''output_buffers''),
    (''PortOnRedirect'', Some ''port_in_redirect''), (''PostponeOutput'', Some ''postpone_output''),
    (''ReadAhead'', Some ''read_ahead''), (''RecursiveErrorPage'', Some ''recursive_error_pages''),
    (''ResetTimeoutConnection'', Some ''reset_timedout_connection''), (''Resolver'', Some ''resolver''),
    (''ResolverTimeout'', Some ''resolver_timeout''), (''Root'', Some ''root''),
    (''Satisfy'', Some ''satisfy''), (''SendIOWAT'', Some ''send_lowat''),
    (''SendTimeout'', Some ''send_timeout''), (''SendFile'', Some ''sendfile''),
    (''SendFileMaxChunkSize'', Some ''sendfile_max_chunk''),
    (''ServerNameInRedirect'', Some ''server_name_in_redirect''), (''ServerTokens'', Some ''server_tokens''),
    (''SubrequestBufferSize'', Some ''subrequest_output_buffer_size''), (''TCPNoDelay'', Some ''tcp_nodelay''),
    (''TCPNoPush'', Some ''tcp_nopush''), (''Types'', Some ''types''),
    (''TypesHashBucketSize'', Some ''types_hash_bucket_size''),
    (''TypesHashMaxSize'', Some ''types_hash_max_size'')]"

definition HTTP_fields :: "struct_field list" where
  "HTTP_fields = map field_of [
    (''SharedHTTP'', None), (''RequestPoolSize'', Some ''request_pool_size''), (''Server'', Some ''server''),
    (''ServerNameHashBucketSize'', Some ''server_names_hash_bucket_size''),
    (''ServerNameHashMaxSize'', Some ''server_names_hash_max_size''),
    (''UnderscoreInHeaders'', Some ''underscores_in_headers''),
    (''VariablesHashBucketSize'', Some ''variables_hash_bucket_size''),
    (''VariablesHashMaxSize'', Some ''variables_hash_max_size'')]"

definition Server_fields :: "struct_field list" where
  "Server_fields = map field_of [
    (''SharedHTTP'', None), (''Listen'', Some ''listen''), (''Location'', Some ''location''),
    (''RequestPoolSize'', Some ''request_pool_size''), (''ServerName'', Some ''server_name''),
    (''TryFiles'', Some ''try_files''), (''UnderscoreInHeaders'', Some ''underscores_in_headers'')]"

section \<open>The generator\<close>

text \<open>\<open>unicode.ToLower\<close> on the runes of one byte.\<close>

definition lower_latin1 :: "rune \<Rightarrow> rune" where
  "lower_latin1 r = (if 65 \<le> r \<and> r \<le> 90 \<or> 192 \<le> r \<and> r \<le> 222 \<and> r \<noteq> 215 then r + 32 else r)"

definition toName :: "string \<Rightarrow> string go" where
  "toName n =
     (case n of
        [] \<Rightarrow> Inl IndexOutOfRange
      | c # cs \<Rightarrow> Inr (string_of_rune (lower_latin1 (rune_of c)) @ cs))"

text \<open>The loop over the sorted fields, with the names already written.\<close>

fun key_lines :: "string list \<Rightarrow> struct_field list \<Rightarrow> string go" where
  "key_lines m [] = Inr []"
| "key_lines m (f # fs) =
     (if sf_name f \<in> set m then key_lines m fs
      else gbind (toName (sf_name f)) (\<lambda>n.
             gbind (key_lines (sf_name f # m) fs) (\<lambda>rest.
               Inr (n @ ''Key struct{} //'' @ tag_Get (sf_tag f) ''nginx'' @ [CHR 0x0A] @ rest))))"

definition key_header :: string where
  "key_header = ''// DO NOT EDIT this file was auto generated'' @ [CHR 0x0A, CHR 0x09] @ ''package main'' @
     [CHR 0x0A, CHR 0x09] @ ''type ('' @ [CHR 0x0A]"

definition dumpKeys :: "(struct_field list \<Rightarrow> struct_field list) \<Rightarrow> struct_field list list \<Rightarrow> string go" where
  "dumpKeys sort_Slice ob =
     gbind (key_lines [] (sort_Slice (concat ob))) (\<lambda>body. Inr (key_header @ body @ '')''))"

text \<open>What \<open>main\<close> generates from.\<close>

definition generate_keys :: "(struct_field list \<Rightarrow> struct_field list) \<Rightarrow> string go" where
  "generate_keys sort_Slice = dumpKeys sort_Slice [Core_fields, Events_fields, SharedHTTP_fields, HTTP_fields, Server_fields]"

section \<open>The generated file\<close>

definition ngx_ctx_keys :: "(string \<times> string) list" where
  "ngx_ctx_keys = [
    (''aIOKey'', ''aio''), (''aIOWriteKey'', ''aio_write''), (''absoluteRedirectKey'', ''absolute_redirect''),
    (''acceptMutexKey'', ''accept_mutex,off''), (''acceptMutextDelayKey'', ''accept_mutex_delay,500ms''),
    (''aliasKey'', ''alias''), (''chunkedTransferEncodingKey'', ''chunked_transfer_encoding''),
    (''clientBodyBufferSizeKey'', ''client_body_buffer_size''),
    (''clientBodyInFileOnlyKey'', ''client_body_in_file_only''),
    (''clientBodyInSingleBufferKey'', ''client_body_in_single_buffer''),
    (''clientBodyTempPathKey'', ''client_body_temp_path''),
    (''clientBodyTimeoutKey'', ''client_body_timeout''),
    (''clientHeaderBufferSizeKey'', ''client_header_buffer_size''),
    (''clientHeaderTimeoutKey'', ''client_header_timeout''),
    (''clientMaxBodySizeKey'', ''client_max_body_size''),
    (''connectionPoolSizeKey'', ''connection_pool_size''), (''daemonKey'', ''daemon,off''),
    (''debugConnectionKey'', ''debug_connection''), (''debugPointsKey'', ''debug_points''),
    (''defaultTypeKey'', ''default_type''), (''directIOKey'', ''directio''),
    (''directIOAlignmentKey'', ''directio_alignment''), (''disableKeepAliveKey'', ''keepalive_disable''),
    (''disableSymlinkKey'', ''disable_symlinks''), (''envKey'', ''env''), (''errorLogKey'', ''error_log''),
    (''errorPageKey'', ''error_page''), (''etagKey'', ''etag''), (''eventsKey'', ''events''),
    (''ifModifiedSinceKey'', ''if_modified_since''), (''ignoreInvalidHeadersKey'', ''ignore_invalid_headers''),
    (''keepAliveRequestsKey'', ''keepalive_requests''), (''keepAliveTimeoutKey'', ''keepalive_timeout''),
    (''largeClientHeaderBuffersKey'', ''large_client_header_buffers''), (''limitRateKey'', ''limit_rate''),
    (''limitRateAfterKey'', ''limit_rate_after''), (''lingeringCloseKey'', ''lingering_close''),
    (''lingeringTimeKey'', ''lingering_time''), (''lingeringTimeoutKey'', ''lingering_timeout''),
    (''listenKey'', ''listen''), (''locationKey'', ''location''), (''lockFileKey'', ''lock_file''),
    (''logNotFoundKey'', ''log_not_found''), (''logSubrequestsKey'', ''log_subrequest''),
    (''mSEPaddingKey'', ''msie_padding''), (''mSERefreshKey'', ''msie_refresh''),
    (''masterProcessKey'', ''master_process''), (''maxRangesKey'', ''max_ranges''),
    (''mergeSlashesKey'', ''merge_slashes''), (''multiAcceptKey'', ''master_process''),
    (''openFileCacheKey'', ''open_file_cache''), (''openFileCacheErrorsKey'', ''open_file_cache_errors''),
    (''openFileCacheMinUsesKey'', ''open_file_cache_min_uses''),
    (''openFileCacheValidKey'', ''open_file_cache_valid''), (''outputBufferKey'', ''output_buffers''),
    (''pCREJitKey'', ''pcre_jit''), (''pIDKey'', ''pid''), (''portOnRedirectKey'', ''port_in_redirect''),
    (''postponeOutputKey'', ''postpone_output''), (''readAheadKey'', ''read_ahead''),
    (''recursiveErrorPageKey'', ''recursive_error_pages''), (''requestPoolSizeKey'', ''request_pool_size''),
    (''resetTimeoutConnectionKey'', ''reset_timedout_connection''), (''resolverKey'', ''resolver''),
    (''resolverTimeoutKey'', ''resolver_timeout''), (''rootKey'', ''root''),
    (''sSLEngineKey'', ''ssl_engine''), (''satisfyKey'', ''satisfy''), (''sendFileKey'', ''sendfile''),
    (''sendFileMaxChunkSizeKey'', ''sendfile_max_chunk''), (''sendIOWATKey'', ''send_lowat''),
    (''sendTimeoutKey'', ''send_timeout''), (''serverKey'', ''server''), (''serverNameKey'', ''server_name''),
    (''serverNameHashBucketSizeKey'', ''server_names_hash_bucket_size''),
    (''serverNameHashMaxSizeKey'', ''server_names_hash_max_size''),
    (''serverNameInRedirectKey'', ''server_name_in_redirect''), (''serverTokensKey'', ''server_tokens''),
    (''sharedHTTPKey'', ''''), (''subrequestBufferSizeKey'', ''subrequest_output_buffer_size''),
    (''tCPNoDelayKey'', ''tcp_nodelay''), (''tCPNoPushKey'', ''tcp_nopush''),
    (''threadPoolKey'', ''thread_pool''), (''timerResolutionKey'', ''timer_resolution''),
    (''tryFilesKey'', ''try_files''), (''typesKey'', ''types''),
    (''typesHashBucketSizeKey'', ''types_hash_bucket_size''),
    (''typesHashMaxSizeKey'', ''types_hash_max_size''),
    (''underscoreInHeadersKey'', ''underscores_in_headers''), (''useKey'', ''use''), (''userKey'', ''user''),
    (''variablesHashBucketSizeKey'', ''variables_hash_bucket_size''),
    (''variablesHashMaxSizeKey'', ''variables_hash_max_size''),
    (''workerAIORequestsKey'', ''worker_aio_requests''), (''workerCPUAffinityKey'', ''worker_cpu_affinity''),
    (''workerConnectionsKey'', ''worker_connections''), (''workerPriorityKey'', ''worker_priority''),
    (''workerProcessKey'', ''worker_processes''), (''workerRLimitNoFileKey'', ''worker_rlimit_nofile''),
    (''workerShutdownTimeoutKey'', ''worker_shutdown_timeout''),
    (''workingDirectoryKey'', ''working_directory'')]"

definition key_source :: "(string \<times> string) list \<Rightarrow> string" where
  "key_source ks = key_header @ concat (map (\<lambda>(k, c). k @ '' struct{} //'' @ c @ [CHR 0x0A]) ks) @ '')''"

section \<open>Addresses\<close>

text \<open>
  The fields of \<open>Connection\<close> that \<open>String\<close> reads. The printed forms of the address, the network and the
  URL are held in place of those values.
\<close>

datatype ConnType = Local | Remote | Socket | OtherType

record connection =
  cn_Type :: ConnType
  cn_Localhost :: bool
  cn_All :: bool
  cn_Port :: int
  cn_IP :: "string option"
  cn_Net :: "string option"
  cn_URL :: "(string \<times> string) option"

definition JoinHostPort :: "string \<Rightarrow> string \<Rightarrow> string" where
  "JoinHostPort h p = (if CHR '':'' \<in> set h then ''['' @ h @ '']:'' @ p else h @ '':'' @ p)"

definition local_host :: "connection \<Rightarrow> string" where
  "local_host c =
     (let h = (if cn_Localhost c then ''localhost'' else []);
          h = (case cn_IP c of Some ip \<Rightarrow> ip | None \<Rightarrow> h)
      in if cn_All c then ''*'' else h)"

definition Connection_String :: "connection \<Rightarrow> string" where
  "Connection_String c =
     (case cn_Type c of
        Remote \<Rightarrow>
          (case cn_URL c of
             Some (u, p) \<Rightarrow> u
           | None \<Rightarrow> (case cn_Net c of Some n \<Rightarrow> n | None \<Rightarrow> []))
      | Socket \<Rightarrow> (case cn_URL c of Some (u, p) \<Rightarrow> ''unix:'' @ p | None \<Rightarrow> [])
      | Local \<Rightarrow>
          (let h = local_host c
           in if cn_Port c \<noteq> 0 then
                (let p = Itoa (cn_Port c) in if h \<noteq> [] then JoinHostPort h p else p)
              else if CHR '':'' \<in> set h then ''['' @ h @ '']'' else h)
      | OtherType \<Rightarrow> [])"

section \<open>The generated file is up to date\<close>

text \<open>A sorted permutation is unique when equal names mean equal fields.\<close>

lemma sorted_permutation_unique:
  fixes g :: "'a \<Rightarrow> 'b :: linorder"
  assumes "mset ys = mset xs" "sorted (map g ys)" "inj_on g (set xs)"
  shows "ys = sort_key g xs"
proof -
  have "filter (\<lambda>y. g k = g y) zs = replicate (count (mset zs) k) k" if "set zs = set xs" "k \<in> set xs" for zs k
  proof -
    have "filter (\<lambda>y. g k = g y) zs = filter (\<lambda>y. y = k) zs"
      using assms(3) that by (intro filter_cong refl) (auto dest: inj_onD)
    also have "\<dots> = replicate (count (mset zs) k) k" by (induction zs) simp_all
    finally show ?thesis .
  qed
  then show ?thesis using assms(1,2) mset_eq_setD [OF assms(1)]
    by (intro properties_for_sort_key [symmetric]) auto
qed

text \<open>Equal names stand next to each other in a sorted list.\<close>

fun ordered :: "struct_field list \<Rightarrow> bool" where
  "ordered (f # g # fs) \<longleftrightarrow> (sf_name f < sf_name g \<or> f = g) \<and> ordered (g # fs)"
| "ordered _ \<longleftrightarrow> True"

lemma ordered_sorted: "ordered fs \<Longrightarrow> sorted (map sf_name fs)"
  by (induction fs rule: ordered.induct) auto

lemma ordered_inj: "ordered fs \<Longrightarrow> inj_on sf_name (set fs)"
proof (induction fs rule: ordered.induct)
  case (1 f g fs)
  then have inj: "inj_on sf_name (set (g # fs))" by simp
  have eq: "h = f" if h: "h \<in> set (g # fs)" "sf_name h = sf_name f" for h
  proof -
    have "sf_name f \<le> sf_name g" "sf_name g \<le> sf_name h" using ordered_sorted [OF 1(2)] h(1) by auto
    then have g: "sf_name g = sf_name f" unfolding h(2) by (rule antisym [rotated])
    with 1(2) [unfolded ordered.simps, THEN conjunct1] have "f = g" by (elim disjE) simp_all
    moreover have "h = g" by (rule inj_onD [OF inj _ h(1)]) (simp_all add: h(2) g)
    ultimately show ?thesis by simp
  qed
  show ?case
  proof (rule inj_onI)
    fix x y assume xy: "x \<in> set (f # g # fs)" "y \<in> set (f # g # fs)" "sf_name x = sf_name y"
    then consider "x = f" "y = f" | "x = f" "y \<in> set (g # fs)" | "y = f" "x \<in> set (g # fs)"
      | "x \<in> set (g # fs)" "y \<in> set (g # fs)" by (simp only: list.set(2) [of f] insert_iff) blast
    then show "x = y"
    proof cases
      case 2 then show ?thesis using eq [of y] xy(3) by simp
    next
      case 3 then show ?thesis using eq [of x] xy(3) by simp
    next
      case 4 then show ?thesis by (rule inj_onD [OF inj xy(3)])
    qed simp
  qed
qed simp_all

text \<open>On a sorted list the names already written need not be kept: the last one is enough.\<close>

fun sorted_keys :: "string option \<Rightarrow> struct_field list \<Rightarrow> (string \<times> string) list go" where
  "sorted_keys p [] = Inr []"
| "sorted_keys p (f # fs) =
     (if p = Some (sf_name f) then sorted_keys p fs
      else gbind (toName (sf_name f)) (\<lambda>n.
             gbind (sorted_keys (Some (sf_name f)) fs) (\<lambda>rest.
               Inr ((n @ ''Key'', tag_Get (sf_tag f) ''nginx'') # rest))))"

definition key_text :: "(string \<times> string) list \<Rightarrow> string" where
  "key_text ks = concat (map (\<lambda>(k, c). k @ '' struct{} //'' @ c @ [CHR 0x0A]) ks)"

definition sorted_lines :: "string option \<Rightarrow> struct_field list \<Rightarrow> string go" where
  "sorted_lines p fs = gbind (sorted_keys p fs) (\<lambda>ks. Inr (key_text ks))"

lemma sorted_lines_simps:
  "sorted_lines p [] = Inr []"
  "sorted_lines p (f # fs) =
     (if p = Some (sf_name f) then sorted_lines p fs
      else gbind (toName (sf_name f)) (\<lambda>n.
             gbind (sorted_lines (Some (sf_name f)) fs) (\<lambda>rest.
               Inr (n @ ''Key struct{} //'' @ tag_Get (sf_tag f) ''nginx'' @ [CHR 0x0A] @ rest))))"
  by (simp_all add: sorted_lines_def key_text_def gbind_def split: sum.splits)

lemma key_lines_sorted_step:
  "sorted (p # map sf_name fs) \<Longrightarrow> \<forall>n \<in> set m. n \<le> p \<Longrightarrow> key_lines (p # m) fs = sorted_lines (Some p) fs"
proof (induction fs arbitrary: p m)
  case (Cons f fs)
  from Cons.prems(1) have le: "p \<le> sf_name f" and s: "sorted (sf_name f # map sf_name fs)" "sorted (p # map sf_name fs)"
    by auto
  have m: "sf_name f \<in> set (p # m) \<longleftrightarrow> p = sf_name f"
    using le Cons.prems(2) by (auto dest: antisym)
  have "\<forall>n \<in> set (p # m). n \<le> sf_name f" using le Cons.prems(2) by (auto intro: order_trans)
  from Cons.IH [OF s(1) this] Cons.IH [OF s(2) Cons.prems(2)] show ?case
    unfolding key_lines.simps sorted_lines_simps m by (cases "p = sf_name f") simp_all
qed (simp add: sorted_lines_simps)

lemma key_lines_sorted: "sorted (map sf_name fs) \<Longrightarrow> key_lines [] fs = sorted_lines None fs"
  by (cases fs) (simp_all add: key_lines_sorted_step sorted_lines_simps)

definition key_fields :: "struct_field list" where
  "key_fields = concat [Core_fields, Events_fields, SharedHTTP_fields, HTTP_fields, Server_fields]"

text \<open>The fields in the order of their names.\<close>

definition sorted_fields :: "struct_field list" where
  "sorted_fields = map field_of [
    (''AIO'', Some ''aio''), (''AIOWrite'', Some ''aio_write''),
    (''AbsoluteRedirect'', Some ''absolute_redirect''), (''AcceptMutex'', Some ''accept_mutex,off''),
    (''AcceptMutextDelay'', Some ''accept_mutex_delay,500ms''), (''Alias'', Some ''alias''),
    (''ChunkedTransferEncoding'', Some ''chunked_transfer_encoding''),
    (''ClientBodyBufferSize'', Some ''client_body_buffer_size''),
    (''ClientBodyInFileOnly'', Some ''client_body_in_file_only''),
    (''ClientBodyInSingleBuffer'', Some ''client_body_in_single_buffer''),
    (''ClientBodyTempPath'', Some ''client_body_temp_path''),
    (''ClientBodyTimeout'', Some ''client_body_timeout''),
    (''ClientHeaderBufferSize'', Some ''client_header_buffer_size''),
    (''ClientHeaderTimeout'', Some ''client_header_timeout''),
    (''ClientMaxBodySize'', Some ''client_max_body_size''),
    (''ConnectionPoolSize'', Some ''connection_pool_size''), (''Daemon'', Some ''daemon,off''),
    (''DebugConnection'', Some ''debug_connection''), (''DebugPoints'', Some ''debug_points''),
    (''DefaultType'', Some ''default_type''), (''DirectIO'', Some ''directio''),
    (''DirectIOAlignment'', Some ''directio_alignment''), (''DisableKeepAlive'', Some ''keepalive_disable''),
    (''DisableSymlink'', Some ''disable_symlinks''), (''Env'', Some ''env''),
    (''ErrorLog'', Some ''error_log''), (''ErrorLog'', Some ''error_log''),
    (''ErrorPage'', Some ''error_page''), (''Etag'', Some ''etag''), (''Events'', Some ''events''),
    (''IfModifiedSince'', Some ''if_modified_since''),
    (''IgnoreInvalidHeaders'', Some ''ignore_invalid_headers''),
    (''KeepAliveRequests'', Some ''keepalive_requests''), (''KeepAliveTimeout'', Some ''keepalive_timeout''),
    (''LargeClientHeaderBuffers'', Some ''large_client_header_buffers''), (''LimitRate'', Some ''limit_rate''),
    (''LimitRateAfter'', Some ''limit_rate_after''), (''LingeringClose'', Some ''lingering_close''),
    (''LingeringTime'', Some ''lingering_time''), (''LingeringTimeout'', Some ''lingering_timeout''),
    (''Listen'', Some ''listen''), (''Location'', Some ''location''), (''LockFile'', Some ''lock_file''),
    (''LogNotFound'', Some ''log_not_found''), (''LogSubrequests'', Some ''log_subrequest''),
    (''LogSubrequests'', Some ''log_subrequest''), (''MSEPadding'', Some ''msie_padding''),
    (''MSERefresh'', Some ''msie_refresh''), (''MasterProcess'', Some ''master_process''),
    (''MaxRanges'', Some ''max_ranges''), (''MergeSlashes'', Some ''merge_slashes''),
    (''MultiAccept'', Some ''master_process''), (''OpenFileCache'', Some ''open_file_cache''),
    (''OpenFileCacheErrors'', Some ''open_file_cache_errors''),
    (''OpenFileCacheMinUses'', Some ''open_file_cache_min_uses''),
    (''OpenFileCacheValid'', Some ''open_file_cache_valid''), (''OutputBuffer'', Some ''output_buffers''),
    (''PCREJit'', Some ''pcre_jit''), (''PID'', Some ''pid''), (''PortOnRedirect'', Some ''port_in_redirect''),
    (''PostponeOutput'', Some ''postpone_output''), (''ReadAhead'', Some ''read_ahead''),
    (''RecursiveErrorPage'', Some ''recursive_error_pages''),
    (''RequestPoolSize'', Some ''request_pool_size''), (''RequestPoolSize'', Some ''request_pool_size''),
    (''ResetTimeoutConnection'', Some ''reset_timedout_connection''), (''Resolver'', Some ''resolver''),
    (''ResolverTimeout'', Some ''resolver_timeout''), (''Root'', Some ''root''),
    (''SSLEngine'', Some ''ssl_engine''), (''Satisfy'', Some ''satisfy''), (''SendFile'', Some ''sendfile''),
    (''SendFileMaxChunkSize'', Some ''sendfile_max_chunk''), (''SendIOWAT'', Some ''send_lowat''),
    (''SendTimeout'', Some ''send_timeout''), (''Server'', Some ''server''),
    (''ServerName'', Some ''server_name''),
    (''ServerNameHashBucketSize'', Some ''server_names_hash_bucket_size''),
    (''ServerNameHashMaxSize'', Some ''server_names_hash_max_size''),
    (''ServerNameInRedirect'', Some ''server_name_in_redirect''), (''ServerTokens'', Some ''server_tokens''),
    (''SharedHTTP'', None), (''SharedHTTP'', None),
    (''SubrequestBufferSize'', Some ''subrequest_output_buffer_size''), (''TCPNoDelay'', Some ''tcp_nodelay''),
    (''TCPNoPush'', Some ''tcp_nopush''), (''ThreadPool'', Some ''thread_pool''),
    (''TimerResolution'', Some ''timer_resolution''), (''TryFiles'', Some ''try_files''),
    (''Types'', Some ''types''), (''TypesHashBucketSize'', Some ''types_hash_bucket_size''),
    (''TypesHashMaxSize'', Some ''types_hash_max_size''),
    (''UnderscoreInHeaders'', Some ''underscores_in_headers''),
    (''UnderscoreInHeaders'', Some ''underscores_in_headers''), (''Use'', Some ''use''),
    (''User'', Some ''user''), (''VariablesHashBucketSize'', Some ''variables_hash_bucket_size''),
    (''VariablesHashMaxSize'', Some ''variables_hash_max_size''),
    (''WorkerAIORequests'', Some ''worker_aio_requests''),
    (''WorkerCPUAffinity'', Some ''worker_cpu_affinity''),
    (''WorkerConnections'', Some ''worker_connections''), (''WorkerPriority'', Some ''worker_priority''),
    (''WorkerProcess'', Some ''worker_processes''), (''WorkerRLimitNoFile'', Some ''worker_rlimit_nofile''),
    (''WorkerShutdownTimeout'', Some ''worker_shutdown_timeout''),
    (''WorkingDirectory'', Some ''working_directory'')]"

lemma sorted_fields_mset: "mset sorted_fields = mset key_fields"
  unfolding sorted_fields_def key_fields_def Core_fields_def Events_fields_def SharedHTTP_fields_def HTTP_fields_def
    Server_fields_def
  by (simp only: list.map concat.simps append.simps mset.simps add_mset_commute)

lemma sorted_fields_ordered: "ordered sorted_fields"
  by code_simp

lemma sorted_fields_keys: "sorted_keys None sorted_fields = Inr ngx_ctx_keys"
  by code_simp

text \<open>
  (C23) The checked-in keys are those the generator gives: for every sorting function that returns a
  permutation sorted by name, the generator writes exactly the text of \<open>ngx_ctx_keys.go\<close>, up to the
  layout of \<open>gofmt\<close>. Names that several structs share have the same tag in each, so the order in which
  the sort leaves them does not matter.
\<close>

theorem generated_keys_current:
  assumes "\<And>fs. mset (sort_Slice fs) = mset fs \<and> sorted (map sf_name (sort_Slice fs))"
  shows "generate_keys sort_Slice = Inr (key_source ngx_ctx_keys)"
proof -
  note so = ordered_sorted [OF sorted_fields_ordered]
  have "inj_on sf_name (set key_fields)"
    using ordered_inj [OF sorted_fields_ordered] mset_eq_setD [OF sorted_fields_mset] by simp
  then have "sort_Slice key_fields = sort_key sf_name key_fields" "sorted_fields = sort_key sf_name key_fields"
    using assms sorted_fields_mset so by (intro sorted_permutation_unique; simp)+
  then have "key_lines [] (sort_Slice key_fields) = sorted_lines None sorted_fields"
    using key_lines_sorted [OF so] by simp
  then show ?thesis
    unfolding generate_keys_def dumpKeys_def key_fields_def [symmetric] key_source_def sorted_lines_def sorted_fields_keys
      key_text_def by simp
qed

theorem generated_keys_current_witness:
  "generate_keys (sort_key sf_name) = Inr (key_source ngx_ctx_keys)"
  by (rule generated_keys_current) simp

end
